(* ===== verification/Prelude.thy ===== *)
theory Prelude
  imports Main "HOL-Library.Multiset"
begin

text \<open>
  The prelude of the development: the fact collections the component theories
  add to, the generic lemmas on lists, options and sums they share, and the
  sum-typed results that model Go's \<open>(value, error)\<close> returns.

  A Go function that returns \<open>(T, error)\<close> is a HOL function into
  \<open>'e + 'a\<close>: \<open>Inl e\<close> is the early return with a non-nil error,
  \<open>Inr v\<close> the return with a nil error. A Go pointer that may be \<open>nil\<close>
  is an \<open>option\<close>.
\<close>

named_theorems api_simps "accessors and defaulting of the API types"
named_theorems cond_simps "laws of the status-condition helpers"
named_theorems stats_simps "laws of the statistics store"

subsection \<open>Results\<close>

fun is_error :: "'e + 'a \<Rightarrow> bool" where
  "is_error (Inl _) = True"
| "is_error (Inr _) = False"

lemma is_error_iff: "is_error r \<longleftrightarrow> (\<exists>e. r = Inl e)"
  by (cases r) auto

lemma not_is_error_iff: "\<not> is_error r \<longleftrightarrow> (\<exists>v. r = Inr v)"
  by (cases r) auto

lemma fst_ok: "\<not> is_error (fst p) \<Longrightarrow> \<exists>v c. p = (Inr v, c)"
  by (cases p; cases "fst p") auto

text \<open>The errors of a list of results, in order: the accumulation into an
  \<open>errList\<close> that several validators perform.\<close>

fun errors_of :: "('e + 'a) list \<Rightarrow> 'e list" where
  "errors_of [] = []"
| "errors_of (Inl e # rs) = e # errors_of rs"
| "errors_of (Inr _ # rs) = errors_of rs"

lemma errors_of_append [simp]: "errors_of (rs @ ss) = errors_of rs @ errors_of ss"
  by (induction rs rule: errors_of.induct) auto

lemma errors_of_Nil_iff: "errors_of rs = [] \<longleftrightarrow> (\<forall>r \<in> set rs. \<not> is_error r)"
  by (induction rs rule: errors_of.induct) auto

subsection \<open>Message texts\<close>

text \<open>A text between single quotes, as the format \<open>'%s'\<close> prints it.\<close>

definition quoted :: "string \<Rightarrow> string" where
  "quoted s = CHR 39 # s @ [CHR 39]"

subsection \<open>Lists\<close>

lemma filter_all_False [simp]: "(\<And>x. x \<in> set xs \<Longrightarrow> \<not> P x) \<Longrightarrow> filter P xs = []"
  by (induction xs) auto

lemma find_SomeD: "find P xs = Some x \<Longrightarrow> x \<in> set xs \<and> P x"
  by (induction xs) (auto split: if_splits)

lemma length_filter_le_1_unique:
  assumes "length (filter P xs) \<le> 1" "x \<in> set xs" "y \<in> set xs" "P x" "P y"
  shows "x = y"
proof -
  have "x \<in> set (filter P xs)" "y \<in> set (filter P xs)" using assms by auto
  with assms(1) show ?thesis by (cases "filter P xs") auto
qed

lemma filter_distinct_image_le_1:
  "distinct (map f xs) \<Longrightarrow> length (filter (\<lambda>x. f x = k) xs) \<le> 1"
proof (induction xs)
  case (Cons x xs)
  have "f x \<notin> f ` set xs" using Cons.prems by simp
  then have "f x = k \<Longrightarrow> \<forall>y \<in> set xs. f y \<noteq> k" by blast
  then have "f x = k \<Longrightarrow> filter (\<lambda>x. f x = k) xs = []" by simp
  with Cons show ?case by (auto simp: le_Suc_eq)
qed simp

text \<open>Replacing the elements with a given key, as an update of one stored object does.\<close>

definition replace_by :: "('a \<Rightarrow> 'k) \<Rightarrow> 'a \<Rightarrow> 'a list \<Rightarrow> 'a list" where
  "replace_by key x xs = map (\<lambda>y. if key y = key x then x else y) xs"

lemma set_replace_by:
  "set (replace_by key x xs) =
     {y \<in> set xs. key y \<noteq> key x} \<union> (if key x \<in> key ` set xs then {x} else {})"
  by (induction xs) (auto simp: replace_by_def)

lemma map_key_replace_by [simp]: "map key (replace_by key x xs) = map key xs"
  by (induction xs) (auto simp: replace_by_def)

end
