(* ===== verification/StableSort.thy ===== *)
theory StableSort
  imports Prelude
begin

text \<open>
  \<open>sort.SliceStable(x, less)\<close> of Go's standard library. On slices of at most 20
  elements it is the insertion sort below: each element is moved to the left while it
  is less than its left neighbour. On longer slices Go merges sorted blocks; lemma
  \<open>stable_sort_unique\<close> says that whenever \<open>less\<close> is a strict weak order every
  stable sort gives the same list, so the definition stands for both.

  The accumulator of \<open>insert_left\<close> is the sorted prefix in reverse order: its head
  is the left neighbour of the element being inserted.
\<close>

fun insert_left :: "('a \<Rightarrow> 'a \<Rightarrow> bool) \<Rightarrow> 'a \<Rightarrow> 'a list \<Rightarrow> 'a list" where
  "insert_left lt x [] = [x]"
| "insert_left lt x (y # ys) = (if lt x y then y # insert_left lt x ys else x # y # ys)"

fun insertion_sort :: "('a \<Rightarrow> 'a \<Rightarrow> bool) \<Rightarrow> 'a list \<Rightarrow> 'a list \<Rightarrow> 'a list" where
  "insertion_sort lt acc [] = acc"
| "insertion_sort lt acc (x # xs) = insertion_sort lt (insert_left lt x acc) xs"

definition SliceStable :: "('a \<Rightarrow> 'a \<Rightarrow> bool) \<Rightarrow> 'a list \<Rightarrow> 'a list" where
  "SliceStable lt xs = rev (insertion_sort lt [] xs)"

lemma mset_insert_left [simp]: "mset (insert_left lt x ys) = add_mset x (mset ys)"
  by (induction ys) auto

lemma mset_insertion_sort: "mset (insertion_sort lt acc xs) = mset acc + mset xs"
  by (induction xs arbitrary: acc) auto

lemma mset_SliceStable [simp]: "mset (SliceStable lt xs) = mset xs"
  by (simp add: SliceStable_def mset_insertion_sort)

lemma set_SliceStable [simp]: "set (SliceStable lt xs) = set xs"
  by (metis mset_SliceStable set_mset_mset)

lemma length_SliceStable [simp]: "length (SliceStable lt xs) = length xs"
  by (metis mset_SliceStable size_mset)

lemma set_insert_left [simp]: "set (insert_left lt x ys) = insert x (set ys)"
  by (induction ys) auto

lemma insert_left_cong:
  "(\<And>y. y \<in> set ys \<Longrightarrow> lt x y = lt' x y) \<Longrightarrow> insert_left lt x ys = insert_left lt' x ys"
  by (induction ys) auto

text \<open>Go's comparison function is only called on elements at different positions, so
  it need not behave on an element and itself.\<close>

lemma insertion_sort_cong:
  assumes "\<And>x y. x \<in># mset xs \<Longrightarrow> y \<in># mset acc + (mset xs - {#x#}) \<Longrightarrow> lt x y = lt' x y"
  shows "insertion_sort lt acc xs = insertion_sort lt' acc xs"
  using assms
proof (induction xs arbitrary: acc)
  case (Cons x xs)
  have here: "insert_left lt x acc = insert_left lt' x acc"
    by (rule insert_left_cong) (use Cons.prems in auto)
  have "insertion_sort lt (insert_left lt' x acc) xs
      = insertion_sort lt' (insert_left lt' x acc) xs"
  proof (rule Cons.IH)
    fix z y assume z: "z \<in># mset xs" and y: "y \<in># mset (insert_left lt' x acc) + (mset xs - {#z#})"
    from y consider "y \<in># mset acc" | "y = x" | "y \<in># mset xs - {#z#}" by auto
    then have "y \<in># mset acc \<or> y \<in># mset (x # xs) - {#z#}"
    proof cases
      case 2
      with z show ?thesis by (cases "x = z") (auto simp: in_diff_count)
    next
      case 3
      then show ?thesis by (auto simp: in_diff_count)
    qed simp
    then have "y \<in># mset acc + (mset (x # xs) - {#z#})"
      by (simp only: union_iff)
    then show "lt z y = lt' z y"
      by (rule Cons.prems [rotated]) (use z in simp)
  qed
  with here show ?case by simp
qed simp

section \<open>Strict weak orders\<close>

text \<open>The contract between \<open>sort.SliceStable\<close> and its caller: the comparison
  function is a strict weak order. \<open>SortByPublication\<close> is its client.\<close>

locale strict_weak_order =
  fixes lt :: "'a \<Rightarrow> 'a \<Rightarrow> bool"
  assumes irrefl: "\<not> lt x x"
    and trans: "lt x y \<Longrightarrow> lt y z \<Longrightarrow> lt x z"
    and incomp_trans: "\<not> lt x y \<Longrightarrow> \<not> lt y z \<Longrightarrow> \<not> lt x z"
begin

definition tied :: "'a \<Rightarrow> 'a \<Rightarrow> bool" where
  "tied x y \<longleftrightarrow> \<not> lt x y \<and> \<not> lt y x"

lemma asym: "lt x y \<Longrightarrow> \<not> lt y x"
  using irrefl trans by blast

abbreviation desc :: "'a list \<Rightarrow> bool" where
  "desc \<equiv> sorted_wrt (\<lambda>x y. \<not> lt x y)"

lemma desc_insert_left: "desc ys \<Longrightarrow> desc (insert_left lt x ys)"
proof (induction ys)
  case (Cons y ys)
  show ?case
  proof (cases "lt x y")
    case True
    with Cons show ?thesis by (auto dest: asym)
  next
    case False
    have "\<not> lt x z" if "z \<in> set ys" for z
      using that Cons.prems False incomp_trans [of x y z] by auto
    with False Cons.prems show ?thesis by auto
  qed
qed simp

lemma desc_insertion_sort: "desc acc \<Longrightarrow> desc (insertion_sort lt acc xs)"
  by (induction xs arbitrary: acc) (auto intro: desc_insert_left)

lemma sorted_SliceStable: "sorted_wrt (\<lambda>x y. \<not> lt y x) (SliceStable lt xs)"
  by (simp add: SliceStable_def sorted_wrt_rev desc_insertion_sort)

lemma filter_insert_left:
  assumes "desc ys"
  shows "filter (tied k) (insert_left lt x ys) =
    (if tied k x then x # filter (tied k) ys else filter (tied k) ys)"
  using assms
proof (induction ys)
  case (Cons y ys)
  have "\<not> tied k y" if "lt x y" "tied k x"
    using that incomp_trans by (auto simp: tied_def)
  with Cons show ?case by auto
qed simp

lemma filter_insertion_sort:
  "desc acc \<Longrightarrow>
   filter (tied k) (insertion_sort lt acc xs) = rev (filter (tied k) xs) @ filter (tied k) acc"
  by (induction xs arbitrary: acc) (auto simp: filter_insert_left desc_insert_left)

lemma stable_SliceStable: "filter (tied k) (SliceStable lt xs) = filter (tied k) xs"
  by (simp add: SliceStable_def rev_filter [symmetric] filter_insertion_sort)

text \<open>A sorted list is determined by its tie classes: any two stable sorts agree.\<close>

lemma set_eq_of_tie_classes:
  assumes "\<And>k. filter (tied k) xs = filter (tied k) ys"
  shows "set xs = set ys"
proof (rule set_eqI)
  fix z
  have *: "z \<in> set (filter (tied z) zs) \<longleftrightarrow> z \<in> set zs" for zs
    by (simp add: tied_def irrefl)
  from * [of xs] * [of ys] show "z \<in> set xs \<longleftrightarrow> z \<in> set ys"
    by (simp only: assms [of z])
qed

lemma stable_sort_unique:
  assumes "sorted_wrt (\<lambda>x y. \<not> lt y x) xs" "sorted_wrt (\<lambda>x y. \<not> lt y x) ys"
    and "\<And>k. filter (tied k) xs = filter (tied k) ys"
  shows "xs = ys"
  using assms
proof (induction xs arbitrary: ys)
  case Nil
  then show ?case using set_eq_of_tie_classes [of "[]" ys] by simp
next
  case (Cons x xs)
  have tx: "tied z z" for z by (simp add: tied_def irrefl)
  have sets: "set (x # xs) = set ys" by (rule set_eq_of_tie_classes) (rule Cons.prems(3))
  then obtain y zs where ys: "ys = y # zs" by (cases ys) auto
  from sets have "y \<in> set (x # xs)" and x_ys: "x \<in> set (y # zs)" unfolding ys by auto
  then have "\<not> lt y x" using Cons.prems(1) irrefl by auto
  moreover have "\<not> lt x y" using x_ys Cons.prems(2) irrefl unfolding ys by auto
  ultimately have "tied x y" by (simp add: tied_def)
  with Cons.prems(3) [of x] tx have xy: "x = y" unfolding ys by simp
  have "xs = zs"
  proof (rule Cons.IH)
    show "filter (tied k) xs = filter (tied k) zs" for k
      using Cons.prems(3) [of k] unfolding ys xy by (simp split: if_splits)
  qed (use Cons.prems(1,2) in \<open>auto simp: ys\<close>)
  with xy ys show ?case by simp
qed

text \<open>An element above all others ends up last.\<close>

lemma SliceStable_top:
  assumes "x \<in> set xs" "\<And>y. y \<in> set xs \<Longrightarrow> y \<noteq> x \<Longrightarrow> lt y x"
  shows "last (SliceStable lt xs) = x"
proof -
  let ?s = "SliceStable lt xs"
  have x: "x \<in> set ?s" using assms(1) by simp
  then have ne: "?s \<noteq> []" by (auto simp del: set_SliceStable)
  show ?thesis
  proof (rule ccontr)
    assume "last ?s \<noteq> x"
    have l: "last ?s \<in> set xs" using ne last_in_set [of ?s] by simp
    with assms(2) \<open>last ?s \<noteq> x\<close> have "lt (last ?s) x" by blast
    moreover have "x \<in> set (butlast ?s)"
      using x ne \<open>last ?s \<noteq> x\<close> by (metis append_butlast_last_id in_set_conv_decomp_last rotate1.simps(2) set_ConsD set_rotate1)
    moreover have "sorted_wrt (\<lambda>x y. \<not> lt y x) (butlast ?s @ [last ?s])"
      using sorted_SliceStable ne by simp
    ultimately show False by (simp add: sorted_wrt_append)
  qed
qed

end

end
