(* ===== verification/Meta.thy ===== *)
theory Meta
  imports GoStdlib "HOL-Library.AList"
begin

text \<open>
  The Kubernetes object data the program handles and the third-party helpers on it.

  Data: \<open>metav1.ObjectMeta\<close> and \<open>metav1.Condition\<close> as records of the fields the
  program uses, \<open>metav1.Time\<close> as an integer instant (it wraps the standard library's
  \<open>time.Time\<close>; \<open>0\<close> is the zero time), a \<open>map[string]string\<close> as an association
  list, Go's \<open>error\<close> interface as the datatype of the error values the program builds
  or inspects.

  Behaviour that lives outside the repository is a parameter: the status-condition
  helpers of \<open>k8s.io/apimachinery/pkg/api/meta\<close> are the record \<open>meta_ops\<close>, and
  the locale \<open>status_conditions\<close> states what their documentation promises. The
  lemmas of the locale are what every client of the helpers relies on. \<open>meta_list\<close>
  is a concrete instance, first match by type, on which the locale is interpreted.
\<close>

section \<open>Errors\<close>

text \<open>Package \<open>revisions\<close> declares its own error struct with a reason.\<close>

datatype ErrorReason = UnknownError | MultipleMatchesForFilterError | NoMatchesForFilterError

record Error =
  errReason :: ErrorReason
  errMethod :: string
  errMessage :: string

text \<open>The reasons of a Kubernetes \<open>errors.StatusError\<close> that the program tells apart.\<close>

datatype StatusReason = StatusReasonNotFound | StatusReasonInvalid | StatusReasonOther

datatype goerror =
    StatusError StatusReason string
  | RevisionsError Error
  | VerifyErrorValue string
  | MultiErrorValue "goerror list"
  | PlainError string
  | Panic string

definition IsNotFound :: "goerror \<Rightarrow> bool" where
  "IsNotFound e = (case e of StatusError StatusReasonNotFound _ \<Rightarrow> True | _ \<Rightarrow> False)"

text \<open>\<open>NewMultiError\<close> and \<open>NewVerifyError\<close> wrap what they are given.\<close>

definition NewMultiError :: "goerror list \<Rightarrow> goerror" where
  "NewMultiError e = MultiErrorValue e"

definition NewVerifyError :: "string \<Rightarrow> goerror" where
  "NewVerifyError msg = VerifyErrorValue msg"

definition IsVerifyError :: "goerror \<Rightarrow> bool" where
  "IsVerifyError e = (case e of VerifyErrorValue _ \<Rightarrow> True | _ \<Rightarrow> False)"

section \<open>Objects\<close>

type_synonym Time = int
type_synonym string_map = "(string \<times> string) list"

definition zero_time :: Time where "zero_time = 0"

text \<open>\<open>IsZero\<close> of a \<open>*metav1.Time\<close>: nil or the zero time.\<close>

definition IsZero :: "Time option \<Rightarrow> bool" where
  "IsZero t = (case t of None \<Rightarrow> True | Some x \<Rightarrow> x = zero_time)"

record ObjectMeta =
  Name :: string
  Namespace :: string
  Labels :: string_map
  CreationTimestamp :: Time
  UID :: string

definition empty_meta :: ObjectMeta where
  "empty_meta = \<lparr> Name = [], Namespace = [], Labels = [], CreationTimestamp = zero_time, UID = [] \<rparr>"

type_synonym NamespacedName = "string \<times> string" \<comment> \<open>namespace, name\<close>

definition object_key :: "ObjectMeta \<Rightarrow> NamespacedName" where
  "object_key m = (Namespace m, Name m)"

section \<open>Status conditions\<close>

datatype ConditionStatus = ConditionTrue | ConditionFalse | ConditionUnknown

record Condition =
  cType :: string
  cStatus :: ConditionStatus
  cReason :: string
  cMessage :: string
  cLastTransitionTime :: Time

text \<open>A condition literal of the source leaves \<open>LastTransitionTime\<close> at its zero value.\<close>

definition mkCondition :: "string \<Rightarrow> ConditionStatus \<Rightarrow> string \<Rightarrow> string \<Rightarrow> Condition" where
  "mkCondition t s r m =
     \<lparr> cType = t, cStatus = s, cReason = r, cMessage = m, cLastTransitionTime = zero_time \<rparr>"

lemma mkCondition_sel [simp]:
  "cType (mkCondition t s r m) = t" "cStatus (mkCondition t s r m) = s"
  "cReason (mkCondition t s r m) = r" "cMessage (mkCondition t s r m) = m"
  by (simp_all add: mkCondition_def)

record meta_ops =
  IsStatusConditionTrue :: "Condition list \<Rightarrow> string \<Rightarrow> bool"
  FindStatusCondition :: "Condition list \<Rightarrow> string \<Rightarrow> Condition option"
  SetStatusCondition :: "Condition list \<Rightarrow> Condition \<Rightarrow> Condition list"
  RemoveStatusCondition :: "Condition list \<Rightarrow> string \<Rightarrow> Condition list"

locale status_conditions =
  fixes m :: meta_ops
  assumes true_iff:
      "IsStatusConditionTrue m cs t \<longleftrightarrow>
         (\<exists>c. FindStatusCondition m cs t = Some c \<and> cStatus c = ConditionTrue)"
    and find_type: "FindStatusCondition m cs t = Some c \<Longrightarrow> cType c = t"
    and find_nil: "FindStatusCondition m [] t = None"
    and find_set_same:
      "\<exists>c'. FindStatusCondition m (SetStatusCondition m cs c) (cType c) = Some c' \<and>
            cType c' = cType c \<and> cStatus c' = cStatus c \<and>
            cReason c' = cReason c \<and> cMessage c' = cMessage c"
    and find_set_other:
      "t \<noteq> cType c \<Longrightarrow>
         FindStatusCondition m (SetStatusCondition m cs c) t = FindStatusCondition m cs t"
    and find_remove_same: "FindStatusCondition m (RemoveStatusCondition m cs t) t = None"
    and find_remove_other:
      "t' \<noteq> t \<Longrightarrow>
         FindStatusCondition m (RemoveStatusCondition m cs t) t' = FindStatusCondition m cs t'"
begin

lemma is_true_nil [cond_simps]: "\<not> IsStatusConditionTrue m [] t"
  by (simp add: true_iff find_nil)

lemma is_true_set_same [cond_simps]:
  "t = cType c \<Longrightarrow>
   IsStatusConditionTrue m (SetStatusCondition m cs c) t \<longleftrightarrow> cStatus c = ConditionTrue"
  using find_set_same [of cs c] by (auto simp: true_iff)

lemma is_true_set_other [cond_simps]:
  "t \<noteq> cType c \<Longrightarrow>
   IsStatusConditionTrue m (SetStatusCondition m cs c) t \<longleftrightarrow> IsStatusConditionTrue m cs t"
  by (simp add: true_iff find_set_other)

lemma is_true_remove_same [cond_simps]:
  "\<not> IsStatusConditionTrue m (RemoveStatusCondition m cs t) t"
  by (simp add: true_iff find_remove_same)

lemma is_true_remove_other [cond_simps]:
  "t' \<noteq> t \<Longrightarrow>
   IsStatusConditionTrue m (RemoveStatusCondition m cs t) t' \<longleftrightarrow> IsStatusConditionTrue m cs t'"
  by (simp add: true_iff find_remove_other)

end

subsection \<open>A list instance\<close>

fun find_cond :: "Condition list \<Rightarrow> string \<Rightarrow> Condition option" where
  "find_cond [] t = None"
| "find_cond (c # cs) t = (if cType c = t then Some c else find_cond cs t)"

fun set_cond :: "Condition list \<Rightarrow> Condition \<Rightarrow> Condition list" where
  "set_cond [] c = [c]"
| "set_cond (d # ds) c = (if cType d = cType c then c # ds else d # set_cond ds c)"

definition meta_list :: meta_ops where
  "meta_list = \<lparr>
     IsStatusConditionTrue =
       (\<lambda>cs t. case find_cond cs t of None \<Rightarrow> False | Some c \<Rightarrow> cStatus c = ConditionTrue),
     FindStatusCondition = find_cond,
     SetStatusCondition = set_cond,
     RemoveStatusCondition = (\<lambda>cs t. filter (\<lambda>c. cType c \<noteq> t) cs) \<rparr>"

lemma meta_list_sel [simp]:
  "IsStatusConditionTrue meta_list cs t =
     (case find_cond cs t of None \<Rightarrow> False | Some c \<Rightarrow> cStatus c = ConditionTrue)"
  "FindStatusCondition meta_list = find_cond"
  "SetStatusCondition meta_list = set_cond"
  "RemoveStatusCondition meta_list cs t = filter (\<lambda>c. cType c \<noteq> t) cs"
  by (simp_all add: meta_list_def)

lemma find_set_cond:
  "find_cond (set_cond cs c) t = (if t = cType c then Some c else find_cond cs t)"
  by (induction cs) auto

lemma find_filter_cond:
  "find_cond (filter (\<lambda>c. cType c \<noteq> t) cs) t' = (if t' = t then None else find_cond cs t')"
  by (induction cs) auto

lemma find_cond_type: "find_cond cs t = Some c \<Longrightarrow> cType c = t"
  by (induction cs) (auto split: if_splits)

interpretation metaList: status_conditions meta_list
  by unfold_locales (auto simp: find_set_cond find_filter_cond find_cond_type split: option.splits)

end
