(* ===== verification/EnvoyTypes.thy ===== *)
theory EnvoyTypes
  imports Meta "HOL-Library.Word"
begin

text \<open>
  Package \<open>pkg/envoy\<close>: the API version and resource type enumerations, health states
  and upstream hosts (\<open>types.go\<close>), the resource generator of
  \<open>pkg/envoy/resources/v3\<close>, the type URLs, the validator and the deserialisers of
  \<open>pkg/envoy/serializer\<close>.

  Protobuf messages the program builds itself are constructors of \<open>Message\<close>. A message
  decoded from text is \<open>Parsed\<close> with the resource type and a string that identifies
  its content: what \<open>protojson.Unmarshal\<close> and \<open>yaml.YAMLToJSON\<close> do is outside the
  repository and is the parameter \<open>codec_ops\<close>. The type URLs are constants of
  \<open>go-control-plane\<close>, the parameter \<open>type_urls\<close>.
\<close>

section \<open>Enumerations\<close>

type_synonym APIVersion = string

definition APIv3 :: APIVersion where "APIv3 = ''v3''"

definition APIVersion_String :: "APIVersion \<Rightarrow> string" where
  "APIVersion_String version = APIv3"

definition ParseAPIVersion :: "string \<Rightarrow> goerror + APIVersion" where
  "ParseAPIVersion version =
     (if version = APIv3 then Inr APIv3
      else Inl (PlainError (''String '' @ quoted version @ '' is no a valid APIVersion'')))"

text \<open>The type is an open Go string; \<open>OtherType\<close> is every string that is none of the
  declared constants.\<close>

datatype EnvoyType =
    Endpoint | Cluster | Route | ScopedRoute | VirtualHost | Listener | Secret | Runtime
  | ExtensionConfig | OtherType string

fun type_string :: "EnvoyType \<Rightarrow> string" where
  "type_string Endpoint = ''endpoint''"
| "type_string Cluster = ''cluster''"
| "type_string Route = ''route''"
| "type_string ScopedRoute = ''scopedRoute''"
| "type_string VirtualHost = ''virtualHost''"
| "type_string Listener = ''listener''"
| "type_string Secret = ''secret''"
| "type_string Runtime = ''runtime''"
| "type_string ExtensionConfig = ''extensionConfig''"
| "type_string (OtherType s) = s"

datatype EndpointHealthStatus =
    HealthStatus_UNKNOWN | HealthStatus_HEALTHY | HealthStatus_UNHEALTHY
  | HealthStatus_DRAINING | HealthStatus_TIMEOUT | HealthStatus_DEGRADED

type_synonym IP = string \<comment> \<open>\<open>net.IP\<close>: the 16 bytes of the address\<close>

record UpstreamHost =
  hostIP :: IP
  hostPort :: "32 word"
  hostHealth :: EndpointHealthStatus

section \<open>Type URLs\<close>

record type_urls =
  ListenerType :: string
  RouteType :: string
  ScopedRouteType :: string
  VirtualHostType :: string
  ClusterType :: string
  EndpointType :: string
  SecretType :: string
  RuntimeType :: string
  ExtensionConfigType :: string

text \<open>A Go map lookup of a missing key gives the empty string.\<close>

definition Mappings :: "type_urls \<Rightarrow> EnvoyType \<Rightarrow> string" where
  "Mappings u t = (case t of
      Listener \<Rightarrow> ListenerType u
    | Route \<Rightarrow> RouteType u
    | ScopedRoute \<Rightarrow> ScopedRouteType u
    | VirtualHost \<Rightarrow> VirtualHostType u
    | Cluster \<Rightarrow> ClusterType u
    | Endpoint \<Rightarrow> EndpointType u
    | Secret \<Rightarrow> SecretType u
    | Runtime \<Rightarrow> RuntimeType u
    | ExtensionConfig \<Rightarrow> ExtensionConfigType u
    | OtherType _ \<Rightarrow> [])"

definition TypeURL :: "type_urls \<Rightarrow> EnvoyType \<Rightarrow> APIVersion \<Rightarrow> string" where
  "TypeURL u rType version = Mappings u rType"

section \<open>Messages and the generator\<close>

datatype DataSource = InlineBytes string | Filename string

datatype SecretKind =
    TlsCertificateSecret DataSource DataSource \<comment> \<open>private key, certificate chain\<close>
  | ValidationContextSecret DataSource \<comment> \<open>trusted CA\<close>
  | GenericSecretValue DataSource

record LbEndpointMsg =
  lbAddress :: string
  lbPort :: "32 word"
  lbHealth :: EndpointHealthStatus

datatype Message =
    EmptyMessage EnvoyType
  | SecretMessage string SecretKind
  | ClusterLoadAssignment string "LbEndpointMsg list"
  | Parsed EnvoyType string

text \<open>\<open>Generator.New\<close>: an empty message of the type, nil for the types the
  generator does not know.\<close>

definition Generator_New :: "EnvoyType \<Rightarrow> Message option" where
  "Generator_New rType =
     (case rType of
        Endpoint \<Rightarrow> Some (EmptyMessage Endpoint)
      | Cluster \<Rightarrow> Some (EmptyMessage Cluster)
      | Route \<Rightarrow> Some (EmptyMessage Route)
      | ScopedRoute \<Rightarrow> Some (EmptyMessage ScopedRoute)
      | Listener \<Rightarrow> Some (EmptyMessage Listener)
      | Runtime \<Rightarrow> Some (EmptyMessage Runtime)
      | Secret \<Rightarrow> Some (EmptyMessage Secret)
      | ExtensionConfig \<Rightarrow> Some (EmptyMessage ExtensionConfig)
      | VirtualHost \<Rightarrow> None
      | OtherType _ \<Rightarrow> None)"

definition NewTlsCertificateSecret :: "string \<Rightarrow> string \<Rightarrow> string \<Rightarrow> Message" where
  "NewTlsCertificateSecret name privateKey certificateChain =
     SecretMessage name
       (TlsCertificateSecret (InlineBytes privateKey) (InlineBytes certificateChain))"

definition NewValidationContextSecret :: "string \<Rightarrow> string \<Rightarrow> Message" where
  "NewValidationContextSecret name certificateChain =
     SecretMessage name (ValidationContextSecret (InlineBytes certificateChain))"

definition NewGenericSecret :: "string \<Rightarrow> string \<Rightarrow> Message" where
  "NewGenericSecret name value = SecretMessage name (GenericSecretValue (InlineBytes value))"

definition NewTlsSecretFromPath :: "string \<Rightarrow> string \<Rightarrow> string \<Rightarrow> Message" where
  "NewTlsSecretFromPath name certificateChainPath privateKeyPath =
     SecretMessage name
       (TlsCertificateSecret (Filename privateKeyPath) (Filename certificateChainPath))"

text \<open>\<open>net.IP.String()\<close> is passed in by the theory of the endpoint discovery, which
  models the addresses.\<close>

definition LbEndpoint :: "(IP \<Rightarrow> string) \<Rightarrow> UpstreamHost \<Rightarrow> LbEndpointMsg" where
  "LbEndpoint ip_string host =
     \<lparr> lbAddress = ip_string (hostIP host), lbPort = hostPort host, lbHealth = hostHealth host \<rparr>"

definition NewClusterLoadAssignment ::
    "(IP \<Rightarrow> string) \<Rightarrow> string \<Rightarrow> UpstreamHost list \<Rightarrow> Message" where
  "NewClusterLoadAssignment ip_string clusterName hosts =
     ClusterLoadAssignment clusterName (map (LbEndpoint ip_string) hosts)"

section \<open>Serialisation\<close>

datatype Serialization = JSON | YAML | B64JSON | OtherSerialization string

record codec_ops =
  protojson_Unmarshal :: "string \<Rightarrow> EnvoyType \<Rightarrow> string + string"
    \<comment> \<open>the error text, or the content of the decoded message\<close>
  YAMLToJSON :: "string \<Rightarrow> string + string"

text \<open>\<open>protojson\<close> of a message, nil for a nil interface; the error text or the JSON.\<close>

type_synonym protojson_Marshal = "Message option \<Rightarrow> string + string"

subsection \<open>Base64\<close>

text \<open>\<open>base64.StdEncoding.DecodeString\<close>: carriage returns and newlines are ignored,
  the alphabet is the standard one, padding is required. \<open>None\<close> is the error; the
  offset its text reports is left out.\<close>

definition b64_val :: "char \<Rightarrow> nat option" where
  "b64_val c = (let n = of_char c in
     if 65 \<le> n \<and> n \<le> 90 then Some (n - 65)
     else if 97 \<le> n \<and> n \<le> 122 then Some (n - 71)
     else if 48 \<le> n \<and> n \<le> 57 then Some (n + 4)
     else if n = 43 then Some 62
     else if n = 47 then Some 63 else None)"

fun b64_quads :: "string \<Rightarrow> string option" where
  "b64_quads [] = Some []"
| "b64_quads (a # b # c # d # rest) =
     (case (b64_val a, b64_val b) of
        (Some x, Some y) \<Rightarrow>
          (if c = CHR ''='' then
             (if d = CHR ''='' \<and> rest = [] then Some [char_of (x * 4 + y div 16)] else None)
           else case b64_val c of None \<Rightarrow> None | Some z \<Rightarrow>
             (if d = CHR ''='' then
                (if rest = [] then Some [char_of (x * 4 + y div 16), char_of (y mod 16 * 16 + z div 4)]
                 else None)
              else case b64_val d of None \<Rightarrow> None | Some w \<Rightarrow>
                map_option (\<lambda>s. char_of (x * 4 + y div 16) # char_of (y mod 16 * 16 + z div 4)
                                # char_of (z mod 4 * 64 + w) # s) (b64_quads rest)))
      | _ \<Rightarrow> None)"
| "b64_quads _ = None"

definition Base64_DecodeString :: "string \<Rightarrow> string option" where
  "Base64_DecodeString s = b64_quads (filter (\<lambda>c. c \<noteq> CHR 10 \<and> c \<noteq> CHR 13) s)"

subsection \<open>Marshalling\<close>

text \<open>\<open>json.Marshal\<close> of a raw message compacts it: white space between tokens goes, and the
  characters \<open><\<close>, \<open>>\<close>, \<open>&\<close> and the line separators U+2028 and U+2029 are
  escaped.\<close>

definition json_space :: "char \<Rightarrow> bool" where
  "json_space c = (c \<in> {CHR '' '', CHR 9, CHR 10, CHR 13})"

fun json_escape :: "string \<Rightarrow> string" where
  "json_escape (a # b # c # s) =
     (if a = CHR 0xE2 \<and> b = CHR 0x80 \<and> c = CHR 0xA8 then CHR 92 # ''u2028'' @ json_escape s
      else if a = CHR 0xE2 \<and> b = CHR 0x80 \<and> c = CHR 0xA9 then CHR 92 # ''u2029'' @ json_escape s
      else if a = CHR ''<'' then CHR 92 # ''u003c'' @ json_escape (b # c # s)
      else if a = CHR ''>'' then CHR 92 # ''u003e'' @ json_escape (b # c # s)
      else if a = CHR ''&'' then CHR 92 # ''u0026'' @ json_escape (b # c # s)
      else a # json_escape (b # c # s))"
| "json_escape s =
     concat (map (\<lambda>a. if a = CHR ''<'' then CHR 92 # ''u003c''
                      else if a = CHR ''>'' then CHR 92 # ''u003e''
                      else if a = CHR ''&'' then CHR 92 # ''u0026'' else [a]) s)"

fun json_compact :: "bool \<Rightarrow> string \<Rightarrow> string" where
  "json_compact in_string [] = []"
| "json_compact False (a # s) =
     (if json_space a then json_compact False s else a # json_compact (a = CHR 34) s)"
| "json_compact True [a] = [a]"
| "json_compact True (a # b # s) =
     (if a = CHR 92 then a # b # json_compact True s else a # json_compact (a \<noteq> CHR 34) (b # s))"

definition JSON_Marshal :: "('m \<Rightarrow> string + string) \<Rightarrow> 'm \<Rightarrow> goerror + string" where
  "JSON_Marshal marshal res =
     (case marshal res of
        Inl err \<Rightarrow> Inl (PlainError err)
      | Inr data \<Rightarrow> Inr (json_escape (json_compact False data)))"

subsection \<open>Unmarshalling\<close>

text \<open>The three \<open>Unmarshal\<close> methods. The second argument is the empty message the
  caller allocated; a nil one is an error before any decoding.\<close>

definition JSON_Unmarshal :: "codec_ops \<Rightarrow> string \<Rightarrow> Message option \<Rightarrow> goerror + Message" where
  "JSON_Unmarshal d str res =
     (case res of
        None \<Rightarrow> Inl (PlainError ''resource cannot be nil'')
      | Some (EmptyMessage t) \<Rightarrow>
          (case protojson_Unmarshal d str t of
             Inl e \<Rightarrow> Inl (PlainError (''error deserializing resource: '' @ quoted e))
           | Inr v \<Rightarrow> Inr (Parsed t v))
      | Some r \<Rightarrow> Inl (PlainError ''not an empty message''))"

definition B64JSON_Unmarshal :: "codec_ops \<Rightarrow> string \<Rightarrow> Message option \<Rightarrow> goerror + Message" where
  "B64JSON_Unmarshal d str res =
     (case Base64_DecodeString str of
        None \<Rightarrow> Inl (PlainError ''error decoding base64 string'')
      | Some b \<Rightarrow> JSON_Unmarshal d b res)"

definition YAML_Unmarshal :: "codec_ops \<Rightarrow> string \<Rightarrow> Message option \<Rightarrow> goerror + Message" where
  "YAML_Unmarshal d str res =
     (case YAMLToJSON d str of
        Inl e \<Rightarrow> Inl (PlainError (''error converting yaml to json: '' @ quoted e))
      | Inr b \<Rightarrow> JSON_Unmarshal d b res)"

text \<open>\<open>NewResourceUnmarshaller\<close> returns nil for an unknown encoding; calling its
  \<open>Unmarshal\<close> then panics.\<close>

definition Unmarshal :: "codec_ops \<Rightarrow> Serialization \<Rightarrow> string \<Rightarrow> Message option \<Rightarrow> goerror + Message" where
  "Unmarshal d encoding str res =
     (case encoding of
        JSON \<Rightarrow> JSON_Unmarshal d str res
      | YAML \<Rightarrow> YAML_Unmarshal d str res
      | B64JSON \<Rightarrow> B64JSON_Unmarshal d str res
      | OtherSerialization _ \<Rightarrow> Inl (Panic ''nil pointer dereference''))"

definition ResourceValidate ::
    "codec_ops \<Rightarrow> string \<Rightarrow> Serialization \<Rightarrow> APIVersion \<Rightarrow> EnvoyType \<Rightarrow> goerror option" where
  "ResourceValidate d resource encoding version rType =
     (case Unmarshal d encoding resource (Generator_New rType) of
        Inl err \<Rightarrow> Some err
      | Inr _ \<Rightarrow> None)"

lemma ResourceValidate_virtualHost:
  "ResourceValidate d s JSON v VirtualHost = Some (PlainError ''resource cannot be nil'')"
  by (simp add: ResourceValidate_def Unmarshal_def JSON_Unmarshal_def Generator_New_def)

lemma ResourceValidate_JSON_ok_iff:
  "Generator_New t = Some (EmptyMessage t) \<Longrightarrow>
   ResourceValidate d s JSON v t = None \<longleftrightarrow> \<not> is_error (protojson_Unmarshal d s t)"
  by (cases "protojson_Unmarshal d s t")
    (auto simp: ResourceValidate_def Unmarshal_def JSON_Unmarshal_def)

section \<open>Comparing resources\<close>

text \<open>\<open>ResourcesEqual\<close> compares two maps from names to resources; a name that is missing in the second
  one gives a nil resource, and \<open>proto.Equal\<close> holds of two nils.\<close>

definition proto_Equal :: "(Message \<Rightarrow> Message \<Rightarrow> bool) \<Rightarrow> Message option \<Rightarrow> Message option \<Rightarrow> bool" where
  "proto_Equal eq a b = (case (a, b) of (None, None) \<Rightarrow> True | (Some x, Some y) \<Rightarrow> eq x y | _ \<Rightarrow> False)"

definition ResourcesEqual ::
    "(Message \<Rightarrow> Message \<Rightarrow> bool) \<Rightarrow> (string \<times> Message option) list \<Rightarrow> (string \<times> Message option) list \<Rightarrow> bool" where
  "ResourcesEqual eq a b =
     (length a = length b \<and>
      list_all (\<lambda>(name, resource). proto_Equal eq resource (case map_of b name of None \<Rightarrow> None | Some r \<Rightarrow> r)) a)"

text \<open>For maps without nil resources this is equality of the maps.\<close>

lemma ResourcesEqual_iff:
  assumes "distinct (map fst a)" "distinct (map fst b)" "None \<notin> snd ` set a"
  shows "ResourcesEqual (=) a b \<longleftrightarrow> map_of a = map_of b"
proof
  assume eq: "ResourcesEqual (=) a b"
  have le: "map_of a \<subseteq>\<^sub>m map_of b"
    unfolding map_le_def
  proof
    fix n assume "n \<in> dom (map_of a)"
    then obtain r where r: "map_of a n = Some r" by blast
    then have n: "(n, r) \<in> set a" by (rule map_of_SomeD)
    with assms(3) obtain m where "r = Some m" by (cases r) force+
    moreover have "proto_Equal (=) r (case map_of b n of None \<Rightarrow> None | Some r' \<Rightarrow> r')"
      using eq n by (auto simp: ResourcesEqual_def list_all_iff)
    ultimately have "map_of b n = Some r" by (auto simp: proto_Equal_def split: option.splits)
    with r show "map_of a n = map_of b n" by simp
  qed
  have "card (dom (map_of a)) = card (dom (map_of b))"
    using eq distinct_card [OF assms(1)] distinct_card [OF assms(2)]
    by (simp add: ResourcesEqual_def dom_map_of_conv_image_fst)
  then have "dom (map_of a) = dom (map_of b)"
    using map_le_implies_dom_le [OF le] by (intro card_subset_eq) (simp_all add: finite_dom_map_of)
  with le show "map_of a = map_of b" by (metis map_le_antisym map_le_def)
next
  assume eq: "map_of a = map_of b"
  then have "card (set (map fst a)) = card (set (map fst b))" by (metis dom_map_of_conv_image_fst list.set_map)
  then have "length a = length b" using distinct_card [OF assms(1)] distinct_card [OF assms(2)] by simp
  moreover have "map_of b n = Some r" if "(n, r) \<in> set a" for n r using that assms(1) eq by (metis map_of_is_SomeI)
  ultimately show "ResourcesEqual (=) a b"
    by (auto simp: ResourcesEqual_def list_all_iff proto_Equal_def split: option.split)
qed

end
