(* ===== verification/NetIP.thy ===== *)
theory NetIP
  imports EnvoyTypes
begin

text \<open>
  \<open>net.ParseIP\<close> and \<open>net.IP.String\<close> of Go's standard library, which the endpoint
  discovery uses. An address is 16 bytes; an IPv4 address is stored behind the prefix
  \<open>::ffff:0:0\<close>. \<open>ParseIP\<close> follows \<open>netip.ParseAddr\<close>: the first dot or colon
  decides between the two formats, octets have no leading zeros, groups have one to four
  hexadecimal digits, \<open>::\<close> stands for at least one group of zeros, the last two groups
  may be written as an IPv4 address, and zones are rejected.
\<close>

section \<open>IPv4\<close>

definition parse_octet :: "string \<Rightarrow> nat option" where
  "parse_octet s =
     (if s = [] \<or> length s > 3 \<or> (length s > 1 \<and> hd s = CHR ''0'') then None
      else case read_digits 0 s of
             None \<Rightarrow> None
           | Some n \<Rightarrow> if n < 256 then Some n else None)"

definition parse_v4_fields :: "string \<Rightarrow> string option" where
  "parse_v4_fields s =
     (case Split s (CHR ''.'') of
        [a, b, c, d] \<Rightarrow>
          (case (parse_octet a, parse_octet b, parse_octet c, parse_octet d) of
             (Some w, Some x, Some y, Some z) \<Rightarrow> Some [char_of w, char_of x, char_of y, char_of z]
           | _ \<Rightarrow> None)
      | _ \<Rightarrow> None)"

definition v4_prefix :: string where
  "v4_prefix = replicate 10 (CHR 0x00) @ [CHR 0xFF, CHR 0xFF]"

section \<open>IPv6\<close>

definition hex_val :: "char \<Rightarrow> nat option" where
  "hex_val c = (let n = of_char c in
     if 48 \<le> n \<and> n \<le> 57 then Some (n - 48)
     else if 97 \<le> n \<and> n \<le> 102 then Some (n - 87)
     else if 65 \<le> n \<and> n \<le> 70 then Some (n - 55) else None)"

definition is_hex :: "char \<Rightarrow> bool" where "is_hex c = (hex_val c \<noteq> None)"

definition hex_group :: "string \<Rightarrow> nat" where
  "hex_group s = foldl (\<lambda>acc c. acc * 16 + the (hex_val c)) 0 s"

text \<open>The loop over the groups: bytes so far, position of the ellipsis, rest of the text. Each
  round consumes at least one digit.\<close>

function v6_loop :: "string \<Rightarrow> nat option \<Rightarrow> string \<Rightarrow> (string \<times> nat option \<times> string) option" where
  "v6_loop bytes ellipsis s =
     (if length bytes \<ge> 16 then Some (bytes, ellipsis, s)
      else let ds = takeWhile is_hex s; rest = dropWhile is_hex s in
        if ds = [] \<or> length ds > 4 then None
        else if rest \<noteq> [] \<and> hd rest = CHR ''.'' then
          (if ellipsis = None \<and> length bytes \<noteq> 12 then None
           else if length bytes + 4 > 16 then None
           else case parse_v4_fields s of None \<Rightarrow> None | Some v4 \<Rightarrow> Some (bytes @ v4, ellipsis, []))
        else let bytes' = bytes @ [char_of (hex_group ds div 256), char_of (hex_group ds mod 256)] in
          (case rest of
             [] \<Rightarrow> Some (bytes', ellipsis, [])
           | c # rest1 \<Rightarrow>
               (if c \<noteq> CHR '':'' \<or> rest1 = [] then None
                else if hd rest1 = CHR '':'' then
                  (if ellipsis \<noteq> None then None
                   else if tl rest1 = [] then Some (bytes', Some (length bytes'), [])
                   else v6_loop bytes' (Some (length bytes')) (tl rest1))
                else v6_loop bytes' ellipsis rest1)))"
  by pat_completeness auto
termination
  by (relation "measure (\<lambda>(b, e, s). 16 - length b)") auto

definition parse_v6 :: "string \<Rightarrow> string option" where
  "parse_v6 s =
     (if CHR ''%'' \<in> set s then None
      else let lead = (take 2 s = ''::''); s1 = (if lead then drop 2 s else s);
               e0 = (if lead then Some 0 else None)
           in if lead \<and> s1 = [] then Some (replicate 16 (CHR 0x00))
              else case v6_loop [] e0 s1 of
                     None \<Rightarrow> None
                   | Some (bytes, ellipsis, rest) \<Rightarrow>
                       (if rest \<noteq> [] then None
                        else if length bytes < 16 then
                          (case ellipsis of
                             None \<Rightarrow> None
                           | Some e \<Rightarrow> Some (take e bytes @ replicate (16 - length bytes) (CHR 0x00) @ drop e bytes))
                        else if ellipsis \<noteq> None then None
                        else Some bytes))"

definition ParseIP :: "string \<Rightarrow> IP option" where
  "ParseIP s =
     (case find (\<lambda>c. c = CHR ''.'' \<or> c = CHR '':'' \<or> c = CHR ''%'') s of
        Some c \<Rightarrow>
          (if c = CHR ''.'' then map_option (\<lambda>v4. v4_prefix @ v4) (parse_v4_fields s)
           else if c = CHR '':'' then parse_v6 s else None)
      | None \<Rightarrow> None)"

section \<open>String\<close>

definition show_hex :: "nat \<Rightarrow> string" where
  "show_hex n =
     (let ds = dropWhile (\<lambda>d. d = 0) [n div 4096 mod 16, n div 256 mod 16, n div 16 mod 16, n mod 16]
      in if ds = [] then ''0'' else map hex_digit ds)"

fun groups :: "string \<Rightarrow> nat list" where
  "groups (a # b # s) = (of_char a * 256 + of_char b) # groups s"
| "groups _ = []"

text \<open>The leftmost longest run of at least two zero groups is written as \<open>::\<close>.\<close>

definition zero_run :: "nat list \<Rightarrow> nat \<Rightarrow> nat" where
  "zero_run gs i = length (takeWhile (\<lambda>g. g = 0) (drop i gs))"

definition best_run :: "nat list \<Rightarrow> (nat \<times> nat) option" where
  "best_run gs =
     (let n = foldl (\<lambda>m i. max m (zero_run gs i)) 0 [0..<length gs]
      in if n < 2 then None
         else map_option (\<lambda>i. (i, n)) (find (\<lambda>i. zero_run gs i = n) [0..<length gs]))"

definition IP_String :: "IP \<Rightarrow> string" where
  "IP_String ip =
     (if length ip = 16 \<and> take 12 ip = v4_prefix then
        Join (map (\<lambda>c. show_nat (of_char c)) (drop 12 ip)) ''.''
      else let gs = groups ip in
        case best_run gs of
          None \<Rightarrow> Join (map show_hex gs) '':''
        | Some (i, n) \<Rightarrow>
            Join (map show_hex (take i gs)) '':'' @ ''::'' @ Join (map show_hex (drop (i + n) gs)) '':'')"

section \<open>IPv4 addresses round trip\<close>

lemma show_nat_digits: "c \<in> set (show_nat n) \<Longrightarrow> \<exists>d < 10. c = digit_char d"
proof (induction n rule: show_nat.induct)
  case (1 n)
  then show ?case
    by (cases "n < 10") (auto simp: show_nat.simps [of n] intro: exI [of _ "n mod 10"])
qed

lemma length_show_nat: "n < 10 \<Longrightarrow> length (show_nat n) = 1" "n < 1000 \<Longrightarrow> length (show_nat n) \<le> 3"
proof -
  show one: "n < 10 \<Longrightarrow> length (show_nat n) = 1" for n by (simp add: show_nat.simps [of n])
  have two: "n < 100 \<Longrightarrow> length (show_nat n) \<le> 2" for n
    using one [of "n div 10"] by (auto simp: show_nat.simps [of n])
  show "n < 1000 \<Longrightarrow> length (show_nat n) \<le> 3"
    using two [of "n div 10"] by (auto simp: show_nat.simps [of n])
qed

lemma hd_show_nat_0: "hd (show_nat n) = CHR ''0'' \<Longrightarrow> n = 0"
proof (induction n rule: show_nat.induct)
  case (1 n)
  show ?case
  proof (cases "n < 10")
    case True
    with 1 have "digit_char n = CHR ''0''" by (simp add: show_nat.simps [of n])
    with True digit_val_digit_char [of n] show ?thesis by (simp add: digit_val_def)
  next
    case False
    with 1 show ?thesis by (simp add: show_nat.simps [of n])
  qed
qed

lemma show_nat_octet: "n < 256 \<Longrightarrow> parse_octet (show_nat n) = Some n"
  using length_show_nat(2) [of n] hd_show_nat_0 [of n] length_show_nat(1) [of n]
  by (auto simp: parse_octet_def read_digits_show_nat)

lemma digit_char_no_dot:
  "d < 10 \<Longrightarrow> digit_char d \<noteq> CHR ''.'' \<and> digit_char d \<noteq> CHR '':'' \<and> digit_char d \<noteq> CHR ''%''"
  using digit_val_digit_char [of d] by (auto simp: digit_val_def Let_def)

lemma show_nat_no_dot:
  "CHR ''.'' \<notin> set (show_nat n) \<and> CHR '':'' \<notin> set (show_nat n) \<and> CHR ''%'' \<notin> set (show_nat n)"
  using show_nat_digits [of _ n] digit_char_no_dot by metis

lemma find_append_None: "find P xs = None \<Longrightarrow> find P (xs @ ys) = find P ys"
  by (induction xs) (auto split: if_splits)

lemma ParseIP_v4:
  fixes a b c d :: char
  shows "ParseIP (IP_String (v4_prefix @ [a, b, c, d])) = Some (v4_prefix @ [a, b, c, d])"
proof -
  let ?o = "\<lambda>x :: char. show_nat (of_char x)"
  have str: "IP_String (v4_prefix @ [a, b, c, d]) = Join [?o a, ?o b, ?o c, ?o d] ''.''"
    by (simp add: IP_String_def v4_prefix_def)
  have "Split (Join [?o a, ?o b, ?o c, ?o d] ''.'') (CHR ''.'') = [?o a, ?o b, ?o c, ?o d]"
    by (rule Split_Join) (use show_nat_no_dot in auto)
  then have "parse_v4_fields (Join [?o a, ?o b, ?o c, ?o d] ''.'') = Some [a, b, c, d]"
    by (simp add: parse_v4_fields_def show_nat_octet)
  moreover have "find (\<lambda>c. c = CHR ''.'' \<or> c = CHR '':'' \<or> c = CHR ''%'') (?o a @ ''.'' @ rest) = Some (CHR ''.'')" for rest
    using show_nat_no_dot [of "of_char a"] by (subst find_append_None) (auto simp: find_None_iff)
  ultimately show ?thesis by (simp add: str ParseIP_def)
qed

end
