(* ===== verification/ApiMarin3r.thy ===== *)
theory ApiMarin3r
  imports EnvoyTypes
begin

text \<open>
  The API group \<open>marin3r.3scale.net/v1alpha1\<close>: resources (\<open>resources.go\<close>),
  the \<open>EnvoyConfig\<close> and \<open>EnvoyConfigRevision\<close> types with their accessors and
  defaulting, and the validating webhook of \<open>EnvoyConfig\<close>.

  A Go slice that the code compares with nil is an \<open>option\<close> of a list, a pointer field
  an \<open>option\<close>. \<open>Hash\<close> of the base reconciler is an argument. \<open>DeepCopy\<close> is the
  identity on values.
\<close>

section \<open>Resources\<close>

datatype Blueprint = TlsCertificate | TlsValidationContext | OtherBlueprint string

definition defaultBlueprint :: Blueprint where "defaultBlueprint = TlsCertificate"

record SecretKeySelector =
  sksName :: string
  sksKey :: string
  sksAlias :: string

record LabelSelector =
  matchLabels :: string_map
  matchExpressions :: "(string \<times> string \<times> string list) list"

record GenerateFromEndpointSlices =
  gesSelector :: "LabelSelector option"
  gesClusterName :: string
  gesTargetPort :: string

record Resource =
  resType :: EnvoyType
  resValue :: "string option" \<comment> \<open>the raw bytes of the \<open>RawExtension\<close>\<close>
  resGenerateFromTlsSecret :: "string option"
  resGenerateFromOpaqueSecret :: "SecretKeySelector option"
  resGenerateFromEndpointSlices :: "GenerateFromEndpointSlices option"
  resBlueprint :: "Blueprint option"

definition mkResource :: "EnvoyType \<Rightarrow> Resource" where
  "mkResource t = \<lparr> resType = t, resValue = None, resGenerateFromTlsSecret = None,
     resGenerateFromOpaqueSecret = None, resGenerateFromEndpointSlices = None, resBlueprint = None \<rparr>"

text \<open>Ranging over a nil slice is ranging over an empty one.\<close>

definition resource_list :: "Resource list option \<Rightarrow> Resource list" where
  "resource_list rs = (case rs of None \<Rightarrow> [] | Some l \<Rightarrow> l)"

definition GetBlueprint :: "Resource \<Rightarrow> Blueprint" where
  "GetBlueprint r = (case resBlueprint r of Some b \<Rightarrow> b | None \<Rightarrow> defaultBlueprint)"

definition SecretRef :: "Resource \<Rightarrow> goerror + string" where
  "SecretRef r =
     (if resType r \<noteq> Secret then Inl (PlainError ''not a secret type'')
      else case resGenerateFromOpaqueSecret r of
             Some sel \<Rightarrow> Inr (sksName sel)
           | None \<Rightarrow> (case resGenerateFromTlsSecret r of
                        Some name \<Rightarrow> Inr name
                      | None \<Rightarrow> Inl (PlainError ''secret reference not set'')))"

subsection \<open>The deprecated format\<close>

record EnvoyResource =
  erName :: "string option"
  erValue :: string

record SecretReference =
  srName :: string
  srNamespace :: string

record EnvoySecretResource =
  esrName :: string
  esrRef :: "SecretReference option"

record EnvoyResources =
  Endpoints :: "EnvoyResource list"
  Clusters :: "EnvoyResource list"
  Routes :: "EnvoyResource list"
  ScopedRoutes :: "EnvoyResource list"
  Listeners :: "EnvoyResource list"
  Runtimes :: "EnvoyResource list"
  Secrets :: "EnvoySecretResource list"
  ExtensionConfigs :: "EnvoyResource list"

definition EnvoyResource_Resource ::
    "codec_ops \<Rightarrow> EnvoyResource \<Rightarrow> EnvoyType \<Rightarrow> Serialization \<Rightarrow> goerror + Resource" where
  "EnvoyResource_Resource d res rType serialization =
     (if serialization = YAML then
        (case YAMLToJSON d (erValue res) of
           Inl e \<Rightarrow> Inl (PlainError e)
         | Inr b \<Rightarrow> Inr ((mkResource rType)\<lparr> resValue := Some b \<rparr>))
      else Inr ((mkResource rType)\<lparr> resValue := Some (erValue res) \<rparr>))"

text \<open>The loop over the secrets stores the address of a field of its range variable. The
  module declares Go 1.21, where the variable is one for the whole loop, so after the loop
  every stored pointer reads the name of the last secret.\<close>

definition secret_resources :: "EnvoySecretResource list \<Rightarrow> Resource list" where
  "secret_resources secrets =
     map (\<lambda>_. (mkResource Secret)\<lparr> resGenerateFromTlsSecret := Some (esrName (last secrets)),
                                   resBlueprint := Some TlsCertificate \<rparr>) secrets"

definition typed_resources :: "EnvoyResources \<Rightarrow> (EnvoyType \<times> EnvoyResource) list" where
  "typed_resources inp =
     map (Pair Endpoint) (Endpoints inp) @ map (Pair Cluster) (Clusters inp) @
     map (Pair Route) (Routes inp) @ map (Pair ScopedRoute) (ScopedRoutes inp) @
     map (Pair Listener) (Listeners inp) @ map (Pair Runtime) (Runtimes inp) @
     map (Pair ExtensionConfig) (ExtensionConfigs inp)"

fun ok_values :: "('e + 'a) list \<Rightarrow> 'a list" where
  "ok_values [] = []"
| "ok_values (Inl _ # rs) = ok_values rs"
| "ok_values (Inr v # rs) = v # ok_values rs"

definition EnvoyResources_Resources ::
    "codec_ops \<Rightarrow> EnvoyResources \<Rightarrow> Serialization \<Rightarrow> goerror + Resource list" where
  "EnvoyResources_Resources d inp serialization =
     (let rs = map (\<lambda>(t, r). EnvoyResource_Resource d r t serialization) (typed_resources inp);
          errList = errors_of rs
      in if length errList > 0 then Inl (NewMultiError errList)
         else Inr (ok_values rs @ secret_resources (Secrets inp)))"

definition GetSecretKey :: "EnvoySecretResource \<Rightarrow> string \<Rightarrow> NamespacedName" where
  "GetSecretKey esr namespace =
     (case esrRef esr of
        Some ref \<Rightarrow> (namespace, srName ref)
      | None \<Rightarrow> (namespace, esrName esr))"

definition EnvoySecretResource_Validate :: "EnvoySecretResource \<Rightarrow> string \<Rightarrow> goerror option" where
  "EnvoySecretResource_Validate esr namespace =
     (case esrRef esr of
        None \<Rightarrow> None
      | Some ref \<Rightarrow>
          (if srName ref = [] then
             Some (PlainError (quoted ''*v1alpha1.EnvoySecretResource.ref.name'' @ '' cannot be empty''))
           else if srNamespace ref \<noteq> [] \<and> srNamespace ref \<noteq> namespace then
             Some (PlainError (''only Secrets from the same namespace '' @ quoted namespace
                               @ '' can be referred''))
           else None))"

section \<open>EnvoyConfig\<close>

definition CacheOutOfSyncCondition :: string where "CacheOutOfSyncCondition = ''CacheOutOfSync''"
definition RollbackFailedCondition :: string where "RollbackFailedCondition = ''RollbackFailed''"
definition InSyncState :: string where "InSyncState = ''InSync''"
definition RollbackState :: string where "RollbackState = ''Rollback''"
definition RollbackFailedState :: string where "RollbackFailedState = ''RollbackFailed''"

lemma cache_state_distinct [simp]:
  "InSyncState \<noteq> RollbackState" "InSyncState \<noteq> RollbackFailedState" "RollbackState \<noteq> RollbackFailedState"
  "RollbackState \<noteq> InSyncState" "RollbackFailedState \<noteq> InSyncState" "RollbackFailedState \<noteq> RollbackState"
  by (simp_all add: InSyncState_def RollbackState_def RollbackFailedState_def)

lemma config_condition_distinct [simp]:
  "CacheOutOfSyncCondition \<noteq> RollbackFailedCondition"
  "RollbackFailedCondition \<noteq> CacheOutOfSyncCondition"
  by (simp_all add: CacheOutOfSyncCondition_def RollbackFailedCondition_def)

record ObjectReference =
  refAPIVersion :: string
  refKind :: string
  refName :: string
  refNamespace :: string
  refUID :: string

record ConfigRevisionRef =
  crrVersion :: string
  crrRef :: ObjectReference

record EnvoyConfigSpec =
  ecNodeID :: string
  ecSerialization :: "Serialization option"
  ecEnvoyAPI :: "APIVersion option"
  ecEnvoyResources :: "EnvoyResources option"
  ecResources :: "Resource list option"

record EnvoyConfigStatus =
  ecCacheState :: "string option"
  ecPublishedVersion :: "string option"
  ecDesiredVersion :: "string option"
  ecConditions :: "Condition list option"
  ecConfigRevisions :: "ConfigRevisionRef list option"

record EnvoyConfig =
  ecMeta :: ObjectMeta
  ecSpec :: EnvoyConfigSpec
  ecStatus :: EnvoyConfigStatus

definition EC_GetEnvoyAPIVersion :: "EnvoyConfig \<Rightarrow> APIVersion" where
  "EC_GetEnvoyAPIVersion ec = (case ecEnvoyAPI (ecSpec ec) of None \<Rightarrow> APIv3 | Some v \<Rightarrow> v)"

definition EC_GetSerialization :: "EnvoyConfig \<Rightarrow> Serialization" where
  "EC_GetSerialization ec = (case ecSerialization (ecSpec ec) of None \<Rightarrow> JSON | Some s \<Rightarrow> s)"

type_synonym resources_hash = "Resource list option \<Rightarrow> string"

definition GetEnvoyResourcesVersion :: "resources_hash \<Rightarrow> EnvoyConfig \<Rightarrow> string" where
  "GetEnvoyResourcesVersion hash ec = hash (ecResources (ecSpec ec))"

definition EC_Default :: "EnvoyConfig \<Rightarrow> EnvoyConfig" where
  "EC_Default ec =
     (if ecEnvoyAPI (ecSpec ec) = None
      then ec\<lparr> ecSpec := (ecSpec ec)\<lparr> ecEnvoyAPI := Some (EC_GetEnvoyAPIVersion ec) \<rparr> \<rparr>
      else ec)"

section \<open>EnvoyConfigRevision\<close>

definition RevisionPublishedCondition :: string where "RevisionPublishedCondition = ''RevisionPublished''"
definition ResourcesInSyncCondition :: string where "ResourcesInSyncCondition = ''ResourcesInSync''"
definition RevisionTaintedCondition :: string where "RevisionTaintedCondition = ''RevisionTainted''"
definition EnvoyConfigRevisionFinalizer :: string where
  "EnvoyConfigRevisionFinalizer = ''finalizer.marin3r.3scale.net''"

lemma revision_condition_distinct [simp]:
  "RevisionPublishedCondition \<noteq> ResourcesInSyncCondition"
  "RevisionPublishedCondition \<noteq> RevisionTaintedCondition"
  "ResourcesInSyncCondition \<noteq> RevisionPublishedCondition"
  "ResourcesInSyncCondition \<noteq> RevisionTaintedCondition"
  "RevisionTaintedCondition \<noteq> RevisionPublishedCondition"
  "RevisionTaintedCondition \<noteq> ResourcesInSyncCondition"
  by (simp_all add: RevisionPublishedCondition_def ResourcesInSyncCondition_def RevisionTaintedCondition_def)

record VersionTracker =
  vtEndpoints :: string
  vtClusters :: string
  vtRoutes :: string
  vtScopedRoutes :: string
  vtListeners :: string
  vtSecrets :: string
  vtRuntimes :: string
  vtExtensionConfigs :: string

record EnvoyConfigRevisionSpec =
  ecrNodeID :: string
  ecrVersion :: string
  ecrEnvoyAPI :: "APIVersion option"
  ecrSerialization :: "Serialization option"
  ecrEnvoyResources :: "EnvoyResources option"
  ecrResources :: "Resource list option"

record EnvoyConfigRevisionStatus =
  ecrPublished :: "bool option"
  ecrProvidesVersions :: "VersionTracker option"
  ecrLastPublishedAt :: "Time option"
  ecrTainted :: "bool option"
  ecrConditions :: "Condition list"

record EnvoyConfigRevision =
  ecrAPIVersion :: string
  ecrKind :: string
  ecrMeta :: ObjectMeta
  ecrSpec :: EnvoyConfigRevisionSpec
  ecrStatus :: EnvoyConfigRevisionStatus

definition empty_revision_status :: EnvoyConfigRevisionStatus where
  "empty_revision_status = \<lparr> ecrPublished = None, ecrProvidesVersions = None,
     ecrLastPublishedAt = None, ecrTainted = None, ecrConditions = [] \<rparr>"

definition IsPublished :: "EnvoyConfigRevisionStatus \<Rightarrow> bool" where
  "IsPublished status = (case ecrPublished status of None \<Rightarrow> False | Some b \<Rightarrow> b)"

definition IsTainted :: "EnvoyConfigRevisionStatus \<Rightarrow> bool" where
  "IsTainted status = (case ecrTainted status of None \<Rightarrow> False | Some b \<Rightarrow> b)"

definition ECR_GetEnvoyAPIVersion :: "EnvoyConfigRevision \<Rightarrow> APIVersion" where
  "ECR_GetEnvoyAPIVersion ecr = (case ecrEnvoyAPI (ecrSpec ecr) of None \<Rightarrow> APIv3 | Some v \<Rightarrow> v)"

definition ECR_GetSerialization :: "EnvoyConfigRevision \<Rightarrow> Serialization" where
  "ECR_GetSerialization ecr = (case ecrSerialization (ecrSpec ecr) of None \<Rightarrow> JSON | Some s \<Rightarrow> s)"

definition ECR_Default :: "EnvoyConfigRevision \<Rightarrow> EnvoyConfigRevision" where
  "ECR_Default ecr =
     (if ecrEnvoyAPI (ecrSpec ecr) = None
      then ecr\<lparr> ecrSpec := (ecrSpec ecr)\<lparr> ecrEnvoyAPI := Some (ECR_GetEnvoyAPIVersion ecr) \<rparr> \<rparr>
      else ecr)"

text \<open>The two views of a revision's conditions that the reconcilers use.\<close>

abbreviation published_true :: "meta_ops \<Rightarrow> EnvoyConfigRevision \<Rightarrow> bool" where
  "published_true m e \<equiv> IsStatusConditionTrue m (ecrConditions (ecrStatus e)) RevisionPublishedCondition"

abbreviation tainted_true :: "meta_ops \<Rightarrow> EnvoyConfigRevision \<Rightarrow> bool" where
  "tainted_true m e \<equiv> IsStatusConditionTrue m (ecrConditions (ecrStatus e)) RevisionTaintedCondition"

section \<open>Lemmas\<close>

lemma EC_Default_idem [simp]: "EC_Default (EC_Default ec) = EC_Default ec"
  by (simp add: EC_Default_def)

lemma EC_Default_version [api_simps]:
  "EC_GetEnvoyAPIVersion (EC_Default ec) = EC_GetEnvoyAPIVersion ec"
  by (simp add: EC_Default_def EC_GetEnvoyAPIVersion_def)

lemma EC_Default_hash [api_simps]:
  "GetEnvoyResourcesVersion h (EC_Default ec) = GetEnvoyResourcesVersion h ec"
  by (simp add: EC_Default_def GetEnvoyResourcesVersion_def)

lemma length_ok_values: "errors_of rs = [] \<Longrightarrow> length (ok_values rs) = length rs"
  by (induction rs rule: ok_values.induct) auto

lemma ok_values_map:
  "errors_of (map f xs) = [] \<Longrightarrow> map Inr (ok_values (map f xs)) = map f xs"
proof (induction xs)
  case (Cons x xs)
  then show ?case by (cases "f x") auto
qed simp

lemma secret_resources_nth [simp]:
  "i < length ss \<Longrightarrow> resGenerateFromTlsSecret (secret_resources ss ! i) = Some (esrName (last ss))"
  by (simp add: secret_resources_def)

lemma length_secret_resources [simp]: "length (secret_resources ss) = length ss"
  by (simp add: secret_resources_def)

end
