(* ===== verification/EnvoyConfigWebhook.thy ===== *)
theory EnvoyConfigWebhook
  imports ApiMarin3r
begin

text \<open>
  The validating webhook of \<open>EnvoyConfig\<close> (\<open>envoyconfig_webhook.go\<close>): the admission
  entry points, \<open>Validate\<close>, and the two validators it dispatches to. Each validator
  appends to an error list and returns it as one \<open>MultiError\<close>; \<open>None\<close> is the nil
  error, that is, the object is admitted. A panic of the deserialiser is not an entry of
  the list: it ends the call (\<open>collect_errors\<close>).
\<close>

definition is_panic :: "goerror \<Rightarrow> bool" where
  "is_panic e = (case e of Panic _ \<Rightarrow> True | _ \<Rightarrow> False)"

definition collect_errors :: "goerror list \<Rightarrow> goerror option" where
  "collect_errors errList =
     (case find is_panic errList of
        Some p \<Rightarrow> Some p
      | None \<Rightarrow> if length errList > 0 then Some (NewMultiError errList) else None)"

definition opt_list :: "'a option \<Rightarrow> 'a list" where
  "opt_list x = (case x of None \<Rightarrow> [] | Some v \<Rightarrow> [v])"

definition validate_value :: "codec_ops \<Rightarrow> EnvoyConfig \<Rightarrow> Resource \<Rightarrow> goerror list" where
  "validate_value d r res =
     (case resValue res of
        None \<Rightarrow> []
      | Some raw \<Rightarrow> opt_list (ResourceValidate d raw JSON (EC_GetEnvoyAPIVersion r) (resType res)))"

text \<open>The body of the loop of \<open>ValidateResources\<close>, one case per branch of the switch.\<close>

definition validate_secret :: "Resource \<Rightarrow> goerror list" where
  "validate_secret res =
     (if resGenerateFromTlsSecret res = None \<and> resGenerateFromOpaqueSecret res = None then
        [PlainError (''one of '' @ quoted ''generateFromTlsSecret'' @ '', '' @ quoted ''generateFromOpaqueSecret''
                     @ '' must be set for type '' @ quoted (type_string Secret))] else []) @
     (if resValue res \<noteq> None then
        [PlainError (quoted ''value'' @ '' cannot be used for type '' @ quoted (type_string Secret))] else []) @
     (if resGenerateFromEndpointSlices res \<noteq> None then
        [PlainError (quoted ''generateFromEndpointSlice'' @ '' can only be used type ''
                     @ quoted (type_string Endpoint))] else [])"

definition validate_endpoint :: "codec_ops \<Rightarrow> EnvoyConfig \<Rightarrow> Resource \<Rightarrow> goerror list" where
  "validate_endpoint d r res =
     (if resGenerateFromEndpointSlices res \<noteq> None \<and> resValue res \<noteq> None then
        [PlainError (''only one of '' @ quoted ''generateFromEndpointSlice'' @ '', '' @ quoted ''value''
                     @ '' allowed for type '' @ quoted (type_string Secret))] else []) @
     (if resGenerateFromEndpointSlices res = None \<and> resValue res = None then
        [PlainError (''one of '' @ quoted ''generateFromEndpointSlice'' @ '', '' @ quoted ''value''
                     @ '' must be set for type '' @ quoted (type_string Secret))] else []) @
     validate_value d r res @
     (if resGenerateFromTlsSecret res \<noteq> None then
        [PlainError (quoted ''generateFromTlsSecret'' @ '' can only be used type ''
                     @ quoted (type_string Secret))] else []) @
     (if resBlueprint res \<noteq> None then
        [PlainError (quoted ''blueprint'' @ '' can only be used type '' @ quoted (type_string Secret))] else [])"

definition validate_default :: "codec_ops \<Rightarrow> EnvoyConfig \<Rightarrow> Resource \<Rightarrow> goerror list" where
  "validate_default d r res =
     (if resGenerateFromEndpointSlices res \<noteq> None then
        [PlainError (quoted ''generateFromEndpointSlice'' @ '' can only be used type ''
                     @ quoted (type_string Endpoint))] else []) @
     (if resGenerateFromTlsSecret res \<noteq> None then
        [PlainError (quoted ''generateFromTlsSecret'' @ '' can only be used type ''
                     @ quoted (type_string Secret))] else []) @
     (if resBlueprint res \<noteq> None then
        [PlainError (quoted ''blueprint'' @ '' cannot be empty for type '' @ quoted (type_string Secret))] else []) @
     (if resValue res \<noteq> None then validate_value d r res
      else [PlainError (quoted ''value'' @ '' cannot be empty for type '' @ quoted (type_string (resType res)))])"

definition validate_resource :: "codec_ops \<Rightarrow> EnvoyConfig \<Rightarrow> Resource \<Rightarrow> goerror list" where
  "validate_resource d r res =
     (case resType res of
        Secret \<Rightarrow> validate_secret res
      | Endpoint \<Rightarrow> validate_endpoint d r res
      | _ \<Rightarrow> validate_default d r res)"

definition ValidateResources :: "codec_ops \<Rightarrow> EnvoyConfig \<Rightarrow> goerror option" where
  "ValidateResources d r =
     collect_errors (concat (map (validate_resource d r) (resource_list (ecResources (ecSpec r)))))"

text \<open>The code dereferences \<open>Spec.EnvoyResources\<close> unconditionally: nil panics.\<close>

definition ValidateEnvoyResources :: "codec_ops \<Rightarrow> EnvoyConfig \<Rightarrow> goerror option" where
  "ValidateEnvoyResources d r =
     (case ecEnvoyResources (ecSpec r) of
        None \<Rightarrow> Some (Panic ''nil pointer dereference'')
      | Some er \<Rightarrow>
          (let check = (\<lambda>t res. opt_list (ResourceValidate d (erValue res) (EC_GetSerialization r)
                                            (EC_GetEnvoyAPIVersion r) t))
           in collect_errors
                (concat (map (check Endpoint) (Endpoints er)) @
                 concat (map (check Cluster) (Clusters er)) @
                 concat (map (check Route) (Routes er)) @
                 concat (map (check ScopedRoute) (ScopedRoutes er)) @
                 concat (map (check Listener) (Listeners er)) @
                 concat (map (check Runtime) (Runtimes er)) @
                 concat (map (\<lambda>s. opt_list (EnvoySecretResource_Validate s (Namespace (ecMeta r)))) (Secrets er)))))"

definition Validate :: "codec_ops \<Rightarrow> EnvoyConfig \<Rightarrow> goerror option" where
  "Validate d r =
     (let spec = ecSpec r in
      if (ecEnvoyResources spec = None \<and> ecResources spec = None)
         \<or> (ecEnvoyResources spec \<noteq> None \<and> ecResources spec \<noteq> None) then
        Some (PlainError (''one and only one of '' @ quoted ''spec.EnvoyResources'' @ '', ''
                          @ quoted ''spec.Resources'' @ '' must be set''))
      else if ecEnvoyResources spec \<noteq> None then ValidateEnvoyResources d r
      else ValidateResources d r)"

definition ValidateCreate :: "codec_ops \<Rightarrow> EnvoyConfig \<Rightarrow> goerror option" where
  "ValidateCreate d r = Validate d r"

definition ValidateUpdate :: "codec_ops \<Rightarrow> EnvoyConfig \<Rightarrow> EnvoyConfig \<Rightarrow> goerror option" where
  "ValidateUpdate d r old = Validate d r"

definition ValidateDelete :: "EnvoyConfig \<Rightarrow> goerror option" where
  "ValidateDelete r = None"

section \<open>What is admitted\<close>

lemma collect_errors_None_iff [simp]: "collect_errors es = None \<longleftrightarrow> es = []"
  by (cases es) (auto simp: collect_errors_def split: option.splits)

lemma opt_list_Nil_iff [simp]: "opt_list x = [] \<longleftrightarrow> x = None"
  by (cases x) (auto simp: opt_list_def)

text \<open>The rule a resource of the current format has to meet, by type.\<close>

definition resource_ok :: "codec_ops \<Rightarrow> Resource \<Rightarrow> bool" where
  "resource_ok d res =
     (case resType res of
        Secret \<Rightarrow>
          (resGenerateFromTlsSecret res \<noteq> None \<or> resGenerateFromOpaqueSecret res \<noteq> None)
          \<and> resValue res = None \<and> resGenerateFromEndpointSlices res = None
      | Endpoint \<Rightarrow>
          resGenerateFromTlsSecret res = None \<and> resBlueprint res = None \<and>
          (case resValue res of
             None \<Rightarrow> resGenerateFromEndpointSlices res \<noteq> None
           | Some raw \<Rightarrow> resGenerateFromEndpointSlices res = None
                        \<and> \<not> is_error (protojson_Unmarshal d raw Endpoint))
      | t \<Rightarrow>
          resGenerateFromTlsSecret res = None \<and> resBlueprint res = None
          \<and> resGenerateFromEndpointSlices res = None \<and> Generator_New t \<noteq> None \<and>
          (case resValue res of
             None \<Rightarrow> False
           | Some raw \<Rightarrow> \<not> is_error (protojson_Unmarshal d raw t)))"

lemma Generator_New_cases: "Generator_New t = None \<or> Generator_New t = Some (EmptyMessage t)"
  by (cases t) (auto simp: Generator_New_def)

lemma ResourceValidate_JSON_iff:
  "ResourceValidate d s JSON v t = None \<longleftrightarrow>
     Generator_New t \<noteq> None \<and> \<not> is_error (protojson_Unmarshal d s t)"
proof (cases "Generator_New t")
  case None
  then show ?thesis by (simp add: ResourceValidate_def Unmarshal_def JSON_Unmarshal_def)
next
  case (Some msg)
  with Generator_New_cases [of t] show ?thesis by (simp add: ResourceValidate_JSON_ok_iff)
qed

lemma validate_value_Nil_iff:
  "validate_value d r res = [] \<longleftrightarrow>
     (\<forall>raw. resValue res = Some raw \<longrightarrow>
        Generator_New (resType res) \<noteq> None \<and> \<not> is_error (protojson_Unmarshal d raw (resType res)))"
  by (auto simp: validate_value_def ResourceValidate_JSON_iff split: option.splits)

lemma validate_secret_Nil_iff:
  "resType res = Secret \<Longrightarrow> validate_secret res = [] \<longleftrightarrow> resource_ok d res"
  by (auto simp: validate_secret_def resource_ok_def)

lemma validate_endpoint_Nil_iff:
  "resType res = Endpoint \<Longrightarrow> validate_endpoint d r res = [] \<longleftrightarrow> resource_ok d res"
  by (cases "resValue res")
    (auto simp: validate_endpoint_def resource_ok_def validate_value_Nil_iff Generator_New_def)

lemma validate_default_Nil_iff:
  "resType res \<noteq> Secret \<Longrightarrow> resType res \<noteq> Endpoint \<Longrightarrow>
   validate_default d r res = [] \<longleftrightarrow> resource_ok d res"
  by (cases "resType res"; cases "resValue res")
    (auto simp: validate_default_def resource_ok_def validate_value_Nil_iff)

lemma validate_resource_Nil_iff: "validate_resource d r res = [] \<longleftrightarrow> resource_ok d res"
  using validate_secret_Nil_iff [of res d] validate_endpoint_Nil_iff [of res d r]
    validate_default_Nil_iff [of res d r]
  by (cases "resType res") (auto simp: validate_resource_def)

lemma ValidateResources_None_iff:
  "ValidateResources d r = None \<longleftrightarrow> (\<forall>res \<in> set (resource_list (ecResources (ecSpec r))). resource_ok d res)"
  by (simp add: ValidateResources_def validate_resource_Nil_iff)

lemma ValidateEnvoyResources_None_iff:
  assumes "ecEnvoyResources (ecSpec r) = Some er"
  shows "ValidateEnvoyResources d r = None \<longleftrightarrow>
     (\<forall>(t, res) \<in> set (typed_resources (er\<lparr> ExtensionConfigs := [] \<rparr>)).
        ResourceValidate d (erValue res) (EC_GetSerialization r) (EC_GetEnvoyAPIVersion r) t = None) \<and>
     (\<forall>s \<in> set (Secrets er). EnvoySecretResource_Validate s (Namespace (ecMeta r)) = None)"
  by (auto simp: ValidateEnvoyResources_def assms typed_resources_def Let_def)

lemma ResourceValidate_JSON_no_panic:
  "ResourceValidate d s JSON v t = Some e \<Longrightarrow> \<not> is_panic e"
  by (auto simp: ResourceValidate_def Unmarshal_def JSON_Unmarshal_def is_panic_def
      split: option.splits Message.splits sum.splits)

lemma validate_value_no_panic: "e \<in> set (validate_value d r res) \<Longrightarrow> \<not> is_panic e"
  by (auto simp: validate_value_def opt_list_def dest: sym [THEN ResourceValidate_JSON_no_panic] split: option.splits)

lemma is_panic_PlainError [simp]: "\<not> is_panic (PlainError s)"
  by (simp add: is_panic_def)

lemma validate_resource_no_panic: "e \<in> set (validate_resource d r res) \<Longrightarrow> \<not> is_panic e"
  by (cases "resType res")
    (auto simp: validate_resource_def validate_secret_def validate_endpoint_def validate_default_def
      dest: validate_value_no_panic split: if_splits)

section \<open>Properties\<close>

text \<open>(C10) The webhook admits an \<open>EnvoyConfig\<close> exactly when one and only one of the
  two resource fields is set and every resource in it meets the rule for its type: a
  secret is generated from a Kubernetes secret and from nothing else, an endpoint has
  either a value that decodes or a selector of endpoint slices, any other type has a value
  that decodes and none of the generators. In the deprecated format every value decodes
  (extension configs are not looked at) and secrets refer to the object's namespace.\<close>

theorem Validate_admits_iff:
  "Validate d r = None \<longleftrightarrow>
     (case (ecEnvoyResources (ecSpec r), ecResources (ecSpec r)) of
        (None, Some rs) \<Rightarrow> list_all (resource_ok d) rs
      | (Some er, None) \<Rightarrow>
          list_all (\<lambda>(t, res). ResourceValidate d (erValue res) (EC_GetSerialization r)
                                (EC_GetEnvoyAPIVersion r) t = None)
            (typed_resources (er\<lparr> ExtensionConfigs := [] \<rparr>)) \<and>
          list_all (\<lambda>s. EnvoySecretResource_Validate s (Namespace (ecMeta r)) = None) (Secrets er)
      | _ \<Rightarrow> False)"
  by (auto simp: Validate_def ValidateResources_None_iff ValidateEnvoyResources_None_iff
      resource_list_def list_all_iff split: option.splits)

text \<open>Validating an object of the current format never panics, whatever its
  types and values are: the answer is the error list of the resources, in their order and
  all in one \<open>MultiError\<close>, and no answer when the list is empty.\<close>

theorem Validate_reports_all_errors:
  assumes "ecEnvoyResources (ecSpec r) = None" "ecResources (ecSpec r) = Some rs"
  shows "Validate d r =
           (let errs = concat (map (validate_resource d r) rs)
            in if errs = [] then None else Some (NewMultiError errs))"
proof -
  have "find is_panic (concat (map (validate_resource d r) rs)) = None"
    using validate_resource_no_panic by (auto simp: find_None_iff)
  then show ?thesis
    using assms by (auto simp: Validate_def ValidateResources_def resource_list_def collect_errors_def Let_def)
qed

theorem Validate_reports_all_errors_witness:
  "\<exists>r rs d. ecEnvoyResources (ecSpec r) = None \<and> ecResources (ecSpec r) = Some rs \<and>
     Validate d r = Some (NewMultiError
       [PlainError (quoted ''value'' @ '' cannot be empty for type '' @ quoted ''cluster''),
        PlainError (quoted ''value'' @ '' cannot be empty for type '' @ quoted ''route'')])"
proof -
  define r where "r = \<lparr> ecMeta = empty_meta,
     ecSpec = \<lparr> ecNodeID = ''node'', ecSerialization = None, ecEnvoyAPI = None, ecEnvoyResources = None,
                ecResources = Some [mkResource Cluster, mkResource Route] \<rparr>,
     ecStatus = \<lparr> ecCacheState = None, ecPublishedVersion = None, ecDesiredVersion = None,
                  ecConditions = None, ecConfigRevisions = None \<rparr> \<rparr>"
  define d where "d = \<lparr> protojson_Unmarshal = \<lambda>s t. Inr s, YAMLToJSON = Inr \<rparr>"
  have "Validate d r = Some (NewMultiError
       [PlainError (quoted ''value'' @ '' cannot be empty for type '' @ quoted ''cluster''),
        PlainError (quoted ''value'' @ '' cannot be empty for type '' @ quoted ''route'')])"
    using Validate_reports_all_errors [of r "[mkResource Cluster, mkResource Route]" d]
    by (simp add: r_def mkResource_def validate_resource_def validate_default_def Let_def)
  then show ?thesis
    by (intro exI [of _ r] exI [of _ "[mkResource Cluster, mkResource Route]"] exI [of _ d])
      (simp add: r_def)
qed

end
