(* ===== verification/Stats.thy ===== *)
theory Stats
  imports Meta Complex_Main "HOL-Library.Word"
begin

text \<open>
  The discovery statistics, \<open>pkg/discoveryservice/xdss/stats\<close>: keys and the typed access
  to the store (\<open>kv.go\<close>), the reports of the xDS callbacks and the failure percentage
  (\<open>stats.go\<close>), the pod garbage collector and the Prometheus collector.

  The store is \<open>github.com/patrickmn/go-cache\<close>, a parameter: \<open>kv_ops\<close> has the calls
  the program makes, over a store state \<open>'st\<close> that includes the current time, and the
  locale \<open>kv_cache\<close> has what its documentation promises. \<open>kv_list\<close> is a concrete
  store with expiring items, on which the locale is interpreted. A Go map that is only
  ranged over is a list without repeated keys; Go leaves the order open, and the properties
  below hold for every order. A counter is an \<open>int64\<close>, a \<open>64 word\<close> that wraps.
\<close>

section \<open>The key-value store\<close>

datatype kv_value = StringValue string | Int64Value "64 word"

text \<open>Durations are in nanoseconds; \<open>0\<close> is \<open>DefaultExpiration\<close>, which the program
  configures as no expiration.\<close>

definition defaultExpiration :: int where "defaultExpiration = 0"
definition Second :: int where "Second = 1000000000"
definition Millisecond :: int where "Millisecond = 1000000"

record 'st kv_ops =
  kv_Get :: "'st \<Rightarrow> string \<Rightarrow> kv_value option"
  kv_Set :: "'st \<Rightarrow> string \<Rightarrow> kv_value \<Rightarrow> int \<Rightarrow> 'st"
  kv_Delete :: "'st \<Rightarrow> string \<Rightarrow> 'st"
  kv_Items :: "'st \<Rightarrow> (string \<times> kv_value) list"

definition kv_SetDefault :: "'st kv_ops \<Rightarrow> 'st \<Rightarrow> string \<Rightarrow> kv_value \<Rightarrow> 'st" where
  "kv_SetDefault k st key v = kv_Set k st key v defaultExpiration"

locale kv_cache =
  fixes k :: "'st kv_ops"
  assumes get_set: "0 \<le> d \<Longrightarrow>
      kv_Get k (kv_Set k st key v d) x = (if x = key then Some v else kv_Get k st x)"
    and get_delete: "kv_Get k (kv_Delete k st key) x = (if x = key then None else kv_Get k st x)"
    and items_get: "map_of (kv_Items k st) x = kv_Get k st x"
    and items_distinct: "distinct (map fst (kv_Items k st))"
begin

lemma get_setDefault [stats_simps]:
  "kv_Get k (kv_SetDefault k st key v) x = (if x = key then Some v else kv_Get k st x)"
  by (simp add: kv_SetDefault_def defaultExpiration_def get_set)

lemma in_items_iff: "(x, v) \<in> set (kv_Items k st) \<longleftrightarrow> kv_Get k st x = Some v"
  using items_distinct items_get by (metis map_of_eq_Some_iff)

lemma get_deletes:
  "kv_Get k (foldl (kv_Delete k) st ks) x = (if x \<in> set ks then None else kv_Get k st x)"
  by (induction ks arbitrary: st) (auto simp: get_delete)

end

section \<open>Keys\<close>

record Key =
  NodeID :: string
  ResourceType :: string
  Version :: string
  PodID :: string
  StatName :: string

definition NewKey :: "string \<Rightarrow> string \<Rightarrow> string \<Rightarrow> string \<Rightarrow> string \<Rightarrow> Key" where
  "NewKey nodeID rType version podID statName =
     \<lparr> NodeID = nodeID, ResourceType = rType, Version = version, PodID = podID, StatName = statName \<rparr>"

text \<open>Indexing past the end of the parts panics; slicing from 4 is allowed up to the end.\<close>

definition NewKeyFromString :: "string \<Rightarrow> goerror + Key" where
  "NewKeyFromString key =
     (let values = Split key (CHR '':'') in
      if length values < 4 then Inl (Panic ''index out of range'')
      else Inr (NewKey (values ! 0) (values ! 1) (values ! 2) (values ! 3)
                  (Join (drop 4 values) '':'')))"

definition Key_String :: "Key \<Rightarrow> string" where
  "Key_String k = Join [NodeID k, ResourceType k, Version k, PodID k, StatName k] '':''"

definition key_string :: "string \<Rightarrow> string \<Rightarrow> string \<Rightarrow> string \<Rightarrow> string \<Rightarrow> string" where
  "key_string nodeID rType version podID statName = Key_String (NewKey nodeID rType version podID statName)"

section \<open>Typed access\<close>

definition GetString ::
    "'st kv_ops \<Rightarrow> 'st \<Rightarrow> string \<Rightarrow> string \<Rightarrow> string \<Rightarrow> string \<Rightarrow> string \<Rightarrow> goerror + string" where
  "GetString k st nodeID rtype version podID statName =
     (let key = key_string nodeID rtype version podID statName in
      case kv_Get k st key of
        Some (StringValue v) \<Rightarrow> Inr v
      | Some _ \<Rightarrow> Inl (PlainError (''value of key '' @ quoted key @ '' is not a string''))
      | None \<Rightarrow> Inl (PlainError (''key '' @ key @ '' not found'')))"

definition SetString ::
    "'st kv_ops \<Rightarrow> 'st \<Rightarrow> string \<Rightarrow> string \<Rightarrow> string \<Rightarrow> string \<Rightarrow> string \<Rightarrow> string \<Rightarrow> 'st" where
  "SetString k st nodeID rType version podID statName value =
     kv_SetDefault k st (key_string nodeID rType version podID statName) (StringValue value)"

definition SetStringWithExpiration ::
    "'st kv_ops \<Rightarrow> 'st \<Rightarrow> string \<Rightarrow> string \<Rightarrow> string \<Rightarrow> string \<Rightarrow> string \<Rightarrow> string \<Rightarrow> int \<Rightarrow> 'st" where
  "SetStringWithExpiration k st nodeID rType version podID statName value expiration =
     kv_Set k st (key_string nodeID rType version podID statName) (StringValue value) expiration"

definition SetInt64 ::
    "'st kv_ops \<Rightarrow> 'st \<Rightarrow> string \<Rightarrow> string \<Rightarrow> string \<Rightarrow> string \<Rightarrow> string \<Rightarrow> 64 word \<Rightarrow> 'st" where
  "SetInt64 k st nodeID rType version podID statName value =
     kv_SetDefault k st (key_string nodeID rType version podID statName) (Int64Value value)"

definition GetCounter ::
    "'st kv_ops \<Rightarrow> 'st \<Rightarrow> string \<Rightarrow> string \<Rightarrow> string \<Rightarrow> string \<Rightarrow> string \<Rightarrow> goerror + 64 word" where
  "GetCounter k st nodeID rtype version podID statName =
     (let key = key_string nodeID rtype version podID statName in
      case kv_Get k st key of
        Some (Int64Value v) \<Rightarrow> Inr v
      | Some _ \<Rightarrow> Inl (PlainError (''value of key '' @ quoted key @ '' is not an int''))
      | None \<Rightarrow> Inl (PlainError (''key '' @ key @ '' not found'')))"

text \<open>The callers that ignore the error read the zero that comes with it.\<close>

definition counter_or_zero :: "goerror + 64 word \<Rightarrow> 64 word" where
  "counter_or_zero r = (case r of Inl _ \<Rightarrow> 0 | Inr v \<Rightarrow> v)"

definition IncrementCounter ::
    "'st kv_ops \<Rightarrow> 'st \<Rightarrow> string \<Rightarrow> string \<Rightarrow> string \<Rightarrow> string \<Rightarrow> string \<Rightarrow> 64 word \<Rightarrow> 'st" where
  "IncrementCounter k st nodeID rType version podID statName increment =
     (let counter = counter_or_zero (GetCounter k st nodeID rType version podID statName)
      in kv_SetDefault k st (key_string nodeID rType version podID statName)
           (Int64Value (counter + increment)))"

definition FilterKeys :: "'st kv_ops \<Rightarrow> 'st \<Rightarrow> string list \<Rightarrow> (string \<times> kv_value) list" where
  "FilterKeys k st filters =
     filter (\<lambda>(key, value). list_all (Contains key) filters) (kv_Items k st)"

definition DeleteKeysByFilter :: "'st kv_ops \<Rightarrow> 'st \<Rightarrow> string list \<Rightarrow> 'st" where
  "DeleteKeysByFilter k st filters = foldl (kv_Delete k) st (map fst (FilterKeys k st filters))"

definition DumpAll :: "'st kv_ops \<Rightarrow> 'st \<Rightarrow> (string \<times> kv_value) list" where
  "DumpAll k st = kv_Items k st"

section \<open>Reports\<close>

definition WriteResponseNonce ::
    "'st kv_ops \<Rightarrow> 'st \<Rightarrow> string \<Rightarrow> string \<Rightarrow> string \<Rightarrow> string \<Rightarrow> string \<Rightarrow> 'st" where
  "WriteResponseNonce k st nodeID rType version podID nonce =
     SetStringWithExpiration k st nodeID rType version podID (''nonce:'' @ nonce) [] (10 * Second)"

definition ReportNACK ::
    "'st kv_ops \<Rightarrow> 'st \<Rightarrow> string \<Rightarrow> string \<Rightarrow> string \<Rightarrow> string \<Rightarrow> 'st \<times> (goerror + 64 word)" where
  "ReportNACK k st nodeID rType podID nonce =
     (case FilterKeys k st [nodeID, rType, podID, ''nonce:'' @ nonce] of
        [(key, _)] \<Rightarrow>
          (case NewKeyFromString key of
             Inl p \<Rightarrow> (st, Inl p)
           | Inr ky \<Rightarrow>
               (let version = Version ky;
                    st1 = IncrementCounter k st nodeID rType version podID ''nack_counter'' 1;
                    st2 = IncrementCounter k st1 nodeID rType ''*'' podID ''nack_counter'' 1
                in (st2, GetCounter k st2 nodeID rType version podID ''nack_counter'')))
      | _ \<Rightarrow> (st, Inl (PlainError ''error reporting failure: unexpected number of nonces in the cache'')))"

definition ReportACK ::
    "'st kv_ops \<Rightarrow> 'st \<Rightarrow> 64 word \<Rightarrow> string \<Rightarrow> string \<Rightarrow> string \<Rightarrow> string \<Rightarrow> 'st" where
  "ReportACK k st now_milli nodeID rType version podID =
     (let st1 = IncrementCounter k st nodeID rType version podID ''ack_counter'' 1;
          st2 = IncrementCounter k st1 nodeID rType ''*'' podID ''ack_counter'' 1
      in SetInt64 k st2 nodeID rType version podID ''info'' now_milli)"

definition ReportRequest :: "'st kv_ops \<Rightarrow> 'st \<Rightarrow> string \<Rightarrow> string \<Rightarrow> string \<Rightarrow> 'st" where
  "ReportRequest k st nodeID rType podID =
     IncrementCounter k st nodeID rType ''*'' podID ''request_counter'' 1"

text \<open>Metadata values are arbitrary JSON values; only strings matter here.\<close>

datatype meta_value = MetaString string | MetaOther

definition GetStringValueFromMetadata :: "(string \<times> meta_value) list \<Rightarrow> string \<Rightarrow> goerror + string" where
  "GetStringValueFromMetadata mt key =
     (case map_of mt key of
        None \<Rightarrow> Inl (PlainError (''missing '' @ quoted ''pod_name'' @ '' in node'' @ [CHR 39] @ ''s metadata''))
      | Some (MetaString s) \<Rightarrow> Inr s
      | Some MetaOther \<Rightarrow> Inl (PlainError ''metadata value is not a string''))"

section \<open>Failure percentage\<close>

fun parse_keys :: "string list \<Rightarrow> goerror + Key list" where
  "parse_keys [] = Inr []"
| "parse_keys (s # ss) =
     (case NewKeyFromString s of
        Inl p \<Rightarrow> Inl p
      | Inr ky \<Rightarrow> (case parse_keys ss of Inl p \<Rightarrow> Inl p | Inr kys \<Rightarrow> Inr (ky # kys)))"

text \<open>The keys of the returned map; its values are all 1 and never read.\<close>

definition GetSubscribedPods :: "'st kv_ops \<Rightarrow> 'st \<Rightarrow> string \<Rightarrow> string \<Rightarrow> goerror + string list" where
  "GetSubscribedPods k st nodeID rType =
     (let filters = [''request_counter''] @ (if nodeID \<noteq> [] then [nodeID] else [])
                      @ (if rType \<noteq> [] then [rType] else [])
      in case parse_keys (map fst (FilterKeys k st filters)) of
           Inl p \<Rightarrow> Inl p
         | Inr kys \<Rightarrow> Inr (remdups (map PodID kys)))"

definition pod_failing :: "'st kv_ops \<Rightarrow> 'st \<Rightarrow> string \<Rightarrow> string \<Rightarrow> string \<Rightarrow> string \<Rightarrow> bool" where
  "pod_failing k st nodeID rType version pod =
     (case GetCounter k st nodeID rType version pod ''nack_counter'' of
        Inl _ \<Rightarrow> False
      | Inr v \<Rightarrow> sint v \<ge> 5)"

text \<open>The quotient of two counts, as a rational. The code divides two \<open>float64\<close> values,
  which rounds the quotient correctly; a quotient of different counts below \<open>2 ^ 53\<close>
  is never rounded to 1 and only 0 is rounded to 0. The quotient of 0 and 0 is NaN, for
  which the code returns 0.\<close>

definition GetPercentageFailing ::
    "'st kv_ops \<Rightarrow> 'st \<Rightarrow> string \<Rightarrow> string \<Rightarrow> string \<Rightarrow> goerror + rat" where
  "GetPercentageFailing k st nodeID rType version =
     (case GetSubscribedPods k st nodeID rType of
        Inl p \<Rightarrow> Inl p
      | Inr pods \<Rightarrow>
          (let failing = length (filter (pod_failing k st nodeID rType version) pods)
           in Inr (if length pods = 0 then 0 else of_nat failing / of_nat (length pods))))"

section \<open>Garbage collection\<close>

text \<open>The informer hands any object over; only a \<open>*corev1.Pod\<close> has an effect.\<close>

datatype informer_object = PodObject string | OtherObject

definition deleteStatsForDeletedPodsFn :: "'st kv_ops \<Rightarrow> 'st \<Rightarrow> informer_object \<Rightarrow> 'st" where
  "deleteStatsForDeletedPodsFn k st obj =
     (case obj of PodObject name \<Rightarrow> DeleteKeysByFilter k st [name] | OtherObject \<Rightarrow> st)"

section \<open>A list instance of the store\<close>

text \<open>Items with an optional expiry instant; an item is live until the clock passes it.\<close>

record kv_state =
  kvNow :: int
  kvMap :: "(string \<times> kv_value \<times> int option) list"

definition kv_live :: "kv_state \<Rightarrow> int option \<Rightarrow> bool" where
  "kv_live st e = (case e of None \<Rightarrow> True | Some t \<Rightarrow> kvNow st \<le> t)"

definition kv_list :: "kv_state kv_ops" where
  "kv_list = \<lparr>
     kv_Get = (\<lambda>st key. case map_of (kvMap st) key of
                 None \<Rightarrow> None
               | Some (v, e) \<Rightarrow> if kv_live st e then Some v else None),
     kv_Set = (\<lambda>st key v d. st\<lparr> kvMap :=
                 AList.update key (v, if d > 0 then Some (kvNow st + d) else None) (kvMap st) \<rparr>),
     kv_Delete = (\<lambda>st key. st\<lparr> kvMap := AList.delete key (kvMap st) \<rparr>),
     kv_Items = (\<lambda>st. map (\<lambda>(key, v, e). (key, v))
                        (filter (\<lambda>(key, v, e). kv_live st e) (AList.clearjunk (kvMap st)))) \<rparr>"

lemma kv_live_update [simp]: "kv_live (st\<lparr> kvMap := m \<rparr>) e = kv_live st e"
  by (cases e) (simp_all add: kv_live_def)

lemma kv_live_simps [simp]: "kv_live st None" "kv_live st (Some t) \<longleftrightarrow> kvNow st \<le> t"
  by (simp_all add: kv_live_def)

definition kv_empty :: kv_state where "kv_empty = \<lparr> kvNow = 0, kvMap = [] \<rparr>"

lemma kv_list_items_get:
  "distinct (map fst m) \<Longrightarrow>
   map_of (map (\<lambda>(key, v, e). (key, v)) (filter (\<lambda>(key, v, e). P e) m)) x =
     (case map_of m x of None \<Rightarrow> None | Some (v, e) \<Rightarrow> if P e then Some v else None)"
proof (induction m)
  case (Cons a m)
  have "x \<notin> fst ` set m \<Longrightarrow>
      map_of (map (\<lambda>(key, v, e). (key, v)) (filter (\<lambda>(key, v, e). P e) m)) x = None"
    by (auto simp: map_of_eq_None_iff image_iff)
  with Cons show ?case by (cases a) auto
qed simp

interpretation kvList: kv_cache kv_list
proof
  fix st :: kv_state
  have "distinct (map fst (AList.clearjunk (kvMap st)))" by (rule distinct_clearjunk)
  then show "distinct (map fst (kv_Items kv_list st))"
    by (induction "AList.clearjunk (kvMap st)" rule: rev_induct)
      (auto simp: kv_list_def map_comp_def o_def case_prod_beta distinct_map inj_on_def)
next
  fix st x
  show "map_of (kv_Items kv_list st) x = kv_Get kv_list st x"
    using kv_list_items_get [OF distinct_clearjunk, of "kv_live st" "kvMap st" x]
    by (simp add: kv_list_def map_of_clearjunk)
next
  fix st key x
  show "kv_Get kv_list (kv_Delete kv_list st key) x = (if x = key then None else kv_Get kv_list st x)"
    by (simp add: kv_list_def delete_conv' split: option.split)
next
  fix d :: int and st key v x
  assume "0 \<le> d"
  then show "kv_Get kv_list (kv_Set kv_list st key v d) x = (if x = key then Some v else kv_Get kv_list st x)"
    by (auto simp: kv_list_def update_conv' split: option.split)
qed

section \<open>Lemmas on keys\<close>

lemma NewKey_sel [simp]:
  "NodeID (NewKey n r v p s) = n" "ResourceType (NewKey n r v p s) = r" "Version (NewKey n r v p s) = v"
  "PodID (NewKey n r v p s) = p" "StatName (NewKey n r v p s) = s"
  by (simp_all add: NewKey_def)

lemma NewKey_eq_iff [simp]:
  "NewKey n r v p s = NewKey n' r' v' p' s' \<longleftrightarrow> n = n' \<and> r = r' \<and> v = v' \<and> p = p' \<and> s = s'"
  by (auto simp: NewKey_def)

lemma key_string_eq: "key_string n r v p s = n @ '':'' @ r @ '':'' @ v @ '':'' @ p @ '':'' @ s"
  by (simp add: key_string_def Key_String_def)

lemma Contains_key_string: "Contains other n \<Longrightarrow> Contains (key_string other r v p s) n"
  unfolding Contains_iff key_string_eq by (metis append.assoc)

lemma length_Split: "length (Split s c) = Suc (count_list s c)"
proof (induction s)
  case (Cons x xs)
  then show ?case by (cases "Split xs c") auto
qed simp

lemma colons_key_string: "4 \<le> count_list (key_string n r v p s) (CHR '':'')"
  by (simp add: key_string_eq)

lemma colons_nonce: "5 \<le> count_list (key_string n r v p (''nonce:'' @ s)) (CHR '':'')"
  by (simp add: key_string_eq)

definition plain :: "string \<Rightarrow> bool" where "plain s = (CHR '':'' \<notin> set s)"

lemma parse_key_string:
  assumes "plain n" "plain r" "plain v" "plain p"
  shows "NewKeyFromString (key_string n r v p s) = Inr (NewKey n r v p s)"
proof -
  have "Split (Join ([n, r, v, p] @ [s]) [CHR '':'']) (CHR '':'') = [n, r, v, p] @ Split s (CHR '':'')"
    by (rule Split_Join_last) (use assms in \<open>auto simp: plain_def\<close>)
  then show ?thesis by (simp add: NewKeyFromString_def key_string_def Key_String_def)
qed

lemma key_string_inj:
  assumes "plain n" "plain r" "plain v" "plain p" "plain n'" "plain r'" "plain v'" "plain p'"
  shows "key_string n r v p s = key_string n' r' v' p' s' \<longleftrightarrow>
           n = n' \<and> r = r' \<and> v = v' \<and> p = p' \<and> s = s'"
proof
  assume "key_string n r v p s = key_string n' r' v' p' s'"
  then have "Inr (NewKey n r v p s) = (Inr (NewKey n' r' v' p' s') :: goerror + Key)"
    using parse_key_string [OF assms(1-4), of s] parse_key_string [OF assms(5-8), of s'] by (simp only:)
  then show "n = n' \<and> r = r' \<and> v = v' \<and> p = p' \<and> s = s'" by simp
qed simp

lemma parse_ok_iff: "is_error (NewKeyFromString x) \<longleftrightarrow> count_list x (CHR '':'') < 3"
  by (simp add: NewKeyFromString_def length_Split Let_def)

lemma Key_String_parse:
  assumes "NewKeyFromString x = Inr ky" "4 \<le> count_list x (CHR '':'')"
  shows "Key_String ky = x"
proof -
  let ?vs = "Split x (CHR '':'')"
  have "5 \<le> length ?vs" using assms(2) by (simp add: length_Split)
  then obtain a b c d e rest where vs: "?vs = a # b # c # d # e # rest"
    by (auto simp: Suc_le_length_iff numeral_eq_Suc)
  have "x = Join ?vs '':''" by simp
  then have "x = Join (a # b # c # d # e # rest) '':''" by (simp only: vs)
  moreover have "ky = NewKey a b c d (Join (e # rest) '':'')"
    using assms(1) vs by (simp add: NewKeyFromString_def Let_def)
  ultimately show ?thesis by (simp add: Key_String_def)
qed

section \<open>Counters\<close>

context kv_cache
begin

lemma GetCounter_Increment:
  "GetCounter k (IncrementCounter k st n r v p s i) n' r' v' p' s' =
     (if key_string n' r' v' p' s' = key_string n r v p s
      then Inr (counter_or_zero (GetCounter k st n r v p s) + i)
      else GetCounter k st n' r' v' p' s')"
  by (simp add: IncrementCounter_def GetCounter_def get_setDefault Let_def)

lemma Get_Increment_other:
  "x \<noteq> key_string n r v p s \<Longrightarrow> kv_Get k (IncrementCounter k st n r v p s i) x = kv_Get k st x"
  by (simp add: IncrementCounter_def get_setDefault Let_def)

lemma in_FilterKeys_iff:
  "(x, v) \<in> set (FilterKeys k st fs) \<longleftrightarrow> kv_Get k st x = Some v \<and> list_all (Contains x) fs"
  by (auto simp: FilterKeys_def in_items_iff)

lemma distinct_FilterKeys: "distinct (map fst (FilterKeys k st fs))"
  unfolding FilterKeys_def by (rule distinct_map_filter) (rule items_distinct)

lemma fst_FilterKeys_iff:
  "x \<in> set (map fst (FilterKeys k st fs)) \<longleftrightarrow> kv_Get k st x \<noteq> None \<and> list_all (Contains x) fs"
proof -
  have "x \<in> set (map fst xs) \<longleftrightarrow> (\<exists>v. (x, v) \<in> set xs)" for xs :: "(string \<times> kv_value) list" by force
  then show ?thesis by (auto simp: in_FilterKeys_iff simp del: set_map)
qed

lemma get_DeleteKeysByFilter:
  "kv_Get k (DeleteKeysByFilter k st fs) x = (if list_all (Contains x) fs then None else kv_Get k st x)"
  by (auto simp: DeleteKeysByFilter_def get_deletes fst_FilterKeys_iff simp del: set_map)

text \<open>The one matching nonce of a NACK.\<close>

lemma FilterKeys_single:
  assumes "kv_Get k st x = Some v" "list_all (Contains x) fs"
    and "\<And>y. kv_Get k st y \<noteq> None \<Longrightarrow> list_all (Contains y) fs \<Longrightarrow> y = x"
  shows "FilterKeys k st fs = [(x, v)]"
proof -
  have fst_in: "map fst (FilterKeys k st fs) = [x]"
  proof -
    have "set (map fst (FilterKeys k st fs)) = {x}"
      using assms unfolding set_eq_iff fst_FilterKeys_iff by auto
    with distinct_FilterKeys [of st fs] show ?thesis
      by (metis distinct_card card_1_singleton_iff length_Suc_conv length_0_conv card.empty
          card_insert_disjoint empty_iff finite.emptyI list.simps(15) set_empty2 singleton_insert_inj_eq' One_nat_def)
  qed
  then obtain w where "FilterKeys k st fs = [(x, w)]" by (auto simp: map_eq_Cons_conv)
  moreover from this have "kv_Get k st x = Some w" using in_FilterKeys_iff [of x w st fs] by simp
  ultimately show ?thesis using assms(1) by simp
qed

end

section \<open>The invariant of the store\<close>

text \<open>Every key has at least five parts, and a value that is not a counter has a key with at
  least six, so its statistic is none of the numeric ones.\<close>

definition item_wf :: "string \<times> kv_value \<Rightarrow> bool" where
  "item_wf i = (4 \<le> count_list (fst i) (CHR '':'') \<and>
     (case snd i of Int64Value _ \<Rightarrow> True | StringValue _ \<Rightarrow> 5 \<le> count_list (fst i) (CHR '':'')))"

definition stats_inv :: "'st kv_ops \<Rightarrow> 'st \<Rightarrow> bool" where
  "stats_inv k st = list_all item_wf (kv_Items k st)"

text \<open>What the program does to the store: the reports of the callbacks, the deletions of
  the finalizer and of the garbage collector, and items that expire.\<close>

inductive stats_step :: "'st kv_ops \<Rightarrow> 'st \<Rightarrow> 'st \<Rightarrow> bool" for k where
  step_nonce: "stats_step k st (WriteResponseNonce k st n r v p nonce)"
| step_nack: "stats_step k st (fst (ReportNACK k st n r p nonce))"
| step_ack: "stats_step k st (ReportACK k st t n r v p)"
| step_request: "stats_step k st (ReportRequest k st n r p)"
| step_finalize: "stats_step k st (DeleteKeysByFilter k st [nodeID])"
| step_gc: "stats_step k st (deleteStatsForDeletedPodsFn k st obj)"
| step_expire: "(\<And>x. kv_Get k st' x = kv_Get k st x \<or> kv_Get k st' x = None) \<Longrightarrow> stats_step k st st'"

inductive stats_reachable :: "'st kv_ops \<Rightarrow> 'st \<Rightarrow> bool" for k where
  reach_new: "kv_Items k st = [] \<Longrightarrow> stats_reachable k st"
| reach_step: "stats_reachable k st \<Longrightarrow> stats_step k st st' \<Longrightarrow> stats_reachable k st'"

context kv_cache
begin

lemma stats_inv_iff: "stats_inv k st \<longleftrightarrow> (\<forall>x v. kv_Get k st x = Some v \<longrightarrow> item_wf (x, v))"
  by (auto simp: stats_inv_def list_all_iff in_items_iff)

lemma inv_Increment: "stats_inv k st \<Longrightarrow> stats_inv k (IncrementCounter k st n r v p s i)"
  using colons_key_string [of n r v p s]
  by (simp add: stats_inv_iff IncrementCounter_def Let_def get_setDefault item_wf_def)

lemma inv_sub:
  assumes "stats_inv k st" "\<And>x. kv_Get k st' x = kv_Get k st x \<or> kv_Get k st' x = None"
  shows "stats_inv k st'"
  using assms unfolding stats_inv_iff by (metis option.distinct(1))

lemma inv_Delete: "stats_inv k st \<Longrightarrow> stats_inv k (DeleteKeysByFilter k st fs)"
  by (erule inv_sub) (simp add: get_DeleteKeysByFilter)

lemma inv_nonce: "stats_inv k st \<Longrightarrow> stats_inv k (WriteResponseNonce k st n r v p nonce)"
  using colons_nonce [of n r v p nonce]
  by (simp add: stats_inv_iff WriteResponseNonce_def SetStringWithExpiration_def get_set Second_def item_wf_def)

lemma inv_SetInt64: "stats_inv k st \<Longrightarrow> stats_inv k (SetInt64 k st n r v p s t)"
  using colons_key_string [of n r v p s]
  by (simp add: stats_inv_iff SetInt64_def get_setDefault item_wf_def)

lemma inv_NACK: "stats_inv k st \<Longrightarrow> stats_inv k (fst (ReportNACK k st n r p nonce))"
  by (simp add: ReportNACK_def Let_def inv_Increment split: list.split prod.split sum.split)

lemma inv_ACK: "stats_inv k st \<Longrightarrow> stats_inv k (ReportACK k st t n r v p)"
  by (simp add: ReportACK_def Let_def inv_Increment inv_SetInt64)

lemma inv_gc: "stats_inv k st \<Longrightarrow> stats_inv k (deleteStatsForDeletedPodsFn k st obj)"
  by (cases obj) (simp_all add: deleteStatsForDeletedPodsFn_def inv_Delete)

lemma inv_step: "stats_step k st st' \<Longrightarrow> stats_inv k st \<Longrightarrow> stats_inv k st'"
proof (induction rule: stats_step.induct)
  case (step_expire st' st)
  show ?case by (rule inv_sub [OF step_expire(2) step_expire(1)])
qed (simp_all only: inv_nonce inv_NACK inv_ACK ReportRequest_def inv_Increment inv_Delete inv_gc)

lemma inv_reachable: "stats_reachable k st \<Longrightarrow> stats_inv k st"
proof (induction rule: stats_reachable.induct)
  case (reach_new st)
  then show ?case by (simp add: stats_inv_def)
next
  case (reach_step st st')
  show ?case by (rule inv_step [OF reach_step(2) reach_step(3)])
qed

text \<open>Under the invariant no key panics.\<close>

lemma parse_of_inv:
  assumes "stats_inv k st" "kv_Get k st x = Some v"
  shows "\<exists>ky. NewKeyFromString x = Inr ky \<and> Key_String ky = x"
proof -
  have "item_wf (x, v)" using assms by (simp add: stats_inv_iff)
  then have c: "4 \<le> count_list x (CHR '':'')" by (simp add: item_wf_def)
  then have "\<not> is_error (NewKeyFromString x)" by (simp add: parse_ok_iff)
  then show ?thesis using Key_String_parse [OF _ c] by (auto simp: not_is_error_iff)
qed

end

lemma parse_keys_ok:
  "(\<And>x. x \<in> set xs \<Longrightarrow> \<exists>ky. NewKeyFromString x = Inr ky) \<Longrightarrow>
   parse_keys xs = Inr (map (\<lambda>x. projr (NewKeyFromString x)) xs)"
proof (induction xs)
  case (Cons x xs)
  from Cons.prems [of x] obtain ky where "NewKeyFromString x = Inr ky" by auto
  with Cons show ?case by simp
qed simp

section \<open>Percentage and NACKs\<close>

context kv_cache
begin

lemma GetSubscribedPods_ok:
  assumes "stats_inv k st"
  obtains pods where "GetSubscribedPods k st n r = Inr pods" "distinct pods"
proof -
  let ?fs = "[''request_counter''] @ (if n \<noteq> [] then [n] else []) @ (if r \<noteq> [] then [r] else [])"
  have "\<exists>ky. NewKeyFromString x = Inr ky" if "x \<in> set (map fst (FilterKeys k st ?fs))" for x
    using that parse_of_inv [OF assms, of x] unfolding fst_FilterKeys_iff by blast
  then obtain kys where "parse_keys (map fst (FilterKeys k st ?fs)) = Inr kys"
    using parse_keys_ok by blast
  then show thesis by (intro that) (auto simp: GetSubscribedPods_def Let_def)
qed

lemma GetPercentageFailing_eq:
  "GetSubscribedPods k st n r = Inr pods \<Longrightarrow>
   GetPercentageFailing k st n r v =
     Inr (of_nat (length (filter (pod_failing k st n r v) pods)) / of_nat (length pods))"
  by (simp add: GetPercentageFailing_def Let_def)

lemma ReportNACK_single:
  assumes "FilterKeys k st [n, r, p, ''nonce:'' @ nonce] = [(key_string n r v p (''nonce:'' @ nonce), w)]"
    and "plain n" "plain r" "plain v" "plain p" "v \<noteq> ''*''"
  shows "ReportNACK k st n r p nonce =
    (IncrementCounter k (IncrementCounter k st n r v p ''nack_counter'' 1) n r ''*'' p ''nack_counter'' 1,
     Inr (counter_or_zero (GetCounter k st n r v p ''nack_counter'') + 1))"
  using assms
  by (simp add: ReportNACK_def parse_key_string Let_def GetCounter_Increment key_string_inj)
    (simp add: key_string_inj plain_def)

lemma nonce_after_write:
  assumes fresh: "\<And>y. kv_Get k st y \<noteq> None \<Longrightarrow> \<not> Contains y (''nonce:'' @ nonce)"
  shows "FilterKeys k (WriteResponseNonce k st n r v p nonce) [n, r, p, ''nonce:'' @ nonce] =
           [(key_string n r v p (''nonce:'' @ nonce), StringValue [])]"
proof (rule FilterKeys_single)
  let ?x = "key_string n r v p (''nonce:'' @ nonce)"
  have get: "kv_Get k (WriteResponseNonce k st n r v p nonce) y =
      (if y = ?x then Some (StringValue []) else kv_Get k st y)" for y
    by (simp add: WriteResponseNonce_def SetStringWithExpiration_def get_set Second_def)
  show "kv_Get k (WriteResponseNonce k st n r v p nonce) ?x = Some (StringValue [])"
    by (simp add: get)
  have "?x = [] @ n @ ('':'' @ r @ '':'' @ v @ '':'' @ p @ '':'' @ ''nonce:'' @ nonce)"
    "?x = (n @ '':'') @ r @ ('':'' @ v @ '':'' @ p @ '':'' @ ''nonce:'' @ nonce)"
    "?x = (n @ '':'' @ r @ '':'' @ v @ '':'') @ p @ ('':'' @ ''nonce:'' @ nonce)"
    "?x = (n @ '':'' @ r @ '':'' @ v @ '':'' @ p @ '':'') @ (''nonce:'' @ nonce) @ []"
    by (simp_all add: key_string_eq)
  then have "Contains ?x n" "Contains ?x r" "Contains ?x p" "Contains ?x (''nonce:'' @ nonce)"
    using Contains_infix by metis+
  then show "list_all (Contains ?x) [n, r, p, ''nonce:'' @ nonce]" by simp
next
  fix y
  assume "kv_Get k (WriteResponseNonce k st n r v p nonce) y \<noteq> None"
    and "list_all (Contains y) [n, r, p, ''nonce:'' @ nonce]"
  then show "y = key_string n r v p (''nonce:'' @ nonce)"
    using fresh [of y]
    by (auto simp: WriteResponseNonce_def SetStringWithExpiration_def get_set Second_def split: if_splits)
qed

lemma GetCounter_nonce [stats_simps]:
  assumes "plain n" "plain r" "plain v" "plain p" "plain v'"
  shows "GetCounter k (WriteResponseNonce k st n r v p nonce) n r v' p ''nack_counter'' =
         GetCounter k st n r v' p ''nack_counter''"
  by (simp add: GetCounter_def WriteResponseNonce_def SetStringWithExpiration_def get_set Second_def
      key_string_inj assms Let_def)

text \<open>One round of a response and its rejection adds one to the counter of the version that
  was served.\<close>

lemma nonce_then_nack:
  assumes "\<And>y. kv_Get k st y \<noteq> None \<Longrightarrow> \<not> Contains y (''nonce:'' @ nonce)"
    and "plain n" "plain r" "plain v" "plain p" "v \<noteq> ''*''"
  defines "res \<equiv> ReportNACK k (WriteResponseNonce k st n r v p nonce) n r p nonce"
    and "c \<equiv> counter_or_zero (GetCounter k st n r v p ''nack_counter'')"
  shows "snd res = Inr (c + 1)" "GetCounter k (fst res) n r v p ''nack_counter'' = Inr (c + 1)"
proof -
  note single = ReportNACK_single [OF nonce_after_write [OF assms(1)] assms(2-6)]
  show "snd res = Inr (c + 1)"
    using assms(2-6) by (simp add: res_def c_def single GetCounter_nonce)
  have "plain ''*''" by (simp add: plain_def)
  then show "GetCounter k (fst res) n r v p ''nack_counter'' = Inr (c + 1)"
    using assms(2-6)
    by (simp add: res_def c_def single GetCounter_nonce GetCounter_Increment key_string_inj)
qed

lemma percentage_spec:
  assumes "stats_inv k st"
  shows "\<exists>pods q. GetSubscribedPods k st n r = Inr pods \<and>
           GetPercentageFailing k st n r v = Inr q \<and> 0 \<le> q \<and> q \<le> 1 \<and>
           (q = 1 \<longleftrightarrow> pods \<noteq> [] \<and> list_all (pod_failing k st n r v) pods)"
proof -
  obtain pods where pods: "GetSubscribedPods k st n r = Inr pods"
    using GetSubscribedPods_ok [OF assms] by blast
  let ?f = "filter (pod_failing k st n r v) pods"
  let ?q = "of_nat (length ?f) / of_nat (length pods) :: rat"
  have le: "length ?f \<le> length pods" by simp
  have all: "length ?f = length pods \<longleftrightarrow> list_all (pod_failing k st n r v) pods"
    by (metis Ball_set filter_True length_filter_less nat_neq_iff)
  have "0 \<le> ?q" by simp
  moreover have "?q \<le> 1" using le by (cases "pods = []") (simp_all add: divide_le_eq)
  moreover have "?q = 1 \<longleftrightarrow> pods \<noteq> [] \<and> list_all (pod_failing k st n r v) pods"
    unfolding all [symmetric] by (cases "pods = []") (auto simp: divide_eq_1_iff)
  ultimately show ?thesis using pods GetPercentageFailing_eq [OF pods] by blast
qed

lemma fresh_items:
  "list_all (\<lambda>(y, w). \<not> Contains y t) (kv_Items k st) \<Longrightarrow> kv_Get k st y \<noteq> None \<Longrightarrow> \<not> Contains y t"
  by (auto simp: list_all_iff in_items_iff)

end

section \<open>Properties\<close>

text \<open>(C24) Keys round trip: parsing the text of a key gives the key back, for every
  statistic name, when the four other components have no colon (node ids, type URLs,
  hashes and pod names never have one).\<close>

theorem Key_round_trip:
  assumes "plain nodeID" "plain rType" "plain version" "plain podID"
  shows "NewKeyFromString (Key_String (NewKey nodeID rType version podID statName)) =
           Inr (NewKey nodeID rType version podID statName)"
  using parse_key_string [OF assms] by (simp add: key_string_def)

theorem Key_round_trip_witness:
  "NewKeyFromString (Key_String (NewKey ''n'' ''t'' ''v'' ''p'' ''nonce:7'')) = Inr (NewKey ''n'' ''t'' ''v'' ''p'' ''nonce:7'')"
  by (rule Key_round_trip) (simp_all add: plain_def)

text \<open>(C15) In every store the program can reach the failure percentage is computed without a
  panic, lies between 0 and 1, and is 1 exactly when some pod is subscribed and every
  subscribed pod has rejected the version at least five times.\<close>

theorem GetPercentageFailing_spec:
  assumes "kv_cache k" "stats_reachable k st"
  shows "\<exists>pods q. GetSubscribedPods k st nodeID rType = Inr pods \<and>
           GetPercentageFailing k st nodeID rType version = Inr q \<and> 0 \<le> q \<and> q \<le> 1 \<and>
           (q = 1 \<longleftrightarrow> pods \<noteq> [] \<and>
              list_all (\<lambda>pod. \<exists>c. GetCounter k st nodeID rType version pod ''nack_counter'' = Inr c \<and> 5 \<le> sint c) pods)"
proof -
  have "pod_failing k st nodeID rType version =
      (\<lambda>pod. \<exists>c. GetCounter k st nodeID rType version pod ''nack_counter'' = Inr c \<and> 5 \<le> sint c)"
    by (auto simp: pod_failing_def fun_eq_iff split: sum.splits)
  with kv_cache.percentage_spec [OF assms(1) kv_cache.inv_reachable [OF assms], of nodeID rType version]
  show ?thesis by simp
qed

theorem GetPercentageFailing_spec_witness:
  "\<exists>pods q. GetSubscribedPods kv_list (ReportRequest kv_list kv_empty ''n'' ''t'' ''p'') ''n'' ''t'' = Inr pods \<and>
     GetPercentageFailing kv_list (ReportRequest kv_list kv_empty ''n'' ''t'' ''p'') ''n'' ''t'' ''v'' = Inr q \<and>
     0 \<le> q \<and> q \<le> 1 \<and>
     (q = 1 \<longleftrightarrow> pods \<noteq> [] \<and>
        list_all (\<lambda>pod. \<exists>c. GetCounter kv_list (ReportRequest kv_list kv_empty ''n'' ''t'' ''p'') ''n'' ''t'' ''v'' pod ''nack_counter'' = Inr c
          \<and> 5 \<le> sint c) pods)"
proof (rule GetPercentageFailing_spec [OF kvList.kv_cache_axioms])
  have "stats_reachable kv_list kv_empty" by (rule reach_new) (simp add: kv_list_def kv_empty_def)
  then show "stats_reachable kv_list (ReportRequest kv_list kv_empty ''n'' ''t'' ''p'')"
    by (rule reach_step) (rule step_request)
qed

text \<open>A NACK is charged to the version that was served: a response for version
  \<open>v\<close> with a nonce no other key mentions, followed by the NACK of that nonce, adds one
  to the NACK counter of \<open>v\<close> for that pod and returns the new count.\<close>

theorem NACK_charged_to_served_version:
  assumes "kv_cache k" and "plain n" "plain r" "plain v" "plain p" "v \<noteq> ''*''"
    and "list_all (\<lambda>(y, w). \<not> Contains y (''nonce:'' @ nonce)) (kv_Items k st)"
  shows "snd (ReportNACK k (WriteResponseNonce k st n r v p nonce) n r p nonce) =
           Inr (counter_or_zero (GetCounter k st n r v p ''nack_counter'') + 1) \<and>
         GetCounter k (fst (ReportNACK k (WriteResponseNonce k st n r v p nonce) n r p nonce))
           n r v p ''nack_counter'' =
           Inr (counter_or_zero (GetCounter k st n r v p ''nack_counter'') + 1)"
  using kv_cache.nonce_then_nack [OF assms(1) kv_cache.fresh_items [OF assms(1,7)] assms(2-6)] by auto

theorem NACK_charged_to_served_version_witness:
  "snd (ReportNACK kv_list (WriteResponseNonce kv_list kv_empty ''n'' ''t'' ''v'' ''p'' ''1'') ''n'' ''t'' ''p'' ''1'') = Inr 1"
  using NACK_charged_to_served_version [OF kvList.kv_cache_axioms, of "''n''" "''t''" "''v''" "''p''" "''1''" kv_empty]
  by (simp add: plain_def kv_empty_def kv_list_def GetCounter_def counter_or_zero_def Let_def)

text \<open>Deleting by filter removes exactly the keys that contain every filter as a
  substring. So cleaning up after a node also removes the statistics of every other node
  whose id contains its id, \<open>node10\<close> when \<open>node1\<close> goes.\<close>

theorem DeleteKeysByFilter_exact:
  assumes "kv_cache k"
  shows "kv_Get k (DeleteKeysByFilter k st filters) key =
           (if list_all (Contains key) filters then None else kv_Get k st key) \<and>
         (Contains other nodeID \<longrightarrow>
           kv_Get k (DeleteKeysByFilter k st [nodeID]) (key_string other r v p s) = None)"
  by (simp add: kv_cache.get_DeleteKeysByFilter [OF assms] Contains_key_string)

theorem DeleteKeysByFilter_exact_witness:
  "kv_Get kv_list (DeleteKeysByFilter kv_list (ReportRequest kv_list kv_empty ''node10'' ''t'' ''p'') [''node1''])
     (key_string ''node10'' ''t'' ''*'' ''p'' ''request_counter'') = None"
  by (rule DeleteKeysByFilter_exact [OF kvList.kv_cache_axioms, THEN conjunct2, rule_format]) simp

end
