(* ===== verification/Callbacks.thy ===== *)
theory Callbacks
  imports Stats EnvoyTypes
begin

text \<open>
  The xDS server callbacks (\<open>pkg/discoveryservice/xdss/v3/callbacks.go\<close>) and the backoff
  policy (\<open>pkg/util/backoff\<close>). The go-control-plane server calls the callbacks with the
  protobuf requests and responses, here records of the fields that are read. A callback
  changes the statistics store and may sleep; it returns the new store, the time it slept in
  nanoseconds and its error. The random number of the jitter is an argument: \<open>rnd m\<close> is
  \<open>rand.Intn(m)\<close>, which the standard library keeps in \<open>[0, m)\<close>. Logging has no effect
  on the state and is left out.
\<close>

section \<open>Backoff\<close>

record BackoffPolicy =
  Millis :: "int list"

definition Default_policy :: BackoffPolicy where
  "Default_policy = \<lparr> Millis = [0, 10, 10, 100, 100, 500, 500, 3000, 3000, 5000] \<rparr>"

definition jitter :: "(int \<Rightarrow> int) \<Rightarrow> int \<Rightarrow> int" where
  "jitter rnd millis = (if millis = 0 then 0 else millis div 2 + rnd millis)"

text \<open>An index out of range panics: a negative \<open>n\<close>, or any \<open>n\<close> for an empty policy.\<close>

definition Duration :: "(int \<Rightarrow> int) \<Rightarrow> BackoffPolicy \<Rightarrow> int \<Rightarrow> goerror + int" where
  "Duration rnd b n =
     (let len = int (length (Millis b));
          n' = (if n \<ge> len then len - 1 else n)
      in if n' < 0 then Inl (Panic ''index out of range'')
         else Inr (jitter rnd (Millis b ! nat n') * Millisecond))"

definition rand_ok :: "(int \<Rightarrow> int) \<Rightarrow> bool" where
  "rand_ok rnd = list_all (\<lambda>m. 0 \<le> rnd m \<and> rnd m < m) [10, 100, 500, 3000, 5000]"

section \<open>Requests and responses\<close>

record Node =
  nodeId :: string
  nodeMetadata :: "(string \<times> meta_value) list"

record DiscoveryRequest =
  reqNode :: Node
  reqTypeUrl :: string
  reqVersionInfo :: string
  reqResponseNonce :: string
  reqErrorDetail :: "string option"

record DiscoveryResponse =
  rspTypeUrl :: string
  rspVersionInfo :: string
  rspNonce :: string

definition OnStreamOpen :: "'st \<Rightarrow> 'st \<times> goerror option" where
  "OnStreamOpen st = (st, None)"

definition OnStreamClosed :: "'st \<Rightarrow> 'st" where
  "OnStreamClosed st = st"

definition pod_name_of :: "DiscoveryRequest \<Rightarrow> goerror + string" where
  "pod_name_of req = GetStringValueFromMetadata (nodeMetadata (reqNode req)) ''pod_name''"

definition stats_pod_name :: "DiscoveryRequest \<Rightarrow> string" where
  "stats_pod_name req = (case pod_name_of req of Inl _ \<Rightarrow> ''unknown'' | Inr p \<Rightarrow> p)"

text \<open>The three outcomes of a request: a NACK with its backoff, an ACK, a first request.
  \<open>int(failures)\<close> keeps the value on the 64-bit platforms the program is built for.\<close>

definition OnStreamRequest ::
    "'st kv_ops \<Rightarrow> (int \<Rightarrow> int) \<Rightarrow> 64 word \<Rightarrow> 'st \<Rightarrow> DiscoveryRequest \<Rightarrow> 'st \<times> int \<times> goerror option" where
  "OnStreamRequest k rnd now_milli st req =
     (let podName = stats_pod_name req;
          node = nodeId (reqNode req)
      in if reqResponseNonce req \<noteq> [] then
           (case reqErrorDetail req of
              Some _ \<Rightarrow>
                (let (st', res) = ReportNACK k st node (reqTypeUrl req) podName (reqResponseNonce req);
                     failures = counter_or_zero res
                 in if failures = 0 then (st', 100 * Millisecond, None)
                    else (case Duration rnd Default_policy (sint failures) of
                            Inl p \<Rightarrow> (st', 0, Some p)
                          | Inr d \<Rightarrow> (st', d, None)))
            | None \<Rightarrow>
                (ReportACK k st now_milli node (reqTypeUrl req) (reqVersionInfo req) podName, 0, None))
         else (ReportRequest k st node (reqTypeUrl req) podName, 0, None))"

definition OnStreamResponse ::
    "'st kv_ops \<Rightarrow> 'st \<Rightarrow> DiscoveryRequest \<Rightarrow> DiscoveryResponse \<Rightarrow> 'st" where
  "OnStreamResponse k st req rsp =
     (case pod_name_of req of
        Inl _ \<Rightarrow> st
      | Inr podName \<Rightarrow>
          WriteResponseNonce k st (nodeId (reqNode req)) (rspTypeUrl rsp) (rspVersionInfo rsp) podName (rspNonce rsp))"

text \<open>What is logged at debug level: the names for secrets, the contents for the rest.\<close>

datatype response_log = LogNames | LogResources

definition OnStreamResponse_log :: "type_urls \<Rightarrow> DiscoveryResponse \<Rightarrow> response_log" where
  "OnStreamResponse_log u rsp = (if rspTypeUrl rsp = Mappings u Secret then LogNames else LogResources)"

definition OnFetchRequest :: "'st \<Rightarrow> 'st \<times> goerror option" where
  "OnFetchRequest st = (st, None)"

definition OnFetchResponse :: "'st \<Rightarrow> 'st" where "OnFetchResponse st = st"

definition OnDeltaStreamOpen :: "'st \<Rightarrow> 'st \<times> goerror option" where
  "OnDeltaStreamOpen st = (st, None)"

definition OnDeltaStreamClosed :: "'st \<Rightarrow> 'st" where "OnDeltaStreamClosed st = st"

definition OnStreamDeltaRequest :: "'st \<Rightarrow> 'st \<times> goerror option" where
  "OnStreamDeltaRequest st = (st, None)"

definition OnStreamDeltaResponse :: "'st \<Rightarrow> 'st" where "OnStreamDeltaResponse st = st"

section \<open>Lemmas\<close>

lemma jitter_bounds:
  assumes "rand_ok rnd" "m \<in> {0, 10, 100, 500, 3000, 5000}"
  shows "m div 2 \<le> jitter rnd m" "2 * jitter rnd m \<le> 3 * m"
  using assms by (auto simp: rand_ok_def jitter_def)

lemma Default_policy_nth:
  "0 \<le> n \<Longrightarrow> n < 10 \<Longrightarrow> Millis Default_policy ! nat n \<in> {0, 10, 100, 500, 3000, 5000}"
proof -
  assume "0 \<le> n" "n < 10"
  then have "n \<in> {0, 1, 2, 3, 4, 5, 6, 7, 8, 9}" by simp presburger
  then show ?thesis by (auto simp: Default_policy_def)
qed

lemma Duration_default:
  assumes "0 \<le> n"
  shows "Duration rnd Default_policy n = Inr (jitter rnd (Millis Default_policy ! nat (min n 9)) * Millisecond)"
proof -
  have "int (length (Millis Default_policy)) = 10" by (simp add: Default_policy_def)
  with assms show ?thesis by (simp add: Duration_def Let_def min_def)
qed

lemma Duration_default_bounds:
  assumes "rand_ok rnd" "0 \<le> n"
  shows "\<exists>d. Duration rnd Default_policy n = Inr d \<and> 0 \<le> d \<and> d \<le> 7500 * Millisecond"
proof -
  let ?m = "Millis Default_policy ! nat (min n 9)"
  have m: "?m \<in> {0, 10, 100, 500, 3000, 5000}"
    using Default_policy_nth [of "min n 9"] assms(2) by simp
  have "0 \<le> ?m" "?m \<le> 5000" using m by auto
  moreover have "0 \<le> ?m div 2" using \<open>0 \<le> ?m\<close> by simp
  ultimately have "0 \<le> jitter rnd ?m" "jitter rnd ?m \<le> 7500"
    using jitter_bounds [OF assms(1) m] by linarith+
  then show ?thesis by (simp add: Duration_default assms(2) Millisecond_def)
qed

subsection \<open>Rounds of rejection\<close>

text \<open>One round: the server sends a response, the client rejects it.\<close>

definition nack_of :: "DiscoveryRequest \<Rightarrow> DiscoveryResponse \<Rightarrow> string \<Rightarrow> DiscoveryRequest" where
  "nack_of req rsp err =
     req\<lparr> reqTypeUrl := rspTypeUrl rsp, reqResponseNonce := rspNonce rsp, reqErrorDetail := Some err \<rparr>"

definition reject_round ::
    "'st kv_ops \<Rightarrow> (int \<Rightarrow> int) \<Rightarrow> 64 word \<Rightarrow> DiscoveryRequest \<Rightarrow> DiscoveryResponse \<Rightarrow> 'st \<Rightarrow> string \<Rightarrow> 'st" where
  "reject_round k rnd now req rsp st nonce =
     (let rsp' = rsp\<lparr> rspNonce := nonce \<rparr>
      in fst (OnStreamRequest k rnd now (OnStreamResponse k st req rsp') (nack_of req rsp' ''rejected'')))"

fun nonces_fresh ::
    "'st kv_ops \<Rightarrow> (int \<Rightarrow> int) \<Rightarrow> 64 word \<Rightarrow> DiscoveryRequest \<Rightarrow> DiscoveryResponse \<Rightarrow> 'st \<Rightarrow> string list \<Rightarrow> bool" where
  "nonces_fresh k rnd now req rsp st [] = True"
| "nonces_fresh k rnd now req rsp st (nonce # ns) =
     (nonce \<noteq> [] \<and> list_all (\<lambda>(y, w). \<not> Contains y (''nonce:'' @ nonce)) (kv_Items k st) \<and>
      nonces_fresh k rnd now req rsp (reject_round k rnd now req rsp st nonce) ns)"

lemma fst_OnStreamRequest_nack:
  assumes "pod_name_of req = Inr p" "rspNonce rsp \<noteq> []"
  shows "fst (OnStreamRequest k rnd now st (nack_of req rsp err)) =
    fst (ReportNACK k st (nodeId (reqNode req)) (rspTypeUrl rsp) p (rspNonce rsp))"
  using assms
  by (auto simp: OnStreamRequest_def nack_of_def stats_pod_name_def pod_name_of_def Let_def
      split: prod.splits sum.splits)

context kv_cache
begin

lemma reject_round_counter:
  assumes "pod_name_of req = Inr p" "nonce \<noteq> []"
    and "list_all (\<lambda>(y, w). \<not> Contains y (''nonce:'' @ nonce)) (kv_Items k st)"
    and "plain (nodeId (reqNode req))" "plain (rspTypeUrl rsp)" "plain (rspVersionInfo rsp)" "plain p"
    and "rspVersionInfo rsp \<noteq> ''*''"
  shows "GetCounter k (reject_round k rnd now req rsp st nonce)
           (nodeId (reqNode req)) (rspTypeUrl rsp) (rspVersionInfo rsp) p ''nack_counter'' =
         Inr (counter_or_zero (GetCounter k st (nodeId (reqNode req)) (rspTypeUrl rsp) (rspVersionInfo rsp) p
                ''nack_counter'') + 1)"
  using nonce_then_nack(2) [OF fresh_items [OF assms(3)] assms(4-8)] assms(1,2)
  by (simp add: reject_round_def Let_def fst_OnStreamRequest_nack OnStreamResponse_def)

lemma reject_rounds_counter:
  assumes "pod_name_of req = Inr p"
    and "plain (nodeId (reqNode req))" "plain (rspTypeUrl rsp)" "plain (rspVersionInfo rsp)" "plain p"
    and "rspVersionInfo rsp \<noteq> ''*''"
    and "nonces_fresh k rnd now req rsp st ns"
  defines "get \<equiv> \<lambda>st. GetCounter k st (nodeId (reqNode req)) (rspTypeUrl rsp) (rspVersionInfo rsp) p ''nack_counter''"
  shows "counter_or_zero (get (foldl (reject_round k rnd now req rsp) st ns)) =
           counter_or_zero (get st) + of_nat (length ns) \<and>
         (ns \<noteq> [] \<longrightarrow> \<not> is_error (get (foldl (reject_round k rnd now req rsp) st ns)))"
  using assms(7)
proof (induction ns arbitrary: st)
  case (Cons nonce ns)
  let ?st = "reject_round k rnd now req rsp st nonce"
  have step: "get ?st = Inr (counter_or_zero (get st) + 1)"
    unfolding get_def using Cons.prems assms(1-6) by (intro reject_round_counter) auto
  moreover have "nonces_fresh k rnd now req rsp ?st ns" using Cons.prems by simp
  note IH = Cons.IH [OF this]
  ultimately show ?case by (cases ns) (auto simp: counter_or_zero_def [of "Inr _"])
qed simp

end

lemma sint_of_nat_small: "i < 2 ^ 63 \<Longrightarrow> sint (of_nat i :: 64 word) = int i"
  using signed_take_bit_int_eq_self [of 63 "int i"]
  by (simp add: sint_uint unsigned_of_nat take_bit_nat_eq_self)

section \<open>Properties\<close>

text \<open>(C14) Five rejections make a pod fail: when the server serves a version with fresh
  nonces and the pod answers each response with an error, then after five rounds or more the
  pod counts as failing for that version, whatever it did before for other versions.\<close>

theorem five_rejections_fail_pod:
  assumes "kv_cache k" "pod_name_of req = Inr p"
    and "plain (nodeId (reqNode req))" "plain (rspTypeUrl rsp)" "plain (rspVersionInfo rsp)" "plain p"
    and "rspVersionInfo rsp \<noteq> ''*''" "nonces_fresh k rnd now req rsp st ns"
    and "counter_or_zero (GetCounter k st (nodeId (reqNode req)) (rspTypeUrl rsp) (rspVersionInfo rsp) p ''nack_counter'') = 0"
    and "5 \<le> length ns" "length ns < 2 ^ 63"
  shows "pod_failing k (foldl (reject_round k rnd now req rsp) st ns)
           (nodeId (reqNode req)) (rspTypeUrl rsp) (rspVersionInfo rsp) p"
proof -
  let ?c = "GetCounter k (foldl (reject_round k rnd now req rsp) st ns)
              (nodeId (reqNode req)) (rspTypeUrl rsp) (rspVersionInfo rsp) p ''nack_counter''"
  have "counter_or_zero ?c = of_nat (length ns)" "\<not> is_error ?c"
    using kv_cache.reject_rounds_counter [OF assms(1-8)] assms(9,10) by auto
  then have "?c = Inr (of_nat (length ns))"
    by (auto simp: not_is_error_iff counter_or_zero_def)
  then show ?thesis
    using assms(10,11) by (simp add: pod_failing_def sint_of_nat_small)
qed


definition sample_req :: DiscoveryRequest where
  "sample_req = \<lparr> reqNode = \<lparr> nodeId = ''n'', nodeMetadata = [(''pod_name'', MetaString ''p'')] \<rparr>,
     reqTypeUrl = ''t'', reqVersionInfo = [], reqResponseNonce = [], reqErrorDetail = None \<rparr>"

definition sample_rsp :: DiscoveryResponse where
  "sample_rsp = \<lparr> rspTypeUrl = ''t'', rspVersionInfo = ''v'', rspNonce = [] \<rparr>"

theorem five_rejections_fail_pod_witness:
  "pod_failing kv_list
     (foldl (reject_round kv_list (\<lambda>m. 0) 0 sample_req sample_rsp) kv_empty [''1'', ''2'', ''3'', ''4'', ''5''])
     ''n'' ''t'' ''v'' ''p''"
proof -
  have "nonces_fresh kv_list (\<lambda>m. 0) 0 sample_req sample_rsp kv_empty [''1'', ''2'', ''3'', ''4'', ''5'']"
    by code_simp
  moreover have "pod_name_of sample_req = Inr ''p''" by code_simp
  moreover have "counter_or_zero (GetCounter kv_list kv_empty ''n'' ''t'' ''v'' ''p'' ''nack_counter'') = 0"
    by code_simp
  ultimately show ?thesis
    using five_rejections_fail_pod [OF kvList.kv_cache_axioms, of sample_req "''p''" sample_rsp "\<lambda>m. 0" 0 kv_empty
        "[''1'', ''2'', ''3'', ''4'', ''5'']"]
    by (simp add: sample_req_def sample_rsp_def plain_def)
qed

text \<open>A NACK is lost when another live nonce of the same pod and type starts with its
  nonce: the lookup matches by substring, finds two keys and counts nothing. Nonces are
  numbers that restart with every stream, so \<open>1\<close> and \<open>10\<close> meet after a
  reconnection.\<close>

theorem NACK_lost_on_nonce_prefix:
  "let st = OnStreamResponse kv_list (OnStreamResponse kv_list kv_empty sample_req (sample_rsp\<lparr> rspNonce := ''10'' \<rparr>))
              sample_req (sample_rsp\<lparr> rspNonce := ''1'', rspVersionInfo := ''w'' \<rparr>)
   in is_error (snd (ReportNACK kv_list st ''n'' ''t'' ''p'' ''1'')) \<and>
      is_error (GetCounter kv_list (fst (ReportNACK kv_list st ''n'' ''t'' ''p'' ''1'')) ''n'' ''t'' ''w'' ''p'' ''nack_counter'')"
  by code_simp

text \<open>The backoff never panics for a failure count that is not negative and waits
  between one half and three halves of the step of the policy, the last step once the count
  is past the table.\<close>

theorem Duration_within_jitter:
  assumes "rand_ok rnd" "0 \<le> n"
  shows "\<exists>d. Duration rnd Default_policy n = Inr d \<and>
           (Millis Default_policy ! nat (min n 9)) div 2 * Millisecond \<le> d \<and>
           2 * d \<le> 3 * (Millis Default_policy ! nat (min n 9)) * Millisecond"
proof -
  have "Millis Default_policy ! nat (min n 9) \<in> {0, 10, 100, 500, 3000, 5000}"
    using Default_policy_nth [of "min n 9"] assms(2) by simp
  from jitter_bounds [OF assms(1) this] show ?thesis
    by (simp add: Duration_default assms(2) Millisecond_def)
qed

theorem Duration_within_jitter_witness:
  "\<exists>d. Duration (\<lambda>m. m - 1) Default_policy 12 = Inr d \<and> 2500 * Millisecond \<le> d \<and> 2 * d \<le> 15000 * Millisecond"
  using Duration_within_jitter [of "\<lambda>m. m - 1" 12]
  by (simp add: rand_ok_def Default_policy_def)

end
