(* ===== verification/Revisions.thy ===== *)
theory Revisions
  imports ApiMarin3r StableSort
begin

text \<open>
  The packages \<open>envoyconfig/filters\<close> and \<open>envoyconfig/revisions\<close>: label filters, the
  error values of the package, \<open>List\<close> and \<open>Get\<close> over the API server, and
  \<open>SortByPublication\<close>.

  The Kubernetes client is the parameter \<open>ecr_client\<close>: each call takes the world and
  gives an error or a result, the writes also a new world.
\<close>

section \<open>Filters\<close>

definition NodeIDTag :: string where "NodeIDTag = ''marin3r.3scale.net/node-id''"
definition VersionTag :: string where "VersionTag = ''marin3r.3scale.net/config-version''"
definition EnvoyAPITag :: string where "EnvoyAPITag = ''marin3r.3scale.net/envoy-api''"

datatype RevisionFilter = VersionFilter string | NodeIDFilter string | EnvoyAPIFilter string

fun ApplyToLabelSelector :: "RevisionFilter \<Rightarrow> string_map \<Rightarrow> string_map" where
  "ApplyToLabelSelector (VersionFilter v) selector = AList.update VersionTag v selector"
| "ApplyToLabelSelector (NodeIDFilter v) selector = AList.update NodeIDTag v selector"
| "ApplyToLabelSelector (EnvoyAPIFilter v) selector = AList.update EnvoyAPITag v selector"

definition ByVersion :: "string \<Rightarrow> RevisionFilter" where "ByVersion version = VersionFilter version"
definition ByNodeID :: "string \<Rightarrow> RevisionFilter" where "ByNodeID nodeID = NodeIDFilter nodeID"
definition ByEnvoyAPI :: "APIVersion \<Rightarrow> RevisionFilter" where
  "ByEnvoyAPI envoyAPI = EnvoyAPIFilter (APIVersion_String envoyAPI)"

definition build_selector :: "RevisionFilter list \<Rightarrow> string_map" where
  "build_selector filters = foldl (\<lambda>sel f. ApplyToLabelSelector f sel) [] filters"

section \<open>Errors\<close>

definition NewError :: "ErrorReason \<Rightarrow> string \<Rightarrow> string \<Rightarrow> Error" where
  "NewError t method msg = \<lparr> errReason = t, errMethod = method, errMessage = msg \<rparr>"

definition Error_string :: "Error \<Rightarrow> string" where
  "Error_string e = ''error in '' @ errMethod e @ '': '' @ errMessage e"

definition ReasonForError :: "goerror \<Rightarrow> ErrorReason" where
  "ReasonForError err = (case err of RevisionsError e \<Rightarrow> errReason e | _ \<Rightarrow> UnknownError)"

definition ErrorIsNoMatchesForFilter :: "goerror \<Rightarrow> bool" where
  "ErrorIsNoMatchesForFilter err = (ReasonForError err = NoMatchesForFilterError)"

definition ErrorIsMultipleMatchesForFilter :: "goerror \<Rightarrow> bool" where
  "ErrorIsMultipleMatchesForFilter err = (ReasonForError err = MultipleMatchesForFilterError)"

section \<open>List and Get\<close>

record 'w ecr_client =
  list_ecr :: "'w \<Rightarrow> string_map \<Rightarrow> string \<Rightarrow> goerror + EnvoyConfigRevision list"
  create_ecr :: "'w \<Rightarrow> EnvoyConfigRevision \<Rightarrow> goerror option \<times> 'w"
  update_status_ecr :: "'w \<Rightarrow> EnvoyConfigRevision \<Rightarrow> goerror option \<times> 'w"
  delete_ecr :: "'w \<Rightarrow> EnvoyConfigRevision \<Rightarrow> goerror option \<times> 'w"

definition revisions_List ::
    "'w ecr_client \<Rightarrow> 'w \<Rightarrow> string \<Rightarrow> RevisionFilter list \<Rightarrow> goerror + EnvoyConfigRevision list" where
  "revisions_List c w namespace filters =
     (case list_ecr c w (build_selector filters) namespace of
        Inl err \<Rightarrow> Inl err
      | Inr items \<Rightarrow>
          (if length items = 0 then
             Inl (RevisionsError (NewError NoMatchesForFilterError ''ListRevisions''
                    (''api returned '' @ show_nat (length items) @ '' EnvoyConfigRevisions'')))
           else Inr items))"

definition revisions_Get ::
    "'w ecr_client \<Rightarrow> 'w \<Rightarrow> string \<Rightarrow> RevisionFilter list \<Rightarrow> goerror + EnvoyConfigRevision" where
  "revisions_Get c w namespace filters =
     (case list_ecr c w (build_selector filters) namespace of
        Inl err \<Rightarrow> Inl err
      | Inr items \<Rightarrow>
          (if length items = 0 then
             Inl (RevisionsError (NewError NoMatchesForFilterError ''GetRevision'' ''no EnvoyConfigRevisions found''))
           else if length items > 1 then
             Inl (RevisionsError (NewError MultipleMatchesForFilterError ''GetRevision''
                    (''api returned '' @ show_nat (length items) @ '' EnvoyConfigRevisions'')))
           else Inr (items ! 0)))"

section \<open>SortByPublication\<close>

text \<open>The date a revision is ordered by: its last publication, its creation when it was
  never published.\<close>

definition publication_time :: "EnvoyConfigRevision \<Rightarrow> Time" where
  "publication_time ecr =
     (if IsZero (ecrLastPublishedAt (ecrStatus ecr)) then CreationTimestamp (ecrMeta ecr)
      else the (ecrLastPublishedAt (ecrStatus ecr)))"

definition publication_less :: "string \<Rightarrow> EnvoyConfigRevision \<Rightarrow> EnvoyConfigRevision \<Rightarrow> bool" where
  "publication_less desiredVersion x y =
     (if ecrVersion (ecrSpec y) = desiredVersion then True
      else if ecrVersion (ecrSpec x) = desiredVersion then False
      else publication_time x < publication_time y)"

definition SortByPublication :: "string \<Rightarrow> EnvoyConfigRevision list \<Rightarrow> EnvoyConfigRevision list" where
  "SortByPublication desiredVersion items = SliceStable (publication_less desiredVersion) items"

subsection \<open>The order it sorts by\<close>

text \<open>The comparison function says less of two desired revisions both ways, so it is no
  order on lists that hold two of them. With at most one desired revision it is called only
  on pairs where it agrees with the strict weak order \<open>publication_before\<close>.\<close>

abbreviation desired :: "string \<Rightarrow> EnvoyConfigRevision \<Rightarrow> bool" where
  "desired dv e \<equiv> ecrVersion (ecrSpec e) = dv"

definition publication_before :: "string \<Rightarrow> EnvoyConfigRevision \<Rightarrow> EnvoyConfigRevision \<Rightarrow> bool" where
  "publication_before dv x y =
     (\<not> desired dv x \<and> (desired dv y \<or> publication_time x < publication_time y))"

interpretation publication: strict_weak_order "publication_before dv" for dv
  by unfold_locales (auto simp: publication_before_def)

lemma publication_less_eq:
  "\<not> (desired dv x \<and> desired dv y) \<Longrightarrow> publication_less dv x y = publication_before dv x y"
  by (auto simp: publication_less_def publication_before_def)

lemma SortByPublication_before:
  assumes "length (filter (desired dv) items) \<le> 1"
  shows "SortByPublication dv items = SliceStable (publication_before dv) items"
  unfolding SortByPublication_def SliceStable_def
proof (intro arg_cong [of _ _ rev] insertion_sort_cong publication_less_eq)
  fix x y assume x: "x \<in># mset items" and y: "y \<in># mset [] + (mset items - {#x#})"
  show "\<not> (desired dv x \<and> desired dv y)"
  proof
    assume d: "desired dv x \<and> desired dv y"
    have "{#x, y#} \<subseteq># mset items"
      using x y by (metis add_0 add_mset_add_single insert_DiffM mset.simps(1) mset_subset_eq_add_mset_cancel single_subset_iff)
    then have "filter_mset (desired dv) {#x, y#} \<subseteq># filter_mset (desired dv) (mset items)"
      by (rule multiset_filter_mono)
    then have "filter_mset (desired dv) {#x, y#} \<subseteq># mset (filter (desired dv) items)"
      by (simp only: mset_filter)
    then have "size (filter_mset (desired dv) {#x, y#}) \<le> length (filter (desired dv) items)"
      by (metis size_mset size_mset_mono)
    with d assms show False by simp
  qed
qed

lemma set_SortByPublication [simp]: "set (SortByPublication dv items) = set items"
  by (simp add: SortByPublication_def)

lemma mset_SortByPublication [simp]: "mset (SortByPublication dv items) = mset items"
  by (simp add: SortByPublication_def)

lemma length_SortByPublication [simp]: "length (SortByPublication dv items) = length items"
  by (simp add: SortByPublication_def)

lemma SortByPublication_Nil_iff [simp]: "SortByPublication dv items = [] \<longleftrightarrow> items = []"
  by (metis length_0_conv length_SortByPublication)

lemma SortByPublication_last:
  assumes "e \<in> set items" "desired dv e" "length (filter (desired dv) items) \<le> 1"
  shows "last (SortByPublication dv items) = e"
  unfolding SortByPublication_before [OF assms(3)]
proof (rule publication.SliceStable_top [OF assms(1)])
  fix y assume "y \<in> set items" "y \<noteq> e"
  with assms length_filter_le_1_unique [OF assms(3), of y e] show "publication_before dv y e"
    by (auto simp: publication_before_def)
qed

lemma SortByPublication_sorted:
  "length (filter (desired dv) items) \<le> 1 \<Longrightarrow>
   sorted_wrt (\<lambda>x y. \<not> publication_before dv y x) (SortByPublication dv items)"
  by (simp add: SortByPublication_before publication.sorted_SliceStable)

lemma sorted_wrt_filter_desired:
  "sorted_wrt (\<lambda>x y. \<not> publication_before dv y x) xs \<Longrightarrow>
   sorted (map publication_time (filter (\<lambda>e. \<not> desired dv e) xs))"
  by (induction xs) (auto simp: publication_before_def not_less)

section \<open>Properties\<close>

text \<open>(C20) \<open>SortByPublication\<close> reorders without losing or inventing a revision. When the
  list holds at most one revision of the desired version, that revision comes last and the
  others are in ascending order of publication time, creation time for those never
  published; revisions with the same time keep their order.\<close>

theorem SortByPublication_correct:
  assumes "length (filter (desired dv) items) \<le> 1"
  shows "mset (SortByPublication dv items) = mset items \<and>
    (\<forall>e. e \<in> set items \<and> desired dv e \<longrightarrow> last (SortByPublication dv items) = e) \<and>
    sorted (map publication_time (filter (\<lambda>e. \<not> desired dv e) (SortByPublication dv items))) \<and>
    (\<forall>t. filter (\<lambda>e. \<not> desired dv e \<and> publication_time e = t) (SortByPublication dv items) =
         filter (\<lambda>e. \<not> desired dv e \<and> publication_time e = t) items)"
proof (intro conjI allI impI)
  fix t
  let ?P = "\<lambda>e. \<not> desired dv e \<and> publication_time e = t"
  show "filter ?P (SortByPublication dv items) = filter ?P items"
  proof (cases "\<exists>k \<in> set items. ?P k")
    case True
    then obtain k where k: "?P k" by blast
    have "publication.tied dv k = ?P"
      using k by (auto simp: publication.tied_def publication_before_def fun_eq_iff)
    then show ?thesis
      using publication.stable_SliceStable [of dv k items] by (simp add: SortByPublication_before [OF assms])
  next
    case False
    then have "filter ?P (SortByPublication dv items) = []" "filter ?P items = []"
      by (auto simp: filter_empty_conv)
    then show ?thesis by simp
  qed
next
  show "sorted (map publication_time (filter (\<lambda>e. \<not> desired dv e) (SortByPublication dv items)))"
    by (rule sorted_wrt_filter_desired [OF SortByPublication_sorted [OF assms]])
qed (use assms in \<open>simp_all add: SortByPublication_last\<close>)

definition sample_revision :: "string \<Rightarrow> string \<Rightarrow> Time \<Rightarrow> EnvoyConfigRevision" where
  "sample_revision name version created =
     \<lparr> ecrAPIVersion = [], ecrKind = [],
       ecrMeta = empty_meta\<lparr> Name := name, CreationTimestamp := created \<rparr>,
       ecrSpec = \<lparr> ecrNodeID = ''n'', ecrVersion = version, ecrEnvoyAPI = None, ecrSerialization = None,
                   ecrEnvoyResources = None, ecrResources = None \<rparr>,
       ecrStatus = empty_revision_status \<rparr>"

theorem SortByPublication_correct_witness:
  "last (SortByPublication ''b'' [sample_revision ''x'' ''c'' 9, sample_revision ''y'' ''b'' 5, sample_revision ''z'' ''a'' 1])
     = sample_revision ''y'' ''b'' 5"
  using SortByPublication_correct [of "''b''"
      "[sample_revision ''x'' ''c'' 9, sample_revision ''y'' ''b'' 5, sample_revision ''z'' ''a'' 1]"]
  by (simp add: sample_revision_def)

end
