(* ===== verification/RevisionReconciler.thy ===== *)
theory RevisionReconciler
  imports Revisions
begin

text \<open>
  The revision reconciler of \<open>EnvoyConfig\<close>
  (\<open>pkg/reconcilers/marin3r/envoyconfig/reconcile_revisions.go\<close>): it keeps one
  \<open>EnvoyConfigRevision\<close> per version of the resources, publishes the newest revision that
  is not tainted, unpublishes the others and applies the retention of ten revisions.

  \<open>Reconcile\<close> is the whole method over a world \<open>'w\<close>: every write goes through the
  client, and an error of any call ends the method with the writes done so far. The locale
  \<open>revision_api\<close> says what the API server promises of those calls.
\<close>

section \<open>State\<close>

record CtrlResult =
  crRequeue :: bool
  crRequeueAfter :: int

definition empty_result :: CtrlResult where
  "empty_result = \<lparr> crRequeue = False, crRequeueAfter = 0 \<rparr>"

definition maxRevisions :: nat where "maxRevisions = 10"

record RevisionReconciler =
  rrEC :: EnvoyConfig
  rrDesiredVersion :: "string option"
  rrPublishedVersion :: "string option"
  rrCacheState :: "string option"
  rrRevisionList :: "EnvoyConfigRevision list option"

definition NewRevisionReconciler :: "EnvoyConfig \<Rightarrow> RevisionReconciler" where
  "NewRevisionReconciler ec = \<lparr> rrEC = ec, rrDesiredVersion = None, rrPublishedVersion = None,
     rrCacheState = None, rrRevisionList = None \<rparr>"

definition rr_Namespace :: "RevisionReconciler \<Rightarrow> string" where
  "rr_Namespace r = Namespace (ecMeta (rrEC r))"

definition rr_NodeID :: "RevisionReconciler \<Rightarrow> string" where
  "rr_NodeID r = ecNodeID (ecSpec (rrEC r))"

text \<open>The version is computed on the first call and kept.\<close>

definition DesiredVersion :: "resources_hash \<Rightarrow> RevisionReconciler \<Rightarrow> string \<times> RevisionReconciler" where
  "DesiredVersion hash r =
     (case rrDesiredVersion r of
        Some v \<Rightarrow> (v, r)
      | None \<Rightarrow> (let v = GetEnvoyResourcesVersion hash (rrEC r) in (v, r\<lparr> rrDesiredVersion := Some v \<rparr>)))"

definition rr_EnvoyAPI :: "RevisionReconciler \<Rightarrow> APIVersion" where
  "rr_EnvoyAPI r = EC_GetEnvoyAPIVersion (rrEC r)"

definition GetRevisionList :: "RevisionReconciler \<Rightarrow> EnvoyConfigRevision list option" where
  "GetRevisionList r = rrRevisionList r"

text \<open>The two accessors dereference a pointer that is nil before \<open>Reconcile\<close> got that far.\<close>

definition PublishedVersion :: "RevisionReconciler \<Rightarrow> goerror + string" where
  "PublishedVersion r = (case rrPublishedVersion r of
     None \<Rightarrow> Inl (Panic ''nil pointer dereference'') | Some v \<Rightarrow> Inr v)"

definition GetCacheState :: "RevisionReconciler \<Rightarrow> goerror + string" where
  "GetCacheState r = (case rrCacheState r of
     None \<Rightarrow> Inl (Panic ''nil pointer dereference'') | Some v \<Rightarrow> Inr v)"

section \<open>Operations\<close>

definition getVersionToPublish :: "meta_ops \<Rightarrow> EnvoyConfigRevision list \<Rightarrow> string \<times> string" where
  "getVersionToPublish m items =
     (let versionToPublish = (case find (\<lambda>ecr. \<not> tainted_true m ecr) (rev items) of
                                None \<Rightarrow> []
                              | Some ecr \<Rightarrow> ecrVersion (ecrSpec ecr))
      in if versionToPublish = [] then ([], RollbackFailedState)
         else if versionToPublish \<noteq> ecrVersion (ecrSpec (last items)) then (versionToPublish, RollbackState)
         else (versionToPublish, InSyncState))"

abbreviation map_conditions ::
    "(Condition list \<Rightarrow> Condition list) \<Rightarrow> EnvoyConfigRevision \<Rightarrow> EnvoyConfigRevision" where
  "map_conditions f e \<equiv> e\<lparr> ecrStatus := (ecrStatus e)\<lparr> ecrConditions := f (ecrConditions (ecrStatus e)) \<rparr> \<rparr>"

definition unpublish :: "meta_ops \<Rightarrow> EnvoyConfigRevision \<Rightarrow> EnvoyConfigRevision" where
  "unpublish m ecr = map_conditions (\<lambda>cs. RemoveStatusCondition m cs RevisionPublishedCondition) ecr"

definition publish :: "meta_ops \<Rightarrow> string \<Rightarrow> EnvoyConfigRevision \<Rightarrow> EnvoyConfigRevision" where
  "publish m versionToPublish ecr =
     map_conditions (\<lambda>cs. SetStatusCondition m cs
       (mkCondition RevisionPublishedCondition ConditionTrue ''VersionPublished''
          (''Version '' @ quoted versionToPublish @ '' has been published''))) ecr"

fun published_loop ::
    "meta_ops \<Rightarrow> string \<Rightarrow> EnvoyConfigRevision list \<Rightarrow> EnvoyConfigRevision option \<Rightarrow> EnvoyConfigRevision list
     \<Rightarrow> EnvoyConfigRevision option \<times> EnvoyConfigRevision list" where
  "published_loop m v [] shouldBeTrue shouldBeFalse = (shouldBeTrue, shouldBeFalse)"
| "published_loop m v (ecr # items) shouldBeTrue shouldBeFalse =
     (if ecrVersion (ecrSpec ecr) \<noteq> v \<and> published_true m ecr then
        published_loop m v items shouldBeTrue (shouldBeFalse @ [unpublish m ecr])
      else if ecrVersion (ecrSpec ecr) = v \<and> \<not> published_true m ecr then
        published_loop m v items (Some (publish m v ecr)) shouldBeFalse
      else published_loop m v items shouldBeTrue shouldBeFalse)"

definition isRevisionPublishedConditionReconciled ::
    "meta_ops \<Rightarrow> string \<Rightarrow> EnvoyConfigRevision list \<Rightarrow> EnvoyConfigRevision option \<times> EnvoyConfigRevision list" where
  "isRevisionPublishedConditionReconciled m versionToPublish items =
     published_loop m versionToPublish items None []"

definition popRevision :: "EnvoyConfigRevision list \<Rightarrow> EnvoyConfigRevision \<times> EnvoyConfigRevision list" where
  "popRevision list = (list ! 0, drop 1 list)"

text \<open>The loop pops while the list is too long; it returns what was popped and what is
  left in \<open>r.revisionList\<close>.\<close>

function retention_loop ::
    "nat \<Rightarrow> EnvoyConfigRevision list \<Rightarrow> EnvoyConfigRevision list \<Rightarrow> EnvoyConfigRevision list \<times> EnvoyConfigRevision list" where
  "retention_loop retention revisionList toBeDeleted =
     (if length revisionList > retention then
        (let (item, rest) = popRevision revisionList
         in retention_loop retention rest (toBeDeleted @ [item]))
      else (toBeDeleted, revisionList))"
  by pat_completeness auto
termination
  by (relation "measure (\<lambda>(n, l, d). length l)") (auto simp: popRevision_def)

definition isRevisionRetentionReconciled ::
    "nat \<Rightarrow> EnvoyConfigRevision list \<Rightarrow> EnvoyConfigRevision list \<times> EnvoyConfigRevision list" where
  "isRevisionRetentionReconciled retention items = retention_loop retention items []"

definition newRevisionForCurrentResources :: "string \<Rightarrow> RevisionReconciler \<Rightarrow> EnvoyConfigRevision" where
  "newRevisionForCurrentResources desiredVersion r =
     \<lparr> ecrAPIVersion = [], ecrKind = [],
       ecrMeta = empty_meta\<lparr>
         Name := rr_NodeID r @ ''-'' @ APIVersion_String (rr_EnvoyAPI r) @ ''-'' @ desiredVersion,
         Namespace := rr_Namespace r,
         Labels := [(NodeIDTag, rr_NodeID r), (VersionTag, desiredVersion),
                    (EnvoyAPITag, APIVersion_String (rr_EnvoyAPI r))] \<rparr>,
       ecrSpec = \<lparr> ecrNodeID = rr_NodeID r, ecrVersion = desiredVersion, ecrEnvoyAPI = Some (rr_EnvoyAPI r),
                   ecrSerialization = None, ecrEnvoyResources = None, ecrResources = ecResources (ecSpec (rrEC r)) \<rparr>,
       ecrStatus = empty_revision_status \<rparr>"

text \<open>A loop of writes that returns at the first error.\<close>

fun write_all ::
    "('w \<Rightarrow> EnvoyConfigRevision \<Rightarrow> goerror option \<times> 'w) \<Rightarrow> 'w \<Rightarrow> EnvoyConfigRevision list \<Rightarrow> goerror option \<times> 'w" where
  "write_all f w [] = (None, w)"
| "write_all f w (ecr # ecrs) =
     (case f w ecr of
        (Some err, w') \<Rightarrow> (Some err, w')
      | (None, w') \<Rightarrow> write_all f w' ecrs)"

text \<open>\<open>controllerutil.SetControllerReference\<close> is an argument; it gives an error or the
  revision with its owner set.\<close>

type_synonym set_owner = "EnvoyConfig \<Rightarrow> EnvoyConfigRevision \<Rightarrow> goerror + EnvoyConfigRevision"

definition create_revision ::
    "set_owner \<Rightarrow> 'w ecr_client \<Rightarrow> string \<Rightarrow> RevisionReconciler \<Rightarrow> 'w
     \<Rightarrow> RevisionReconciler \<times> (CtrlResult \<times> goerror option) \<times> 'w" where
  "create_revision setOwner c dv r w =
     (case setOwner (rrEC r) (newRevisionForCurrentResources dv r) of
        Inl err \<Rightarrow> (r, (empty_result, Some err), w)
      | Inr ecr \<Rightarrow>
          (case create_ecr c w ecr of
             (Some err, w') \<Rightarrow> (r, (empty_result, Some err), w')
           | (None, w') \<Rightarrow> (r, (empty_result\<lparr> crRequeue := True \<rparr>, None), w')))"

definition apply_revisions ::
    "meta_ops \<Rightarrow> 'w ecr_client \<Rightarrow> string \<Rightarrow> EnvoyConfigRevision list \<Rightarrow> RevisionReconciler \<Rightarrow> 'w
     \<Rightarrow> RevisionReconciler \<times> (CtrlResult \<times> goerror option) \<times> 'w" where
  "apply_revisions m c dv list r w =
     (let items = SortByPublication dv list;
          (publishedVersion, cacheState) = getVersionToPublish m items;
          r1 = r\<lparr> rrRevisionList := Some items, rrCacheState := Some cacheState,
                  rrPublishedVersion := Some publishedVersion \<rparr>;
          (shouldBeTrue, shouldBeFalse) = isRevisionPublishedConditionReconciled m publishedVersion items
      in case write_all (update_status_ecr c) w shouldBeFalse of
           (Some err, w1) \<Rightarrow> (r1, (empty_result, Some err), w1)
         | (None, w1) \<Rightarrow>
             (case write_all (update_status_ecr c) w1 (case shouldBeTrue of None \<Rightarrow> [] | Some e \<Rightarrow> [e]) of
                (Some err, w2) \<Rightarrow> (r1, (empty_result, Some err), w2)
              | (None, w2) \<Rightarrow>
                  (let (shouldBeDeleted, rest) = isRevisionRetentionReconciled maxRevisions items;
                       r2 = r1\<lparr> rrRevisionList := Some rest \<rparr>
                   in case write_all (delete_ecr c) w2 shouldBeDeleted of
                        (Some err, w3) \<Rightarrow> (r2, (empty_result, Some err), w3)
                      | (None, w3) \<Rightarrow> (r2, (empty_result, None), w3))))"

definition Reconcile ::
    "resources_hash \<Rightarrow> meta_ops \<Rightarrow> set_owner \<Rightarrow> 'w ecr_client \<Rightarrow> RevisionReconciler \<Rightarrow> 'w
     \<Rightarrow> RevisionReconciler \<times> (CtrlResult \<times> goerror option) \<times> 'w" where
  "Reconcile hash m setOwner c r0 w =
     (let (dv, r) = DesiredVersion hash r0 in
      case revisions_Get c w (rr_Namespace r)
             [ByNodeID (rr_NodeID r), ByVersion dv, ByEnvoyAPI (rr_EnvoyAPI r)] of
        Inl err \<Rightarrow>
          (if ErrorIsNoMatchesForFilter err then create_revision setOwner c dv r w
           else (r, (empty_result, Some err), w))
      | Inr _ \<Rightarrow>
          (case revisions_List c w (rr_Namespace r) [ByNodeID (rr_NodeID r), ByEnvoyAPI (rr_EnvoyAPI r)] of
             Inl err \<Rightarrow> (r, (empty_result, Some err), w)
           | Inr list \<Rightarrow> apply_revisions m c dv list r w))"

end
