(* ===== verification/RevisionSafety.thy ===== *)
theory RevisionSafety
  imports RevisionReconciler
begin

text \<open>
  What the revision reconciler guarantees. The first part characterises its loops; the
  second states the contract of the API server as the locale \<open>revision_api\<close>, with an
  observation \<open>stored\<close> of the revisions the server holds; the third proves, inside the
  locale, what holds after every exit of \<open>Reconcile\<close>. A client that fails at some call is
  one more client, so what holds at every exit holds between any two writes as well.
\<close>

section \<open>The loops\<close>

abbreviation version_of :: "EnvoyConfigRevision \<Rightarrow> string" where
  "version_of e \<equiv> ecrVersion (ecrSpec e)"

abbreviation key_of :: "EnvoyConfigRevision \<Rightarrow> NamespacedName" where
  "key_of e \<equiv> object_key (ecrMeta e)"

lemma published_loop_eq:
  "published_loop m v items t fs =
     ((case filter (\<lambda>e. version_of e = v \<and> \<not> published_true m e) items of
         [] \<Rightarrow> t | e # es \<Rightarrow> Some (publish m v (last (e # es)))),
      fs @ map (unpublish m) (filter (\<lambda>e. version_of e \<noteq> v \<and> published_true m e) items))"
  by (induction m v items t fs rule: published_loop.induct) (auto split: list.splits)

lemma retention_loop_eq:
  "retention_loop n l d = (d @ take (length l - n) l, drop (length l - n) l)"
proof (induction n l d rule: retention_loop.induct)
  case (1 n l d)
  show ?case
  proof (cases "length l > n")
    case True
    then obtain x xs where "l = x # xs" by (cases l) auto
    with True 1 show ?thesis by (simp add: popRevision_def Suc_diff_le)
  qed simp
qed

declare retention_loop.simps [simp del]

lemma retention_eq:
  "isRevisionRetentionReconciled n l = (take (length l - n) l, drop (length l - n) l)"
  by (simp add: isRevisionRetentionReconciled_def retention_loop_eq)

lemma unpublish_sel [simp]:
  "ecrMeta (unpublish m e) = ecrMeta e" "ecrSpec (unpublish m e) = ecrSpec e"
  by (simp_all add: unpublish_def)

lemma publish_sel [simp]:
  "ecrMeta (publish m v e) = ecrMeta e" "ecrSpec (publish m v e) = ecrSpec e"
  by (simp_all add: publish_def)

lemma getVersionToPublish_cases:
  obtains (failed) "getVersionToPublish m items = ([], RollbackFailedState)"
  | (found) e where "e \<in> set items" "\<not> tainted_true m e" "getVersionToPublish m items =
      (version_of e, if version_of e = version_of (last items) then InSyncState else RollbackState)"
proof (cases "find (\<lambda>ecr. \<not> tainted_true m ecr) (rev items)")
  case None
  then show thesis by (intro failed) (simp add: getVersionToPublish_def)
next
  case (Some e)
  have "e \<in> set items" "\<not> tainted_true m e" using find_SomeD [OF Some] by auto
  then show thesis
    by (cases "version_of e = []") (auto simp: getVersionToPublish_def Some intro: failed found)
qed

section \<open>The API server\<close>

definition matches :: "string_map \<Rightarrow> string \<Rightarrow> EnvoyConfigRevision \<Rightarrow> bool" where
  "matches sel ns e =
     (Namespace (ecrMeta e) = ns \<and> list_all (\<lambda>(k, v). map_of (Labels (ecrMeta e)) k = Some v) sel)"

definition put_status :: "EnvoyConfigRevision \<Rightarrow> EnvoyConfigRevision list \<Rightarrow> EnvoyConfigRevision list" where
  "put_status e l = map (\<lambda>y. if key_of y = key_of e then y\<lparr> ecrStatus := ecrStatus e \<rparr> else y) l"

definition remove_key :: "EnvoyConfigRevision \<Rightarrow> EnvoyConfigRevision list \<Rightarrow> EnvoyConfigRevision list" where
  "remove_key e l = filter (\<lambda>y. key_of y \<noteq> key_of e) l"

text \<open>A created object keeps key, labels and spec, and starts with an empty status.\<close>

definition created_from :: "EnvoyConfigRevision \<Rightarrow> EnvoyConfigRevision \<Rightarrow> bool" where
  "created_from e e' \<longleftrightarrow> key_of e' = key_of e \<and> Labels (ecrMeta e') = Labels (ecrMeta e) \<and>
     ecrSpec e' = ecrSpec e \<and> ecrConditions (ecrStatus e') = []"

text \<open>A write that succeeds has its effect; one that fails has it or has none. Keys are
  unique. The list call is current, that is, no write is missing from what it reads.\<close>

locale revision_api = status_conditions m for m :: meta_ops +
  fixes c :: "'w ecr_client" and stored :: "'w \<Rightarrow> EnvoyConfigRevision list" and setOwner :: set_owner
  assumes update_effect:
      "stored (snd (update_status_ecr c w e)) = put_status e (stored w) \<or>
       (fst (update_status_ecr c w e) \<noteq> None \<and> stored (snd (update_status_ecr c w e)) = stored w)"
    and delete_effect:
      "stored (snd (delete_ecr c w e)) = remove_key e (stored w) \<or>
       (fst (delete_ecr c w e) \<noteq> None \<and> stored (snd (delete_ecr c w e)) = stored w)"
    and create_effect:
      "(\<exists>e'. created_from e e' \<and> key_of e \<notin> key_of ` set (stored w) \<and>
             stored (snd (create_ecr c w e)) = stored w @ [e']) \<or>
       (fst (create_ecr c w e) \<noteq> None \<and> stored (snd (create_ecr c w e)) = stored w)"
    and list_current:
      "list_ecr c w sel ns = Inr items \<Longrightarrow> mset items = mset (filter (matches sel ns) (stored w))"
    and owner_keeps:
      "setOwner ec e = Inr e' \<Longrightarrow> key_of e' = key_of e \<and> Labels (ecrMeta e') = Labels (ecrMeta e) \<and>
         ecrSpec e' = ecrSpec e"

lemma write_all_inv:
  assumes "\<And>w e. e \<in> set es \<Longrightarrow> I w \<Longrightarrow> I (snd (f w e))" "I w"
  shows "I (snd (write_all f w es))"
  using assms
proof (induction es arbitrary: w)
  case (Cons e es)
  obtain err w' where fw: "f w e = (err, w')" by fastforce
  with Cons.prems(1) [of e w] Cons.prems(2) have "I w'" by simp
  with Cons fw show ?case by (cases err) auto
qed simp

lemma write_all_ok:
  assumes "\<And>w e es. I w (e # es) \<Longrightarrow> fst (f w e) = None \<Longrightarrow> I (snd (f w e)) es"
    and "I w es" "fst (write_all f w es) = None"
  shows "I (snd (write_all f w es)) []"
  using assms(2,3)
proof (induction es arbitrary: w)
  case (Cons e es)
  obtain err w' where fw: "f w e = (err, w')" by fastforce
  with Cons.prems(2) have "err = None" by (cases err) auto
  with fw assms(1) [OF Cons.prems(1)] have "I w' es" by simp
  with Cons fw \<open>err = None\<close> show ?case by simp
qed simp

section \<open>Effects on the stored revisions\<close>

definition shape :: "EnvoyConfigRevision list \<Rightarrow> (ObjectMeta \<times> EnvoyConfigRevisionSpec) list" where
  "shape l = map (\<lambda>e. (ecrMeta e, ecrSpec e)) l"

lemma shape_put_status [simp]: "shape (put_status e l) = shape l"
  by (simp add: shape_def put_status_def)

lemma in_put_status:
  "x \<in> set (put_status e l) \<Longrightarrow>
     (key_of x \<noteq> key_of e \<and> x \<in> set l) \<or>
     (key_of x = key_of e \<and> ecrStatus x = ecrStatus e \<and>
        (\<exists>y \<in> set l. ecrMeta y = ecrMeta x \<and> ecrSpec y = ecrSpec x))"
  by (auto simp: put_status_def)

lemma shape_eq_obtain:
  assumes "shape l' = shape l" "x \<in> set l'"
  obtains y where "y \<in> set l" "ecrMeta y = ecrMeta x" "ecrSpec y = ecrSpec x"
proof -
  have "(ecrMeta x, ecrSpec x) \<in> set (shape l')" using assms(2) by (force simp: shape_def)
  then show thesis using that by (auto simp: assms(1)) (auto simp: shape_def)
qed

lemma matches_cong: "ecrMeta x = ecrMeta y \<Longrightarrow> matches sel ns x = matches sel ns y"
  by (simp add: matches_def)

lemma keys_of_shape: "map key_of l = map (object_key \<circ> fst) (shape l)"
  by (simp add: shape_def)

lemma same_key_le_1:
  assumes "distinct (map key_of l)"
  shows "length (filter P l) \<le> 1 \<longleftrightarrow> (\<forall>x \<in> set l. \<forall>y \<in> set l. P x \<and> P y \<longrightarrow> key_of x = key_of y)"
proof
  assume "length (filter P l) \<le> 1"
  then show "\<forall>x \<in> set l. \<forall>y \<in> set l. P x \<and> P y \<longrightarrow> key_of x = key_of y"
    using length_filter_le_1_unique by metis
next
  assume same: "\<forall>x \<in> set l. \<forall>y \<in> set l. P x \<and> P y \<longrightarrow> key_of x = key_of y"
  have d: "distinct (map key_of (filter P l))" using assms by (simp add: distinct_map_filter)
  show "length (filter P l) \<le> 1"
  proof (rule ccontr)
    assume "\<not> length (filter P l) \<le> 1"
    then obtain x y zs where f: "filter P l = x # y # zs"
      by (metis One_nat_def length_0_conv length_Suc_conv less_eq_Suc_le list.exhaust list.size(3) list.size(4) not_less_eq_eq zero_le)
    then have "x \<in> set (filter P l)" "y \<in> set (filter P l)" by simp_all
    then have "key_of x = key_of y" using same by auto
    with d f show False by simp
  qed
qed

section \<open>What every exit guarantees\<close>

abbreviation published_in :: "meta_ops \<Rightarrow> string_map \<Rightarrow> string \<Rightarrow> EnvoyConfigRevision \<Rightarrow> bool" where
  "published_in m sel ns e \<equiv> matches sel ns e \<and> published_true m e"

context revision_api
begin

text \<open>While old revisions are being unpublished: nothing new is published.\<close>

definition unpublishing :: "string_map \<Rightarrow> string \<Rightarrow> 'w \<Rightarrow> 'w \<Rightarrow> bool" where
  "unpublishing sel ns w0 w \<longleftrightarrow> shape (stored w) = shape (stored w0) \<and>
     (\<forall>x \<in> set (stored w). published_in m sel ns x \<longrightarrow> x \<in> set (stored w0))"

lemma unpublish_not_published [simp]: "\<not> published_true m (unpublish m e)"
  by (simp add: unpublish_def is_true_remove_same)

lemma publish_published [simp]: "published_true m (publish m v e)"
  by (simp add: publish_def is_true_set_same)

lemma update_cases:
  obtains "stored (snd (update_status_ecr c w e)) = put_status e (stored w)"
  | "stored (snd (update_status_ecr c w e)) = stored w" "fst (update_status_ecr c w e) \<noteq> None"
  using update_effect [of w e] by blast

lemma unpublishing_step:
  assumes "unpublishing sel ns w0 w"
  shows "unpublishing sel ns w0 (snd (update_status_ecr c w (unpublish m e)))"
proof (cases rule: update_cases [of w "unpublish m e"])
  case 1
  have "x \<in> set (stored w0)" if x: "x \<in> set (put_status (unpublish m e) (stored w))" and "published_in m sel ns x" for x
    using in_put_status [OF x] that(2) assms by (auto simp: unpublishing_def)
  with assms 1 show ?thesis by (simp add: unpublishing_def)
qed (use assms in \<open>simp add: unpublishing_def\<close>)

text \<open>Once they are unpublished: only the version to publish is.\<close>

definition only_version :: "string_map \<Rightarrow> string \<Rightarrow> string \<Rightarrow> 'w \<Rightarrow> 'w \<Rightarrow> bool" where
  "only_version sel ns v w0 w \<longleftrightarrow>
     (\<forall>x \<in> set (stored w). \<exists>y \<in> set (stored w0). ecrMeta y = ecrMeta x \<and> ecrSpec y = ecrSpec x) \<and>
     distinct (map key_of (stored w)) \<and>
     (\<forall>x \<in> set (stored w). published_in m sel ns x \<longrightarrow> version_of x = v)"

definition unpublish_todo :: "string_map \<Rightarrow> string \<Rightarrow> string \<Rightarrow> 'w \<Rightarrow> 'w \<Rightarrow> EnvoyConfigRevision list \<Rightarrow> bool" where
  "unpublish_todo sel ns v w0 w es \<longleftrightarrow> unpublishing sel ns w0 w \<and>
     (\<forall>e \<in> set es. \<not> published_true m e) \<and>
     (\<forall>x \<in> set (stored w). published_in m sel ns x \<longrightarrow> version_of x = v \<or> key_of x \<in> key_of ` set es) \<and>
     (\<forall>e \<in> set es. \<exists>y \<in> set (stored w0). ecrMeta y = ecrMeta e \<and> version_of y \<noteq> v) \<and>
     (\<forall>x \<in> set (stored w). matches sel ns x \<and> version_of x = v \<longrightarrow> x \<in> set (stored w0))"

lemma unpublish_todo_step:
  assumes todo: "unpublish_todo sel ns v w0 w (e # es)" and ok: "fst (update_status_ecr c w e) = None"
    and dist: "distinct (map key_of (stored w0))"
  shows "unpublish_todo sel ns v w0 (snd (update_status_ecr c w e)) es"
proof -
  let ?l = "put_status e (stored w)"
  have l: "stored (snd (update_status_ecr c w e)) = ?l" using ok update_effect [of w e] by auto
  have unpub: "\<not> published_true m e" using todo by (simp add: unpublish_todo_def)
  obtain y where y: "y \<in> set (stored w0)" "ecrMeta y = ecrMeta e" "version_of y \<noteq> v"
    using todo by (auto simp: unpublish_todo_def)
  have sh: "shape (stored w) = shape (stored w0)" using todo by (simp add: unpublish_todo_def unpublishing_def)
  have other: "key_of x \<noteq> key_of e" if x: "x \<in> set ?l" "version_of x = v" for x
  proof
    assume k: "key_of x = key_of e"
    obtain z where z: "z \<in> set (stored w0)" "ecrMeta z = ecrMeta x" "ecrSpec z = ecrSpec x"
      using shape_eq_obtain [of ?l "stored w0" x] sh x(1) by auto
    then have "z = y" using dist y k by (metis distinct_map inj_onD)
    with z y x show False by simp
  qed
  have kept: "x \<in> set (stored w)" if "x \<in> set ?l" "published_in m sel ns x \<or> version_of x = v" for x
    using in_put_status [OF that(1)] other [OF that(1)] that(2) unpub by auto
  have notkey: "key_of x \<noteq> key_of e" if "x \<in> set ?l" "published_in m sel ns x" for x
    using in_put_status [OF that(1)] that(2) unpub by auto
  show ?thesis
    using todo sh kept notkey unfolding unpublish_todo_def unpublishing_def l
    by (auto simp del: shape_put_status) (auto)
qed

text \<open>The three phases of \<open>apply_revisions\<close>.\<close>

definition to_unpublish :: "string \<Rightarrow> EnvoyConfigRevision list \<Rightarrow> EnvoyConfigRevision list" where
  "to_unpublish v items = map (unpublish m) (filter (\<lambda>e. version_of e \<noteq> v \<and> published_true m e) items)"

definition to_publish :: "string \<Rightarrow> EnvoyConfigRevision list \<Rightarrow> EnvoyConfigRevision list" where
  "to_publish v items = (case filter (\<lambda>e. version_of e = v \<and> \<not> published_true m e) items of
     [] \<Rightarrow> [] | e # es \<Rightarrow> [publish m v (last (e # es))])"

lemma to_publish_elem:
  "e \<in> set (to_publish v items) \<Longrightarrow> \<exists>y \<in> set items. version_of y = v \<and> e = publish m v y"
proof -
  let ?f = "filter (\<lambda>e. version_of e = v \<and> \<not> published_true m e) items"
  assume "e \<in> set (to_publish v items)"
  then have "?f \<noteq> []" "e = publish m v (last ?f)"
    by (cases ?f; simp add: to_publish_def)+
  moreover from last_in_set [OF this(1)] have "last ?f \<in> set items" "version_of (last ?f) = v" by auto
  ultimately show ?thesis by blast
qed

lemma apply_revisions_exits:
  fixes dv list r w
  defines "items \<equiv> SortByPublication dv list"
  defines "v \<equiv> fst (getVersionToPublish m items)" and "cs \<equiv> snd (getVersionToPublish m items)"
  defines "ph1 \<equiv> write_all (update_status_ecr c) w (to_unpublish v items)"
  defines "ph2 \<equiv> write_all (update_status_ecr c) (snd ph1) (to_publish v items)"
  defines "ph3 \<equiv> write_all (delete_ecr c) (snd ph2) (take (length items - 10) items)"
  defines "res \<equiv> apply_revisions m c dv list r w"
  obtains (unpublish) "fst ph1 \<noteq> None" "snd (snd res) = snd ph1" "snd (fst (snd res)) \<noteq> None"
  | (publish) "fst ph1 = None" "fst ph2 \<noteq> None" "snd (snd res) = snd ph2" "snd (fst (snd res)) \<noteq> None"
  | (delete) "fst ph1 = None" "fst ph2 = None" "snd (snd res) = snd ph3" "snd (fst (snd res)) = fst ph3"
      "fst res = r\<lparr> rrRevisionList := Some (drop (length items - 10) items), rrCacheState := Some cs,
                    rrPublishedVersion := Some v \<rparr>"
proof -
  obtain e1 w1 where p1: "ph1 = (e1, w1)" by fastforce
  obtain e2 w2 where p2: "ph2 = (e2, w2)" by fastforce
  obtain e3 w3 where p3: "ph3 = (e3, w3)" by fastforce
  have vcs: "getVersionToPublish m items = (v, cs)" by (simp add: v_def cs_def)
  obtain t where 1: "isRevisionPublishedConditionReconciled m v items = (t, to_unpublish v items)"
    and 2: "(case t of None \<Rightarrow> [] | Some e \<Rightarrow> [e]) = to_publish v items"
    by (simp add: isRevisionPublishedConditionReconciled_def published_loop_eq to_unpublish_def to_publish_def
        split: list.split)
  have 3: "isRevisionRetentionReconciled maxRevisions items =
      (take (length items - 10) items, drop (length items - 10) items)"
    by (simp add: retention_eq maxRevisions_def)
  note unf = res_def apply_revisions_def items_def [symmetric] vcs 1 2 3 Let_def prod.case
    ph1_def [symmetric] p1 ph2_def [symmetric, unfolded p1 snd_conv] p2 ph3_def [symmetric, unfolded p2 snd_conv] p3
  show thesis
  proof (cases e1)
    case (Some x)
    then show thesis by (intro unpublish) (simp_all add: unf)
  next
    case e1: None
    show thesis
    proof (cases e2)
      case (Some x)
      with e1 show thesis by (intro publish) (simp_all add: unf)
    next
      case None
      with e1 show thesis by (intro delete; cases e3) (simp_all add: unf)
    qed
  qed
qed

text \<open>What is known when the phases start: keys are unique, the versions of the matching
  revisions are distinct, and the list read is the matching revisions.\<close>

definition listed :: "string_map \<Rightarrow> string \<Rightarrow> EnvoyConfigRevision list \<Rightarrow> 'w \<Rightarrow> bool" where
  "listed sel ns list w \<longleftrightarrow> distinct (map key_of (stored w)) \<and>
     distinct (map version_of (filter (matches sel ns) (stored w))) \<and>
     mset list = mset (filter (matches sel ns) (stored w))"

lemma listed_set: "listed sel ns list w \<Longrightarrow> e \<in> set list \<longleftrightarrow> e \<in> set (stored w) \<and> matches sel ns e"
proof -
  assume "listed sel ns list w"
  then have "set list = set (filter (matches sel ns) (stored w))"
    unfolding listed_def by (metis set_mset_mset)
  then show ?thesis by simp
qed

lemma listed_version_inj:
  "listed sel ns list w \<Longrightarrow> x \<in> set (stored w) \<Longrightarrow> y \<in> set (stored w) \<Longrightarrow> matches sel ns x \<Longrightarrow>
   matches sel ns y \<Longrightarrow> version_of x = version_of y \<Longrightarrow> x = y"
  unfolding listed_def by (auto simp: distinct_map inj_on_def)

lemma unpublish_todo_start:
  assumes "listed sel ns list w" "set items = set list"
  shows "unpublish_todo sel ns v w w (to_unpublish v items)"
proof -
  have "key_of x \<in> key_of ` set (to_unpublish v items)"
    if "x \<in> set (stored w)" "published_in m sel ns x" "version_of x \<noteq> v" for x
  proof -
    have "unpublish m x \<in> set (to_unpublish v items)"
      using that listed_set [OF assms(1), of x] assms(2) by (auto simp: to_unpublish_def)
    then show ?thesis by (rule rev_image_eqI) simp
  qed
  then show ?thesis
    using listed_set [OF assms(1)] assms(2)
    by (auto simp: unpublish_todo_def unpublishing_def to_unpublish_def)
qed

lemma phase1_any:
  "unpublishing sel ns w (snd (write_all (update_status_ecr c) w (to_unpublish v items)))"
  by (rule write_all_inv) (auto simp: to_unpublish_def unpublishing_step unpublishing_def [of _ _ w w])

lemma phase1_ok:
  assumes l: "listed sel ns list w" and "set items = set list"
    and ok: "fst (write_all (update_status_ecr c) w (to_unpublish v items)) = None"
  shows "unpublish_todo sel ns v w (snd (write_all (update_status_ecr c) w (to_unpublish v items))) []"
proof (rule write_all_ok [of "unpublish_todo sel ns v w"])
  show "unpublish_todo sel ns v w w (to_unpublish v items)" by (rule unpublish_todo_start [OF assms(1,2)])
next
  fix w' e es
  assume "unpublish_todo sel ns v w w' (e # es)" "fst (update_status_ecr c w' e) = None"
  then show "unpublish_todo sel ns v w (snd (update_status_ecr c w' e)) es"
    by (rule unpublish_todo_step) (use l in \<open>simp add: listed_def\<close>)
qed (rule ok)

lemma only_version_start:
  assumes "listed sel ns list w0" "unpublish_todo sel ns v w0 w []"
  shows "only_version sel ns v w0 w"
proof -
  have sh: "shape (stored w) = shape (stored w0)"
    using assms(2) by (simp add: unpublish_todo_def unpublishing_def)
  have "map key_of (stored w) = map key_of (stored w0)" by (simp only: keys_of_shape sh)
  then have "distinct (map key_of (stored w))" using assms(1) by (simp add: listed_def)
  moreover have "\<exists>y \<in> set (stored w0). ecrMeta y = ecrMeta x \<and> ecrSpec y = ecrSpec x" if "x \<in> set (stored w)" for x
    using shape_eq_obtain [OF sh that] by metis
  ultimately show ?thesis using assms(2) by (auto simp: only_version_def unpublish_todo_def)
qed

lemma only_version_update:
  assumes "only_version sel ns v w0 w" "distinct (map key_of (stored w0))"
    and "y \<in> set (stored w0)" "ecrMeta y = ecrMeta e" "version_of y = v"
  shows "only_version sel ns v w0 (snd (update_status_ecr c w e))"
proof (cases rule: update_cases [of w e])
  case 1
  have old: "\<exists>z \<in> set (stored w0). ecrMeta z = ecrMeta x \<and> ecrSpec z = ecrSpec x"
    if "x \<in> set (put_status e (stored w))" for x
    using in_put_status [OF that] assms(1) unfolding only_version_def by metis
  have "version_of x = v" if x: "x \<in> set (put_status e (stored w))" "published_in m sel ns x" for x
  proof (cases "key_of x = key_of e")
    case True
    from old [OF x(1)] obtain z where z: "z \<in> set (stored w0)" "ecrMeta z = ecrMeta x" "ecrSpec z = ecrSpec x" by blast
    with True assms(2-4) have "z = y" by (metis distinct_map inj_onD)
    with z assms(5) show ?thesis by simp
  next
    case False
    with in_put_status [OF x(1)] x(2) assms(1) show ?thesis by (auto simp: only_version_def)
  qed
  moreover have "map key_of (put_status e (stored w)) = map key_of (stored w)" by (simp only: keys_of_shape shape_put_status)
  ultimately show ?thesis using old assms(1) 1 by (simp add: only_version_def)
qed (use assms in \<open>simp add: only_version_def\<close>)

lemma only_version_delete:
  "only_version sel ns v w0 w \<Longrightarrow> only_version sel ns v w0 (snd (delete_ecr c w e))"
  using delete_effect [of w e] by (auto simp: only_version_def remove_key_def distinct_map_filter)

lemma only_version_le_1:
  assumes "listed sel ns list w0" "only_version sel ns v w0 w"
  shows "length (filter (published_in m sel ns) (stored w)) \<le> 1"
proof -
  have "key_of x = key_of y"
    if xy: "x \<in> set (stored w)" "y \<in> set (stored w)" "published_in m sel ns x" "published_in m sel ns y" for x y
  proof -
    have old: "\<exists>z' \<in> set (stored w0). ecrMeta z' = ecrMeta z \<and> ecrSpec z' = ecrSpec z" if "z \<in> set (stored w)" for z
      using assms(2) that by (simp add: only_version_def)
    obtain x' where x': "x' \<in> set (stored w0)" "ecrMeta x' = ecrMeta x" "ecrSpec x' = ecrSpec x"
      using old [OF xy(1)] by blast
    obtain y' where y': "y' \<in> set (stored w0)" "ecrMeta y' = ecrMeta y" "ecrSpec y' = ecrSpec y"
      using old [OF xy(2)] by blast
    have "version_of x = version_of y" using assms(2) xy by (simp add: only_version_def)
    with x' y' have "x' = y'"
      using xy matches_cong [of x' x] matches_cong [of y' y]
      by (intro listed_version_inj [OF assms(1)]) simp_all
    with x'(2) y'(2) show ?thesis by simp
  qed
  moreover have "distinct (map key_of (stored w))" using assms(2) by (simp add: only_version_def)
  ultimately show ?thesis unfolding same_key_le_1 [OF \<open>distinct _\<close>] by blast
qed

lemma unpublishing_le_1:
  assumes "unpublishing sel ns w0 w" "distinct (map key_of (stored w0))"
    and "length (filter (published_in m sel ns) (stored w0)) \<le> 1"
  shows "length (filter (published_in m sel ns) (stored w)) \<le> 1"
proof -
  have "map key_of (stored w) = map key_of (stored w0)"
    using assms(1) by (simp add: unpublishing_def keys_of_shape)
  with assms(2) have d: "distinct (map key_of (stored w))" by simp
  from assms(3) have "key_of x = key_of y"
    if "x \<in> set (stored w)" "y \<in> set (stored w)" "published_in m sel ns x" "published_in m sel ns y" for x y
    using that assms(1) unfolding same_key_le_1 [OF assms(2)] by (simp add: unpublishing_def)
  then show ?thesis unfolding same_key_le_1 [OF d] by blast
qed

lemma phase2_any:
  assumes "listed sel ns list w0" "set items = set list" "only_version sel ns v w0 w"
  shows "only_version sel ns v w0 (snd (write_all (update_status_ecr c) w (to_publish v items)))"
proof (rule write_all_inv)
  fix w' e assume e: "e \<in> set (to_publish v items)" and "only_version sel ns v w0 w'"
  from to_publish_elem [OF e] obtain y where y: "y \<in> set items" "version_of y = v" "e = publish m v y" by blast
  then have "y \<in> set (stored w0)" using assms(2) listed_set [OF assms(1), of y] by simp
  with y show "only_version sel ns v w0 (snd (update_status_ecr c w' e))"
    using \<open>only_version sel ns v w0 w'\<close> assms(1)
    by (intro only_version_update [of _ _ _ _ _ y]) (simp_all add: listed_def)
qed (rule assms(3))

lemma phase3_any:
  "only_version sel ns v w0 w \<Longrightarrow> only_version sel ns v w0 (snd (write_all (delete_ecr c) w es))"
  by (rule write_all_inv) (auto intro: only_version_delete)

lemma apply_at_most_one:
  assumes l: "listed sel ns list w" and "length (filter (published_in m sel ns) (stored w)) \<le> 1"
  shows "length (filter (published_in m sel ns) (stored (snd (snd (apply_revisions m c dv list r w))))) \<le> 1"
proof (cases rule: apply_revisions_exits [of w dv list r])
  case unpublish
  then show ?thesis
    using unpublishing_le_1 [OF phase1_any _ assms(2)] l by (simp add: listed_def)
next
  case publish
  then show ?thesis
    using only_version_le_1 [OF l phase2_any [OF l _ only_version_start [OF l phase1_ok [OF l]]]] by simp
next
  case delete
  then show ?thesis
    using only_version_le_1 [OF l phase3_any [OF phase2_any [OF l _ only_version_start [OF l phase1_ok [OF l]]]]] by simp
qed

subsection \<open>After a successful run\<close>

definition published_exact :: "string_map \<Rightarrow> string \<Rightarrow> string \<Rightarrow> 'w \<Rightarrow> bool" where
  "published_exact sel ns v w \<longleftrightarrow>
     (\<forall>x \<in> set (stored w). matches sel ns x \<longrightarrow> published_true m x = (version_of x = v))"

lemma phase2_exact:
  assumes l: "listed sel ns list w0" and items: "set items = set list"
    and todo: "unpublish_todo sel ns v w0 w []"
    and ok: "fst (write_all (update_status_ecr c) w (to_publish v items)) = None"
  shows "published_exact sel ns v (snd (write_all (update_status_ecr c) w (to_publish v items)))"
proof -
  have only: "version_of x = v" if "x \<in> set (stored (snd (write_all (update_status_ecr c) w (to_publish v items))))"
    "published_in m sel ns x" for x
    using phase2_any [OF l items only_version_start [OF l todo]] that by (simp add: only_version_def)
  have same: "x \<in> set (stored w0)" if "x \<in> set (stored w)" "matches sel ns x" "version_of x = v" for x
    using todo that by (simp add: unpublish_todo_def)
  have "published_true m x"
    if x: "x \<in> set (stored (snd (write_all (update_status_ecr c) w (to_publish v items))))"
      "matches sel ns x" "version_of x = v" for x
  proof (cases "filter (\<lambda>e. version_of e = v \<and> \<not> published_true m e) items")
    case Nil
    then have "x \<in> set (stored w)" using x(1) by (simp add: to_publish_def)
    then have "x \<in> set items" using same x(2,3) items listed_set [OF l, of x] by simp
    with Nil x(3) show ?thesis by (auto simp: filter_empty_conv)
  next
    case (Cons e es)
    then obtain e' where e': "to_publish v items = [e']" by (simp add: to_publish_def)
    with to_publish_elem [of e' v items] obtain y
      where y: "y \<in> set items" "version_of y = v" and p: "to_publish v items = [publish m v y]" by auto
    have st: "stored (snd (write_all (update_status_ecr c) w (to_publish v items))) = put_status (publish m v y) (stored w)"
      using ok update_effect [of w "publish m v y"] by (auto simp: p split: prod.splits option.splits)
    show ?thesis
    proof (cases "key_of x = key_of y")
      case True
      with in_put_status [of x "publish m v y"] x(1) st have "ecrStatus x = ecrStatus (publish m v y)" by auto
      then show ?thesis by simp
    next
      case False
      with in_put_status [of x "publish m v y"] x(1) st have "x \<in> set (stored w)" by auto
      then have "x = y"
        using same x y items listed_set [OF l, of y] by (intro listed_version_inj [OF l]) simp_all
      with False show ?thesis by simp
    qed
  qed
  with only show ?thesis by (auto simp: published_exact_def)
qed

lemma published_exact_delete:
  "published_exact sel ns v w \<Longrightarrow> published_exact sel ns v (snd (delete_ecr c w e))"
  using delete_effect [of w e] by (auto simp: published_exact_def remove_key_def)

lemma apply_exact:
  assumes l: "listed sel ns list w"
    and ok: "snd (fst (snd (apply_revisions m c dv list r w))) = None"
  defines "items \<equiv> SortByPublication dv list"
  shows "published_exact sel ns (fst (getVersionToPublish m items)) (snd (snd (apply_revisions m c dv list r w)))"
proof (cases rule: apply_revisions_exits [of w dv list r])
  case delete
  have set: "set items = set list" by (simp add: items_def)
  note ph2 = phase2_exact [OF l set phase1_ok [OF l set]]
  show ?thesis unfolding delete(3)
    by (rule write_all_inv) (use delete(1,2) ph2 in \<open>auto simp: items_def intro: published_exact_delete\<close>)
qed (use ok in simp_all)

lemma delete_all_ok:
  "fst (write_all (delete_ecr c) w es) = None \<Longrightarrow>
   stored (snd (write_all (delete_ecr c) w es)) = filter (\<lambda>y. key_of y \<notin> key_of ` set es) (stored w)"
proof (induction es arbitrary: w)
  case (Cons e es)
  obtain err w' where d: "delete_ecr c w e = (err, w')" by fastforce
  with Cons.prems have "err = None" by (cases err) auto
  with d delete_effect [of w e] have "stored w' = remove_key e (stored w)" by auto
  with Cons d \<open>err = None\<close> show ?case by (auto simp: remove_key_def intro: filter_cong)
qed simp

lemma listed_keys_items:
  assumes "listed sel ns list w0" "shape (stored w) = shape (stored w0)"
  shows "mset (map key_of (filter (matches sel ns) (stored w))) = mset (map key_of list)"
proof -
  have f: "map key_of (filter (matches sel ns) l) =
      map (object_key \<circ> fst) (filter (\<lambda>(mt, sp). Namespace mt = ns \<and> list_all (\<lambda>(k, v). map_of (Labels mt) k = Some v) sel) (shape l))" for l
    by (induction l) (auto simp: shape_def matches_def)
  have "map key_of (filter (matches sel ns) (stored w)) = map key_of (filter (matches sel ns) (stored w0))"
    by (simp only: f assms(2))
  moreover have "mset (map key_of list) = mset (map key_of (filter (matches sel ns) (stored w0)))"
    unfolding mset_map using assms(1) by (simp only: listed_def)
  ultimately show ?thesis by simp
qed

lemma phase2_shape:
  "shape (stored (snd (write_all (update_status_ecr c) w es))) = shape (stored w)"
proof (rule write_all_inv [of _ "\<lambda>w'. shape (stored w') = shape (stored w)"])
  fix w' e assume "shape (stored w') = shape (stored w)"
  then show "shape (stored (snd (update_status_ecr c w' e))) = shape (stored w)"
    by (cases rule: update_cases [of w' e]) simp_all
qed simp

lemma apply_retention:
  assumes l: "listed sel ns list w"
    and ok: "snd (fst (snd (apply_revisions m c dv list r w))) = None"
  shows "length (filter (matches sel ns) (stored (snd (snd (apply_revisions m c dv list r w))))) = min 10 (length list)"
proof (cases rule: apply_revisions_exits [of w dv list r])
  case delete
  let ?items = "SortByPublication dv list" and ?n = "length list - 10"
  let ?v = "fst (getVersionToPublish m ?items)"
  define w1 where "w1 = snd (write_all (update_status_ecr c) w (to_unpublish ?v ?items))"
  define w2 where "w2 = snd (write_all (update_status_ecr c) w1 (to_publish ?v ?items))"
  let ?D = "key_of ` set (take ?n ?items)"
  have sh: "shape (stored w2) = shape (stored w)" by (simp add: w1_def w2_def phase2_shape)
  have ms: "mset (map key_of (filter (matches sel ns) (stored w2))) = mset (map key_of ?items)"
    using listed_keys_items [OF l sh] by (metis mset_SortByPublication mset_map)
  have dk: "distinct (map key_of ?items)"
  proof -
    have "map key_of (stored w2) = map key_of (stored w)" by (simp only: keys_of_shape sh)
    then have "distinct (map key_of (stored w2))" using l by (simp add: listed_def)
    then have "distinct (map key_of (filter (matches sel ns) (stored w2)))" by (rule distinct_map_filter)
    then show ?thesis by (rule mset_eq_imp_distinct_iff [OF ms, THEN iffD1])
  qed
  have "stored (snd (snd (apply_revisions m c dv list r w))) = filter (\<lambda>y. key_of y \<notin> ?D) (stored w2)"
    using delete delete_all_ok ok by (simp add: w1_def w2_def)
  then have "length (filter (matches sel ns) (stored (snd (snd (apply_revisions m c dv list r w))))) =
      length (filter (\<lambda>k. k \<notin> ?D) (map key_of (filter (matches sel ns) (stored w2))))"
    by (simp add: filter_map o_def conj_commute)
  also have "\<dots> = length (filter (\<lambda>k. k \<notin> ?D) (map key_of ?items))"
    by (metis (no_types, lifting) ms mset_filter size_mset)
  also have "filter (\<lambda>k. k \<notin> ?D) (map key_of ?items) = map key_of (drop ?n ?items)"
  proof -
    have split: "map key_of ?items = map key_of (take ?n ?items) @ map key_of (drop ?n ?items)"
      by (metis append_take_drop_id map_append)
    with dk have "set (map key_of (take ?n ?items)) \<inter> set (map key_of (drop ?n ?items)) = {}"
      by (metis distinct_append)
    then have "filter (\<lambda>k. k \<notin> ?D) (map key_of (drop ?n ?items)) = map key_of (drop ?n ?items)"
      by (intro filter_True) auto
    moreover have "filter (\<lambda>k. k \<notin> ?D) (map key_of (take ?n ?items)) = []" by (auto simp: filter_empty_conv)
    ultimately show ?thesis by (subst split) (simp only: filter_append append_Nil)
  qed
  finally show ?thesis by simp
qed (use ok in simp_all)

end

end
