(* ===== verification/RevisionProperties.thy ===== *)
theory RevisionProperties
  imports RevisionSafety
begin

text \<open>
  The guarantees of the revision reconciler as a whole: the invariant of the stored
  revisions of one \<open>EnvoyConfig\<close>, that every exit of \<open>Reconcile\<close> keeps it, what a
  successful run publishes and keeps, and what a run does when the revision of the current
  resources does not exist yet. A list-based API server is the instance on which
  \<open>revision_api\<close> is interpreted.
\<close>

section \<open>A list instance of the API server\<close>

definition list_api :: "EnvoyConfigRevision list ecr_client" where
  "list_api = \<lparr>
     list_ecr = (\<lambda>w sel ns. Inr (filter (matches sel ns) w)),
     create_ecr = (\<lambda>w e. if key_of e \<in> key_of ` set w
                          then (Some (StatusError StatusReasonOther ''AlreadyExists''), w)
                          else (None, w @ [e\<lparr> ecrStatus := empty_revision_status \<rparr>])),
     update_status_ecr = (\<lambda>w e. if key_of e \<in> key_of ` set w then (None, put_status e w)
                          else (Some (StatusError StatusReasonNotFound ''NotFound''), w)),
     delete_ecr = (\<lambda>w e. if key_of e \<in> key_of ` set w then (None, remove_key e w)
                          else (Some (StatusError StatusReasonNotFound ''NotFound''), w)) \<rparr>"

definition keep_owner :: set_owner where "keep_owner ec e = Inr e"

interpretation listApi: revision_api meta_list list_api "\<lambda>w. w" keep_owner
proof unfold_locales
  fix w e
  show "(\<exists>e'. created_from e e' \<and> key_of e \<notin> key_of ` set w \<and> snd (create_ecr list_api w e) = w @ [e']) \<or>
      fst (create_ecr list_api w e) \<noteq> None \<and> snd (create_ecr list_api w e) = w"
    by (auto simp: list_api_def created_from_def empty_revision_status_def)
qed (auto simp: list_api_def keep_owner_def)

section \<open>The exits of Reconcile\<close>

definition node_selector :: "EnvoyConfig \<Rightarrow> string_map" where
  "node_selector ec = build_selector [ByNodeID (ecNodeID (ecSpec ec)), ByEnvoyAPI (EC_GetEnvoyAPIVersion ec)]"

definition version_selector :: "EnvoyConfig \<Rightarrow> string \<Rightarrow> string_map" where
  "version_selector ec v =
     build_selector [ByNodeID (ecNodeID (ecSpec ec)), ByVersion v, ByEnvoyAPI (EC_GetEnvoyAPIVersion ec)]"

definition revision_name :: "EnvoyConfig \<Rightarrow> string \<Rightarrow> string" where
  "revision_name ec v =
     ecNodeID (ecSpec ec) @ ''-'' @ APIVersion_String (EC_GetEnvoyAPIVersion ec) @ ''-'' @ v"

lemma new_sel [simp]:
  "rr_Namespace (NewRevisionReconciler ec) = Namespace (ecMeta ec)" "rr_NodeID (NewRevisionReconciler ec) = ecNodeID (ecSpec ec)"
  "rr_EnvoyAPI (NewRevisionReconciler ec) = EC_GetEnvoyAPIVersion ec" "rrEC (NewRevisionReconciler ec) = ec"
  "rrDesiredVersion (NewRevisionReconciler ec) = None"
  by (simp_all add: rr_Namespace_def rr_NodeID_def rr_EnvoyAPI_def NewRevisionReconciler_def)

definition started :: "resources_hash \<Rightarrow> EnvoyConfig \<Rightarrow> RevisionReconciler" where
  "started hash ec = (NewRevisionReconciler ec)\<lparr> rrDesiredVersion := Some (GetEnvoyResourcesVersion hash ec) \<rparr>"

lemma started_sel [simp]:
  "rr_Namespace (started hash ec) = Namespace (ecMeta ec)" "rr_NodeID (started hash ec) = ecNodeID (ecSpec ec)"
  "rr_EnvoyAPI (started hash ec) = EC_GetEnvoyAPIVersion ec" "rrEC (started hash ec) = ec"
  by (simp_all add: rr_Namespace_def rr_NodeID_def rr_EnvoyAPI_def NewRevisionReconciler_def started_def)

lemma Reconcile_cases:
  fixes hash ec m setOwner c w
  defines "dv \<equiv> GetEnvoyResourcesVersion hash ec"
  defines "res \<equiv> Reconcile hash m setOwner c (NewRevisionReconciler ec) w"
  obtains (error) err where "res = (started hash ec, (empty_result, Some err), w)"
  | (create) "res = create_revision setOwner c dv (started hash ec) w"
      "list_ecr c w (version_selector ec dv) (Namespace (ecMeta ec)) = Inr [] \<or>
       is_error (list_ecr c w (version_selector ec dv) (Namespace (ecMeta ec)))"
  | (applied) e list where "res = apply_revisions m c dv list (started hash ec) w"
      "list_ecr c w (version_selector ec dv) (Namespace (ecMeta ec)) = Inr [e]"
      "list_ecr c w (node_selector ec) (Namespace (ecMeta ec)) = Inr list"
proof -
  have d: "DesiredVersion hash (NewRevisionReconciler ec) = (dv, started hash ec)"
    by (simp add: DesiredVersion_def dv_def started_def Let_def)
  note unf = res_def Reconcile_def d started_sel version_selector_def [symmetric] node_selector_def [symmetric]
    revisions_Get_def revisions_List_def Let_def prod.case
  show thesis
  proof (cases "list_ecr c w (version_selector ec dv) (Namespace (ecMeta ec))")
    case (Inl err)
    then show thesis by (cases "ErrorIsNoMatchesForFilter err") (auto simp: unf intro: error create)
  next
    case (Inr items)
    consider "items = []" | "length items > 1" | e where "items = [e]"
      by (metis One_nat_def length_0_conv length_Suc_conv linorder_neqE_nat less_one)
    then show thesis
    proof cases
      case 1
      with Inr show thesis
        by (intro create) (simp_all add: unf ErrorIsNoMatchesForFilter_def ReasonForError_def NewError_def)
    next
      case 2
      then have "items \<noteq> []" by auto
      with Inr 2 show thesis
        by (intro error) (simp add: unf ErrorIsNoMatchesForFilter_def ReasonForError_def NewError_def)
    next
      case 3
      show thesis
      proof (cases "list_ecr c w (node_selector ec) (Namespace (ecMeta ec))")
        case (Inl err)
        with Inr 3 show thesis by (intro error) (simp add: unf)
      next
        case list: (Inr list)
        show thesis
        proof (cases "list = []")
          case True
          with Inr 3 list show thesis by (intro error) (simp add: unf)
        next
          case False
          with Inr 3 list show thesis by (intro applied) (simp_all add: unf)
        qed
      qed
    qed
  qed
qed

section \<open>The invariant\<close>

text \<open>Keys are unique, the revisions of the configuration are named after their version, and
  at most one of them is published.\<close>

definition revision_inv :: "meta_ops \<Rightarrow> EnvoyConfig \<Rightarrow> EnvoyConfigRevision list \<Rightarrow> bool" where
  "revision_inv m ec l \<longleftrightarrow>
     (let sel = node_selector ec; ns = Namespace (ecMeta ec) in
      distinct (map key_of l) \<and>
      list_all (\<lambda>e. matches sel ns e \<longrightarrow> Name (ecrMeta e) = revision_name ec (version_of e)) l \<and>
      length (filter (published_in m sel ns) l) \<le> 1)"

text \<open>The part that does not depend on any status.\<close>

definition revision_names :: "EnvoyConfig \<Rightarrow> EnvoyConfigRevision list \<Rightarrow> bool" where
  "revision_names ec l \<longleftrightarrow> distinct (map key_of l) \<and>
     list_all (\<lambda>e. matches (node_selector ec) (Namespace (ecMeta ec)) e \<longrightarrow> Name (ecrMeta e) = revision_name ec (version_of e)) l"

lemma revision_inv_names: "revision_inv m ec l \<Longrightarrow> revision_names ec l"
  by (simp add: revision_inv_def revision_names_def Let_def)

lemma distinct_versions:
  assumes "distinct (map key_of l)"
    and "\<And>e. e \<in> set l \<Longrightarrow> matches sel ns e \<Longrightarrow> Name (ecrMeta e) = revision_name ec (version_of e)"
  shows "distinct (map version_of (filter (matches sel ns) l))"
proof -
  have "distinct (map key_of (filter (matches sel ns) l))" by (rule distinct_map_filter [OF assms(1)])
  moreover have "inj_on version_of (set (filter (matches sel ns) l))"
  proof (rule inj_onI)
    fix x y assume x: "x \<in> set (filter (matches sel ns) l)" and y: "y \<in> set (filter (matches sel ns) l)"
      and "version_of x = version_of y"
    with assms(2) [of x] assms(2) [of y] have "key_of x = key_of y"
      by (simp add: object_key_def matches_def)
    with x y assms(1) show "x = y" by (simp add: distinct_map inj_on_def)
  qed
  ultimately show ?thesis by (simp add: distinct_map)
qed

context revision_api
begin

lemma listed_of_names:
  assumes "revision_names ec (stored w)" "list_ecr c w (node_selector ec) (Namespace (ecMeta ec)) = Inr list"
  shows "listed (node_selector ec) (Namespace (ecMeta ec)) list w"
  using assms list_current [OF assms(2)]
  by (auto simp: listed_def revision_names_def list_all_iff intro: distinct_versions)

lemmas listed_of_inv = listed_of_names [OF revision_inv_names [where m = m]]

lemma listed_distinct:
  assumes "listed sel ns list w" "mset items = mset list"
  shows "distinct (map key_of items)" "distinct (map version_of items)"
proof -
  have eq: "mset (map f items) = mset (map f (filter (matches sel ns) (stored w)))" for f :: "EnvoyConfigRevision \<Rightarrow> 'b"
    using assms unfolding mset_map listed_def by simp
  have "distinct (map key_of (filter (matches sel ns) (stored w)))"
    using assms(1) by (intro distinct_map_filter) (simp add: listed_def)
  then show "distinct (map key_of items)" by (rule mset_eq_imp_distinct_iff [OF eq, THEN iffD2])
  show "distinct (map version_of items)"
    using assms(1) by (intro mset_eq_imp_distinct_iff [OF eq, THEN iffD2]) (simp add: listed_def)
qed

text \<open>The current version is picked when its revision is not tainted.\<close>

lemma desired_picked:
  assumes l: "listed sel ns list w" and e: "e \<in> set list" "version_of e \<noteq> []" "\<not> tainted_true m e"
  shows "getVersionToPublish m (SortByPublication (version_of e) list) = (version_of e, InSyncState)"
proof -
  let ?items = "SortByPublication (version_of e) list"
  have "distinct (map version_of list)" by (rule listed_distinct [OF l refl])
  then have "length (filter (desired (version_of e)) list) \<le> 1" by (rule filter_distinct_image_le_1)
  then have last: "last ?items = e" using SortByPublication_last [OF e(1)] by simp
  have "?items \<noteq> []" using e(1) by auto
  then have "rev ?items = e # tl (rev ?items)" using last by (metis hd_rev list.collapse rev_is_Nil_conv)
  then have "find (\<lambda>ecr. \<not> tainted_true m ecr) (rev ?items) = Some e" using e(3) by (metis find.simps(2))
  then show ?thesis using e(2) last by (simp add: getVersionToPublish_def)
qed

lemma apply_from:
  assumes l: "listed sel ns list w"
  shows "distinct (map key_of (stored (snd (snd (apply_revisions m c dv list r w))))) \<and>
    (\<forall>x \<in> set (stored (snd (snd (apply_revisions m c dv list r w)))).
       \<exists>y \<in> set (stored w). ecrMeta y = ecrMeta x \<and> ecrSpec y = ecrSpec x)"
proof -
  have set: "set (SortByPublication dv list) = set list" by simp
  note ov1 = only_version_start [OF l phase1_ok [OF l set]]
  show ?thesis
  proof (cases rule: apply_revisions_exits [of w dv list r])
    case unpublish
    let ?w1 = "snd (snd (apply_revisions m c dv list r w))"
    have sh: "shape (stored ?w1) = shape (stored w)" unfolding unpublish(2) by (rule phase2_shape)
    moreover from this have "map key_of (stored ?w1) = map key_of (stored w)" by (simp only: keys_of_shape)
    ultimately show ?thesis using l by (auto simp: listed_def elim: shape_eq_obtain [OF sh])
  next
    case publish
    from phase2_any [OF l set ov1 [OF publish(1)]] show ?thesis
      unfolding publish(3) only_version_def by blast
  next
    case delete
    from phase3_any [OF phase2_any [OF l set ov1 [OF delete(1)]]] show ?thesis
      unfolding delete(3) only_version_def by blast
  qed
qed

lemma create_cases:
  obtains (none) "stored (snd (snd (create_revision setOwner c dv r w))) = stored w"
      "snd (fst (snd (create_revision setOwner c dv r w))) \<noteq> None"
  | (added) e' where "stored (snd (snd (create_revision setOwner c dv r w))) = stored w @ [e']"
      "created_from (newRevisionForCurrentResources dv r) e'"
      "key_of (newRevisionForCurrentResources dv r) \<notin> key_of ` set (stored w)"
proof (cases "setOwner (rrEC r) (newRevisionForCurrentResources dv r)")
  case (Inl err)
  then show thesis by (intro none) (simp_all add: create_revision_def)
next
  case (Inr e)
  have keeps: "created_from e e' \<Longrightarrow> created_from (newRevisionForCurrentResources dv r) e'"
      "key_of (newRevisionForCurrentResources dv r) = key_of e" for e'
    using owner_keeps [OF Inr] by (auto simp: created_from_def)
  have w': "snd (snd (create_revision setOwner c dv r w)) = snd (create_ecr c w e)"
    by (simp add: create_revision_def Inr split: prod.split option.split)
  have err: "fst (create_ecr c w e) \<noteq> None \<Longrightarrow> snd (fst (snd (create_revision setOwner c dv r w))) \<noteq> None"
    by (auto simp: create_revision_def Inr split: prod.split option.split)
  from create_effect [of e w] show thesis
  proof (elim disjE exE conjE)
    fix e' assume "created_from e e'" "key_of e \<notin> key_of ` set (stored w)" "stored (snd (create_ecr c w e)) = stored w @ [e']"
    then show thesis by (intro added [of e']) (simp_all add: w' keeps)
  next
    assume "fst (create_ecr c w e) \<noteq> None" "stored (snd (create_ecr c w e)) = stored w"
    then show thesis by (intro none err) (simp_all add: w')
  qed
qed

lemma inv_create:
  assumes inv: "revision_inv m ec (stored w)"
  shows "revision_inv m ec (stored (snd (snd (create_revision setOwner c dv (started hash ec) w))))"
proof (cases rule: create_cases [of dv "started hash ec" w])
  case none
  with inv show ?thesis by simp
next
  case (added e')
  then have "\<not> published_true m e'" "version_of e' = dv" "Name (ecrMeta e') = revision_name ec dv"
      "key_of e' \<notin> key_of ` set (stored w)"
    by (auto simp: created_from_def is_true_nil newRevisionForCurrentResources_def object_key_def revision_name_def)
  with inv show ?thesis by (simp add: added(1) revision_inv_def Let_def)
qed

lemma inv_Reconcile:
  assumes inv: "revision_inv m ec (stored w)"
  shows "revision_inv m ec (stored (snd (snd (Reconcile hash m setOwner c (NewRevisionReconciler ec) w))))"
proof (cases rule: Reconcile_cases [of hash m setOwner c ec w])
  case (error err)
  with inv show ?thesis by simp
next
  case create
  with inv_create [OF inv] show ?thesis by simp
next
  case (applied e list)
  note l = listed_of_inv [OF inv applied(3)]
  have le: "length (filter (published_in m (node_selector ec) (Namespace (ecMeta ec))) (stored w)) \<le> 1"
    using inv by (simp add: revision_inv_def Let_def)
  have names: "Name (ecrMeta y) = revision_name ec (version_of y)"
    if "y \<in> set (stored w)" "matches (node_selector ec) (Namespace (ecMeta ec)) y" for y
    using inv that by (simp add: revision_inv_def Let_def list_all_iff)
  let ?w' = "snd (snd (apply_revisions m c (GetEnvoyResourcesVersion hash ec) list (started hash ec) w))"
  have "Name (ecrMeta x) = revision_name ec (version_of x)"
    if x: "x \<in> set (stored ?w')" "matches (node_selector ec) (Namespace (ecMeta ec)) x" for x
  proof -
    obtain y where "y \<in> set (stored w)" "ecrMeta y = ecrMeta x" "ecrSpec y = ecrSpec x"
      using apply_from [OF l] x(1) by blast
    with names [of y] matches_cong [of y x] x(2) show ?thesis by simp
  qed
  with apply_at_most_one [OF l le] apply_from [OF l] show ?thesis
    unfolding applied(1) revision_inv_def Let_def list_all_iff by blast
qed

end

context revision_api
begin

lemma create_revision_requeues:
  "snd (fst (snd (create_revision setOwner c dv r w))) = None \<Longrightarrow>
   crRequeue (fst (fst (snd (create_revision setOwner c dv r w))))"
  by (auto simp: create_revision_def split: sum.splits prod.splits option.splits)

lemma Reconcile_success:
  assumes names: "revision_names ec (stored w)"
    and ok: "snd (fst (snd (Reconcile hash m setOwner c (NewRevisionReconciler ec) w))) = None"
      "\<not> crRequeue (fst (fst (snd (Reconcile hash m setOwner c (NewRevisionReconciler ec) w))))"
  obtains list where
    "mset list = mset (filter (matches (node_selector ec) (Namespace (ecMeta ec))) (stored w))"
    "listed (node_selector ec) (Namespace (ecMeta ec)) list w"
    "rrPublishedVersion (fst (Reconcile hash m setOwner c (NewRevisionReconciler ec) w)) =
       Some (fst (getVersionToPublish m (SortByPublication (GetEnvoyResourcesVersion hash ec) list)))"
    "rrCacheState (fst (Reconcile hash m setOwner c (NewRevisionReconciler ec) w)) =
       Some (snd (getVersionToPublish m (SortByPublication (GetEnvoyResourcesVersion hash ec) list)))"
    "published_exact (node_selector ec) (Namespace (ecMeta ec))
       (fst (getVersionToPublish m (SortByPublication (GetEnvoyResourcesVersion hash ec) list)))
       (snd (snd (Reconcile hash m setOwner c (NewRevisionReconciler ec) w)))"
    "length (filter (matches (node_selector ec) (Namespace (ecMeta ec)))
       (stored (snd (snd (Reconcile hash m setOwner c (NewRevisionReconciler ec) w))))) = min 10 (length list)"
proof (cases rule: Reconcile_cases [of hash m setOwner c ec w])
  case (error err)
  with ok show thesis by simp
next
  case create
  with ok create_revision_requeues show thesis by simp
next
  case (applied e list)
  note l = listed_of_names [OF names applied(3)]
  note err = ok(1) [unfolded applied(1)]
  show thesis
  proof (cases rule: apply_revisions_exits [of w "GetEnvoyResourcesVersion hash ec" list "started hash ec"])
    case delete
    show thesis
      by (rule that [of list])
        (use delete(5) l apply_exact [OF l err] apply_retention [OF l err] in \<open>simp_all add: applied(1) listed_def\<close>)
  qed (use err in simp_all)
qed

end

section \<open>What is published\<close>

lemma find_rev_Some:
  "find P (rev items) = Some e \<Longrightarrow> \<exists>xs ys. items = xs @ e # ys \<and> P e \<and> list_all (\<lambda>y. \<not> P y) ys"
proof (induction items rule: rev_induct)
  case (snoc x xs)
  show ?case
  proof (cases "P x")
    case True
    with snoc.prems show ?thesis by (intro exI [of _ xs] exI [of _ "[]"]) simp
  next
    case False
    with snoc obtain as bs where "xs = as @ e # bs" "P e" "list_all (\<lambda>y. \<not> P y) bs" by auto
    with False show ?thesis by (intro exI [of _ as] exI [of _ "bs @ [x]"]) simp
  qed
qed simp

text \<open>(C16) The version to publish is that of the newest revision that is not tainted. The
  state says how far back it is: in sync when it is the newest of all, a rollback when newer
  ones are tainted, and a failed rollback, with nothing to publish, when all are.\<close>

theorem getVersionToPublish_newest_untainted:
  assumes "distinct (map version_of items)" "list_all (\<lambda>e. version_of e \<noteq> []) items"
  shows "(list_all (tainted_true m) items \<and> getVersionToPublish m items = ([], RollbackFailedState)) \<or>
    (\<exists>older e newer. items = older @ e # newer \<and> \<not> tainted_true m e \<and> list_all (tainted_true m) newer \<and>
       getVersionToPublish m items = (version_of e, if newer = [] then InSyncState else RollbackState))"
proof (cases "find (\<lambda>ecr. \<not> tainted_true m ecr) (rev items)")
  case None
  then have "list_all (tainted_true m) items" by (auto simp: find_None_iff list_all_iff)
  with None show ?thesis by (simp add: getVersionToPublish_def)
next
  case (Some e)
  from find_rev_Some [OF Some] obtain older newer
    where items: "items = older @ e # newer" "\<not> tainted_true m e" "list_all (tainted_true m) newer" by auto
  have "version_of e \<noteq> []" using assms(2) items(1) by simp
  moreover have "version_of e = version_of (last items) \<longleftrightarrow> newer = []"
  proof (cases newer rule: rev_cases)
    case (snoc ys y)
    then have "version_of e \<noteq> version_of y" using assms(1) items(1) by auto
    with snoc show ?thesis by (simp add: items(1))
  qed (simp add: items(1))
  ultimately have "getVersionToPublish m items = (version_of e, if newer = [] then InSyncState else RollbackState)"
    by (simp add: getVersionToPublish_def Some Let_def)
  with items show ?thesis by blast
qed

definition taint :: "EnvoyConfigRevision \<Rightarrow> EnvoyConfigRevision" where
  "taint e = map_conditions (\<lambda>cs. set_cond cs (mkCondition RevisionTaintedCondition ConditionTrue ''t'' ''t'')) e"

theorem getVersionToPublish_newest_untainted_witness:
  "getVersionToPublish meta_list [sample_revision ''x'' ''a'' 1, taint (sample_revision ''y'' ''b'' 2)] = (''a'', RollbackState)"
  using getVersionToPublish_newest_untainted
    [of "[sample_revision ''x'' ''a'' 1, taint (sample_revision ''y'' ''b'' 2)]" meta_list]
  by (auto simp: taint_def sample_revision_def empty_revision_status_def Cons_eq_append_conv)

section \<open>Properties of Reconcile\<close>

definition sample_config :: EnvoyConfig where
  "sample_config = \<lparr> ecMeta = empty_meta\<lparr> Name := ''ec'', Namespace := ''ns'' \<rparr>,
     ecSpec = \<lparr> ecNodeID = ''n'', ecSerialization = None, ecEnvoyAPI = None, ecEnvoyResources = None,
                ecResources = Some [] \<rparr>,
     ecStatus = \<lparr> ecCacheState = None, ecPublishedVersion = None, ecDesiredVersion = None,
                  ecConditions = None, ecConfigRevisions = None \<rparr> \<rparr>"

definition config_revision :: "string \<Rightarrow> EnvoyConfigRevision" where
  "config_revision v = newRevisionForCurrentResources v (NewRevisionReconciler sample_config)"

definition sample_hash :: resources_hash where "sample_hash rs = ''b''"

text \<open>The revision of an older version is published, that of the current one is not yet.\<close>

definition sample_stored :: "EnvoyConfigRevision list" where
  "sample_stored = [publish meta_list ''a'' (config_revision ''a''), config_revision ''b'']"

lemma sample_inv: "revision_inv meta_list sample_config sample_stored"
  by code_simp





text \<open>When the revision of the current resources exists and is not tainted, a run that
  neither fails nor asks for another publishes it and reports the configuration in sync.\<close>

theorem Reconcile_desired_in_sync:
  assumes "revision_api m c stored setOwner" "revision_inv m ec (stored w)"
    and "Reconcile hash m setOwner c (NewRevisionReconciler ec) w = (r', (ctrl, None), w')" "\<not> crRequeue ctrl"
    and "e \<in> set (stored w)" "matches (node_selector ec) (Namespace (ecMeta ec)) e"
    and "version_of e = GetEnvoyResourcesVersion hash ec" "version_of e \<noteq> []" "\<not> tainted_true m e"
  shows "rrPublishedVersion r' = Some (GetEnvoyResourcesVersion hash ec) \<and> rrCacheState r' = Some InSyncState"
proof -
  let ?dv = "GetEnvoyResourcesVersion hash ec"
  obtain list where list: "mset list = mset (filter (matches (node_selector ec) (Namespace (ecMeta ec))) (stored w))"
    "revision_api.listed stored (node_selector ec) (Namespace (ecMeta ec)) list w"
    "rrPublishedVersion r' = Some (fst (getVersionToPublish m (SortByPublication ?dv list)))"
    "rrCacheState r' = Some (snd (getVersionToPublish m (SortByPublication ?dv list)))"
    by (rule revision_api.Reconcile_success [OF assms(1) revision_inv_names [OF assms(2)], of hash, unfolded assms(3) fst_conv snd_conv, OF refl assms(4)])
      (rule that)
  have e: "e \<in> set list" using mset_eq_setD [OF list(1)] assms(5,6) by simp
  show ?thesis
    using revision_api.desired_picked [OF assms(1) list(2) e assms(8,9)] list(3,4) assms(7) by simp
qed

theorem Reconcile_desired_in_sync_witness:
  "\<exists>r' ctrl w'. Reconcile sample_hash meta_list keep_owner list_api (NewRevisionReconciler sample_config) sample_stored
       = (r', (ctrl, None), w') \<and> rrPublishedVersion r' = Some ''b'' \<and> rrCacheState r' = Some InSyncState"
proof -
  let ?res = "Reconcile sample_hash meta_list keep_owner list_api (NewRevisionReconciler sample_config) sample_stored"
  obtain r' ctrl err w' where res: "?res = (r', (ctrl, err), w')" by (metis prod.collapse)
  have "snd (fst (snd ?res)) = None" "\<not> crRequeue (fst (fst (snd ?res)))" by code_simp+
  with res have ok: "err = None" "\<not> crRequeue ctrl" by simp_all
  have "GetEnvoyResourcesVersion sample_hash sample_config = ''b''" by code_simp
  moreover have "config_revision ''b'' \<in> set sample_stored" by (simp add: sample_stored_def)
  moreover have "matches (node_selector sample_config) (Namespace (ecMeta sample_config)) (config_revision ''b'')"
    "version_of (config_revision ''b'') = ''b''" "\<not> tainted_true meta_list (config_revision ''b'')"
    by code_simp+
  ultimately show ?thesis
    using Reconcile_desired_in_sync [OF listApi.revision_api_axioms sample_inv res [unfolded ok(1)] ok(2)] res ok(1)
    by (metis list.distinct(1))
qed

text \<open>When the API server has no revision for the current resources, a run without
  error creates exactly one and asks for another run. The new revision is found by the
  filters of the next run, carries the resources of the configuration and is not published.\<close>

theorem Reconcile_creates_missing_revision:
  assumes "revision_api m c stored setOwner"
    and "list_ecr c w (version_selector ec (GetEnvoyResourcesVersion hash ec)) (Namespace (ecMeta ec)) = Inr []"
    and "Reconcile hash m setOwner c (NewRevisionReconciler ec) w = (r', (ctrl, None), w')"
  shows "crRequeue ctrl \<and>
    (\<exists>e. stored w' = stored w @ [e] \<and>
       matches (version_selector ec (GetEnvoyResourcesVersion hash ec)) (Namespace (ecMeta ec)) e \<and>
       matches (node_selector ec) (Namespace (ecMeta ec)) e \<and>
       version_of e = GetEnvoyResourcesVersion hash ec \<and>
       ecrResources (ecrSpec e) = ecResources (ecSpec ec) \<and> \<not> published_true m e)"
proof -
  let ?dv = "GetEnvoyResourcesVersion hash ec"
  have res: "create_revision setOwner c ?dv (started hash ec) w = (r', (ctrl, None), w')"
    using assms(2,3) by (cases rule: Reconcile_cases [of hash m setOwner c ec w]) auto
  obtain e where e: "stored w' = stored w @ [e]" "created_from (newRevisionForCurrentResources ?dv (started hash ec)) e"
    by (cases rule: revision_api.create_cases [OF assms(1), of ?dv "started hash ec" w]) (use res in auto)
  have "crRequeue ctrl"
    using revision_api.create_revision_requeues [OF assms(1), of ?dv "started hash ec" w] res by simp
  moreover have "\<not> published_true m e"
    using e(2) status_conditions.is_true_nil [OF revision_api.axioms(1) [OF assms(1)]] by (simp add: created_from_def)
  ultimately show ?thesis
    using e
    by (intro conjI exI [of _ e])
      (auto simp: created_from_def newRevisionForCurrentResources_def object_key_def matches_def
        version_selector_def node_selector_def build_selector_def ByNodeID_def ByVersion_def ByEnvoyAPI_def
        NodeIDTag_def VersionTag_def EnvoyAPITag_def)
qed

theorem Reconcile_creates_missing_revision_witness:
  "\<exists>r' ctrl w'. Reconcile sample_hash meta_list keep_owner list_api (NewRevisionReconciler sample_config) []
       = (r', (ctrl, None), w') \<and> crRequeue ctrl \<and> (\<exists>e. w' = [] @ [e] \<and> version_of e = ''b'')"
proof -
  let ?res = "Reconcile sample_hash meta_list keep_owner list_api (NewRevisionReconciler sample_config) []"
  obtain r' ctrl err w' where res: "?res = (r', (ctrl, err), w')" by (metis prod.collapse)
  have "snd (fst (snd ?res)) = None" by code_simp
  with res have ok: "err = None" by simp
  have "list_ecr list_api [] (version_selector sample_config (GetEnvoyResourcesVersion sample_hash sample_config))
      (Namespace (ecMeta sample_config)) = Inr []" by (simp add: list_api_def)
  from Reconcile_creates_missing_revision [OF listApi.revision_api_axioms this res [unfolded ok]] res ok
  show ?thesis by (auto simp: GetEnvoyResourcesVersion_def sample_hash_def)
qed

end
