(* ===== verification/EnvoyConfigController.thy ===== *)
theory EnvoyConfigController
  imports RevisionProperties
begin

text \<open>
  The status of \<open>EnvoyConfig\<close> (\<open>envoyconfig/status.go\<close>) and the controller that ties
  the lifecycle, the revision reconciler and the status together
  (\<open>controllers/marin3r/envoyconfig_controller.go\<close>).

  \<open>ManageResourceLifecycle\<close> of the base reconciler is an argument: it gets the object,
  runs the initialisation functions it is given, and says whether to return at once. The
  client call that updates the status is an argument too.
\<close>

section \<open>Status\<close>

definition generateRevisionList :: "EnvoyConfigRevision list \<Rightarrow> ConfigRevisionRef list" where
  "generateRevisionList items =
     map (\<lambda>ecr. \<lparr> crrVersion = ecrVersion (ecrSpec ecr),
                  crrRef = \<lparr> refAPIVersion = ecrAPIVersion ecr, refKind = ecrKind ecr,
                             refName = Name (ecrMeta ecr), refNamespace = Namespace (ecrMeta ecr),
                             refUID = UID (ecrMeta ecr) \<rparr> \<rparr>) items"

text \<open>One step of the status calculation: assign the field and clear \<open>ok\<close> when the field
  differs.\<close>

definition status_step :: "bool \<Rightarrow> ('s \<Rightarrow> 's) \<Rightarrow> bool \<times> 's \<Rightarrow> bool \<times> 's" where
  "status_step differs f = (\<lambda>(ok, st). if differs then (False, f st) else (ok, st))"

definition conds :: "EnvoyConfigStatus \<Rightarrow> Condition list" where
  "conds st = (case ecConditions st of None \<Rightarrow> [] | Some cs \<Rightarrow> cs)"

definition reconcileCacheOutOfSync :: "meta_ops \<Rightarrow> string \<Rightarrow> string \<Rightarrow> Condition list \<Rightarrow> bool \<times> Condition list" where
  "reconcileCacheOutOfSync m desiredVersion publishedVersion cs =
     (if desiredVersion \<noteq> publishedVersion \<and> \<not> IsStatusConditionTrue m cs CacheOutOfSyncCondition then
        (False, SetStatusCondition m cs (mkCondition CacheOutOfSyncCondition ConditionTrue
                  ''CantPublishDesiredVersion'' ''Desired resources spec cannot be applied''))
      else if desiredVersion = publishedVersion \<and> IsStatusConditionTrue m cs CacheOutOfSyncCondition then
        (False, SetStatusCondition m cs (mkCondition CacheOutOfSyncCondition ConditionFalse
                  ''DesiredVersionPublished'' ''Desired version successfully published''))
      else (True, cs))"

definition reconcileRollbackFailed :: "meta_ops \<Rightarrow> string \<Rightarrow> Condition list \<Rightarrow> bool \<times> Condition list" where
  "reconcileRollbackFailed m cacheState cs =
     (if cacheState \<noteq> RollbackFailedState \<and> IsStatusConditionTrue m cs RollbackFailedCondition then
        (False, SetStatusCondition m cs (mkCondition RollbackFailedCondition ConditionFalse
                  ''Recovered'' ''Recovered from RollbackFailed condition''))
      else if cacheState = RollbackFailedState \<and> \<not> IsStatusConditionTrue m cs RollbackFailedCondition then
        (False, SetStatusCondition m cs (mkCondition RollbackFailedCondition ConditionTrue
                  ''AllRevisionsTainted'' ''All revisions are tainted, rollback failed''))
      else (True, cs))"

definition fixRollbackFailedMessage :: "meta_ops \<Rightarrow> Condition list \<Rightarrow> bool \<times> Condition list" where
  "fixRollbackFailedMessage m cs =
     (case FindStatusCondition m cs RollbackFailedCondition of
        None \<Rightarrow> (True, cs)
      | Some cond \<Rightarrow>
          (if cMessage cond = [] then
             (False, SetStatusCondition m cs (cond\<lparr> cMessage := ''Recovered from RollbackFailed condition'' \<rparr>))
           else (True, cs)))"

definition IsStatusReconciled ::
    "resources_hash \<Rightarrow> meta_ops \<Rightarrow> EnvoyConfig \<Rightarrow> string \<Rightarrow> string \<Rightarrow> EnvoyConfigRevision list \<Rightarrow> bool \<times> EnvoyConfig" where
  "IsStatusReconciled hash m ec cacheState publishedVersion list =
     (let revisionList = Some (generateRevisionList list);
          desiredVersion = GetEnvoyResourcesVersion hash ec;
          st = ecStatus ec;
          (ok1, st1) =
            (status_step (ecConditions st = None) (\<lambda>s. s\<lparr> ecConditions := Some [] \<rparr>) \<circ>
             status_step (ecCacheState st \<noteq> Some cacheState) (\<lambda>s. s\<lparr> ecCacheState := Some cacheState \<rparr>) \<circ>
             status_step (ecDesiredVersion st \<noteq> Some desiredVersion) (\<lambda>s. s\<lparr> ecDesiredVersion := Some desiredVersion \<rparr>) \<circ>
             status_step (ecPublishedVersion st \<noteq> Some publishedVersion) (\<lambda>s. s\<lparr> ecPublishedVersion := Some publishedVersion \<rparr>) \<circ>
             status_step (ecConfigRevisions st \<noteq> revisionList) (\<lambda>s. s\<lparr> ecConfigRevisions := revisionList \<rparr>))
              (True, st);
          (ok2, cs2) = reconcileCacheOutOfSync m desiredVersion publishedVersion (conds st1);
          (ok3, cs3) = reconcileRollbackFailed m cacheState cs2;
          (ok4, cs4) = fixRollbackFailedMessage m cs3
      in (ok1 \<and> ok2 \<and> ok3 \<and> ok4, ec\<lparr> ecStatus := st1\<lparr> ecConditions := Some cs4 \<rparr> \<rparr>))"

section \<open>Controller\<close>

text \<open>The in-memory conversion of the deprecated resources.\<close>

definition convert_resources :: "codec_ops \<Rightarrow> EnvoyConfig \<Rightarrow> goerror + EnvoyConfig" where
  "convert_resources d ec =
     (case ecEnvoyResources (ecSpec ec) of
        None \<Rightarrow> Inr ec
      | Some er \<Rightarrow>
          (case EnvoyResources_Resources d er (EC_GetSerialization ec) of
             Inl err \<Rightarrow> Inl err
           | Inr resources \<Rightarrow>
               Inr (ec\<lparr> ecSpec := (ecSpec ec)\<lparr> ecResources := Some resources, ecEnvoyResources := None \<rparr> \<rparr>)))"

type_synonym 'w lifecycle =
  "'w \<Rightarrow> NamespacedName \<Rightarrow> (EnvoyConfig \<Rightarrow> EnvoyConfig) \<Rightarrow> (EnvoyConfig \<Rightarrow> goerror + EnvoyConfig)
   \<Rightarrow> ((CtrlResult \<times> goerror option) + EnvoyConfig) \<times> 'w"

definition EnvoyConfigReconciler_Reconcile ::
    "resources_hash \<Rightarrow> codec_ops \<Rightarrow> meta_ops \<Rightarrow> set_owner \<Rightarrow> 'w lifecycle \<Rightarrow> 'w ecr_client
     \<Rightarrow> ('w \<Rightarrow> EnvoyConfig \<Rightarrow> goerror option \<times> 'w) \<Rightarrow> NamespacedName \<Rightarrow> 'w \<Rightarrow> (CtrlResult \<times> goerror option) \<times> 'w" where
  "EnvoyConfigReconciler_Reconcile hash d m setOwner manage c update_status req w =
     (case manage w req EC_Default (convert_resources d) of
        (Inl values, w1) \<Rightarrow> (values, w1)
      | (Inr ec, w1) \<Rightarrow>
          (let (r, (result, err), w2) = Reconcile hash m setOwner c (NewRevisionReconciler ec) w1 in
           if crRequeue result \<or> err \<noteq> None then ((result, err), w2)
           else case (GetCacheState r, PublishedVersion r, GetRevisionList r) of
                  (Inr cacheState, Inr publishedVersion, Some list) \<Rightarrow>
                    (let (ok, ec') = IsStatusReconciled hash m ec cacheState publishedVersion list in
                     if \<not> ok then
                       (case update_status w2 ec' of
                          (Some e, w3) \<Rightarrow> ((empty_result, Some e), w3)
                        | (None, w3) \<Rightarrow> ((empty_result, None), w3))
                     else ((empty_result, None), w2))
                | _ \<Rightarrow> ((empty_result, Some (Panic ''nil pointer dereference'')), w2)))"

section \<open>Lemmas\<close>

lemma status_step_simps [simp]:
  "status_step True f (ok, st) = (False, f st)" "status_step False f (ok, st) = (ok, st)"
  by (simp_all add: status_step_def)

lemma snd_status_step: "snd (status_step d f p) = (if d then f (snd p) else snd p)"
  by (simp add: status_step_def split: prod.split)

context status_conditions
begin

lemma cacheOutOfSync_post:
  "reconcileCacheOutOfSync m dv pv cs = (ok, cs') \<Longrightarrow>
     IsStatusConditionTrue m cs' CacheOutOfSyncCondition = (dv \<noteq> pv) \<and>
     FindStatusCondition m cs' RollbackFailedCondition = FindStatusCondition m cs RollbackFailedCondition \<and>
     (ok \<longrightarrow> cs' = cs) \<and> reconcileCacheOutOfSync m dv pv cs' = (True, cs')"
  by (auto simp: reconcileCacheOutOfSync_def is_true_set_same find_set_other split: if_splits)

lemma rollbackFailed_post:
  "reconcileRollbackFailed m s cs = (ok, cs') \<Longrightarrow>
     IsStatusConditionTrue m cs' RollbackFailedCondition = (s = RollbackFailedState) \<and>
     IsStatusConditionTrue m cs' CacheOutOfSyncCondition = IsStatusConditionTrue m cs CacheOutOfSyncCondition \<and>
     (ok \<longrightarrow> cs' = cs)"
  by (auto simp: reconcileRollbackFailed_def is_true_set_same is_true_set_other split: if_splits)

lemma rollbackFailed_stable:
  "IsStatusConditionTrue m cs RollbackFailedCondition = (s = RollbackFailedState) \<Longrightarrow>
   reconcileRollbackFailed m s cs = (True, cs)"
  by (simp add: reconcileRollbackFailed_def)

lemma cacheOutOfSync_stable:
  "IsStatusConditionTrue m cs CacheOutOfSyncCondition = (dv \<noteq> pv) \<Longrightarrow>
   reconcileCacheOutOfSync m dv pv cs = (True, cs)"
  by (simp add: reconcileCacheOutOfSync_def)

lemma fixMessage_post:
  assumes "fixRollbackFailedMessage m cs = (ok, cs')"
  shows "IsStatusConditionTrue m cs' t = IsStatusConditionTrue m cs t \<and> fixRollbackFailedMessage m cs' = (True, cs')"
proof (cases "FindStatusCondition m cs RollbackFailedCondition")
  case None
  with assms show ?thesis by (simp add: fixRollbackFailedMessage_def)
next
  case (Some cond)
  let ?c = "cond\<lparr> cMessage := ''Recovered from RollbackFailed condition'' \<rparr>"
  have ty: "cType ?c = RollbackFailedCondition" using find_type [OF Some] by simp
  show ?thesis
  proof (cases "cMessage cond = []")
    case True
    with assms Some have cs': "cs' = SetStatusCondition m cs ?c" by (simp add: fixRollbackFailedMessage_def)
    obtain c' where c': "FindStatusCondition m cs' RollbackFailedCondition = Some c'" "cMessage c' = cMessage ?c" "cStatus c' = cStatus ?c"
      using find_set_same [of cs ?c] by (auto simp: ty cs')
    then have "fixRollbackFailedMessage m cs' = (True, cs')" by (simp add: fixRollbackFailedMessage_def)
    moreover have "IsStatusConditionTrue m cs' t = IsStatusConditionTrue m cs t"
    proof (cases "t = RollbackFailedCondition")
      case True
      with c' Some show ?thesis by (simp add: true_iff)
    next
      case False
      then show ?thesis using is_true_set_other [of t ?c cs] ty by (simp add: cs')
    qed
    ultimately show ?thesis by simp
  next
    case False
    with assms Some show ?thesis by (simp add: fixRollbackFailedMessage_def)
  qed
qed

lemma status_conditions_post:
  assumes "reconcileCacheOutOfSync m dv pv cs = (ok2, cs2)" "reconcileRollbackFailed m s cs2 = (ok3, cs3)"
    and "fixRollbackFailedMessage m cs3 = (ok4, cs4)"
  shows "IsStatusConditionTrue m cs4 CacheOutOfSyncCondition = (dv \<noteq> pv) \<and>
    IsStatusConditionTrue m cs4 RollbackFailedCondition = (s = RollbackFailedState) \<and>
    fixRollbackFailedMessage m cs4 = (True, cs4)"
  using cacheOutOfSync_post [OF assms(1)] rollbackFailed_post [OF assms(2)] fixMessage_post [OF assms(3)] by simp

end

lemma status_fields:
  fixes st :: EnvoyConfigStatus and cs dv pv :: string and rl :: "ConfigRevisionRef list option"
  defines "st1 \<equiv> snd ((status_step (ecConditions st = None) (\<lambda>s. s\<lparr> ecConditions := Some [] \<rparr>) \<circ>
             status_step (ecCacheState st \<noteq> Some cs) (\<lambda>s. s\<lparr> ecCacheState := Some cs \<rparr>) \<circ>
             status_step (ecDesiredVersion st \<noteq> Some dv) (\<lambda>s. s\<lparr> ecDesiredVersion := Some dv \<rparr>) \<circ>
             status_step (ecPublishedVersion st \<noteq> Some pv) (\<lambda>s. s\<lparr> ecPublishedVersion := Some pv \<rparr>) \<circ>
             status_step (ecConfigRevisions st \<noteq> rl) (\<lambda>s. s\<lparr> ecConfigRevisions := rl \<rparr>)) (True, st))"
  shows "ecCacheState st1 = Some cs" "ecDesiredVersion st1 = Some dv" "ecPublishedVersion st1 = Some pv"
    "ecConfigRevisions st1 = rl"
  by (simp_all add: st1_def snd_status_step)

text \<open>What the calculated status says, as one predicate on the object.\<close>

definition status_settled ::
    "resources_hash \<Rightarrow> meta_ops \<Rightarrow> string \<Rightarrow> string \<Rightarrow> EnvoyConfigRevision list \<Rightarrow> EnvoyConfig \<Rightarrow> bool" where
  "status_settled hash m cacheState publishedVersion list ec =
     (let st = ecStatus ec; dv = GetEnvoyResourcesVersion hash ec in
      ecCacheState st = Some cacheState \<and> ecPublishedVersion st = Some publishedVersion \<and>
      ecDesiredVersion st = Some dv \<and> ecConfigRevisions st = Some (generateRevisionList list) \<and>
      (case ecConditions st of
         None \<Rightarrow> False
       | Some cs \<Rightarrow>
           IsStatusConditionTrue m cs CacheOutOfSyncCondition = (dv \<noteq> publishedVersion) \<and>
           IsStatusConditionTrue m cs RollbackFailedCondition = (cacheState = RollbackFailedState) \<and>
           fst (fixRollbackFailedMessage m cs)))"

context status_conditions
begin

lemma IsStatusReconciled_settles:
  "status_settled hash m cs pv list (snd (IsStatusReconciled hash m ec cs pv list))"
proof -
  let ?dv = "GetEnvoyResourcesVersion hash ec" and ?rl = "Some (generateRevisionList list)"
  define chain where "chain = (status_step (ecConditions (ecStatus ec) = None) (\<lambda>s. s\<lparr> ecConditions := Some [] \<rparr>) \<circ>
             status_step (ecCacheState (ecStatus ec) \<noteq> Some cs) (\<lambda>s. s\<lparr> ecCacheState := Some cs \<rparr>) \<circ>
             status_step (ecDesiredVersion (ecStatus ec) \<noteq> Some ?dv) (\<lambda>s. s\<lparr> ecDesiredVersion := Some ?dv \<rparr>) \<circ>
             status_step (ecPublishedVersion (ecStatus ec) \<noteq> Some pv) (\<lambda>s. s\<lparr> ecPublishedVersion := Some pv \<rparr>) \<circ>
             status_step (ecConfigRevisions (ecStatus ec) \<noteq> ?rl) (\<lambda>s. s\<lparr> ecConfigRevisions := ?rl \<rparr>)) (True, ecStatus ec)"
  obtain ok1 st1 where 1: "chain = (ok1, st1)" by fastforce
  obtain ok2 cs2 where 2: "reconcileCacheOutOfSync m ?dv pv (conds st1) = (ok2, cs2)" by fastforce
  obtain ok3 cs3 where 3: "reconcileRollbackFailed m cs cs2 = (ok3, cs3)" by fastforce
  obtain ok4 cs4 where 4: "fixRollbackFailedMessage m cs3 = (ok4, cs4)" by fastforce
  have "snd (IsStatusReconciled hash m ec cs pv list) = ec\<lparr> ecStatus := st1\<lparr> ecConditions := Some cs4 \<rparr> \<rparr>"
    by (simp only: IsStatusReconciled_def Let_def chain_def [symmetric] 1 2 3 4 prod.case snd_conv)
  moreover have "ecCacheState st1 = Some cs" "ecDesiredVersion st1 = Some ?dv" "ecPublishedVersion st1 = Some pv"
      "ecConfigRevisions st1 = ?rl"
    using status_fields [of "ecStatus ec" cs ?dv pv ?rl] 1 by (simp_all add: chain_def)
  ultimately show ?thesis
    using status_conditions_post [OF 2 3 4] by (simp add: status_settled_def GetEnvoyResourcesVersion_def)
qed

lemma IsStatusReconciled_settled:
  assumes "status_settled hash m cs pv list ec"
  shows "IsStatusReconciled hash m ec cs pv list = (True, ec)"
proof -
  obtain cl where cl: "ecConditions (ecStatus ec) = Some cl"
    using assms by (auto simp: status_settled_def Let_def split: option.splits)
  have f: "fixRollbackFailedMessage m cl = (True, cl)"
    using assms cl by (auto simp: status_settled_def fixRollbackFailedMessage_def Let_def split: option.splits if_splits)
  have "(ecStatus ec)\<lparr> ecConditions := Some cl \<rparr> = ecStatus ec" using cl by simp
  then show ?thesis
    using assms cl f
    by (simp add: IsStatusReconciled_def status_settled_def Let_def conds_def cacheOutOfSync_stable rollbackFailed_stable)
qed

end

section \<open>Properties\<close>

text \<open>(C23) The status calculation settles: after it the published and desired versions, the
  cache state and the list of revisions are those given, \<open>CacheOutOfSync\<close> is true exactly
  when the published version is not the desired one, \<open>RollbackFailed\<close> exactly in that
  state, and calculating again reports nothing to do and changes nothing.\<close>

theorem EC_status_settles:
  assumes "status_conditions m"
  shows "status_settled hash m cacheState publishedVersion list
           (snd (IsStatusReconciled hash m ec cacheState publishedVersion list)) \<and>
         IsStatusReconciled hash m (snd (IsStatusReconciled hash m ec cacheState publishedVersion list))
           cacheState publishedVersion list =
         (True, snd (IsStatusReconciled hash m ec cacheState publishedVersion list))"
  using status_conditions.IsStatusReconciled_settles [OF assms]
    status_conditions.IsStatusReconciled_settled [OF assms] by blast

theorem EC_status_settles_witness:
  "status_settled (\<lambda>_. ''b'') meta_list RollbackState ''a'' []
     (snd (IsStatusReconciled (\<lambda>_. ''b'') meta_list sample_config RollbackState ''a'' []))"
  using EC_status_settles [OF metaList.status_conditions_axioms] by blast

end
