(* ===== verification/XdsCache.thy ===== *)
theory XdsCache
  imports EnvoyTypes
begin

text \<open>
  The xDS cache. \<open>pkg/discoveryservice/xdss/interface.go\<close> declares the interfaces
  \<open>Cache\<close> and \<open>Snapshot\<close>: here the records of methods \<open>Cache_iface\<close> and
  \<open>Snapshot_iface\<close>, and the locales \<open>snapshot_interface\<close> and
  \<open>cache_interface\<close> with what a client relies on. \<open>xdss/v3/snapshot.go\<close> and
  \<open>xdss/v3/cache.go\<close> implement them on go-control-plane.

  go-control-plane is outside the repository. A snapshot is its array of resources indexed
  by response type; the functions the code calls on it, the marshaller and the hash of the
  base reconciler are the parameter \<open>xds_ops\<close>, the snapshot cache is
  \<open>snapshot_cache\<close>. The locale \<open>control_plane\<close> states their documented behaviour, and
  the interfaces follow from it (\<open>sublocale\<close>). A message is an \<open>option\<close> because the
  code may put a nil resource into a snapshot.
\<close>

section \<open>Interfaces\<close>

type_synonym messages = "Message option list"

record 's Snapshot_iface =
  Consistent :: "'s \<Rightarrow> goerror option"
  SetResources :: "'s \<Rightarrow> EnvoyType \<Rightarrow> messages \<Rightarrow> 's"
  GetResources :: "'s \<Rightarrow> EnvoyType \<Rightarrow> (string \<times> Message option) list"
  GetVersion :: "'s \<Rightarrow> EnvoyType \<Rightarrow> string"
  SetVersion :: "'s \<Rightarrow> EnvoyType \<Rightarrow> string \<Rightarrow> 's"

record ('c, 's) Cache_iface =
  SetSnapshot :: "'c \<Rightarrow> string \<Rightarrow> 's \<Rightarrow> goerror option \<times> 'c"
  GetSnapshot :: "'c \<Rightarrow> string \<Rightarrow> goerror + 's"
  ClearSnapshot :: "'c \<Rightarrow> string \<Rightarrow> 'c"
  NewSnapshot :: "'s"

definition known_types :: "EnvoyType list" where
  "known_types = [Endpoint, Cluster, Route, ScopedRoute, VirtualHost, Listener, Secret, Runtime, ExtensionConfig]"

locale snapshot_interface =
  fixes S :: "'s Snapshot_iface" and content_version :: "messages \<Rightarrow> string"
  assumes version_set_same:
      "t \<in> set known_types \<Longrightarrow> GetVersion S (SetResources S s t rs) t = content_version rs"
    and version_set_other:
      "t \<in> set known_types \<Longrightarrow> t' \<in> set known_types \<Longrightarrow> t' \<noteq> t \<Longrightarrow>
       GetVersion S (SetResources S s t rs) t' = GetVersion S s t'"

text \<open>A snapshot that was set is the one that is read; the other nodes keep theirs.\<close>

locale cache_interface = snapshot_interface S content_version
  for S :: "'s Snapshot_iface" and content_version +
  fixes C :: "('c, 's) Cache_iface"
  assumes get_set_same: "SetSnapshot C c n s = (None, c') \<Longrightarrow> GetSnapshot C c' n = Inr s"
    and get_set_other: "n' \<noteq> n \<Longrightarrow> GetSnapshot C (snd (SetSnapshot C c n s)) n' = GetSnapshot C c n'"
    and get_clear_same: "is_error (GetSnapshot C (ClearSnapshot C c n) n)"
    and get_clear_other: "n' \<noteq> n \<Longrightarrow> GetSnapshot C (ClearSnapshot C c n) n' = GetSnapshot C c n'"

section \<open>go-control-plane\<close>

record Resources =
  rVersion :: string
  rItems :: "(string \<times> Message option) list"

type_synonym v3snapshot = "nat \<Rightarrow> Resources"

record xds_ops =
  urls :: type_urls
  GetResponseType :: "string \<Rightarrow> nat"
  NewResources :: "string \<Rightarrow> messages \<Rightarrow> Resources"
  NewSnapshot_gcp :: "string \<Rightarrow> (string \<times> messages) list \<Rightarrow> v3snapshot"
  GetVersion_gcp :: "v3snapshot \<Rightarrow> string \<Rightarrow> string"
  GetResources_gcp :: "v3snapshot \<Rightarrow> string \<Rightarrow> (string \<times> Message option) list"
  Consistent_gcp :: "v3snapshot \<Rightarrow> goerror option"
  protojson :: protojson_Marshal
  Hash_map :: "(string \<Rightarrow> string option) \<Rightarrow> string"

record 'c snapshot_cache =
  SetSnapshot_gcp :: "'c \<Rightarrow> string \<Rightarrow> v3snapshot \<Rightarrow> goerror option \<times> 'c"
  GetSnapshot_gcp :: "'c \<Rightarrow> string \<Rightarrow> goerror + v3snapshot"
  ClearSnapshot_gcp :: "'c \<Rightarrow> string \<Rightarrow> 'c"

section \<open>Snapshot v3\<close>

definition v3CacheResources :: "xds_ops \<Rightarrow> EnvoyType \<Rightarrow> nat" where
  "v3CacheResources x rType =
     (case rType of OtherType _ \<Rightarrow> 0 | _ \<Rightarrow> GetResponseType x (Mappings (urls x) rType))"

definition v3_NewSnapshot :: "xds_ops \<Rightarrow> v3snapshot" where
  "v3_NewSnapshot x =
     NewSnapshot_gcp x []
       [(EndpointType (urls x), []), (ClusterType (urls x), []), (RouteType (urls x), []),
        (ScopedRouteType (urls x), []), (VirtualHostType (urls x), []), (ListenerType (urls x), []),
        (SecretType (urls x), []), (RuntimeType (urls x), []), (ExtensionConfigType (urls x), [])]"

definition v3_Consistent :: "xds_ops \<Rightarrow> v3snapshot \<Rightarrow> goerror option" where
  "v3_Consistent x s = Consistent_gcp x s"

definition v3_SetVersion :: "xds_ops \<Rightarrow> v3snapshot \<Rightarrow> EnvoyType \<Rightarrow> string \<Rightarrow> v3snapshot" where
  "v3_SetVersion x s rType version =
     (let i = v3CacheResources x rType in s(i := (s i)\<lparr> rVersion := version \<rparr>))"

text \<open>The code ignores the error of the marshaller and takes the empty text that comes with
  it.\<close>

definition marshal_text :: "xds_ops \<Rightarrow> Message option \<Rightarrow> string" where
  "marshal_text x r = (case JSON_Marshal (protojson x) r of Inl _ \<Rightarrow> [] | Inr j \<Rightarrow> j)"

definition items_version :: "xds_ops \<Rightarrow> (string \<times> Message option) list \<Rightarrow> string" where
  "items_version x items =
     (if length items > 0 then Hash_map x (map_of (map (\<lambda>(n, r). (n, marshal_text x r)) items)) else [])"

definition recalculateVersion :: "xds_ops \<Rightarrow> v3snapshot \<Rightarrow> EnvoyType \<Rightarrow> string" where
  "recalculateVersion x s rType = items_version x (rItems (s (v3CacheResources x rType)))"

definition v3_SetResources :: "xds_ops \<Rightarrow> v3snapshot \<Rightarrow> EnvoyType \<Rightarrow> messages \<Rightarrow> v3snapshot" where
  "v3_SetResources x s rType resources =
     (let s1 = s(v3CacheResources x rType := NewResources x [] resources)
      in v3_SetVersion x s1 rType (recalculateVersion x s1 rType))"

definition v3_GetResources :: "xds_ops \<Rightarrow> v3snapshot \<Rightarrow> EnvoyType \<Rightarrow> (string \<times> Message option) list" where
  "v3_GetResources x s rType = GetResources_gcp x s (Mappings (urls x) rType)"

definition v3_GetVersion :: "xds_ops \<Rightarrow> v3snapshot \<Rightarrow> EnvoyType \<Rightarrow> string" where
  "v3_GetVersion x s rType = GetVersion_gcp x s (Mappings (urls x) rType)"

definition v3_Snapshot :: "xds_ops \<Rightarrow> v3snapshot Snapshot_iface" where
  "v3_Snapshot x = \<lparr> Consistent = v3_Consistent x, SetResources = v3_SetResources x,
     GetResources = v3_GetResources x, GetVersion = v3_GetVersion x, SetVersion = v3_SetVersion x \<rparr>"

section \<open>Cache v3\<close>

definition v3_SetSnapshot :: "'c snapshot_cache \<Rightarrow> 'c \<Rightarrow> string \<Rightarrow> v3snapshot \<Rightarrow> goerror option \<times> 'c" where
  "v3_SetSnapshot g c nodeID snap = SetSnapshot_gcp g c nodeID snap"

definition v3_GetSnapshot :: "'c snapshot_cache \<Rightarrow> 'c \<Rightarrow> string \<Rightarrow> goerror + v3snapshot" where
  "v3_GetSnapshot g c nodeID =
     (case GetSnapshot_gcp g c nodeID of Inl err \<Rightarrow> Inl err | Inr snap \<Rightarrow> Inr snap)"

definition v3_ClearSnapshot :: "'c snapshot_cache \<Rightarrow> 'c \<Rightarrow> string \<Rightarrow> 'c" where
  "v3_ClearSnapshot g c nodeID = ClearSnapshot_gcp g c nodeID"

definition v3_Cache :: "xds_ops \<Rightarrow> 'c snapshot_cache \<Rightarrow> ('c, v3snapshot) Cache_iface" where
  "v3_Cache x g = \<lparr> SetSnapshot = v3_SetSnapshot g, GetSnapshot = v3_GetSnapshot g,
     ClearSnapshot = v3_ClearSnapshot g, NewSnapshot = v3_NewSnapshot x \<rparr>"

section \<open>The implementation meets the interfaces\<close>

text \<open>Documented behaviour of go-control-plane: every type URL has a response type of its own,
  the version of a type is the one stored at its index, and the cache returns what was set.\<close>

locale control_plane =
  fixes x :: xds_ops and g :: "'c snapshot_cache"
  assumes response_types:
      "t \<in> set known_types \<Longrightarrow> t' \<in> set known_types \<Longrightarrow> t \<noteq> t' \<Longrightarrow>
       GetResponseType x (Mappings (urls x) t) \<noteq> GetResponseType x (Mappings (urls x) t')"
    and version_at:
      "t \<in> set known_types \<Longrightarrow>
       GetVersion_gcp x s (Mappings (urls x) t) = rVersion (s (GetResponseType x (Mappings (urls x) t)))"
    and gcp_get_set_same: "SetSnapshot_gcp g c n s = (None, c') \<Longrightarrow> GetSnapshot_gcp g c' n = Inr s"
    and gcp_get_set_other:
      "n' \<noteq> n \<Longrightarrow> GetSnapshot_gcp g (snd (SetSnapshot_gcp g c n s)) n' = GetSnapshot_gcp g c n'"
    and gcp_get_clear_same: "is_error (GetSnapshot_gcp g (ClearSnapshot_gcp g c n) n)"
    and gcp_get_clear_other:
      "n' \<noteq> n \<Longrightarrow> GetSnapshot_gcp g (ClearSnapshot_gcp g c n) n' = GetSnapshot_gcp g c n'"

definition v3_content_version :: "xds_ops \<Rightarrow> messages \<Rightarrow> string" where
  "v3_content_version x rs = items_version x (rItems (NewResources x [] rs))"

lemma v3CacheResources_known:
  "t \<in> set known_types \<Longrightarrow> v3CacheResources x t = GetResponseType x (Mappings (urls x) t)"
  by (auto simp: known_types_def v3CacheResources_def)

lemma v3_SetResources_eq:
  "v3_SetResources x s t rs =
     s(v3CacheResources x t := (NewResources x [] rs)\<lparr> rVersion := v3_content_version x rs \<rparr>)"
  by (simp add: v3_SetResources_def v3_SetVersion_def recalculateVersion_def v3_content_version_def Let_def)

sublocale control_plane \<subseteq> cache_interface "v3_Snapshot x" "v3_content_version x" "v3_Cache x g"
proof
  fix t s rs assume "t \<in> set known_types"
  then show "GetVersion (v3_Snapshot x) (SetResources (v3_Snapshot x) s t rs) t = v3_content_version x rs"
    by (simp add: v3_Snapshot_def v3_SetResources_eq v3_GetVersion_def version_at v3CacheResources_known)
next
  fix t t' s rs assume "t \<in> set known_types" "t' \<in> set known_types" "t' \<noteq> t"
  then show "GetVersion (v3_Snapshot x) (SetResources (v3_Snapshot x) s t rs) t' = GetVersion (v3_Snapshot x) s t'"
    using response_types [of t t']
    by (simp add: v3_Snapshot_def v3_SetResources_eq v3_GetVersion_def version_at v3CacheResources_known)
next
  fix c n s c' assume "SetSnapshot (v3_Cache x g) c n s = (None, c')"
  then show "GetSnapshot (v3_Cache x g) c' n = Inr s"
    using gcp_get_set_same [of c n s c'] by (simp add: v3_Cache_def v3_SetSnapshot_def v3_GetSnapshot_def)
next
  fix n' n c s assume "n' \<noteq> (n :: string)"
  then show "GetSnapshot (v3_Cache x g) (snd (SetSnapshot (v3_Cache x g) c n s)) n' = GetSnapshot (v3_Cache x g) c n'"
    using gcp_get_set_other [of n' n c s] by (simp add: v3_Cache_def v3_SetSnapshot_def v3_GetSnapshot_def)
next
  fix c n
  show "is_error (GetSnapshot (v3_Cache x g) (ClearSnapshot (v3_Cache x g) c n) n)"
    using gcp_get_clear_same [of c n]
    by (auto simp: v3_Cache_def v3_ClearSnapshot_def v3_GetSnapshot_def is_error_iff)
next
  fix n' n c assume "n' \<noteq> (n :: string)"
  then show "GetSnapshot (v3_Cache x g) (ClearSnapshot (v3_Cache x g) c n) n' = GetSnapshot (v3_Cache x g) c n'"
    using gcp_get_clear_other [of n' n c] by (simp add: v3_Cache_def v3_ClearSnapshot_def v3_GetSnapshot_def)
qed

context control_plane
begin

lemma meets_interface: "cache_interface (v3_Snapshot x) (v3_content_version x) (v3_Cache x g)"
  by (rule cache_interface_axioms)

end

section \<open>A list instance\<close>

definition sample_urls :: type_urls where
  "sample_urls = \<lparr> ListenerType = ''type/listener'', RouteType = ''type/route'', ScopedRouteType = ''type/scoped'',
     VirtualHostType = ''type/vhost'', ClusterType = ''type/cluster'', EndpointType = ''type/endpoint'',
     SecretType = ''type/secret'', RuntimeType = ''type/runtime'', ExtensionConfigType = ''type/extension'' \<rparr>"

definition sample_index :: "string \<Rightarrow> nat" where
  "sample_index url =
     length (takeWhile (\<lambda>t. t \<noteq> url)
       [''type/endpoint'', ''type/cluster'', ''type/route'', ''type/scoped'', ''type/vhost'', ''type/listener'',
        ''type/secret'', ''type/runtime'', ''type/extension''])"

fun message_name :: "Message option \<Rightarrow> string" where
  "message_name (Some (SecretMessage n _)) = n"
| "message_name (Some (ClusterLoadAssignment n _)) = n"
| "message_name (Some (Parsed _ s)) = s"
| "message_name _ = []"

definition sample_xds :: xds_ops where
  "sample_xds = \<lparr> urls = sample_urls, GetResponseType = sample_index,
     NewResources = (\<lambda>v rs. \<lparr> rVersion = v, rItems = AList.clearjunk (map (\<lambda>r. (message_name r, r)) (rev rs)) \<rparr>),
     NewSnapshot_gcp = (\<lambda>v m i. \<lparr> rVersion = v, rItems = [] \<rparr>),
     GetVersion_gcp = (\<lambda>s url. if sample_index url < 9 then rVersion (s (sample_index url)) else []),
     GetResources_gcp = (\<lambda>s url. if sample_index url < 9 then rItems (s (sample_index url)) else []),
     Consistent_gcp = (\<lambda>s. None),
     protojson = (\<lambda>r. Inr (message_name r)),
     Hash_map = (\<lambda>mp. case mp ''a'' of Some v \<Rightarrow> v | None \<Rightarrow> ''h'') \<rparr>"

definition sample_gcp :: "(string \<times> v3snapshot) list snapshot_cache" where
  "sample_gcp = \<lparr>
     SetSnapshot_gcp = (\<lambda>c n s. (None, AList.update n s c)),
     GetSnapshot_gcp = (\<lambda>c n. case map_of c n of None \<Rightarrow> Inl (PlainError ''no snapshot found'') | Some s \<Rightarrow> Inr s),
     ClearSnapshot_gcp = (\<lambda>c n. AList.delete n c) \<rparr>"

interpretation sampleXds: control_plane sample_xds sample_gcp
proof
  fix t t' assume "t \<in> set known_types" "t' \<in> set known_types" "t \<noteq> t'"
  moreover have "distinct (map (\<lambda>t. GetResponseType sample_xds (Mappings (urls sample_xds) t)) known_types)" by code_simp
  ultimately show "GetResponseType sample_xds (Mappings (urls sample_xds) t) \<noteq> GetResponseType sample_xds (Mappings (urls sample_xds) t')"
    by (auto simp only: distinct_map dest: inj_onD)
next
  fix t s assume "t \<in> set known_types"
  moreover have "list_all (\<lambda>t. sample_index (Mappings sample_urls t) < 9) known_types" by code_simp
  ultimately have "sample_index (Mappings sample_urls t) < 9" by (simp only: list_all_iff)
  then show "GetVersion_gcp sample_xds s (Mappings (urls sample_xds) t) =
      rVersion (s (GetResponseType sample_xds (Mappings (urls sample_xds) t)))"
    by (simp add: sample_xds_def)
qed (auto simp: sample_gcp_def update_conv' delete_conv' split: option.splits)

end
