(* ===== verification/CacheReconciler.thy ===== *)
theory CacheReconciler
  imports ApiMarin3r XdsCache NetIP Stats
begin

text \<open>
  Loading a revision into the xDS cache: the endpoint discovery (\<open>discover/endpoints.go\<close>),
  the cache reconciler (\<open>envoyconfigrevision/cache.go\<close>) and the cleanup of the finalizer
  (\<open>finalize.go\<close>). The cache and its snapshots are used through the interfaces of
  \<open>XdsCache\<close>. The reads from the Kubernetes API and the selectors are the parameter
  \<open>kube_reads\<close>; \<open>err_text\<close> is the \<open>Error\<close> method of the error value.
\<close>

section \<open>Kubernetes objects that are read\<close>

record K8sSecret =
  secName :: string
  secType :: string
  secData :: string_map

definition SecretTypeTLS :: string where "SecretTypeTLS = ''kubernetes.io/tls''"
definition SecretTypeOpaque :: string where "SecretTypeOpaque = ''Opaque''"
definition secretCertificate :: string where "secretCertificate = ''tls.crt''"
definition secretPrivateKey :: string where "secretPrivateKey = ''tls.key''"

definition secret_data :: "K8sSecret \<Rightarrow> string \<Rightarrow> string" where
  "secret_data s key = (case map_of (secData s) key of None \<Rightarrow> [] | Some v \<Rightarrow> v)"

record EndpointConditions =
  epReady :: "bool option"
  epServing :: "bool option"
  epTerminating :: "bool option"

record SliceEndpoint =
  epAddresses :: "string list"
  epConditions :: EndpointConditions

datatype AddressType = AddressTypeIPv4 | AddressTypeIPv6 | AddressTypeFQDN

record EndpointPort =
  epPortName :: "string option"
  epPort :: "32 word option"

record EndpointSlice =
  esLabels :: string_map
  esAddressType :: AddressType
  esEndpoints :: "SliceEndpoint list"
  esPorts :: "EndpointPort list"

record Selector =
  selMatches :: "string_map \<Rightarrow> bool"
  selString :: string

record 'w kube_reads =
  get_secret :: "'w \<Rightarrow> NamespacedName \<Rightarrow> goerror + K8sSecret"
  list_slices :: "'w \<Rightarrow> string \<Rightarrow> Selector \<Rightarrow> goerror + EndpointSlice list"
  LabelSelectorAsSelector :: "LabelSelector option \<Rightarrow> goerror + Selector"
  err_text :: "goerror \<Rightarrow> string"

section \<open>Endpoint discovery\<close>

definition health :: "EndpointConditions \<Rightarrow> EndpointHealthStatus" where
  "health ec =
     (if epTerminating ec = Some True then HealthStatus_DRAINING
      else case epServing ec of
             Some serving \<Rightarrow> if serving then HealthStatus_HEALTHY else HealthStatus_UNHEALTHY
           | None \<Rightarrow>
               (case epReady ec of
                  Some ready \<Rightarrow> if ready then HealthStatus_HEALTHY else HealthStatus_UNHEALTHY
                | None \<Rightarrow> HealthStatus_UNKNOWN))"

text \<open>The inner loop. An endpoint without addresses makes the code index past the end.\<close>

fun slice_hosts :: "32 word \<Rightarrow> SliceEndpoint list \<Rightarrow> goerror + UpstreamHost list" where
  "slice_hosts port [] = Inr []"
| "slice_hosts port (item # items) =
     (case epAddresses item of
        [] \<Rightarrow> Inl (Panic ''index out of range'')
      | addr # _ \<Rightarrow>
          (case slice_hosts port items of
             Inl p \<Rightarrow> Inl p
           | Inr hosts \<Rightarrow>
               (case ParseIP addr of
                  None \<Rightarrow> Inr hosts
                | Some ip \<Rightarrow> Inr (\<lparr> hostIP = ip, hostPort = port, hostHealth = health (epConditions item) \<rparr> # hosts))))"

definition find_port :: "string \<Rightarrow> EndpointPort list \<Rightarrow> 32 word option" where
  "find_port portName ports =
     (case find (\<lambda>p. epPortName p = Some portName) ports of None \<Rightarrow> None | Some p \<Rightarrow> epPort p)"

definition endpointSlices_to_UpstreamHosts ::
    "EndpointSlice list \<Rightarrow> string \<Rightarrow> goerror + UpstreamHost list" where
  "endpointSlices_to_UpstreamHosts esl portName =
     (case esl of
        [] \<Rightarrow> Inl (Panic ''index out of range'')
      | first # _ \<Rightarrow>
          (if esAddressType first = AddressTypeFQDN then Inl (PlainError ''unsupported address type FQDN'')
           else case find_port portName (esPorts first) of
                  None \<Rightarrow> Inl (PlainError (''no port by the name of '' @ quoted portName @ '' found''))
                | Some port \<Rightarrow> slice_hosts port (concat (map esEndpoints esl))))"

definition discover_Endpoints ::
    "'w kube_reads \<Rightarrow> 'w \<Rightarrow> string \<Rightarrow> string \<Rightarrow> string \<Rightarrow> LabelSelector option \<Rightarrow> goerror + Message" where
  "discover_Endpoints k w namespace clusterName portName labelSelector =
     (case LabelSelectorAsSelector k labelSelector of
        Inl err \<Rightarrow> Inl err
      | Inr selector \<Rightarrow>
          (case list_slices k w namespace selector of
             Inl err \<Rightarrow> Inl err
           | Inr esl \<Rightarrow>
               (if length esl = 0 then
                  Inl (PlainError (''no endpoints returned for label selector '' @ quoted (selString selector)))
                else case endpointSlices_to_UpstreamHosts esl portName of
                       Inl err \<Rightarrow> Inl err
                     | Inr hosts \<Rightarrow> Inr (NewClusterLoadAssignment IP_String clusterName hosts))))"

section \<open>GenerateSnapshot\<close>

text \<open>\<open>errors.NewInvalid\<close> builds a \<open>StatusError\<close> from the path, the value and the
  message; its text is abridged here.\<close>

definition resourceLoaderError :: "NamespacedName \<Rightarrow> nat \<Rightarrow> string \<Rightarrow> string \<Rightarrow> goerror" where
  "resourceLoaderError req idx field msg =
     StatusError StatusReasonInvalid
       (fst req @ ''/'' @ snd req @ '': spec.resources['' @ show_nat idx @ '']'' @ field @ '': '' @ msg)"

text \<open>A resource given as raw JSON. A missing value is a nil pointer dereference.\<close>

definition load_value ::
    "'w kube_reads \<Rightarrow> (string \<Rightarrow> Message option \<Rightarrow> goerror + Message) \<Rightarrow> NamespacedName \<Rightarrow> nat \<Rightarrow> Resource
     \<Rightarrow> EnvoyType \<Rightarrow> goerror + Message option" where
  "load_value k decoder req idx def t =
     (case resValue def of
        None \<Rightarrow> Inl (Panic ''nil pointer dereference'')
      | Some raw \<Rightarrow>
          (case decoder raw (Generator_New t) of
             Inl err \<Rightarrow> Inl (resourceLoaderError req idx ''.value''
                              (''Invalid envoy resource value: '' @ quoted (err_text k err)))
           | Inr res \<Rightarrow> Inr (Some res)))"

definition load_secret ::
    "'w kube_reads \<Rightarrow> 'w \<Rightarrow> NamespacedName \<Rightarrow> nat \<Rightarrow> Resource \<Rightarrow> goerror + Message option" where
  "load_secret k w req idx def =
     (case resGenerateFromTlsSecret def of
        Some name \<Rightarrow>
          (case get_secret k w (fst req, name) of
             Inl err \<Rightarrow> Inl (PlainError (err_text k err))
           | Inr s \<Rightarrow>
               (if secType s \<noteq> SecretTypeTLS then
                  Inl (PlainError (''expected Secret of '' @ quoted SecretTypeTLS @ '' type''))
                else Inr (case GetBlueprint def of
                            TlsCertificate \<Rightarrow>
                              Some (NewTlsCertificateSecret name (secret_data s secretPrivateKey) (secret_data s secretCertificate))
                          | TlsValidationContext \<Rightarrow>
                              Some (NewValidationContextSecret name (secret_data s secretCertificate))
                          | OtherBlueprint _ \<Rightarrow> None)))
      | None \<Rightarrow>
          (case resGenerateFromOpaqueSecret def of
             Some sel \<Rightarrow>
               (case get_secret k w (fst req, sksName sel) of
                  Inl err \<Rightarrow> Inl (PlainError (err_text k err))
                | Inr s \<Rightarrow>
                    (if secType s \<noteq> SecretTypeOpaque then
                       Inl (PlainError (''expected Secret of '' @ quoted SecretTypeOpaque @ '' type''))
                     else Inr (Some (NewGenericSecret (sksAlias sel) (secret_data s (sksKey sel))))))
           | None \<Rightarrow>
               Inl (resourceLoaderError req idx []
                      (''one of '' @ quoted ''generateFromOpaqueSecret'' @ '', '' @ quoted ''generateFromTlsSecret'' @ '' must be set''))))"

definition load_endpoint ::
    "'w kube_reads \<Rightarrow> 'w \<Rightarrow> (string \<Rightarrow> Message option \<Rightarrow> goerror + Message) \<Rightarrow> NamespacedName \<Rightarrow> nat \<Rightarrow> Resource
     \<Rightarrow> goerror + Message option" where
  "load_endpoint k w decoder req idx def =
     (case resGenerateFromEndpointSlices def of
        Some ges \<Rightarrow>
          (case discover_Endpoints k w (fst req) (gesClusterName ges) (gesTargetPort ges) (gesSelector ges) of
             Inl err \<Rightarrow> Inl err
           | Inr endpoint \<Rightarrow> Inr (Some endpoint))
      | None \<Rightarrow> load_value k decoder req idx def Endpoint)"

text \<open>One round of the loop: the type whose list grows and what is appended to it. Types the
  switch does not name are skipped.\<close>

definition load_resource ::
    "'w kube_reads \<Rightarrow> 'w \<Rightarrow> (string \<Rightarrow> Message option \<Rightarrow> goerror + Message) \<Rightarrow> NamespacedName \<Rightarrow> nat \<Rightarrow> Resource
     \<Rightarrow> goerror + (EnvoyType \<times> Message option) list" where
  "load_resource k w decoder req idx def =
     (let one = (\<lambda>t r. case r of Inl err \<Rightarrow> Inl err | Inr res \<Rightarrow> Inr [(t, res)]) in
      case resType def of
        Endpoint \<Rightarrow> one Endpoint (load_endpoint k w decoder req idx def)
      | Secret \<Rightarrow> one Secret (load_secret k w req idx def)
      | VirtualHost \<Rightarrow> Inr []
      | OtherType _ \<Rightarrow> Inr []
      | t \<Rightarrow> one t (load_value k decoder req idx def t))"

fun load_resources ::
    "'w kube_reads \<Rightarrow> 'w \<Rightarrow> (string \<Rightarrow> Message option \<Rightarrow> goerror + Message) \<Rightarrow> NamespacedName \<Rightarrow> nat \<Rightarrow> Resource list
     \<Rightarrow> (EnvoyType \<times> Message option) list \<Rightarrow> goerror + (EnvoyType \<times> Message option) list" where
  "load_resources k w decoder req idx [] loaded = Inr loaded"
| "load_resources k w decoder req idx (def # defs) loaded =
     (case load_resource k w decoder req idx def of
        Inl err \<Rightarrow> Inl err
      | Inr new \<Rightarrow> load_resources k w decoder req (Suc idx) defs (loaded @ new))"

definition of_type :: "(EnvoyType \<times> Message option) list \<Rightarrow> EnvoyType \<Rightarrow> messages" where
  "of_type loaded t = map snd (filter (\<lambda>p. fst p = t) loaded)"

definition cache_types :: "EnvoyType list" where
  "cache_types = [Endpoint, Cluster, Route, ScopedRoute, Listener, Secret, Runtime, ExtensionConfig]"

definition GenerateSnapshot ::
    "'s Snapshot_iface \<Rightarrow> ('c, 's) Cache_iface \<Rightarrow> 'w kube_reads \<Rightarrow> 'w
     \<Rightarrow> (string \<Rightarrow> Message option \<Rightarrow> goerror + Message) \<Rightarrow> NamespacedName \<Rightarrow> Resource list \<Rightarrow> goerror + 's" where
  "GenerateSnapshot S C k w decoder req resources =
     (case load_resources k w decoder req 0 resources [] of
        Inl err \<Rightarrow> Inl err
      | Inr loaded \<Rightarrow> Inr (foldl (\<lambda>s t. SetResources S s t (of_type loaded t)) (NewSnapshot C) cache_types))"

section \<open>Reconcile\<close>

definition areDifferent :: "'s Snapshot_iface \<Rightarrow> 's \<Rightarrow> 's \<Rightarrow> bool" where
  "areDifferent S a b = list_ex (\<lambda>rType. GetVersion S a rType \<noteq> GetVersion S b rType) cache_types"

definition version_tracker :: "'s Snapshot_iface \<Rightarrow> 's \<Rightarrow> VersionTracker" where
  "version_tracker S snap =
     \<lparr> vtEndpoints = GetVersion S snap Endpoint, vtClusters = GetVersion S snap Cluster,
       vtRoutes = GetVersion S snap Route, vtScopedRoutes = GetVersion S snap ScopedRoute,
       vtListeners = GetVersion S snap Listener, vtSecrets = GetVersion S snap Secret,
       vtRuntimes = GetVersion S snap Runtime, vtExtensionConfigs = GetVersion S snap ExtensionConfig \<rparr>"

definition CacheReconciler_Reconcile ::
    "'s Snapshot_iface \<Rightarrow> ('c, 's) Cache_iface \<Rightarrow> 'w kube_reads \<Rightarrow> 'w
     \<Rightarrow> (string \<Rightarrow> Message option \<Rightarrow> goerror + Message) \<Rightarrow> NamespacedName \<Rightarrow> Resource list \<Rightarrow> string \<Rightarrow> 'c
     \<Rightarrow> (goerror + VersionTracker) \<times> 'c" where
  "CacheReconciler_Reconcile S C k w decoder req resources nodeID c =
     (case GenerateSnapshot S C k w decoder req resources of
        Inl err \<Rightarrow> (Inl err, c)
      | Inr snap \<Rightarrow>
          (if (case GetSnapshot C c nodeID of Inl _ \<Rightarrow> True | Inr oldSnap \<Rightarrow> areDifferent S snap oldSnap) then
             (case SetSnapshot C c nodeID snap of
                (Some err, c') \<Rightarrow> (Inl err, c')
              | (None, c') \<Rightarrow> (Inr (version_tracker S snap), c'))
           else (Inr (version_tracker S snap), c)))"

section \<open>Finalizer\<close>

definition CleanupLogic ::
    "meta_ops \<Rightarrow> 'st kv_ops \<Rightarrow> ('c, 's) Cache_iface \<Rightarrow> EnvoyConfigRevision \<Rightarrow> 'st \<Rightarrow> 'c \<Rightarrow> 'st \<times> 'c" where
  "CleanupLogic m kv C ecr st c =
     (if published_true m ecr then
        (DeleteKeysByFilter kv st [ecrNodeID (ecrSpec ecr)], ClearSnapshot C c (ecrNodeID (ecrSpec ecr)))
      else (st, c))"

end
