(* ===== verification/CacheProperties.thy ===== *)
theory CacheProperties
  imports CacheReconciler
begin

text \<open>
  What the cache reconciler guarantees, proved once for every implementation of the cache
  interfaces and used for the implementation on go-control-plane: the versions of a snapshot
  are those of its contents, the cache serves what the reconciler reports, a second run
  writes nothing, and which failures are reported as an invalid revision.
\<close>

section \<open>Snapshots\<close>

lemma cache_types_known: "t \<in> set cache_types \<Longrightarrow> t \<in> set known_types"
  by (auto simp: cache_types_def known_types_def)

lemma cache_types_distinct: "distinct cache_types"
  by (simp add: cache_types_def)

context snapshot_interface
begin

lemma fold_versions:
  assumes "set ts \<subseteq> set known_types" "distinct ts" "t \<in> set known_types"
  shows "GetVersion S (foldl (\<lambda>s t. SetResources S s t (f t)) s0 ts) t =
           (if t \<in> set ts then content_version (f t) else GetVersion S s0 t)"
  using assms
proof (induction ts arbitrary: s0)
  case (Cons u us)
  have u: "u \<in> set known_types" using Cons.prems(1) by simp
  then show ?case
    using Cons version_set_same [OF u] version_set_other [OF u] by (cases "t = u") auto
qed simp

lemma GenerateSnapshot_version:
  assumes "GenerateSnapshot S C k w decoder req resources = Inr snap"
    and "load_resources k w decoder req 0 resources [] = Inr loaded" "t \<in> set cache_types"
  shows "GetVersion S snap t = content_version (of_type loaded t)"
  using assms fold_versions [of cache_types t] cache_types_known cache_types_distinct
  by (auto simp: GenerateSnapshot_def)

lemma not_different_tracker:
  "\<not> areDifferent S a b \<Longrightarrow> version_tracker S a = version_tracker S b"
  by (simp add: areDifferent_def version_tracker_def cache_types_def)

end

text \<open>The tracker a list of loaded resources gives.\<close>

definition content_tracker ::
    "(messages \<Rightarrow> string) \<Rightarrow> (EnvoyType \<times> Message option) list \<Rightarrow> VersionTracker" where
  "content_tracker cv loaded =
     \<lparr> vtEndpoints = cv (of_type loaded Endpoint), vtClusters = cv (of_type loaded Cluster),
       vtRoutes = cv (of_type loaded Route), vtScopedRoutes = cv (of_type loaded ScopedRoute),
       vtListeners = cv (of_type loaded Listener), vtSecrets = cv (of_type loaded Secret),
       vtRuntimes = cv (of_type loaded Runtime), vtExtensionConfigs = cv (of_type loaded ExtensionConfig) \<rparr>"

context cache_interface
begin

lemma Reconcile_cases_cache:
  assumes "CacheReconciler_Reconcile S C k w decoder req resources nodeID c = (Inr vt, c')"
  obtains snap loaded old where "GenerateSnapshot S C k w decoder req resources = Inr snap"
    "load_resources k w decoder req 0 resources [] = Inr loaded"
    "vt = version_tracker S snap" "GetSnapshot C c' nodeID = Inr old" "version_tracker S old = version_tracker S snap"
    "\<not> areDifferent S snap old" "\<And>n. n \<noteq> nodeID \<Longrightarrow> GetSnapshot C c' n = GetSnapshot C c n"
proof -
  obtain snap where snap: "GenerateSnapshot S C k w decoder req resources = Inr snap"
    using assms by (auto simp: CacheReconciler_Reconcile_def split: sum.splits)
  then obtain loaded where loaded: "load_resources k w decoder req 0 resources [] = Inr loaded"
    by (auto simp: GenerateSnapshot_def split: sum.splits)
  have refl: "\<not> areDifferent S s s" for s by (simp add: areDifferent_def cache_types_def)
  show thesis
  proof (cases "case GetSnapshot C c nodeID of Inl _ \<Rightarrow> True | Inr oldSnap \<Rightarrow> areDifferent S snap oldSnap")
    case True
    then have set: "SetSnapshot C c nodeID snap = (None, c')" and vt: "vt = version_tracker S snap"
      using assms snap by (auto simp: CacheReconciler_Reconcile_def split: prod.splits option.splits)
    show thesis
      by (rule that [OF snap loaded vt get_set_same [OF set] refl [THEN not_different_tracker] refl])
        (use get_set_other [of _ nodeID c snap] set in auto)
  next
    case False
    then obtain old where old: "GetSnapshot C c nodeID = Inr old" "\<not> areDifferent S snap old"
      by (auto split: sum.splits)
    with False assms snap have c': "c' = c" and vt: "vt = version_tracker S snap"
      by (simp_all add: CacheReconciler_Reconcile_def)
    show thesis
      by (rule that [OF snap loaded vt old(1) [folded c'] not_different_tracker [OF old(2), symmetric] old(2)])
        (simp add: c')
  qed
qed

lemma tracker_of_loaded:
  assumes "GenerateSnapshot S C k w decoder req resources = Inr snap"
    and "load_resources k w decoder req 0 resources [] = Inr loaded"
  shows "version_tracker S snap = content_tracker content_version loaded"
  using GenerateSnapshot_version [OF assms]
  by (simp add: version_tracker_def content_tracker_def cache_types_def)

lemma cache_in_sync:
  assumes "CacheReconciler_Reconcile S C k w decoder req resources nodeID c = (Inr vt, c')"
  shows "\<exists>snap loaded. load_resources k w decoder req 0 resources [] = Inr loaded \<and>
           vt = content_tracker content_version loaded \<and>
           GetSnapshot C c' nodeID = Inr snap \<and> version_tracker S snap = vt \<and>
           (\<forall>n. n \<noteq> nodeID \<longrightarrow> GetSnapshot C c' n = GetSnapshot C c n)"
proof -
  from Reconcile_cases_cache [OF assms] obtain snap loaded old
    where f: "GenerateSnapshot S C k w decoder req resources = Inr snap"
      "load_resources k w decoder req 0 resources [] = Inr loaded" "vt = version_tracker S snap"
      "GetSnapshot C c' nodeID = Inr old" "version_tracker S old = version_tracker S snap"
      "\<And>n. n \<noteq> nodeID \<Longrightarrow> GetSnapshot C c' n = GetSnapshot C c n" by metis
  with tracker_of_loaded [OF f(1,2)] show ?thesis by auto
qed

lemma cache_idempotent:
  assumes "CacheReconciler_Reconcile S C k w decoder req resources nodeID c = (Inr vt, c')"
  shows "CacheReconciler_Reconcile S C k w decoder req resources nodeID c' = (Inr vt, c')"
proof -
  from Reconcile_cases_cache [OF assms] obtain snap old
    where "GenerateSnapshot S C k w decoder req resources = Inr snap" "vt = version_tracker S snap"
      "GetSnapshot C c' nodeID = Inr old" "\<not> areDifferent S snap old" by metis
  then show ?thesis by (simp add: CacheReconciler_Reconcile_def)
qed

lemma cache_other_nodes:
  "n \<noteq> nodeID \<Longrightarrow>
   GetSnapshot C (snd (CacheReconciler_Reconcile S C k w decoder req resources nodeID c)) n = GetSnapshot C c n"
  using get_set_other [of n nodeID c]
  by (auto simp: CacheReconciler_Reconcile_def split: sum.split prod.split option.split)
    (metis snd_conv)+

end

section \<open>Which errors are invalid resources\<close>

definition is_status_error :: "goerror \<Rightarrow> bool" where
  "is_status_error e = (case e of StatusError _ _ \<Rightarrow> True | _ \<Rightarrow> False)"

lemma is_status_error_simps [simp]:
  "is_status_error (StatusError r s)" "\<not> is_status_error (PlainError s)" "\<not> is_status_error (Panic s)"
  "is_status_error (resourceLoaderError req i f msg)"
  by (simp_all add: is_status_error_def resourceLoaderError_def)

text \<open>A resource that can never load: a value that does not decode or a secret with no
  reference.\<close>

definition resource_invalid :: "(string \<Rightarrow> Message option \<Rightarrow> goerror + Message) \<Rightarrow> Resource \<Rightarrow> bool" where
  "resource_invalid decoder def =
     (case resType def of
        Secret \<Rightarrow> resGenerateFromTlsSecret def = None \<and> resGenerateFromOpaqueSecret def = None
      | VirtualHost \<Rightarrow> False
      | OtherType _ \<Rightarrow> False
      | t \<Rightarrow> (t = Endpoint \<longrightarrow> resGenerateFromEndpointSlices def = None) \<and>
             (case resValue def of None \<Rightarrow> False | Some raw \<Rightarrow> is_error (decoder raw (Generator_New t))))"

text \<open>A discovered endpoint whose selector or list call failed with a \<open>StatusError\<close>.\<close>

definition discovery_status_error :: "'w kube_reads \<Rightarrow> 'w \<Rightarrow> string \<Rightarrow> Resource \<Rightarrow> bool" where
  "discovery_status_error k w namespace def =
     (resType def = Endpoint \<and>
      (case resGenerateFromEndpointSlices def of
         None \<Rightarrow> False
       | Some ges \<Rightarrow>
           (case LabelSelectorAsSelector k (gesSelector ges) of
              Inl err \<Rightarrow> is_status_error err
            | Inr sel \<Rightarrow> (case list_slices k w namespace sel of Inl err \<Rightarrow> is_status_error err | Inr _ \<Rightarrow> False))))"

lemma slice_hosts_error: "slice_hosts port items = Inl e \<Longrightarrow> \<not> is_status_error e"
  by (induction items arbitrary: e) (auto split: list.splits sum.splits option.splits)

lemma hosts_error: "endpointSlices_to_UpstreamHosts esl p = Inl e \<Longrightarrow> \<not> is_status_error e"
  by (auto simp: endpointSlices_to_UpstreamHosts_def dest: slice_hosts_error split: list.splits if_splits option.splits)

lemma load_endpoint_error:
  assumes "resType def = Endpoint"
  shows "(case load_endpoint k w decoder req idx def of Inl e \<Rightarrow> is_status_error e | Inr _ \<Rightarrow> False) \<longleftrightarrow>
    resource_invalid decoder def \<or> discovery_status_error k w (fst req) def"
proof (cases "resGenerateFromEndpointSlices def")
  case None
  with assms show ?thesis
    by (auto simp: load_endpoint_def load_value_def resource_invalid_def discovery_status_error_def
        split: option.split sum.split)
next
  case (Some ges)
  with assms show ?thesis
    by (auto simp: load_endpoint_def discover_Endpoints_def resource_invalid_def discovery_status_error_def
        dest: hosts_error split: sum.split)
qed

lemma load_resource_error:
  "(case load_resource k w decoder req idx def of Inl e \<Rightarrow> is_status_error e | Inr _ \<Rightarrow> False) \<longleftrightarrow>
    resource_invalid decoder def \<or> discovery_status_error k w (fst req) def"
proof (cases "resType def = Endpoint")
  case True
  with load_endpoint_error [OF True, of k w decoder req idx] show ?thesis
    by (auto simp: load_resource_def split: sum.splits)
next
  case False
  then show ?thesis
    by (cases "resType def")
      (auto simp: load_resource_def load_value_def load_secret_def resource_invalid_def discovery_status_error_def
        split: option.split sum.split)
qed

lemma load_resources_error:
  "load_resources k w decoder req idx defs loaded = Inl e \<Longrightarrow> is_status_error e \<Longrightarrow>
   \<exists>def \<in> set defs. resource_invalid decoder def \<or> discovery_status_error k w (fst req) def"
proof (induction defs arbitrary: idx loaded)
  case (Cons def defs)
  show ?case
  proof (cases "load_resource k w decoder req idx def")
    case (Inl err)
    with Cons.prems load_resource_error [of k w decoder req idx def] show ?thesis by auto
  next
    case (Inr new)
    with Cons show ?thesis by auto
  qed
qed simp

section \<open>Discovered hosts\<close>

definition host_of :: "32 word \<Rightarrow> SliceEndpoint \<Rightarrow> UpstreamHost" where
  "host_of port e =
     \<lparr> hostIP = the (ParseIP (hd (epAddresses e))), hostPort = port, hostHealth = health (epConditions e) \<rparr>"

lemma slice_hosts_eq:
  "list_all (\<lambda>e. epAddresses e \<noteq> []) items \<Longrightarrow>
   slice_hosts port items = Inr (map (host_of port) (filter (\<lambda>e. ParseIP (hd (epAddresses e)) \<noteq> None) items))"
proof (induction items)
  case (Cons e items)
  then obtain a as where "epAddresses e = a # as" by (cases "epAddresses e") auto
  with Cons show ?case by (auto simp: host_of_def split: option.split)
qed simp

lemma v3_Cache_get: "GetSnapshot (v3_Cache x g) = v3_GetSnapshot g"
  by (simp add: v3_Cache_def)

section \<open>Properties\<close>

definition sample_slice :: "string list \<Rightarrow> EndpointSlice" where
  "sample_slice addrs = \<lparr> esLabels = [], esAddressType = AddressTypeIPv4,
     esEndpoints = map (\<lambda>a. \<lparr> epAddresses = [a], epConditions = \<lparr> epReady = Some True, epServing = None, epTerminating = None \<rparr> \<rparr>) addrs,
     esPorts = [\<lparr> epPortName = Some ''http'', epPort = Some 8080 \<rparr>] \<rparr>"

definition sample_kube :: "unit kube_reads" where
  "sample_kube = \<lparr>
     get_secret = (\<lambda>w key. Inr \<lparr> secName = snd key, secType = SecretTypeTLS, secData = [(''tls.crt'', ''C''), (''tls.key'', ''K'')] \<rparr>),
     list_slices = (\<lambda>w ns sel. Inr [sample_slice [''10.0.0.1'', ''bad''], sample_slice [''10.0.0.2'']]),
     LabelSelectorAsSelector = (\<lambda>ls. Inr \<lparr> selMatches = (\<lambda>l. True), selString = [] \<rparr>),
     err_text = (\<lambda>e. ''error'') \<rparr>"

definition sample_decoder :: "string \<Rightarrow> Message option \<Rightarrow> goerror + Message" where
  "sample_decoder raw t = (if raw = ''bad'' then Inl (PlainError ''bad'') else Inr (Parsed Cluster raw))"

definition sample_resources :: "Resource list" where
  "sample_resources = [(mkResource Cluster)\<lparr> resValue := Some ''a'' \<rparr>, (mkResource Secret)\<lparr> resGenerateFromTlsSecret := Some ''cert'' \<rparr>]"

text \<open>(C9) The cache serves what is reported: when the cache reconciler returns a version
  tracker, the snapshot the cache holds for the node has exactly these versions, each is the
  version of the resources of that type that were loaded, and no other node's snapshot
  changed. When it fails, no other node's snapshot changed either.\<close>

theorem cache_serves_reported_versions:
  assumes "control_plane x g"
  shows "(\<forall>vt c'. CacheReconciler_Reconcile (v3_Snapshot x) (v3_Cache x g) k w decoder req resources nodeID c = (Inr vt, c') \<longrightarrow>
      (\<exists>snap loaded. load_resources k w decoder req 0 resources [] = Inr loaded \<and>
         vt = content_tracker (v3_content_version x) loaded \<and>
         v3_GetSnapshot g c' nodeID = Inr snap \<and> version_tracker (v3_Snapshot x) snap = vt)) \<and>
    (n \<noteq> nodeID \<longrightarrow>
      v3_GetSnapshot g (snd (CacheReconciler_Reconcile (v3_Snapshot x) (v3_Cache x g) k w decoder req resources nodeID c)) n =
      v3_GetSnapshot g c n)"
  using cache_interface.cache_in_sync [OF control_plane.meets_interface [OF assms], of k w decoder req resources nodeID c]
    cache_interface.cache_other_nodes [OF control_plane.meets_interface [OF assms], of n nodeID k w decoder req resources c]
  unfolding v3_Cache_get by blast

theorem cache_serves_reported_versions_witness:
  "\<exists>vt c' snap. CacheReconciler_Reconcile (v3_Snapshot sample_xds) (v3_Cache sample_xds sample_gcp) sample_kube ()
       sample_decoder (''ns'', ''r'') sample_resources ''node'' [] = (Inr vt, c') \<and>
     v3_GetSnapshot sample_gcp c' ''node'' = Inr snap \<and> version_tracker (v3_Snapshot sample_xds) snap = vt"
proof -
  let ?res = "CacheReconciler_Reconcile (v3_Snapshot sample_xds) (v3_Cache sample_xds sample_gcp) sample_kube ()
       sample_decoder (''ns'', ''r'') sample_resources ''node'' []"
  have "\<not> is_error (fst ?res)" by code_simp
  from fst_ok [OF this] obtain vt c' where res: "?res = (Inr vt, c')" by blast
  from cache_serves_reported_versions [OF sampleXds.control_plane_axioms, THEN conjunct1, rule_format, OF res]
  obtain snap where "v3_GetSnapshot sample_gcp c' ''node'' = Inr snap" "version_tracker (v3_Snapshot sample_xds) snap = vt"
    by (elim exE conjE)
  with res show ?thesis by (intro exI conjI)
qed

text \<open>Reconciling the cache is idempotent: after a successful run, a run on the same
  cluster state reports the same versions and writes nothing.\<close>

theorem cache_second_run_writes_nothing:
  assumes "control_plane x g"
    and "CacheReconciler_Reconcile (v3_Snapshot x) (v3_Cache x g) k w decoder req resources nodeID c = (Inr vt, c')"
  shows "CacheReconciler_Reconcile (v3_Snapshot x) (v3_Cache x g) k w decoder req resources nodeID c' = (Inr vt, c')"
  by (rule cache_interface.cache_idempotent [OF control_plane.meets_interface [OF assms(1)] assms(2)])

theorem cache_second_run_writes_nothing_witness:
  "\<exists>vt c'. CacheReconciler_Reconcile (v3_Snapshot sample_xds) (v3_Cache sample_xds sample_gcp) sample_kube ()
       sample_decoder (''ns'', ''r'') sample_resources ''node'' c' = (Inr vt, c')"
proof -
  let ?res = "CacheReconciler_Reconcile (v3_Snapshot sample_xds) (v3_Cache sample_xds sample_gcp) sample_kube ()
       sample_decoder (''ns'', ''r'') sample_resources ''node'' []"
  have "\<not> is_error (fst ?res)" by code_simp
  from fst_ok [OF this] obtain vt c' where "?res = (Inr vt, c')" by blast
  from cache_second_run_writes_nothing [OF sampleXds.control_plane_axioms this] show ?thesis by blast
qed

text \<open>(C21) Why a revision is reported as invalid, which taints it for good: some resource
  cannot be decoded or is a secret without reference, or the list call of a discovered
  endpoint failed with a \<open>StatusError\<close>. Failures to read a secret never count as such.\<close>

theorem GenerateSnapshot_invalid_cause:
  assumes "GenerateSnapshot S C k w decoder req resources = Inl (StatusError reason msg)"
  shows "list_ex (\<lambda>def. resource_invalid decoder def \<or> discovery_status_error k w (fst req) def) resources"
  using assms load_resources_error [of k w decoder req 0 resources "[]" "StatusError reason msg"]
  by (auto simp: GenerateSnapshot_def list_ex_iff split: sum.splits)

definition bad_cluster :: Resource where
  "bad_cluster = (mkResource Cluster)\<lparr> resValue := Some ''bad'' \<rparr>"

theorem GenerateSnapshot_invalid_cause_witness:
  "list_ex (\<lambda>def. resource_invalid sample_decoder def \<or> discovery_status_error sample_kube () ''ns'' def) [bad_cluster]"
proof -
  have "\<exists>r s. GenerateSnapshot (v3_Snapshot sample_xds) (v3_Cache sample_xds sample_gcp) sample_kube ()
      sample_decoder (''ns'', ''r'') [bad_cluster] = Inl (StatusError r s)"
    by (simp add: GenerateSnapshot_def load_resource_def load_value_def bad_cluster_def mkResource_def
        sample_decoder_def resourceLoaderError_def)
  then obtain r s where "GenerateSnapshot (v3_Snapshot sample_xds) (v3_Cache sample_xds sample_gcp) sample_kube ()
      sample_decoder (''ns'', ''r'') [bad_cluster] = Inl (StatusError r s)" by blast
  from GenerateSnapshot_invalid_cause [OF this] show ?thesis by (simp only: fst_conv)
qed

text \<open>(C27) Every endpoint of every slice becomes a host, in order, when its first address is an
  IP address; the port is that of the first slice, the health that of the endpoint. Endpoints
  whose first address does not parse are left out.\<close>

theorem discovered_hosts_complete:
  assumes "esAddressType first \<noteq> AddressTypeFQDN" "find_port portName (esPorts first) = Some port"
    and "list_all (\<lambda>e. epAddresses e \<noteq> []) (concat (map esEndpoints (first # rest)))"
  shows "endpointSlices_to_UpstreamHosts (first # rest) portName =
    Inr (map (host_of port)
          (filter (\<lambda>e. ParseIP (hd (epAddresses e)) \<noteq> None) (concat (map esEndpoints (first # rest)))))"
  using assms slice_hosts_eq [OF assms(3), of port] by (simp add: endpointSlices_to_UpstreamHosts_def)

theorem discovered_hosts_complete_witness:
  "endpointSlices_to_UpstreamHosts [sample_slice [''10.0.0.1'', ''bad''], sample_slice [''10.0.0.2'']] ''http'' =
     Inr (map (host_of 8080)
       (filter (\<lambda>e. ParseIP (hd (epAddresses e)) \<noteq> None)
         (concat (map esEndpoints [sample_slice [''10.0.0.1'', ''bad''], sample_slice [''10.0.0.2'']]))))"
  by (rule discovered_hosts_complete) (simp_all add: sample_slice_def find_port_def)

end
