(* ===== verification/RevisionController.thy ===== *)
theory RevisionController
  imports CacheProperties RevisionReconciler EnvoyConfigController
begin

text \<open>
  The \<open>EnvoyConfigRevision\<close> controller
  (\<open>controllers/marin3r/envoyconfigrevision_controller.go\<close>) and the status of a revision
  (\<open>envoyconfigrevision/status.go\<close>, \<open>pkg/util/k8s\<close>): loading a published revision
  into the cache, tainting a revision that cannot be loaded or that all clients reject, and
  the predicates that turn events on secrets, endpoint slices and revisions into requests.

  The state of the controller is the API world, the statistics store and the xDS cache.
  \<open>ManageResourceLifecycle\<close> is an argument that is given the defaulting, the conversion
  and the finalizer.
\<close>

section \<open>Status\<close>

definition ConditionsEqual :: "Condition option \<Rightarrow> Condition option \<Rightarrow> bool" where
  "ConditionsEqual a b =
     (case (a, b) of
        (None, None) \<Rightarrow> True
      | (Some x, Some y) \<Rightarrow> cType x = cType y \<and> cReason x = cReason y \<and> cMessage x = cMessage y
      | _ \<Rightarrow> False)"

text \<open>The disjunction over the resource types stops at the first that holds.\<close>

fun any_failing ::
    "'st kv_ops \<Rightarrow> 'st \<Rightarrow> string \<Rightarrow> rat \<Rightarrow> (string \<times> string) list \<Rightarrow> goerror + bool" where
  "any_failing kv st nodeID threshold [] = Inr False"
| "any_failing kv st nodeID threshold ((url, version) # rest) =
     (case GetPercentageFailing kv st nodeID url version of
        Inl p \<Rightarrow> Inl p
      | Inr q \<Rightarrow> if q = threshold then Inr True else any_failing kv st nodeID threshold rest)"

definition tracked_versions :: "type_urls \<Rightarrow> APIVersion \<Rightarrow> VersionTracker \<Rightarrow> (string \<times> string) list" where
  "tracked_versions u v vt =
     [(TypeURL u Endpoint v, vtEndpoints vt), (TypeURL u Cluster v, vtClusters vt),
      (TypeURL u Route v, vtRoutes vt), (TypeURL u ScopedRoute v, vtScopedRoutes vt),
      (TypeURL u Listener v, vtListeners vt), (TypeURL u Secret v, vtSecrets vt),
      (TypeURL u Runtime v, vtRuntimes vt), (TypeURL u ExtensionConfig v, vtExtensionConfigs vt)]"

definition calculateRevisionTaintedCondition ::
    "type_urls \<Rightarrow> 'st kv_ops \<Rightarrow> 'st \<Rightarrow> EnvoyConfigRevision \<Rightarrow> VersionTracker \<Rightarrow> rat \<Rightarrow> goerror + Condition option" where
  "calculateRevisionTaintedCondition u kv st ecr vt threshold =
     (case any_failing kv st (ecrNodeID (ecrSpec ecr)) threshold (tracked_versions u (ECR_GetEnvoyAPIVersion ecr) vt) of
        Inl p \<Rightarrow> Inl p
      | Inr failing \<Rightarrow>
          Inr (if failing then
                 Some (mkCondition RevisionTaintedCondition ConditionTrue ''ResourcesFailing''
                   (''EnvoyConfigRevision resources are being rejected by more than ''
                    @ show_int (round (threshold * 100)) @ ''% of the Envoy clients''))
               else None))"

text \<open>The format \<open>%q\<close> of the node id is its text in double quotes.\<close>

definition calculateResourcesInSyncCondition ::
    "meta_ops \<Rightarrow> ('c, 's) Cache_iface \<Rightarrow> 'c \<Rightarrow> EnvoyConfigRevision \<Rightarrow> Condition option" where
  "calculateResourcesInSyncCondition m C c ecr =
     (if published_true m ecr then
        (case GetSnapshot C c (ecrNodeID (ecrSpec ecr)) of
           Inl _ \<Rightarrow> Some (mkCondition ResourcesInSyncCondition ConditionFalse ''SnapshotDoesNotExist''
                      (''A snapshot for nodeID '' @ Quote (ecrNodeID (ecrSpec ecr))
                       @ '' does not yet exist in the xDS server cache''))
         | Inr _ \<Rightarrow> Some (mkCondition ResourcesInSyncCondition ConditionTrue ''ResourcesSynced''
                      ''EnvoyConfigRevision resources successfully synced with xDS server cache''))
      else None)"

definition set_if_different ::
    "meta_ops \<Rightarrow> string \<Rightarrow> Condition \<Rightarrow> bool \<times> Condition list \<Rightarrow> bool \<times> Condition list" where
  "set_if_different m t cond = (\<lambda>(ok, cs).
     if ConditionsEqual (Some cond) (FindStatusCondition m cs t) then (ok, cs)
     else (False, SetStatusCondition m cs cond))"

definition remove_if_present :: "meta_ops \<Rightarrow> string \<Rightarrow> bool \<times> Condition list \<Rightarrow> bool \<times> Condition list" where
  "remove_if_present m t = (\<lambda>(ok, cs).
     if FindStatusCondition m cs t \<noteq> None then (False, RemoveStatusCondition m cs t) else (ok, cs))"

definition sync_published :: "meta_ops \<Rightarrow> Time \<Rightarrow> bool \<times> EnvoyConfigRevisionStatus \<Rightarrow> bool \<times> EnvoyConfigRevisionStatus" where
  "sync_published m now = (\<lambda>(ok, st).
     let p = IsStatusConditionTrue m (ecrConditions st) RevisionPublishedCondition in
     if p \<and> \<not> IsPublished st then (False, st\<lparr> ecrPublished := Some True, ecrLastPublishedAt := Some now \<rparr>)
     else if \<not> p \<and> IsPublished st then (False, st\<lparr> ecrPublished := Some False \<rparr>)
     else (ok, st))"

definition sync_tainted :: "meta_ops \<Rightarrow> bool \<times> EnvoyConfigRevisionStatus \<Rightarrow> bool \<times> EnvoyConfigRevisionStatus" where
  "sync_tainted m = (\<lambda>(ok, st).
     let t = IsStatusConditionTrue m (ecrConditions st) RevisionTaintedCondition in
     if t \<and> \<not> IsTainted st then (False, st\<lparr> ecrTainted := Some True \<rparr>)
     else if \<not> t \<and> IsTainted st then (False, st\<lparr> ecrTainted := Some False \<rparr>)
     else (ok, st))"

definition ECR_IsStatusReconciled ::
    "type_urls \<Rightarrow> meta_ops \<Rightarrow> 'st kv_ops \<Rightarrow> ('c, 's) Cache_iface \<Rightarrow> Time \<Rightarrow> EnvoyConfigRevision
     \<Rightarrow> VersionTracker option \<Rightarrow> 'c \<Rightarrow> 'st \<Rightarrow> goerror + (bool \<times> EnvoyConfigRevision)" where
  "ECR_IsStatusReconciled u m kv C now ecr vt c st =
     (let stale = (vt \<noteq> None \<and> ecrProvidesVersions (ecrStatus ecr) \<noteq> vt);
          st0 = (if stale then (ecrStatus ecr)\<lparr> ecrProvidesVersions := vt \<rparr> else ecrStatus ecr)
      in case (case vt of
                 None \<Rightarrow> Inr None
               | Some v \<Rightarrow> calculateRevisionTaintedCondition u kv st ecr v 1) of
           Inl p \<Rightarrow> Inl p
         | Inr taintedCond \<Rightarrow>
             (let p1 = (case taintedCond of
                          None \<Rightarrow> (\<not> stale, ecrConditions st0)
                        | Some tc \<Rightarrow> set_if_different m RevisionTaintedCondition tc (\<not> stale, ecrConditions st0));
                  p2 = (case calculateResourcesInSyncCondition m C c (ecr\<lparr> ecrStatus := st0\<lparr> ecrConditions := snd p1 \<rparr> \<rparr>) of
                          Some sc \<Rightarrow> set_if_different m ResourcesInSyncCondition sc p1
                        | None \<Rightarrow> remove_if_present m ResourcesInSyncCondition p1);
                  p3 = sync_tainted m (sync_published m now (fst p2, st0\<lparr> ecrConditions := snd p2 \<rparr>))
              in Inr (fst p3, ecr\<lparr> ecrStatus := snd p3 \<rparr>)))"

section \<open>Controller\<close>

definition ECR_convert_resources :: "codec_ops \<Rightarrow> EnvoyConfigRevision \<Rightarrow> goerror + EnvoyConfigRevision" where
  "ECR_convert_resources d ecr =
     (case ecrEnvoyResources (ecrSpec ecr) of
        None \<Rightarrow> Inr ecr
      | Some er \<Rightarrow>
          (case EnvoyResources_Resources d er (ECR_GetSerialization ecr) of
             Inl err \<Rightarrow> Inl err
           | Inr resources \<Rightarrow>
               Inr (ecr\<lparr> ecrSpec := (ecrSpec ecr)\<lparr> ecrResources := Some resources, ecrEnvoyResources := None \<rparr> \<rparr>)))"

record 'w ecr_writes =
  patch_status :: "'w \<Rightarrow> EnvoyConfigRevision \<Rightarrow> EnvoyConfigRevision \<Rightarrow> goerror option \<times> 'w"
    \<comment> \<open>the object before, the object after\<close>
  update_status :: "'w \<Rightarrow> EnvoyConfigRevision \<Rightarrow> goerror option \<times> 'w"

definition tainted_revision :: "meta_ops \<Rightarrow> string \<Rightarrow> string \<Rightarrow> EnvoyConfigRevision \<Rightarrow> EnvoyConfigRevision" where
  "tainted_revision m reason msg ecr =
     ecr\<lparr> ecrStatus := (ecrStatus ecr)\<lparr>
       ecrConditions := SetStatusCondition m (ecrConditions (ecrStatus ecr))
                          (mkCondition RevisionTaintedCondition ConditionTrue reason msg),
       ecrTainted := Some True \<rparr> \<rparr>"

definition taintSelf ::
    "meta_ops \<Rightarrow> 'w ecr_writes \<Rightarrow> EnvoyConfigRevision \<Rightarrow> string \<Rightarrow> string \<Rightarrow> 'w
     \<Rightarrow> goerror option \<times> EnvoyConfigRevision \<times> 'w" where
  "taintSelf m wr ecr reason msg w =
     (if \<not> tainted_true m ecr then
        (let ecr' = tainted_revision m reason msg ecr;
             (err, w') = patch_status wr w ecr ecr'
         in (err, ecr', w'))
      else (None, ecr, w))"

type_synonym ('w, 'st, 'c) ecr_lifecycle =
  "'w \<times> 'st \<times> 'c \<Rightarrow> NamespacedName \<Rightarrow> (EnvoyConfigRevision \<Rightarrow> EnvoyConfigRevision)
   \<Rightarrow> (EnvoyConfigRevision \<Rightarrow> goerror + EnvoyConfigRevision)
   \<Rightarrow> (EnvoyConfigRevision \<Rightarrow> 'st \<Rightarrow> 'c \<Rightarrow> 'st \<times> 'c)
   \<Rightarrow> ((CtrlResult \<times> goerror option) + EnvoyConfigRevision) \<times> ('w \<times> 'st \<times> 'c)"

text \<open>Loading the published revision: the tracker, nil after a taint, or the error to return.\<close>

definition load_published ::
    "'s Snapshot_iface \<Rightarrow> ('c, 's) Cache_iface \<Rightarrow> meta_ops \<Rightarrow> codec_ops \<Rightarrow> 'w kube_reads \<Rightarrow> 'w ecr_writes
     \<Rightarrow> NamespacedName \<Rightarrow> EnvoyConfigRevision \<Rightarrow> 'w \<Rightarrow> 'c
     \<Rightarrow> (goerror + VersionTracker option) \<times> EnvoyConfigRevision \<times> 'w \<times> 'c" where
  "load_published S C m d k wr req ecr w c =
     (if published_true m ecr then
        (case CacheReconciler_Reconcile S C k w (JSON_Unmarshal d) req (resource_list (ecrResources (ecrSpec ecr)))
                (ecrNodeID (ecrSpec ecr)) c of
           (Inr vt, c') \<Rightarrow> (Inr (Some vt), ecr, w, c')
         | (Inl err, c') \<Rightarrow>
             (case err of
                StatusError _ _ \<Rightarrow>
                  (case taintSelf m wr ecr ''FailedLoadingResources'' (err_text k err) w of
                     (Some e, ecr', w') \<Rightarrow> (Inl e, ecr', w', c')
                   | (None, ecr', w') \<Rightarrow> (Inr None, ecr', w', c'))
              | _ \<Rightarrow> (Inl err, ecr, w, c')))
      else (Inr None, ecr, w, c))"

definition ECR_Reconcile ::
    "type_urls \<Rightarrow> 's Snapshot_iface \<Rightarrow> ('c, 's) Cache_iface \<Rightarrow> meta_ops \<Rightarrow> codec_ops \<Rightarrow> 'w kube_reads \<Rightarrow> 'w ecr_writes
     \<Rightarrow> 'st kv_ops \<Rightarrow> ('w, 'st, 'c) ecr_lifecycle \<Rightarrow> Time \<Rightarrow> NamespacedName \<Rightarrow> 'w \<times> 'st \<times> 'c
     \<Rightarrow> (CtrlResult \<times> goerror option) \<times> ('w \<times> 'st \<times> 'c)" where
  "ECR_Reconcile u S C m d k wr kv manage now req state =
     (case manage state req ECR_Default (ECR_convert_resources d) (CleanupLogic m kv C) of
        (Inl values, state') \<Rightarrow> (values, state')
      | (Inr ecr0, (w, st, c)) \<Rightarrow>
          (case load_published S C m d k wr req ecr0 w c of
             (Inl err, ecr, w1, c1) \<Rightarrow> ((empty_result, Some err), (w1, st, c1))
           | (Inr vt, ecr, w1, c1) \<Rightarrow>
               (case ECR_IsStatusReconciled u m kv C now ecr vt c1 st of
                  Inl p \<Rightarrow> ((empty_result, Some p), (w1, st, c1))
                | Inr (ok, ecr') \<Rightarrow>
                    (let w2 = (if \<not> ok then snd (update_status wr w1 ecr') else w1)
                     in if published_true m ecr' then
                          ((\<lparr> crRequeue = True, crRequeueAfter = 30 * Second \<rparr>, None), (w2, st, c1))
                        else ((empty_result, None), (w2, st, c1))))))"

section \<open>Events\<close>

datatype watched_object = RevisionObject EnvoyConfigRevision | AnyObject

definition filterByAPIVersion :: "watched_object \<Rightarrow> APIVersion \<Rightarrow> bool" where
  "filterByAPIVersion obj version =
     (case obj of RevisionObject o' \<Rightarrow> ECR_GetEnvoyAPIVersion o' = version | AnyObject \<Rightarrow> True)"

definition SecretsEventHandler :: "meta_ops \<Rightarrow> K8sSecret \<Rightarrow> EnvoyConfigRevision \<Rightarrow> bool" where
  "SecretsEventHandler m secret ecr =
     (if secType secret \<noteq> SecretTypeTLS \<and> secType secret \<noteq> SecretTypeOpaque then False
      else if published_true m ecr then
        list_ex (\<lambda>s. resType s = Secret \<and>
            (resGenerateFromTlsSecret s = Some (secName secret) \<or>
             (case resGenerateFromOpaqueSecret s of None \<Rightarrow> False | Some sel \<Rightarrow> sksName sel = secName secret)))
          (resource_list (ecrResources (ecrSpec ecr)))
      else False)"

definition EndpointSlicesEventHandler :: "meta_ops \<Rightarrow> 'w kube_reads \<Rightarrow> EndpointSlice \<Rightarrow> EnvoyConfigRevision \<Rightarrow> bool" where
  "EndpointSlicesEventHandler m k endpointSlice ecr =
     (if published_true m ecr then
        list_ex (\<lambda>r. resType r = Endpoint \<and>
            (case resGenerateFromEndpointSlices r of
               None \<Rightarrow> False
             | Some ges \<Rightarrow> (case LabelSelectorAsSelector k (gesSelector ges) of
                  Inl _ \<Rightarrow> False
                | Inr selector \<Rightarrow> selMatches selector (esLabels endpointSlice))))
          (resource_list (ecrResources (ecrSpec ecr)))
      else False)"

end
