(* ===== verification/RevisionStatusProperties.thy ===== *)
theory RevisionStatusProperties
  imports RevisionController Callbacks
begin

text \<open>
  What the status of a revision means: the fields follow the conditions, a taint is never
  taken back, a revision that every client rejects is tainted, a revision that cannot be
  loaded is tainted, and calculating the status again changes nothing.
\<close>

section \<open>Condition steps\<close>

definition holds :: "meta_ops \<Rightarrow> Condition \<Rightarrow> Condition list \<Rightarrow> bool" where
  "holds m cond cs = ConditionsEqual (Some cond) (FindStatusCondition m cs (cType cond))"

context status_conditions
begin

lemma set_if_different_holds:
  "cType cond = t \<Longrightarrow> holds m cond (snd (set_if_different m t cond (ok, cs)))"
  using find_set_same [of cs cond]
  by (auto simp: set_if_different_def holds_def ConditionsEqual_def split: option.splits)

lemma set_if_different_stable:
  "cType cond = t \<Longrightarrow> holds m cond cs \<Longrightarrow> set_if_different m t cond (ok, cs) = (ok, cs)"
  by (simp add: set_if_different_def holds_def)

lemma set_if_different_other:
  "cType cond = t \<Longrightarrow> t' \<noteq> t \<Longrightarrow>
   FindStatusCondition m (snd (set_if_different m t cond (ok, cs))) t' = FindStatusCondition m cs t'"
  by (simp add: set_if_different_def find_set_other)

lemma set_if_different_true:
  "cType cond = t \<Longrightarrow> cStatus cond = ConditionTrue \<Longrightarrow> IsStatusConditionTrue m cs t \<Longrightarrow>
   IsStatusConditionTrue m (snd (set_if_different m t cond (ok, cs))) t"
  by (simp add: set_if_different_def is_true_set_same)

lemma remove_if_present_other:
  "t' \<noteq> t \<Longrightarrow> FindStatusCondition m (snd (remove_if_present m t (ok, cs))) t' = FindStatusCondition m cs t'"
  by (simp add: remove_if_present_def find_remove_other)

lemma remove_if_present_none: "FindStatusCondition m (snd (remove_if_present m t (ok, cs))) t = None"
  by (simp add: remove_if_present_def find_remove_same)

lemma true_cong:
  "FindStatusCondition m cs t = FindStatusCondition m cs' t \<Longrightarrow> IsStatusConditionTrue m cs t = IsStatusConditionTrue m cs' t"
  by (simp add: true_iff)

lemma holds_cong:
  "FindStatusCondition m cs (cType c) = FindStatusCondition m cs' (cType c) \<Longrightarrow> holds m c cs = holds m c cs'"
  by (simp add: holds_def)

end

section \<open>Field steps\<close>

lemma sync_published_sel:
  "ecrConditions (snd (sync_published m now p)) = ecrConditions (snd p)"
  "ecrProvidesVersions (snd (sync_published m now p)) = ecrProvidesVersions (snd p)"
  "ecrTainted (snd (sync_published m now p)) = ecrTainted (snd p)"
  "IsPublished (snd (sync_published m now p)) = IsStatusConditionTrue m (ecrConditions (snd p)) RevisionPublishedCondition"
  by (cases p; simp add: sync_published_def Let_def IsPublished_def split: option.splits)+

lemma sync_tainted_sel:
  "ecrConditions (snd (sync_tainted m p)) = ecrConditions (snd p)"
  "ecrProvidesVersions (snd (sync_tainted m p)) = ecrProvidesVersions (snd p)"
  "ecrPublished (snd (sync_tainted m p)) = ecrPublished (snd p)"
  "IsTainted (snd (sync_tainted m p)) = IsStatusConditionTrue m (ecrConditions (snd p)) RevisionTaintedCondition"
  by (cases p; simp add: sync_tainted_def Let_def IsTainted_def split: option.splits)+

lemma sync_published_stable:
  "IsPublished st = IsStatusConditionTrue m (ecrConditions st) RevisionPublishedCondition \<Longrightarrow>
   sync_published m now (ok, st) = (ok, st)"
  by (simp add: sync_published_def Let_def)

lemma sync_tainted_stable:
  "IsTainted st = IsStatusConditionTrue m (ecrConditions st) RevisionTaintedCondition \<Longrightarrow>
   sync_tainted m (ok, st) = (ok, st)"
  by (simp add: sync_tainted_def Let_def)

lemma IsPublished_cong: "ecrPublished a = ecrPublished b \<Longrightarrow> IsPublished a = IsPublished b"
  by (simp add: IsPublished_def)

section \<open>The whole calculation\<close>

text \<open>The tainted condition a run computes.\<close>

definition taint_of ::
    "type_urls \<Rightarrow> 'st kv_ops \<Rightarrow> 'st \<Rightarrow> EnvoyConfigRevision \<Rightarrow> VersionTracker option \<Rightarrow> goerror + Condition option" where
  "taint_of u kv st ecr vt =
     (case vt of None \<Rightarrow> Inr None | Some v \<Rightarrow> calculateRevisionTaintedCondition u kv st ecr v 1)"

lemma taint_of_cond:
  "taint_of u kv st ecr vt = Inr (Some tc) \<Longrightarrow> cType tc = RevisionTaintedCondition \<and> cStatus tc = ConditionTrue"
  by (auto simp: taint_of_def calculateRevisionTaintedCondition_def split: option.splits sum.splits if_splits)

lemma inSync_cond:
  "calculateResourcesInSyncCondition m C c ecr = Some sc \<Longrightarrow> cType sc = ResourcesInSyncCondition"
  by (auto simp: calculateResourcesInSyncCondition_def split: if_splits sum.splits)

definition conds1 :: "meta_ops \<Rightarrow> Condition option \<Rightarrow> bool \<times> Condition list \<Rightarrow> bool \<times> Condition list" where
  "conds1 m tc p = (case tc of None \<Rightarrow> p | Some c \<Rightarrow> set_if_different m RevisionTaintedCondition c p)"

definition conds2 :: "meta_ops \<Rightarrow> Condition option \<Rightarrow> bool \<times> Condition list \<Rightarrow> bool \<times> Condition list" where
  "conds2 m sc p = (case sc of Some c \<Rightarrow> set_if_different m ResourcesInSyncCondition c p
                             | None \<Rightarrow> remove_if_present m ResourcesInSyncCondition p)"

lemma ECR_status_eq:
  "ECR_IsStatusReconciled u m kv C now ecr vt c st =
     (case taint_of u kv st ecr vt of
        Inl p \<Rightarrow> Inl p
      | Inr tc \<Rightarrow>
          (let stale = (vt \<noteq> None \<and> ecrProvidesVersions (ecrStatus ecr) \<noteq> vt);
               st0 = (if stale then (ecrStatus ecr)\<lparr> ecrProvidesVersions := vt \<rparr> else ecrStatus ecr);
               p1 = conds1 m tc (\<not> stale, ecrConditions (ecrStatus ecr));
               p2 = conds2 m (calculateResourcesInSyncCondition m C c (ecr\<lparr> ecrStatus := st0\<lparr> ecrConditions := snd p1 \<rparr> \<rparr>)) p1;
               p3 = sync_tainted m (sync_published m now (fst p2, st0\<lparr> ecrConditions := snd p2 \<rparr>))
           in Inr (fst p3, ecr\<lparr> ecrStatus := snd p3 \<rparr>)))"
proof -
  have "ecrConditions (if b then (ecrStatus ecr)\<lparr> ecrProvidesVersions := vt \<rparr> else ecrStatus ecr) = ecrConditions (ecrStatus ecr)" for b
    by simp
  then show ?thesis
    by (simp only: ECR_IsStatusReconciled_def taint_of_def conds1_def conds2_def Let_def)
qed

context status_conditions
begin

lemma conds1_other:
  assumes "\<And>c. tc = Some c \<Longrightarrow> cType c = RevisionTaintedCondition" "t \<noteq> RevisionTaintedCondition"
  shows "FindStatusCondition m (snd (conds1 m tc (ok, cs))) t = FindStatusCondition m cs t"
  using assms by (auto simp: conds1_def set_if_different_other split: option.split)

lemma conds2_other:
  assumes "\<And>c. sc = Some c \<Longrightarrow> cType c = ResourcesInSyncCondition" "t \<noteq> ResourcesInSyncCondition"
  shows "FindStatusCondition m (snd (conds2 m sc p)) t = FindStatusCondition m (snd p) t"
  using assms by (cases p) (auto simp: conds2_def set_if_different_other remove_if_present_other split: option.split)

lemma conds2_post:
  assumes "\<And>c. sc = Some c \<Longrightarrow> cType c = ResourcesInSyncCondition"
  shows "conds2 m sc (True, snd (conds2 m sc p)) = (True, snd (conds2 m sc p))"
proof (cases sc)
  case None
  then show ?thesis using remove_if_present_none by (cases p) (simp add: conds2_def remove_if_present_def)
next
  case (Some c)
  then show ?thesis
    using assms set_if_different_holds [of c ResourcesInSyncCondition]
    by (cases p) (simp add: conds2_def set_if_different_stable)
qed

lemma ECR_status_cases:
  assumes "ECR_IsStatusReconciled u m kv C now ecr vt c st = Inr (ok, ecr')"
  obtains tc p1 sc where "taint_of u kv st ecr vt = Inr tc"
    "\<And>x. tc = Some x \<Longrightarrow> cType x = RevisionTaintedCondition \<and> cStatus x = ConditionTrue"
    "p1 = conds1 m tc (\<not> (vt \<noteq> None \<and> ecrProvidesVersions (ecrStatus ecr) \<noteq> vt), ecrConditions (ecrStatus ecr))"
    "\<And>x. sc = Some x \<Longrightarrow> cType x = ResourcesInSyncCondition"
    "sc = calculateResourcesInSyncCondition m C c ecr"
    "ecrConditions (ecrStatus ecr') = snd (conds2 m sc p1)"
    "ecrSpec ecr' = ecrSpec ecr" "ecrMeta ecr' = ecrMeta ecr"
    "vt \<noteq> None \<Longrightarrow> ecrProvidesVersions (ecrStatus ecr') = vt"
    "IsPublished (ecrStatus ecr') = published_true m ecr'" "IsTainted (ecrStatus ecr') = tainted_true m ecr'"
proof -
  obtain tc where tc: "taint_of u kv st ecr vt = Inr tc"
    using assms by (auto simp: ECR_status_eq split: sum.splits)
  let ?stale = "vt \<noteq> None \<and> ecrProvidesVersions (ecrStatus ecr) \<noteq> vt"
  define st0 where "st0 = (if ?stale then (ecrStatus ecr)\<lparr> ecrProvidesVersions := vt \<rparr> else ecrStatus ecr)"
  define p1 where "p1 = conds1 m tc (\<not> ?stale, ecrConditions (ecrStatus ecr))"
  define sc where "sc = calculateResourcesInSyncCondition m C c (ecr\<lparr> ecrStatus := st0\<lparr> ecrConditions := snd p1 \<rparr> \<rparr>)"
  define p2 where "p2 = conds2 m sc p1"
  have taint: "\<And>x. tc = Some x \<Longrightarrow> cType x = RevisionTaintedCondition \<and> cStatus x = ConditionTrue"
    using tc taint_of_cond [of u kv st ecr vt] by simp
  have "FindStatusCondition m (snd p1) RevisionPublishedCondition = FindStatusCondition m (ecrConditions (ecrStatus ecr)) RevisionPublishedCondition"
    unfolding p1_def by (rule conds1_other) (use taint in auto)
  from true_cong [OF this] have sc: "sc = calculateResourcesInSyncCondition m C c ecr"
    by (simp add: sc_def calculateResourcesInSyncCondition_def split: sum.split)
  have ecr': "ecr' = ecr\<lparr> ecrStatus := snd (sync_tainted m (sync_published m now (fst p2, st0\<lparr> ecrConditions := snd p2 \<rparr>))) \<rparr>"
    using assms unfolding ECR_status_eq tc sum.case Let_def st0_def [symmetric] p1_def [symmetric] sc_def [symmetric] p2_def [symmetric]
    by simp
  show thesis
  proof (rule that [OF tc taint p1_def _ sc])
    show "sc = Some x \<Longrightarrow> cType x = ResourcesInSyncCondition" for x using sc inSync_cond by metis
    show "vt \<noteq> None \<Longrightarrow> ecrProvidesVersions (ecrStatus ecr') = vt"
      by (auto simp: ecr' sync_tainted_sel sync_published_sel st0_def)
    show "IsPublished (ecrStatus ecr') = published_true m ecr'"
      using IsPublished_cong [OF sync_tainted_sel(3)] by (simp add: ecr' sync_tainted_sel(1) sync_published_sel)
  qed (auto simp: ecr' sync_tainted_sel sync_published_sel p2_def)
qed

lemma ECR_status_published:
  assumes "ECR_IsStatusReconciled u m kv C now ecr vt c st = Inr (ok, ecr')"
  shows "published_true m ecr' = published_true m ecr"
proof (rule ECR_status_cases [OF assms])
  fix tc p1 sc
  assume a: "\<And>x. tc = Some x \<Longrightarrow> cType x = RevisionTaintedCondition \<and> cStatus x = ConditionTrue"
    "p1 = conds1 m tc (\<not> (vt \<noteq> None \<and> ecrProvidesVersions (ecrStatus ecr) \<noteq> vt), ecrConditions (ecrStatus ecr))"
    "\<And>x. sc = Some x \<Longrightarrow> cType x = ResourcesInSyncCondition" "ecrConditions (ecrStatus ecr') = snd (conds2 m sc p1)"
  show ?thesis unfolding a(4)
    by (rule true_cong) (simp add: conds2_other [OF a(3)] a(2) conds1_other a(1))
qed

lemma ECR_status_taint_kept:
  assumes "ECR_IsStatusReconciled u m kv C now ecr vt c st = Inr (ok, ecr')"
  shows "tainted_true m ecr \<Longrightarrow> tainted_true m ecr'"
proof (rule ECR_status_cases [OF assms])
  fix tc p1 sc
  assume t: "tainted_true m ecr"
  assume a: "\<And>x. tc = Some x \<Longrightarrow> cType x = RevisionTaintedCondition \<and> cStatus x = ConditionTrue"
    "p1 = conds1 m tc (\<not> (vt \<noteq> None \<and> ecrProvidesVersions (ecrStatus ecr) \<noteq> vt), ecrConditions (ecrStatus ecr))"
    "\<And>x. sc = Some x \<Longrightarrow> cType x = ResourcesInSyncCondition" "ecrConditions (ecrStatus ecr') = snd (conds2 m sc p1)"
  have "IsStatusConditionTrue m (snd p1) RevisionTaintedCondition"
    using t a(1) by (auto simp: a(2) conds1_def set_if_different_true split: option.split)
  moreover have "FindStatusCondition m (snd (conds2 m sc p1)) RevisionTaintedCondition = FindStatusCondition m (snd p1) RevisionTaintedCondition"
    by (rule conds2_other [OF a(3)]) simp_all
  ultimately show "tainted_true m ecr'" unfolding a(4) using true_cong by metis
qed

lemma ECR_status_settled:
  assumes "ECR_IsStatusReconciled u m kv C now ecr vt c st = Inr (ok, ecr')"
  shows "ECR_IsStatusReconciled u m kv C now' ecr' vt c st = Inr (True, ecr')"
proof (rule ECR_status_cases [OF assms])
  fix tc p1 sc
  assume a: "taint_of u kv st ecr vt = Inr tc"
    "\<And>x. tc = Some x \<Longrightarrow> cType x = RevisionTaintedCondition \<and> cStatus x = ConditionTrue"
    "p1 = conds1 m tc (\<not> (vt \<noteq> None \<and> ecrProvidesVersions (ecrStatus ecr) \<noteq> vt), ecrConditions (ecrStatus ecr))"
    "\<And>x. sc = Some x \<Longrightarrow> cType x = ResourcesInSyncCondition"
    "sc = calculateResourcesInSyncCondition m C c ecr" "ecrConditions (ecrStatus ecr') = snd (conds2 m sc p1)"
    "ecrSpec ecr' = ecrSpec ecr" "vt \<noteq> None \<Longrightarrow> ecrProvidesVersions (ecrStatus ecr') = vt"
    "IsPublished (ecrStatus ecr') = published_true m ecr'" "IsTainted (ecrStatus ecr') = tainted_true m ecr'"
  have tc: "taint_of u kv st ecr' vt = Inr tc"
    using a(1) by (cases vt) (simp_all add: taint_of_def calculateRevisionTaintedCondition_def a(7) ECR_GetEnvoyAPIVersion_def)
  have c1: "conds1 m tc (True, ecrConditions (ecrStatus ecr')) = (True, ecrConditions (ecrStatus ecr'))"
  proof (cases tc)
    case (Some x)
    have "holds m x (snd p1)" using Some a(2) by (simp add: a(3) conds1_def set_if_different_holds)
    moreover have "FindStatusCondition m (snd (conds2 m sc p1)) (cType x) = FindStatusCondition m (snd p1) (cType x)"
      by (rule conds2_other [OF a(4)]) (use Some a(2) in simp_all)
    ultimately have "holds m x (ecrConditions (ecrStatus ecr'))" unfolding a(6) using holds_cong by metis
    then show ?thesis using Some a(2) by (simp add: conds1_def set_if_different_stable)
  qed (simp add: conds1_def)
  have sc: "calculateResourcesInSyncCondition m C c ecr' = sc"
    using ECR_status_published [OF assms] by (simp add: a(5,7) calculateResourcesInSyncCondition_def split: sum.split)
  have c2: "conds2 m sc (True, ecrConditions (ecrStatus ecr')) = (True, ecrConditions (ecrStatus ecr'))"
    unfolding a(6) by (rule conds2_post [OF a(4)])
  have ns: "(vt \<noteq> None \<and> ecrProvidesVersions (ecrStatus ecr') \<noteq> vt) = False" using a(8) by blast
  have same: "(ecrStatus ecr')\<lparr> ecrConditions := ecrConditions (ecrStatus ecr') \<rparr> = ecrStatus ecr'"
    "ecr'\<lparr> ecrStatus := ecrStatus ecr' \<rparr> = ecr'" by simp_all
  show ?thesis
    unfolding ECR_status_eq tc sum.case Let_def ns if_False not_False_eq_True c1 snd_conv same sc c2 fst_conv
      sync_published_stable [OF a(9)] sync_tainted_stable [OF a(10)] ..
qed

end

section \<open>Rejected revisions\<close>

lemma any_failing_True:
  assumes "kv_cache kv" "stats_reachable kv st"
  shows "\<exists>b. any_failing kv st n 1 tvs = Inr b \<and>
    (b \<longleftrightarrow> list_ex (\<lambda>(url, v). GetPercentageFailing kv st n url v = Inr 1) tvs)"
proof (induction tvs)
  case (Cons tv tvs)
  obtain url v where tv: "tv = (url, v)" by fastforce
  obtain q where "GetPercentageFailing kv st n url v = Inr q"
    using kv_cache.percentage_spec [OF assms(1) kv_cache.inv_reachable [OF assms]] by metis
  with Cons tv show ?case by auto
qed auto

lemma rejected_taint:
  assumes "status_conditions m" "kv_cache kv" "stats_reachable kv st"
    and "FindStatusCondition m (ecrConditions (ecrStatus ecr)) RevisionTaintedCondition = None"
    and "(url, v) \<in> set (tracked_versions u (ECR_GetEnvoyAPIVersion ecr) vt)"
    and "GetSubscribedPods kv st (ecrNodeID (ecrSpec ecr)) url = Inr pods" "pods \<noteq> []"
    and "list_all (pod_failing kv st (ecrNodeID (ecrSpec ecr)) url v) pods"
  shows "\<exists>ok ecr'. ECR_IsStatusReconciled u m kv C now ecr (Some vt) c st = Inr (ok, ecr') \<and>
           tainted_true m ecr' \<and> IsTainted (ecrStatus ecr')"
proof -
  have pct: "GetPercentageFailing kv st (ecrNodeID (ecrSpec ecr)) url v = Inr 1"
    using kv_cache.percentage_spec [OF assms(2) kv_cache.inv_reachable [OF assms(2,3)], of "ecrNodeID (ecrSpec ecr)" url v] assms(6-8)
    by auto
  have fail: "any_failing kv st (ecrNodeID (ecrSpec ecr)) 1 (tracked_versions u (ECR_GetEnvoyAPIVersion ecr) vt) = Inr True"
    using any_failing_True [OF assms(2,3), of "ecrNodeID (ecrSpec ecr)" "tracked_versions u (ECR_GetEnvoyAPIVersion ecr) vt"]
      assms(5) pct by (auto simp: list_ex_iff)
  obtain tc where tc: "taint_of u kv st ecr (Some vt) = Inr (Some tc)"
    using fail by (auto simp: taint_of_def calculateRevisionTaintedCondition_def)
  then obtain ok ecr' where res: "ECR_IsStatusReconciled u m kv C now ecr (Some vt) c st = Inr (ok, ecr')"
    by (simp add: ECR_status_eq Let_def)
  have "tainted_true m ecr'"
  proof (rule status_conditions.ECR_status_cases [OF assms(1) res])
    fix tc' p1 sc
    assume a: "taint_of u kv st ecr (Some vt) = Inr tc'"
      "p1 = conds1 m tc' (\<not> (Some vt \<noteq> None \<and> ecrProvidesVersions (ecrStatus ecr) \<noteq> Some vt), ecrConditions (ecrStatus ecr))"
      "\<And>x. sc = Some x \<Longrightarrow> cType x = ResourcesInSyncCondition" "ecrConditions (ecrStatus ecr') = snd (conds2 m sc p1)"
    have "tc' = Some tc" using a(1) tc by simp
    then have "snd p1 = SetStatusCondition m (ecrConditions (ecrStatus ecr)) tc"
      using assms(4) by (simp add: a(2) conds1_def set_if_different_def ConditionsEqual_def)
    then have "IsStatusConditionTrue m (snd p1) RevisionTaintedCondition"
      using status_conditions.is_true_set_same [OF assms(1), of RevisionTaintedCondition tc] taint_of_cond [OF tc] by simp
    moreover have "FindStatusCondition m (snd (conds2 m sc p1)) RevisionTaintedCondition = FindStatusCondition m (snd p1) RevisionTaintedCondition"
      by (rule status_conditions.conds2_other [OF assms(1) a(3)]) simp_all
    ultimately show ?thesis unfolding a(4) using status_conditions.true_cong [OF assms(1)] by metis
  qed
  moreover have "IsTainted (ecrStatus ecr') = tainted_true m ecr'"
    by (rule status_conditions.ECR_status_cases [OF assms(1) res])
  ultimately show ?thesis using res by blast
qed

section \<open>Properties\<close>

text \<open>(C22) The status of a revision follows its conditions: after the calculation the fields
  \<open>published\<close> and \<open>tainted\<close> say what the conditions say, the provided versions are the
  given ones, the published condition is untouched, a tainted revision stays tainted, and
  calculating again, at any later time, reports nothing to do and changes nothing.\<close>

theorem ECR_status_settles:
  assumes "status_conditions m" "ECR_IsStatusReconciled u m kv C now ecr vt c st = Inr (ok, ecr')"
  shows "IsPublished (ecrStatus ecr') = published_true m ecr' \<and> IsTainted (ecrStatus ecr') = tainted_true m ecr' \<and>
    published_true m ecr' = published_true m ecr \<and> (tainted_true m ecr \<longrightarrow> tainted_true m ecr') \<and>
    (vt \<noteq> None \<longrightarrow> ecrProvidesVersions (ecrStatus ecr') = vt) \<and>
    ECR_IsStatusReconciled u m kv C now' ecr' vt c st = Inr (True, ecr')"
  using status_conditions.ECR_status_published [OF assms] status_conditions.ECR_status_taint_kept [OF assms]
    status_conditions.ECR_status_settled [OF assms]
  by (intro conjI) (rule status_conditions.ECR_status_cases [OF assms]; simp)+

definition sample_ecr :: EnvoyConfigRevision where
  "sample_ecr = publish meta_list ''b'' (config_revision ''b'')"

definition sample_vt :: VersionTracker where
  "sample_vt = content_tracker (\<lambda>_. ''v'') []"

theorem ECR_status_settles_witness:
  "\<exists>ok ecr'. ECR_IsStatusReconciled sample_urls meta_list kv_list (v3_Cache sample_xds sample_gcp) 7 sample_ecr
       (Some sample_vt) [] kv_empty = Inr (ok, ecr') \<and> IsPublished (ecrStatus ecr') = published_true meta_list ecr'"
proof -
  let ?res = "ECR_IsStatusReconciled sample_urls meta_list kv_list (v3_Cache sample_xds sample_gcp) 7 sample_ecr
       (Some sample_vt) [] kv_empty"
  have "\<not> is_error ?res" by code_simp
  then obtain p where "?res = Inr p" unfolding not_is_error_iff ..
  then obtain ok ecr' where res: "?res = Inr (ok, ecr')" by (cases p) simp
  from ECR_status_settles [OF metaList.status_conditions_axioms res, THEN conjunct1] res show ?thesis by (intro exI conjI)
qed

text \<open>A revision that every client rejects is tainted: when for some resource type every
  pod subscribed for the node has rejected the version the revision provides at least five
  times, and the revision carries no tainted condition yet, the calculation taints it. It
  never panics on a store the program can reach.\<close>

theorem rejected_revision_is_tainted:
  assumes "status_conditions m" "kv_cache kv" "stats_reachable kv st"
    and "FindStatusCondition m (ecrConditions (ecrStatus ecr)) RevisionTaintedCondition = None"
    and "(url, v) \<in> set (tracked_versions u (ECR_GetEnvoyAPIVersion ecr) vt)"
    and "GetSubscribedPods kv st (ecrNodeID (ecrSpec ecr)) url = Inr pods" "pods \<noteq> []"
    and "list_all (pod_failing kv st (ecrNodeID (ecrSpec ecr)) url v) pods"
  shows "\<exists>ok ecr'. ECR_IsStatusReconciled u m kv C now ecr (Some vt) c st = Inr (ok, ecr') \<and>
           tainted_true m ecr' \<and> IsTainted (ecrStatus ecr')"
  by (rule rejected_taint [OF assms])

text \<open>Five rejections of a cluster version by the only subscribed pod.\<close>

definition rejecting_req :: DiscoveryRequest where
  "rejecting_req = sample_req\<lparr> reqTypeUrl := ''type/cluster'' \<rparr>"

definition rejected_rsp :: DiscoveryResponse where
  "rejected_rsp = sample_rsp\<lparr> rspTypeUrl := ''type/cluster'' \<rparr>"

definition rejecting_store :: kv_state where
  "rejecting_store =
     foldl (reject_round kv_list (\<lambda>_. 0) 0 rejecting_req rejected_rsp)
       (ReportRequest kv_list kv_empty ''n'' ''type/cluster'' ''p'') [''1'', ''2'', ''3'', ''4'', ''5'']"

lemma reject_round_steps:
  assumes "stats_reachable kv st" "pod_name_of req = Inr p" "nonce \<noteq> []"
  shows "stats_reachable kv (reject_round kv rnd now req rsp st nonce)"
proof -
  have "stats_reachable kv (OnStreamResponse kv st req (rsp\<lparr> rspNonce := nonce \<rparr>))"
    using assms(1) by (simp add: OnStreamResponse_def assms(2) reach_step step_nonce)
  then show ?thesis
    by (simp add: reject_round_def Let_def fst_OnStreamRequest_nack [OF assms(2)] assms(3)) (blast intro: reach_step step_nack)
qed

lemma rejecting_store_reachable: "stats_reachable kv_list rejecting_store"
proof -
  have "stats_reachable kv_list kv_empty" by (rule reach_new) (simp add: kv_list_def kv_empty_def)
  then have "stats_reachable kv_list (ReportRequest kv_list kv_empty ''n'' ''type/cluster'' ''p'')"
    by (rule reach_step) (rule step_request)
  moreover have "pod_name_of rejecting_req = Inr ''p''" by code_simp
  ultimately show ?thesis unfolding rejecting_store_def by (simp add: reject_round_steps)
qed

theorem rejected_revision_is_tainted_witness:
  "\<exists>ok ecr'. ECR_IsStatusReconciled sample_urls meta_list kv_list (v3_Cache sample_xds sample_gcp) 7 sample_ecr
       (Some sample_vt) [] rejecting_store = Inr (ok, ecr') \<and> tainted_true meta_list ecr' \<and> IsTainted (ecrStatus ecr')"
proof (rule rejected_revision_is_tainted [OF metaList.status_conditions_axioms kvList.kv_cache_axioms rejecting_store_reachable])
  show "FindStatusCondition meta_list (ecrConditions (ecrStatus sample_ecr)) RevisionTaintedCondition = None" by code_simp
  show "(''type/cluster'', ''v'') \<in> set (tracked_versions sample_urls (ECR_GetEnvoyAPIVersion sample_ecr) sample_vt)"
    by (simp add: tracked_versions_def TypeURL_def Mappings_def sample_urls_def sample_vt_def content_tracker_def)
  show "GetSubscribedPods kv_list rejecting_store (ecrNodeID (ecrSpec sample_ecr)) ''type/cluster'' = Inr [''p'']" by code_simp
  show "list_all (pod_failing kv_list rejecting_store (ecrNodeID (ecrSpec sample_ecr)) ''type/cluster'' ''v'') [''p'']" by code_simp
qed simp

text \<open>(C19) A published revision that cannot be loaded is tainted: when loading fails with a
  \<open>StatusError\<close> and the revision is not tainted yet, the controller patches it with a true
  tainted condition and the \<open>tainted\<close> field set; a failed patch is returned as the error,
  and no version tracker is reported. Other failures are returned and leave the API alone.\<close>

theorem unloadable_revision_is_tainted:
  assumes "status_conditions m" "published_true m ecr" "\<not> tainted_true m ecr"
    and "CacheReconciler_Reconcile S C k w (JSON_Unmarshal d) req (resource_list (ecrResources (ecrSpec ecr)))
           (ecrNodeID (ecrSpec ecr)) c = (Inl err, c')"
  shows "(is_status_error err \<longrightarrow>
           (\<exists>ecr'. tainted_true m ecr' \<and> IsTainted (ecrStatus ecr') \<and> ecrSpec ecr' = ecrSpec ecr \<and>
              load_published S C m d k wr req ecr w c =
                (case fst (patch_status wr w ecr ecr') of None \<Rightarrow> Inr None | Some e \<Rightarrow> Inl e,
                 ecr', snd (patch_status wr w ecr ecr'), c'))) \<and>
         (\<not> is_status_error err \<longrightarrow> load_published S C m d k wr req ecr w c = (Inl err, ecr, w, c'))"
proof (intro conjI impI)
  assume "is_status_error err"
  then obtain reason msg where err: "err = StatusError reason msg" by (cases err) (simp_all add: is_status_error_def)
  let ?e = "tainted_revision m ''FailedLoadingResources'' (err_text k err) ecr"
  have "tainted_true m ?e"
    by (simp add: tainted_revision_def status_conditions.is_true_set_same [OF assms(1)])
  moreover have "load_published S C m d k wr req ecr w c =
      (case fst (patch_status wr w ecr ?e) of None \<Rightarrow> Inr None | Some e \<Rightarrow> Inl e, ?e, snd (patch_status wr w ecr ?e), c')"
    by (simp add: load_published_def assms taintSelf_def err Let_def split: prod.split option.split)
  ultimately show "\<exists>ecr'. tainted_true m ecr' \<and> IsTainted (ecrStatus ecr') \<and> ecrSpec ecr' = ecrSpec ecr \<and>
      load_published S C m d k wr req ecr w c =
        (case fst (patch_status wr w ecr ecr') of None \<Rightarrow> Inr None | Some e \<Rightarrow> Inl e, ecr', snd (patch_status wr w ecr ecr'), c')"
    by (intro exI [of _ ?e]) (simp add: tainted_revision_def IsTainted_def)
next
  assume "\<not> is_status_error err"
  then show "load_published S C m d k wr req ecr w c = (Inl err, ecr, w, c')"
    by (cases err) (simp_all add: load_published_def assms is_status_error_def)
qed

definition failing_codec :: codec_ops where
  "failing_codec = \<lparr> protojson_Unmarshal = \<lambda>s t. Inl ''syntax error'', YAMLToJSON = Inr \<rparr>"

definition recording_writes :: "unit ecr_writes" where
  "recording_writes = \<lparr> patch_status = \<lambda>w a b. (None, w), update_status = \<lambda>w a. (None, w) \<rparr>"

definition broken_ecr :: EnvoyConfigRevision where
  "broken_ecr = sample_ecr\<lparr> ecrSpec := (ecrSpec sample_ecr)\<lparr> ecrResources := Some [bad_cluster] \<rparr> \<rparr>"

theorem unloadable_revision_is_tainted_witness:
  "\<exists>ecr' c'. tainted_true meta_list ecr' \<and>
     load_published (v3_Snapshot sample_xds) (v3_Cache sample_xds sample_gcp) meta_list failing_codec sample_kube
       recording_writes (''ns'', ''r'') broken_ecr () [] = (Inr None, ecr', (), c')"
proof -
  let ?res = "CacheReconciler_Reconcile (v3_Snapshot sample_xds) (v3_Cache sample_xds sample_gcp) sample_kube ()
      (JSON_Unmarshal failing_codec) (''ns'', ''r'') (resource_list (ecrResources (ecrSpec broken_ecr)))
      (ecrNodeID (ecrSpec broken_ecr)) []"
  have "is_status_error (projl (fst ?res))" "is_error (fst ?res)" by code_simp+
  moreover obtain r c' where rc: "?res = (r, c')" by fastforce
  ultimately obtain err where res: "?res = (Inl err, c')" and se: "is_status_error err" by (auto simp: is_error_iff)
  have pub: "published_true meta_list broken_ecr" and nt: "\<not> tainted_true meta_list broken_ecr" by code_simp+
  show ?thesis
    using unloadable_revision_is_tainted [OF metaList.status_conditions_axioms pub nt res, of recording_writes] se
    by (auto simp: recording_writes_def)
qed

end
