(* ===== verification/StatsCollector.thy ===== *)
theory StatsCollector
  imports Stats
begin











section \<open>No panic\<close>



lemma no_colon: "s \<in> {''request_counter'', ''ack_counter'', ''nack_counter'', ''info''} \<Longrightarrow> CHR '':'' \<notin> set s"
  by auto










section \<open>Properties\<close>



end
