(* ===== verification/Float64.thy ===== *)
theory Float64
  imports Prelude
begin

text \<open>
  The \<open>float64\<close> arithmetic the program uses: conversion of an \<open>int64\<close>, product with a
  constant and \<open>math.Floor\<close>. A finite value is a natural magnitude times a power of two;
  rounding keeps 53 significant bits, to nearest, ties to even (IEEE 754 binary64). No
  operation here comes near the exponent range, so there are no infinities and no subnormals.
\<close>

fun bit_length :: "nat \<Rightarrow> nat" where
  "bit_length n = (if n = 0 then 0 else Suc (bit_length (n div 2)))"

declare bit_length.simps [simp del]

text \<open>\<open>n / 2 ^ k\<close> to the nearest integer, ties to even.\<close>

definition nearest_even :: "nat \<Rightarrow> nat \<Rightarrow> nat" where
  "nearest_even n k =
     (let q = n div 2 ^ k; r = n mod 2 ^ k in
      if 2 ^ k < 2 * r \<or> (2 * r = 2 ^ k \<and> odd q) then Suc q else q)"

definition round53 :: "nat \<Rightarrow> nat" where
  "round53 n = (let k = bit_length n - 53 in nearest_even n k * 2 ^ k)"

text \<open>\<open>float64(n) / 1e9\<close> for a count of nanoseconds below one second, in units of
  \<open>2 ^ -83\<close>: the quotient has its 53 bits at or above that weight.\<close>

definition nearest_even_div :: "nat \<Rightarrow> nat \<Rightarrow> nat" where
  "nearest_even_div a b =
     (let q = a div b; r = a mod b in if b < 2 * r \<or> (2 * r = b \<and> odd q) then Suc q else q)"

definition nano_fraction :: "nat \<Rightarrow> nat" where
  "nano_fraction n =
     (if n = 0 then 0
      else let t0 = 30 - bit_length n; t = (if 10 ^ 9 \<le> n * 2 ^ t0 then t0 else Suc t0); k = 52 + t
           in nearest_even_div (n * 2 ^ k) (10 ^ 9) * 2 ^ (83 - k))"

text \<open>\<open>int64(d.Seconds())\<close>: \<open>Seconds\<close> adds the whole seconds and the fraction as
  \<open>float64\<close> values, the conversion cuts towards zero.\<close>

definition Seconds_int64 :: "int \<Rightarrow> int" where
  "Seconds_int64 d =
     (let n = nat \<bar>d\<bar>;
          s = round53 (n div 10 ^ 9 * 2 ^ 83 + nano_fraction (n mod 10 ^ 9)) div 2 ^ 83
      in if d < 0 then - int s else int s)"

section \<open>Lemmas\<close>

lemma pow2_gap:
  assumes "2 ^ k dvd c" "c < 2 ^ n" "k \<le> n"
  shows "c + 2 ^ k \<le> (2 ^ n :: nat)"
proof -
  have "2 ^ k dvd 2 ^ n - c" using assms(1,3) by (intro dvd_diff_nat le_imp_power_dvd)
  then have "2 ^ k \<le> 2 ^ n - c" using assms(2) by (intro dvd_imp_le) simp_all
  then show ?thesis using assms(2) by linarith
qed

lemma pow2_dvd_shift:
  fixes c :: nat
  assumes "2 ^ k dvd c" "n \<le> k + e"
  shows "2 ^ n dvd c * 2 ^ e"
proof -
  have "(2::nat) ^ n dvd 2 ^ (k + e)" using assms(2) by (rule le_imp_power_dvd)
  also have "\<dots> dvd c * 2 ^ e" using assms(1) by (simp add: power_add)
  finally show ?thesis .
qed

lemma bit_length_bounds: "n \<noteq> 0 \<Longrightarrow> 2 ^ (bit_length n - 1) \<le> n \<and> n < 2 ^ bit_length n"
proof (induction n rule: bit_length.induct)
  case (1 n)
  show ?case
  proof (cases "n div 2 = 0")
    case True
    with 1 have "n = 1" by auto
    then show ?thesis by (simp add: bit_length.simps)
  next
    case False
    with 1 have "2 ^ (bit_length (n div 2) - 1) \<le> n div 2" "n div 2 < 2 ^ bit_length (n div 2)" by simp_all
    moreover have "bit_length (n div 2) \<noteq> 0" using False by (simp add: bit_length.simps [of "n div 2"])
    ultimately show ?thesis
      using "1.prems" by (cases "bit_length (n div 2)") (auto simp: bit_length.simps [of n])
  qed
qed

lemma bit_length_eq:
  assumes "2 ^ t \<le> n" "n < 2 ^ Suc t"
  shows "bit_length n = Suc t"
proof -
  have n: "n \<noteq> 0" using assms(1) by (auto intro: ccontr)
  have b: "2 ^ (bit_length n - 1) \<le> n" "n < 2 ^ bit_length n" using bit_length_bounds [OF n] by simp_all
  have "(2::nat) ^ t < 2 ^ bit_length n" using assms(1) b(2) by linarith
  then have "t < bit_length n" by (simp add: power_strict_increasing_iff)
  moreover have "(2::nat) ^ (bit_length n - 1) < 2 ^ Suc t" using assms(2) b(1) by linarith
  then have "bit_length n - 1 < Suc t" by (simp add: power_strict_increasing_iff del: power_Suc)
  ultimately show ?thesis by simp
qed

lemma nearest_even_down:
  assumes "2 ^ k dvd a" "2 * r < 2 ^ k"
  shows "nearest_even (a + r) k * 2 ^ k = a"
proof -
  obtain q where q: "a = 2 ^ k * q" using assms(1) by (elim dvdE)
  have "r < 2 ^ k" using assms(2) by simp
  then have "(a + r) div 2 ^ k = q" "(a + r) mod 2 ^ k = r" by (simp_all add: q)
  with assms(2) q show ?thesis by (simp add: nearest_even_def Let_def)
qed

text \<open>A magnitude of at most 53 significant bits is exact, and a small enough excess over one
  is rounded away.\<close>

lemma round53_down:
  assumes "2 ^ t \<le> a" "a + r < 2 ^ Suc t" "2 ^ (Suc t - 53) dvd a" "r = 0 \<or> 2 * r < 2 ^ (Suc t - 53)"
  shows "round53 (a + r) = a"
proof -
  have "bit_length (a + r) = Suc t" using assms(1,2) by (intro bit_length_eq) auto
  then show ?thesis
    using nearest_even_down [of "Suc t - 53" a r] assms(3,4) by (auto simp: round53_def Let_def)
qed

lemma round53_exact:
  assumes "m < 2 ^ 53"
  shows "round53 (m * 2 ^ e) = m * 2 ^ e"
proof (cases "m = 0")
  case True
  then show ?thesis by (simp add: round53_def nearest_even_def bit_length.simps)
next
  case False
  define t where "t = bit_length m - 1"
  have l: "bit_length m = Suc t" using False by (simp add: t_def bit_length.simps [of m])
  have b: "2 ^ t \<le> m" "m < 2 ^ Suc t" using bit_length_bounds [OF False] l by simp_all
  have "(2::nat) ^ t < 2 ^ 53" using b(1) assms by linarith
  then have "t < 53" by (rule power_less_imp_less_exp [rotated]) simp
  then have "(2::nat) ^ (Suc (t + e) - 53) dvd 2 ^ e" by (intro le_imp_power_dvd) simp
  then have d: "2 ^ (Suc (t + e) - 53) dvd m * 2 ^ e" by simp
  have "round53 (m * 2 ^ e + 0) = m * 2 ^ e"
    using b d by (intro round53_down [of "t + e"]) (simp_all add: power_add)
  then show ?thesis by simp
qed

lemma Seconds_whole:
  assumes "0 \<le> s" "s < 2 ^ 53"
  shows "Seconds_int64 (s * 1000000000) = s"
proof -
  have n: "nat \<bar>s * 1000000000\<bar> = nat s * 10 ^ 9" using assms(1) by (simp add: nat_mult_distrib)
  have r: "round53 (nat s * 2 ^ 83) = nat s * 2 ^ 83"
    using assms by (intro round53_exact) (simp add: nat_less_iff)
  have "nat s * 10 ^ 9 div 10 ^ 9 = nat s" "nano_fraction (nat s * 10 ^ 9 mod 10 ^ 9) = 0"
    by (simp_all add: nano_fraction_def)
  then have "Seconds_int64 (s * 1000000000) = int (round53 (nat s * 2 ^ 83) div 2 ^ 83)"
    using assms(1) unfolding Seconds_int64_def Let_def n by simp
  also have "\<dots> = s" using assms(1) unfolding r by simp
  finally show ?thesis .
qed

end
