(* ===== verification/Pki.thy ===== *)
theory Pki
  imports Meta NetIP
begin

text \<open>
  Package \<open>pkg/util/pki\<close>: issuing, loading and verifying certificates.

  The cryptography of the standard library (RSA, X.509 signatures, the DER and PEM
  encodings) is the parameter \<open>crypto_ops\<close>; the locale \<open>x509_encoding\<close> states
  what its documentation promises of encoding and parsing. What a call draws from the outside
  world, the new key, the serial number, the randomness of the signature and the current time,
  is the record \<open>entropy\<close>. Times carry their location, as \<open>time.Time\<close> does, because
  the status code compares them with \<open>reflect.DeepEqual\<close>; instants are nanoseconds.
\<close>

section \<open>Times and durations\<close>

datatype Location = UTC | Local

record GoTime =
  instant :: Time
  location :: Location

text \<open>\<open>Sub\<close> saturates at the bounds of \<open>time.Duration\<close>, an \<open>int64\<close>.\<close>

definition Sub :: "GoTime \<Rightarrow> GoTime \<Rightarrow> int" where
  "Sub t u = max min_int64 (min max_int64 (instant t - instant u))"

definition Add :: "GoTime \<Rightarrow> int \<Rightarrow> GoTime" where
  "Add t d = t\<lparr> instant := instant t + d \<rparr>"

definition After :: "GoTime \<Rightarrow> GoTime \<Rightarrow> bool" where
  "After t u = (instant t > instant u)"

text \<open>Arithmetic on \<open>time.Duration\<close> wraps around.\<close>

definition wrap64 :: "int \<Rightarrow> int" where
  "wrap64 i = (i + 2 ^ 63) mod 2 ^ 64 - 2 ^ 63"

definition Second :: int where "Second = 1000000000"

section \<open>Certificates\<close>

datatype KeyUsage = KeyUsageDigitalSignature | KeyUsageKeyEncipherment | KeyUsageCertSign

datatype ExtKeyUsage = ExtKeyUsageServerAuth

record Certificate =
  crtSerialNumber :: nat
  crtOrganization :: "string list"
  crtCommonName :: string
  crtNotBefore :: GoTime
  crtNotAfter :: GoTime
  crtKeyUsage :: "KeyUsage list"
  crtExtKeyUsage :: "ExtKeyUsage list"
  crtBasicConstraintsValid :: bool
  crtIsCA :: bool
  crtIPAddresses :: "IP list"
  crtDNSNames :: "string list"

record 'k crypto_ops =
  CreateCertificate :: "string \<Rightarrow> Certificate \<Rightarrow> Certificate \<Rightarrow> 'k \<Rightarrow> 'k \<Rightarrow> goerror + string"
    \<comment> \<open>randomness, template, parent, the key that is certified, the key that signs\<close>
  ParseCertificate :: "string \<Rightarrow> goerror + Certificate"
  MarshalPKCS8PrivateKey :: "'k \<Rightarrow> goerror + string"
  ParsePKCS8PrivateKey :: "string \<Rightarrow> goerror + 'k"
  ParsePKCS1PrivateKey :: "string \<Rightarrow> goerror + 'k"
  isSigner :: "'k \<Rightarrow> bool"
  ValidateKey :: "'k \<Rightarrow> goerror option"
  pem_Decode :: "string \<Rightarrow> (string \<times> string) option" \<comment> \<open>type and bytes of the first block\<close>
  pem_Encode :: "string \<Rightarrow> string \<Rightarrow> string"
  cert_Verify :: "Certificate \<Rightarrow> Certificate list \<Rightarrow> GoTime \<Rightarrow> goerror option"
    \<comment> \<open>the certificate, the pool of roots, the current time\<close>
  crypto_err_text :: "goerror \<Rightarrow> string"

record 'k entropy =
  entKey :: "goerror + 'k"
  entNow :: GoTime
  entSerial :: "nat \<Rightarrow> goerror + nat"
  entRand :: string

section \<open>Generate\<close>

definition GeneratePrivateKey :: "'k entropy \<Rightarrow> goerror + 'k" where
  "GeneratePrivateKey g = (case entKey g of Inl err \<Rightarrow> Inl err | Inr priv \<Rightarrow> Inr priv)"

definition serialNumberLimit :: nat where "serialNumberLimit = 2 ^ 128"

text \<open>The loop over the hosts: an address goes to \<open>IPAddresses\<close>, any other host to
  \<open>DNSNames\<close>, each in the order given.\<close>

fun add_hosts :: "string list \<Rightarrow> Certificate \<Rightarrow> Certificate" where
  "add_hosts [] t = t"
| "add_hosts (h # hs) t =
     (case ParseIP h of
        Some ip \<Rightarrow> add_hosts hs (t\<lparr> crtIPAddresses := crtIPAddresses t @ [ip] \<rparr>)
      | None \<Rightarrow> add_hosts hs (t\<lparr> crtDNSNames := crtDNSNames t @ [h] \<rparr>))"

definition base_template :: "nat \<Rightarrow> string \<Rightarrow> GoTime \<Rightarrow> GoTime \<Rightarrow> Certificate" where
  "base_template serial commonName notBefore notAfter =
     \<lparr> crtSerialNumber = serial, crtOrganization = [''marin3r.3scale.net''], crtCommonName = commonName,
       crtNotBefore = notBefore, crtNotAfter = notAfter,
       crtKeyUsage = [KeyUsageKeyEncipherment, KeyUsageDigitalSignature], crtExtKeyUsage = [],
       crtBasicConstraintsValid = True, crtIsCA = False, crtIPAddresses = [], crtDNSNames = [] \<rparr>"

definition certificate_template ::
    "nat \<Rightarrow> string \<Rightarrow> GoTime \<Rightarrow> int \<Rightarrow> bool \<Rightarrow> bool \<Rightarrow> string list \<Rightarrow> Certificate" where
  "certificate_template serial commonName notBefore validFor isServer isCA host =
     (let t = add_hosts host (base_template serial commonName notBefore (Add notBefore validFor));
          t1 = (if isServer then t\<lparr> crtExtKeyUsage := [ExtKeyUsageServerAuth] \<rparr> else t)
      in if isCA then t1\<lparr> crtIsCA := True, crtKeyUsage := [KeyUsageCertSign] \<rparr> else t1)"

text \<open>\<open>GenerateCertificate\<close>. The issuer is the pair of the parent certificate and its key,
  \<open>None\<close> for the nil pair of a self-signed certificate.\<close>

definition GenerateCertificate ::
    "'k crypto_ops \<Rightarrow> 'k entropy \<Rightarrow> (Certificate \<times> 'k) option \<Rightarrow> string \<Rightarrow> int \<Rightarrow> bool \<Rightarrow> bool \<Rightarrow> string list
     \<Rightarrow> goerror + string \<times> string" where
  "GenerateCertificate x g issuer commonName validFor isServer isCA host =
     (case GeneratePrivateKey g of
        Inl err \<Rightarrow> Inl err
      | Inr priv \<Rightarrow>
          (case entSerial g serialNumberLimit of
             Inl err \<Rightarrow> Inl err
           | Inr serialNumber \<Rightarrow>
               (let template = certificate_template serialNumber commonName (entNow g) validFor isServer isCA host in
                case (case issuer of
                        None \<Rightarrow> CreateCertificate x (entRand g) template template priv priv
                      | Some (issuerCert, signerKey) \<Rightarrow>
                          CreateCertificate x (entRand g) template issuerCert priv signerKey) of
                  Inl err \<Rightarrow> Inl err
                | Inr derBytes \<Rightarrow>
                    (case MarshalPKCS8PrivateKey x priv of
                       Inl err \<Rightarrow> Inl err
                     | Inr privBytes \<Rightarrow>
                         Inr (pem_Encode x ''CERTIFICATE'' derBytes, pem_Encode x ''PRIVATE KEY'' privBytes)))))"

section \<open>Load\<close>

text \<open>\<open>pem.Decode\<close> gives a nil block for data without one, which is dereferenced at once.\<close>

definition LoadX509Certificate :: "'k crypto_ops \<Rightarrow> string \<Rightarrow> goerror + Certificate" where
  "LoadX509Certificate x cert =
     (case pem_Decode x cert of
        None \<Rightarrow> Inl (Panic ''nil pointer dereference'')
      | Some (_, bytes) \<Rightarrow>
          (case ParseCertificate x bytes of Inl err \<Rightarrow> Inl err | Inr crt \<Rightarrow> Inr crt))"

definition DecodePrivateKeyBytes :: "'k crypto_ops \<Rightarrow> string \<Rightarrow> goerror + 'k" where
  "DecodePrivateKeyBytes x keyBytes =
     (case pem_Decode x keyBytes of
        None \<Rightarrow> Inl (PlainError ''error decoding private key PEM block'')
      | Some (ty, bytes) \<Rightarrow>
          (if ty = ''PRIVATE KEY'' then
             (case ParsePKCS8PrivateKey x bytes of
                Inl err \<Rightarrow> Inl (PlainError (''error parsing pkcs#8 private key: '' @ crypto_err_text x err))
              | Inr key \<Rightarrow>
                  (if isSigner x key then Inr key
                   else Inl (PlainError ''error parsing pkcs#8 private key: invalid key type'')))
           else if ty = ''RSA PRIVATE KEY'' then
             (case ParsePKCS1PrivateKey x bytes of
                Inl err \<Rightarrow> Inl (PlainError (''error parsing rsa private key: '' @ crypto_err_text x err))
              | Inr key \<Rightarrow>
                  (case ValidateKey x key of
                     Some err \<Rightarrow> Inl (PlainError (''rsa private key failed validation: '' @ crypto_err_text x err))
                   | None \<Rightarrow> Inr key))
           else Inl (PlainError (''unknown private key type: '' @ ty))))"

section \<open>Verify\<close>

definition Verify :: "'k crypto_ops \<Rightarrow> GoTime \<Rightarrow> Certificate \<Rightarrow> Certificate \<Rightarrow> goerror option" where
  "Verify x now certificate root =
     (case cert_Verify x certificate [root] now of
        Some err \<Rightarrow> Some (NewVerifyError (crypto_err_text x err))
      | None \<Rightarrow> None)"

section \<open>Lemmas\<close>

lemma wrap64_id: "- (2 ^ 63) \<le> i \<Longrightarrow> i < 2 ^ 63 \<Longrightarrow> wrap64 i = i"
  by (simp add: wrap64_def)

lemma Sub_exact: "\<bar>instant t - instant u\<bar> < 2 ^ 63 \<Longrightarrow> Sub t u = instant t - instant u"
  by (simp add: Sub_def max_int64_def min_int64_def)

lemma add_hosts_eq:
  "add_hosts hs t =
     t\<lparr> crtIPAddresses := crtIPAddresses t @ List.map_filter ParseIP hs,
        crtDNSNames := crtDNSNames t @ filter (\<lambda>h. ParseIP h = None) hs \<rparr>"
  by (induction hs arbitrary: t) (auto simp: List.map_filter_simps split: option.splits)

lemma certificate_template_sel [simp]:
  "crtNotBefore (certificate_template n cn nb d s ca hs) = nb"
  "crtNotAfter (certificate_template n cn nb d s ca hs) = Add nb d"
  "crtCommonName (certificate_template n cn nb d s ca hs) = cn"
  "crtIsCA (certificate_template n cn nb d s ca hs) = ca"
  "crtIPAddresses (certificate_template n cn nb d s ca hs) = List.map_filter ParseIP hs"
  "crtDNSNames (certificate_template n cn nb d s ca hs) = filter (\<lambda>h. ParseIP h = None) hs"
  "crtKeyUsage (certificate_template n cn nb d s ca hs) =
     (if ca then [KeyUsageCertSign] else [KeyUsageKeyEncipherment, KeyUsageDigitalSignature])"
  "crtExtKeyUsage (certificate_template n cn nb d s ca hs) = (if s then [ExtKeyUsageServerAuth] else [])"
  by (simp_all add: certificate_template_def base_template_def Let_def add_hosts_eq)

lemma Verify_error: "Verify x now c r = Some e \<Longrightarrow> IsVerifyError e"
  by (auto simp: Verify_def NewVerifyError_def IsVerifyError_def split: option.splits)

lemma GenerateCertificate_InrD:
  assumes "GenerateCertificate x g issuer cn d s ca hs = Inr (crt, key)"
  shows "\<exists>priv n parent signer der bytes. entKey g = Inr priv \<and>
    CreateCertificate x (entRand g) (certificate_template n cn (entNow g) d s ca hs) parent priv signer = Inr der \<and>
    MarshalPKCS8PrivateKey x priv = Inr bytes \<and>
    crt = pem_Encode x ''CERTIFICATE'' der \<and> key = pem_Encode x ''PRIVATE KEY'' bytes"
proof (cases "entKey g")
  case (Inr priv)
  note priv = this
  show ?thesis
  proof (cases "entSerial g serialNumberLimit")
    case (Inr n)
    then show ?thesis
      using assms priv
      by (cases issuer) (auto simp: GenerateCertificate_def GeneratePrivateKey_def Let_def split: sum.splits)
  qed (use assms priv in \<open>simp add: GenerateCertificate_def GeneratePrivateKey_def\<close>)
qed (use assms in \<open>simp add: GenerateCertificate_def GeneratePrivateKey_def\<close>)

text \<open>What the encodings promise: a PEM block decodes to what was encoded, and a created
  certificate parses back with the fields of its template, its times in UTC and cut to whole
  seconds, which is what DER stores.\<close>

definition der_time :: "GoTime \<Rightarrow> GoTime" where
  "der_time t = \<lparr> instant = instant t - instant t mod Second, location = UTC \<rparr>"

definition der_cert :: "Certificate \<Rightarrow> Certificate" where
  "der_cert t = t\<lparr> crtNotBefore := der_time (crtNotBefore t), crtNotAfter := der_time (crtNotAfter t) \<rparr>"

locale x509_encoding =
  fixes x :: "'k crypto_ops"
  assumes pem_round_trip: "pem_Decode x (pem_Encode x ty bytes) = Some (ty, bytes)"
    and parse_created: "CreateCertificate x rnd t parent k signer = Inr der \<Longrightarrow> ParseCertificate x der = Inr (der_cert t)"
    and parse_marshalled: "MarshalPKCS8PrivateKey x k = Inr bytes \<Longrightarrow> ParsePKCS8PrivateKey x bytes = Inr k"
begin

lemma generated_loads:
  assumes "GenerateCertificate x g issuer cn d s ca hs = Inr (crt, key)"
  shows "\<exists>n. LoadX509Certificate x crt = Inr (der_cert (certificate_template n cn (entNow g) d s ca hs))"
  using GenerateCertificate_InrD [OF assms] parse_created by (fastforce simp: LoadX509Certificate_def pem_round_trip)

lemma generated_key_decodes:
  assumes "GenerateCertificate x g issuer cn d s ca hs = Inr (crt, key)" "entKey g = Inr priv" "isSigner x priv"
  shows "DecodePrivateKeyBytes x key = Inr priv"
  using GenerateCertificate_InrD [OF assms(1)] assms(2,3) parse_marshalled
  by (auto simp: DecodePrivateKeyBytes_def pem_round_trip)

end

section \<open>An instance\<close>

text \<open>A signer that signs one template, with a PEM encoding that prefixes the type with its
  length; a certificate verifies during its validity.\<close>

definition len_encode :: "string \<Rightarrow> string \<Rightarrow> string" where
  "len_encode ty bytes = replicate (length ty) CHR ''1'' @ ''0'' @ ty @ bytes"

definition len_decode :: "string \<Rightarrow> (string \<times> string) option" where
  "len_decode s =
     (let n = length (takeWhile (\<lambda>c. c = CHR ''1'') s); rest = drop (Suc n) s in
      if length s \<le> n then None else Some (take n rest, drop n rest))"

definition one_cert :: "Certificate \<Rightarrow> string crypto_ops" where
  "one_cert t0 =
     \<lparr> CreateCertificate = (\<lambda>_ t _ _ _. if t = t0 then Inr ''der'' else Inl (PlainError ''unknown template'')),
       ParseCertificate = (\<lambda>b. if b = ''der'' then Inr (der_cert t0) else Inl (PlainError ''malformed certificate'')),
       MarshalPKCS8PrivateKey = Inr, ParsePKCS8PrivateKey = Inr, ParsePKCS1PrivateKey = Inr,
       isSigner = (\<lambda>_. True), ValidateKey = (\<lambda>_. None), pem_Decode = len_decode, pem_Encode = len_encode,
       cert_Verify = (\<lambda>c _ now. if instant (crtNotBefore c) \<le> instant now \<and> instant now \<le> instant (crtNotAfter c)
                                then None else Some (PlainError ''certificate has expired or is not yet valid'')),
       crypto_err_text = (\<lambda>e. case e of PlainError s \<Rightarrow> s | _ \<Rightarrow> []) \<rparr>"

lemma len_round_trip: "len_decode (len_encode ty bytes) = Some (ty, bytes)"
proof -
  have "takeWhile (\<lambda>c. c = CHR ''1'') (replicate n CHR ''1'' @ CHR ''0'' # r) = replicate n CHR ''1''" for n r
    by (induction n) simp_all
  then show ?thesis by (simp add: len_decode_def len_encode_def)
qed

interpretation oneCert: x509_encoding "one_cert t" for t
  by unfold_locales (auto simp: one_cert_def len_round_trip split: if_splits)

definition sample_entropy :: "string entropy" where
  "sample_entropy = \<lparr> entKey = Inr ''k'', entNow = \<lparr> instant = 7 * Second + 5, location = Local \<rparr>,
     entSerial = (\<lambda>_. Inr 1), entRand = [] \<rparr>"

definition sample_template :: Certificate where
  "sample_template = certificate_template 1 ''cn'' (entNow sample_entropy) (1000 * Second) True False [''127.0.0.1'', ''svc'']"

lemma sample_generates:
  "GenerateCertificate (one_cert sample_template) sample_entropy None ''cn'' (1000 * Second) True False [''127.0.0.1'', ''svc''] =
     Inr (len_encode ''CERTIFICATE'' ''der'', len_encode ''PRIVATE KEY'' ''k'')"
  by (simp add: GenerateCertificate_def GeneratePrivateKey_def one_cert_def sample_template_def sample_entropy_def Let_def)

section \<open>Properties\<close>

text \<open>(C26) A generated certificate loads back as what was asked for: the common name, the CA
  flag with the key usage that goes with it, every host exactly once, addresses apart from
  names, and a validity of the requested length starting at the current time, cut to whole
  seconds; its private key decodes to the generated key.\<close>

theorem GenerateCertificate_round_trip:
  assumes "x509_encoding x" "GenerateCertificate x g issuer cn d isServer isCA hs = Inr (crt, key)"
    and "entKey g = Inr priv" "isSigner x priv"
  shows "\<exists>c. LoadX509Certificate x crt = Inr c \<and> crtCommonName c = cn \<and>
    crtNotBefore c = der_time (entNow g) \<and> crtNotAfter c = der_time (Add (entNow g) d) \<and>
    crtIPAddresses c = List.map_filter ParseIP hs \<and> crtDNSNames c = filter (\<lambda>h. ParseIP h = None) hs \<and>
    crtIsCA c = isCA \<and> (KeyUsageCertSign \<in> set (crtKeyUsage c)) = isCA \<and>
    crtExtKeyUsage c = (if isServer then [ExtKeyUsageServerAuth] else []) \<and>
    DecodePrivateKeyBytes x key = Inr priv"
proof -
  obtain n where "LoadX509Certificate x crt = Inr (der_cert (certificate_template n cn (entNow g) d isServer isCA hs))"
    using x509_encoding.generated_loads [OF assms(1,2)] ..
  then show ?thesis
    using x509_encoding.generated_key_decodes [OF assms] by (simp add: der_cert_def)
qed

theorem GenerateCertificate_round_trip_witness:
  "\<exists>c. LoadX509Certificate (one_cert sample_template) (len_encode ''CERTIFICATE'' ''der'') = Inr c \<and>
    crtNotAfter c = der_time (Add (entNow sample_entropy) (1000 * Second)) \<and>
    crtDNSNames c = filter (\<lambda>h. ParseIP h = None) [''127.0.0.1'', ''svc'']"
proof -
  have "entKey sample_entropy = Inr ''k''" "isSigner (one_cert sample_template) ''k''"
    by (simp_all add: sample_entropy_def one_cert_def)
  from GenerateCertificate_round_trip [OF oneCert.x509_encoding_axioms sample_generates this] show ?thesis by blast
qed

end
