(* ===== verification/Certificates.thy ===== *)
theory Certificates
  imports ApiMarin3r Pki Float64 RevisionReconciler
begin

text \<open>
  The \<open>DiscoveryServiceCertificate\<close> resource of the operator: its types and accessors
  (\<open>apis/operator.marin3r/v1alpha1/discoveryservicecertificate_types.go\<close>), the internal
  certificate provider (\<open>providers/marin3r/crud.go\<close>), the reconciler that creates, renews
  and schedules (\<open>reconcile_certificate.go\<close>), the status (\<open>status.go\<close>) and the
  controller.

  The provider interface of \<open>providers/interface.go\<close> is the record
  \<open>CertificateProvider\<close>, as the reconciler sees it; the locale \<open>certificate_store\<close>
  states what the reconciler relies on, and the internal provider over a store of secrets
  interprets it. The client calls of the internal provider are the record
  \<open>secret_client\<close>. The readings of the clock during one call
  are the record \<open>clock_reads\<close>.
\<close>

section \<open>API types\<close>

record CertificateRenewalConfig =
  crcEnabled :: bool

record CASignedConfig =
  casSecretRef :: SecretReference

record DiscoveryServiceCertificateSigner =
  SelfSigned :: "unit option"
  CASigned :: "CASignedConfig option"

record DiscoveryServiceCertificateSpec =
  dscCommonName :: string
  dscIsServerCertificate :: "bool option"
  dscIsCA :: "bool option"
  dscValidFor :: "64 word"
  dscHosts :: "string list option"
  dscSigner :: DiscoveryServiceCertificateSigner
  dscSecretRef :: SecretReference
  dscRenewal :: "CertificateRenewalConfig option"

record DiscoveryServiceCertificateStatus =
  dscReady :: "bool option"
  dscNotBefore :: "GoTime option"
  dscNotAfter :: "GoTime option"
  dscCertificateHash :: "string option"
  dscConditions :: "Condition list option"

record DiscoveryServiceCertificate =
  dscMeta :: ObjectMeta
  dscSpec :: DiscoveryServiceCertificateSpec
  dscStatus :: DiscoveryServiceCertificateStatus

definition DSC_IsServerCertificate :: "DiscoveryServiceCertificate \<Rightarrow> bool" where
  "DSC_IsServerCertificate d = (case dscIsServerCertificate (dscSpec d) of None \<Rightarrow> False | Some b \<Rightarrow> b)"

definition DSC_IsCA :: "DiscoveryServiceCertificate \<Rightarrow> bool" where
  "DSC_IsCA d = (case dscIsCA (dscSpec d) of None \<Rightarrow> False | Some b \<Rightarrow> b)"

definition DSC_GetHosts :: "DiscoveryServiceCertificate \<Rightarrow> string list" where
  "DSC_GetHosts d = (case dscHosts (dscSpec d) of None \<Rightarrow> [dscCommonName (dscSpec d)] | Some hs \<Rightarrow> hs)"

definition defaultCertificateRenewalConfig :: CertificateRenewalConfig where
  "defaultCertificateRenewalConfig = \<lparr> crcEnabled = True \<rparr>"

definition GetCertificateRenewalConfig :: "DiscoveryServiceCertificate \<Rightarrow> CertificateRenewalConfig" where
  "GetCertificateRenewalConfig d =
     (case dscRenewal (dscSpec d) of None \<Rightarrow> defaultCertificateRenewalConfig | Some c \<Rightarrow> c)"

definition DSC_IsReady :: "DiscoveryServiceCertificateStatus \<Rightarrow> bool" where
  "DSC_IsReady st = (case dscReady st of None \<Rightarrow> False | Some b \<Rightarrow> b)"

definition GetCertificateHash :: "DiscoveryServiceCertificateStatus \<Rightarrow> string" where
  "GetCertificateHash st = (case dscCertificateHash st of None \<Rightarrow> [] | Some h \<Rightarrow> h)"

text \<open>\<open>Default\<close> assigns each field in turn, reading the object as it is by then.\<close>

definition DSC_Default :: "DiscoveryServiceCertificate \<Rightarrow> DiscoveryServiceCertificate" where
  "DSC_Default d0 =
     (let d1 = (if dscIsServerCertificate (dscSpec d0) = None
                then d0\<lparr> dscSpec := (dscSpec d0)\<lparr> dscIsServerCertificate := Some (DSC_IsServerCertificate d0) \<rparr> \<rparr> else d0);
          d2 = (if dscIsCA (dscSpec d1) = None
                then d1\<lparr> dscSpec := (dscSpec d1)\<lparr> dscIsCA := Some (DSC_IsCA d1) \<rparr> \<rparr> else d1);
          d3 = (if dscHosts (dscSpec d2) = None
                then d2\<lparr> dscSpec := (dscSpec d2)\<lparr> dscHosts := Some (DSC_GetHosts d2) \<rparr> \<rparr> else d2)
      in if dscRenewal (dscSpec d3) = None
         then d3\<lparr> dscSpec := (dscSpec d3)\<lparr> dscRenewal := Some (GetCertificateRenewalConfig d3) \<rparr> \<rparr> else d3)"

section \<open>The internal provider\<close>

record TLSSecret =
  tlsMeta :: ObjectMeta
  tlsType :: string
  tlsData :: string_map
  tlsOwner :: "NamespacedName option" \<comment> \<open>the controller reference\<close>

definition tlsCertificateKey :: string where "tlsCertificateKey = ''tls.crt''"
definition tlsPrivateKeyKey :: string where "tlsPrivateKeyKey = ''tls.key''"

definition tls_data :: "TLSSecret \<Rightarrow> string \<Rightarrow> string" where
  "tls_data s key = (case map_of (tlsData s) key of None \<Rightarrow> [] | Some v \<Rightarrow> v)"

record 'w secret_client =
  sc_get :: "'w \<Rightarrow> NamespacedName \<Rightarrow> goerror + TLSSecret"
  sc_create :: "'w \<Rightarrow> TLSSecret \<Rightarrow> goerror option \<times> 'w"
  sc_update :: "'w \<Rightarrow> TLSSecret \<Rightarrow> goerror option \<times> 'w"
  sc_owner :: "DiscoveryServiceCertificate \<Rightarrow> TLSSecret \<Rightarrow> goerror + TLSSecret"
    \<comment> \<open>\<open>controllerutil.SetControllerReference\<close>\<close>

definition secret_key :: "DiscoveryServiceCertificate \<Rightarrow> NamespacedName" where
  "secret_key d = (Namespace (dscMeta d), srName (dscSecretRef (dscSpec d)))"

definition getIssuerCertificate ::
    "'w secret_client \<Rightarrow> 'k crypto_ops \<Rightarrow> DiscoveryServiceCertificate \<Rightarrow> 'w \<Rightarrow> goerror + (Certificate \<times> 'k) option" where
  "getIssuerCertificate c x d w =
     (case CASigned (dscSigner (dscSpec d)) of
        None \<Rightarrow> Inr None
      | Some ca \<Rightarrow>
          (case sc_get c w (srNamespace (casSecretRef ca), srName (casSecretRef ca)) of
             Inl err \<Rightarrow> Inl err
           | Inr secret \<Rightarrow>
               (case LoadX509Certificate x (tls_data secret tlsCertificateKey) of
                  Inl err \<Rightarrow> Inl err
                | Inr cert \<Rightarrow>
                    (case DecodePrivateKeyBytes x (tls_data secret tlsPrivateKeyKey) of
                       Inl err \<Rightarrow> Inl err
                     | Inr privKey \<Rightarrow> Inr (Some (cert, privKey))))))"

text \<open>The validity is multiplied as an \<open>int64\<close>, which wraps around.\<close>

definition validity :: "DiscoveryServiceCertificate \<Rightarrow> int" where
  "validity d = sint (dscValidFor (dscSpec d) * 1000000000)"

definition genSecret ::
    "'k crypto_ops \<Rightarrow> 'k entropy \<Rightarrow> DiscoveryServiceCertificate \<Rightarrow> (Certificate \<times> 'k) option \<Rightarrow> goerror + TLSSecret" where
  "genSecret x g d issuer =
     (case GenerateCertificate x g issuer (dscCommonName (dscSpec d)) (validity d)
             (DSC_IsServerCertificate d) (DSC_IsCA d) (DSC_GetHosts d) of
        Inl err \<Rightarrow> Inl err
      | Inr (crt, key) \<Rightarrow>
          Inr \<lparr> tlsMeta = empty_meta\<lparr> Name := srName (dscSecretRef (dscSpec d)), Namespace := Namespace (dscMeta d) \<rparr>,
                tlsType = ''kubernetes.io/tls'',
                tlsData = [(tlsCertificateKey, crt), (tlsPrivateKeyKey, key)], tlsOwner = None \<rparr>)"

definition CreateCertificate_internal ::
    "'w secret_client \<Rightarrow> 'k crypto_ops \<Rightarrow> 'k entropy \<Rightarrow> DiscoveryServiceCertificate \<Rightarrow> 'w
     \<Rightarrow> (goerror + string \<times> string) \<times> 'w" where
  "CreateCertificate_internal c x g d w =
     (case getIssuerCertificate c x d w of
        Inl err \<Rightarrow> (Inl err, w)
      | Inr issuer \<Rightarrow>
          (case sc_get c w (secret_key d) of
             Inr secret \<Rightarrow>
               (Inl (PlainError (''secret '' @ Namespace (tlsMeta secret) @ ''/'' @ Name (tlsMeta secret) @ '' already exists'')), w)
           | Inl err \<Rightarrow>
               (if \<not> IsNotFound err then (Inl err, w)
                else case genSecret x g d issuer of
                       Inl err \<Rightarrow> (Inl err, w)
                     | Inr secret \<Rightarrow>
                         (case sc_owner c d secret of
                            Inl err \<Rightarrow> (Inl err, w)
                          | Inr secret \<Rightarrow>
                              (case sc_create c w secret of
                                 (Some err, w') \<Rightarrow> (Inl err, w')
                               | (None, w') \<Rightarrow>
                                   (Inr (tls_data secret tlsCertificateKey, tls_data secret tlsPrivateKeyKey), w'))))))"

definition GetCertificate_internal ::
    "'w secret_client \<Rightarrow> DiscoveryServiceCertificate \<Rightarrow> 'w \<Rightarrow> goerror + string \<times> string" where
  "GetCertificate_internal c d w =
     (case sc_get c w (secret_key d) of
        Inl err \<Rightarrow> Inl err
      | Inr secret \<Rightarrow> Inr (tls_data secret tlsCertificateKey, tls_data secret tlsPrivateKeyKey))"

definition UpdateCertificate_internal ::
    "'w secret_client \<Rightarrow> 'k crypto_ops \<Rightarrow> 'k entropy \<Rightarrow> DiscoveryServiceCertificate \<Rightarrow> 'w
     \<Rightarrow> (goerror + string \<times> string) \<times> 'w" where
  "UpdateCertificate_internal c x g d w =
     (case getIssuerCertificate c x d w of
        Inl err \<Rightarrow> (Inl err, w)
      | Inr issuer \<Rightarrow>
          (case sc_get c w (secret_key d) of
             Inl err \<Rightarrow> (Inl err, w)
           | Inr secret \<Rightarrow>
               (case genSecret x g d issuer of
                  Inl err \<Rightarrow> (Inl err, w)
                | Inr newPayload \<Rightarrow>
                    (let secret' = secret\<lparr> tlsData := tlsData newPayload \<rparr> in
                     case sc_update c w secret' of
                       (Some err, w') \<Rightarrow> (Inl err, w')
                     | (None, w') \<Rightarrow>
                         (Inr (tls_data secret' tlsCertificateKey, tls_data secret' tlsPrivateKeyKey), w')))))"

definition VerifyCertificate_internal ::
    "'w secret_client \<Rightarrow> 'k crypto_ops \<Rightarrow> DiscoveryServiceCertificate \<Rightarrow> GoTime \<Rightarrow> 'w \<Rightarrow> goerror option" where
  "VerifyCertificate_internal c x d now w =
     (case sc_get c w (secret_key d) of
        Inl err \<Rightarrow> Some err
      | Inr secret \<Rightarrow>
          (case LoadX509Certificate x (tls_data secret tlsCertificateKey) of
             Inl err \<Rightarrow> Some err
           | Inr cert \<Rightarrow>
               (case (if CASigned (dscSigner (dscSpec d)) \<noteq> None then getIssuerCertificate c x d w else Inr None) of
                  Inl err \<Rightarrow> Some err
                | Inr None \<Rightarrow> Verify x now cert cert
                | Inr (Some (root, _)) \<Rightarrow> Verify x now cert root)))"

record 'w CertificateProvider =
  cpCreate :: "'w \<Rightarrow> (goerror + string \<times> string) \<times> 'w"
  cpGet :: "'w \<Rightarrow> goerror + string \<times> string"
  cpUpdate :: "'w \<Rightarrow> (goerror + string \<times> string) \<times> 'w"
  cpVerify :: "GoTime \<Rightarrow> 'w \<Rightarrow> goerror option"

definition NewCertificateProvider ::
    "'w secret_client \<Rightarrow> 'k crypto_ops \<Rightarrow> 'k entropy \<Rightarrow> DiscoveryServiceCertificate \<Rightarrow> 'w CertificateProvider" where
  "NewCertificateProvider c x g d =
     \<lparr> cpCreate = CreateCertificate_internal c x g d, cpGet = GetCertificate_internal c d,
       cpUpdate = UpdateCertificate_internal c x g d, cpVerify = VerifyCertificate_internal c x d \<rparr>"

section \<open>The certificate reconciler\<close>

record CertificateReconciler =
  crDsc :: DiscoveryServiceCertificate
  crReady :: bool
  crHash :: string
  crNotBefore :: "GoTime option"
  crNotAfter :: "GoTime option"
  crSchedule :: "int option"

definition NewCertificateReconciler :: "DiscoveryServiceCertificate \<Rightarrow> CertificateReconciler" where
  "NewCertificateReconciler d =
     \<lparr> crDsc = d, crReady = False, crHash = [], crNotBefore = None, crNotAfter = None, crSchedule = None \<rparr>"

definition cr_NotBefore :: "CertificateReconciler \<Rightarrow> goerror + GoTime" where
  "cr_NotBefore r = (case crNotBefore r of None \<Rightarrow> Inl (Panic ''nil pointer dereference'') | Some t \<Rightarrow> Inr t)"

definition cr_NotAfter :: "CertificateReconciler \<Rightarrow> goerror + GoTime" where
  "cr_NotAfter r = (case crNotAfter r of None \<Rightarrow> Inl (Panic ''nil pointer dereference'') | Some t \<Rightarrow> Inr t)"

text \<open>The clock readings of one reconcile, in the order they happen: inside the verification,
  for the time to expire, and for the comparison with the expiry.\<close>

record clock_reads =
  nowVerify :: GoTime
  nowExpire :: GoTime
  nowAfter :: GoTime

text \<open>\<open>int64(math.Floor(float64(duration) * 0.20))\<close>: the constant is the \<open>float64\<close>
  nearest to 0.2, \<open>7205759403792794 / 2 ^ 55\<close>.\<close>

definition renewBefore :: "int \<Rightarrow> int" where
  "renewBefore duration =
     (let p = int (round53 (round53 (nat \<bar>duration\<bar>) * 7205759403792794))
      in (if duration < 0 then - p else p) div 2 ^ 55)"

text \<open>The part of \<open>Reconcile\<close> after the verification.\<close>

definition continue_reconcile ::
    "(string \<Rightarrow> string) \<Rightarrow> 'k crypto_ops \<Rightarrow> clock_reads \<Rightarrow> 'w CertificateProvider \<Rightarrow> CertificateReconciler \<Rightarrow> string \<Rightarrow> 'w
     \<Rightarrow> CertificateReconciler \<times> (CtrlResult \<times> goerror option) \<times> 'w" where
  "continue_reconcile hash x clk p r certBytes w =
     (case LoadX509Certificate x certBytes of
        Inl err \<Rightarrow> (r, (empty_result, Some err), w)
      | Inr cert \<Rightarrow>
          (let timeToExpire = Sub (crtNotAfter cert) (nowExpire clk);
               duration = Sub (crtNotAfter cert) (crtNotBefore cert);
               finish = (\<lambda>r. r\<lparr> crHash := hash certBytes, crNotBefore := Some (crtNotBefore cert),
                                  crNotAfter := Some (crtNotAfter cert) \<rparr>)
           in if crcEnabled (GetCertificateRenewalConfig (crDsc r)) then
                (if \<not> crReady r \<or> timeToExpire < renewBefore duration then
                   (case cpUpdate p w of
                      (Inl err, w1) \<Rightarrow> (r, (empty_result, Some err), w1)
                    | (Inr _, w1) \<Rightarrow> (r, (empty_result\<lparr> crRequeue := True \<rparr>, None), w1))
                 else (finish (r\<lparr> crSchedule := Some (wrap64 (timeToExpire - renewBefore duration)) \<rparr>),
                       (empty_result, None), w))
              else if \<not> After (nowAfter clk) (crtNotAfter cert) then
                (finish (r\<lparr> crSchedule := Some (wrap64 (timeToExpire + Second)) \<rparr>), (empty_result, None), w)
              else (finish (r\<lparr> crSchedule := None \<rparr>), (empty_result, None), w)))"

definition CertificateReconciler_Reconcile ::
    "(string \<Rightarrow> string) \<Rightarrow> 'k crypto_ops \<Rightarrow> clock_reads \<Rightarrow> 'w CertificateProvider \<Rightarrow> CertificateReconciler \<Rightarrow> 'w
     \<Rightarrow> CertificateReconciler \<times> (CtrlResult \<times> goerror option) \<times> 'w" where
  "CertificateReconciler_Reconcile hash x clk p r w =
     (case cpGet p w of
        Inl err \<Rightarrow>
          (if IsNotFound err then
             (case cpCreate p w of
                (Inl err, w1) \<Rightarrow> (r, (empty_result, Some err), w1)
              | (Inr _, w1) \<Rightarrow> (r, (empty_result\<lparr> crRequeue := True \<rparr>, None), w1))
           else (r, (empty_result, Some err), w))
      | Inr (certBytes, _) \<Rightarrow>
          (case cpVerify p (nowVerify clk) w of
             Some err \<Rightarrow>
               if IsVerifyError err then continue_reconcile hash x clk p (r\<lparr> crReady := False \<rparr>) certBytes w
               else (r, (empty_result, Some err), w)
           | None \<Rightarrow> continue_reconcile hash x clk p (r\<lparr> crReady := True \<rparr>) certBytes w))"

section \<open>Status\<close>

text \<open>One comparison of the status calculation: assign and clear \<open>ok\<close> when the field
  differs. \<open>reflect.DeepEqual\<close> on times compares the location too.\<close>

definition dsc_step ::
    "bool \<Rightarrow> (DiscoveryServiceCertificateStatus \<Rightarrow> DiscoveryServiceCertificateStatus)
     \<Rightarrow> bool \<times> DiscoveryServiceCertificateStatus \<Rightarrow> bool \<times> DiscoveryServiceCertificateStatus" where
  "dsc_step differs f p = (if differs then (False, f (snd p)) else p)"

definition DSC_IsStatusReconciled ::
    "DiscoveryServiceCertificate \<Rightarrow> string \<Rightarrow> bool \<Rightarrow> GoTime \<Rightarrow> GoTime \<Rightarrow> bool \<times> DiscoveryServiceCertificate" where
  "DSC_IsStatusReconciled d certificateHash ready notBefore notAfter =
     (let st = dscStatus d;
          s1 = dsc_step (GetCertificateHash st \<noteq> certificateHash)
                 (\<lambda>s. s\<lparr> dscCertificateHash := Some certificateHash \<rparr>) (True, st);
          s2 = dsc_step (DSC_IsReady st \<noteq> ready) (\<lambda>s. s\<lparr> dscReady := Some ready \<rparr>) s1;
          s3 = dsc_step (dscNotBefore st \<noteq> Some notBefore) (\<lambda>s. s\<lparr> dscNotBefore := Some notBefore \<rparr>) s2;
          s4 = dsc_step (dscNotAfter st \<noteq> Some notAfter) (\<lambda>s. s\<lparr> dscNotAfter := Some notAfter \<rparr>) s3;
          s5 = dsc_step (dscConditions st = None) (\<lambda>s. s\<lparr> dscConditions := Some [] \<rparr>) s4
      in (fst s5, d\<lparr> dscStatus := snd s5 \<rparr>))"

section \<open>Controller\<close>

type_synonym 'w dsc_lifecycle =
  "'w \<Rightarrow> NamespacedName \<Rightarrow> (DiscoveryServiceCertificate \<Rightarrow> DiscoveryServiceCertificate)
   \<Rightarrow> ((CtrlResult \<times> goerror option) + DiscoveryServiceCertificate) \<times> 'w"

definition DSC_Reconcile ::
    "(string \<Rightarrow> string) \<Rightarrow> 'k crypto_ops \<Rightarrow> 'k entropy \<Rightarrow> clock_reads \<Rightarrow> 'w dsc_lifecycle \<Rightarrow> 'w secret_client
     \<Rightarrow> ('w \<Rightarrow> DiscoveryServiceCertificate \<Rightarrow> goerror option \<times> 'w) \<Rightarrow> NamespacedName \<Rightarrow> 'w
     \<Rightarrow> (CtrlResult \<times> goerror option) \<times> 'w" where
  "DSC_Reconcile hash x g clk manage c update_status req w =
     (case manage w req DSC_Default of
        (Inl values, w1) \<Rightarrow> (values, w1)
      | (Inr dsc, w1) \<Rightarrow>
          (let (r, (result, err), w2) =
                 CertificateReconciler_Reconcile hash x clk (NewCertificateProvider c x g dsc) (NewCertificateReconciler dsc) w1;
               after = (\<lambda>w. ((case crSchedule r of
                                None \<Rightarrow> empty_result
                              | Some schedule \<Rightarrow> empty_result\<lparr> crRequeueAfter := schedule \<rparr>, None), w))
           in if crRequeue result \<or> err \<noteq> None then ((result, err), w2)
              else case (cr_NotBefore r, cr_NotAfter r) of
                     (Inr notBefore, Inr notAfter) \<Rightarrow>
                       (let (ok, dsc') = DSC_IsStatusReconciled dsc (crHash r) (crReady r) notBefore notAfter in
                        if \<not> ok then
                          (case update_status w2 dsc' of
                             (Some e, w3) \<Rightarrow> ((empty_result, Some e), w3)
                           | (None, w3) \<Rightarrow> after w3)
                        else after w2)
                   | _ \<Rightarrow> ((empty_result, Some (Panic ''nil pointer dereference'')), w2)))"

text \<open>The filter of \<open>IssuerChangedHandler\<close>: an event on \<open>issuer\<close> makes a request for
  \<open>cert\<close>.\<close>

definition issuer_changed :: "DiscoveryServiceCertificate \<Rightarrow> DiscoveryServiceCertificate \<Rightarrow> bool" where
  "issuer_changed issuer cert =
     (if DSC_IsCA issuer then
        (case CASigned (dscSigner (dscSpec cert)) of
           None \<Rightarrow> False
         | Some ca \<Rightarrow> srName (casSecretRef ca) = srName (dscSecretRef (dscSpec issuer)))
      else False)"

end
