(* ===== verification/CertificateProperties.thy ===== *)
theory CertificateProperties
  imports Certificates
begin

text \<open>
  What the certificate component guarantees: when a certificate is renewed and when the next
  reconcile is scheduled, that an issued certificate is found, reported ready and left alone by
  the next reconcile, and what the status comparison does with times read back from the API.
\<close>

section \<open>The renewal window\<close>

text \<open>A fifth of a whole number of seconds is computed exactly: the product of the rounded
  constant differs from it by less than half a unit in the last place.\<close>

lemma round53_fifth:
  assumes "c' < 2 ^ 53" "c' \<noteq> 0" "9 \<le> e" "c' * 2 ^ e < 2 ^ 60"
  shows "round53 (c' * 2 ^ e * (2 ^ 55 + 2)) = c' * 2 ^ e * 2 ^ 55"
proof -
  define c where "c = c' * 2 ^ e"
  define t where "t = bit_length c - 1"
  have c: "c \<noteq> 0" "c < 2 ^ 60" using assms by (simp_all add: c_def)
  have l: "bit_length c = Suc t" using c by (simp add: t_def bit_length.simps [of c])
  have b: "2 ^ t \<le> c" "c < 2 ^ Suc t" using bit_length_bounds [OF c(1)] l by simp_all
  have "(2::nat) ^ t < 2 ^ 60" using b(1) c(2) by linarith
  then have t: "t < 60" by (rule power_less_imp_less_exp [rotated]) simp
  have "(2::nat) ^ 9 dvd 2 ^ e" using assms(3) by (rule le_imp_power_dvd)
  then have d9: "2 ^ 9 dvd c" by (simp add: c_def)
  have "2 ^ 9 \<le> c" using d9 c(1) by (intro dvd_imp_le) simp_all
  then have "(2::nat) ^ 9 < 2 ^ Suc t" using b(2) by linarith
  then have t9: "9 < Suc t" by (rule power_less_imp_less_exp [rotated]) simp
  have gap: "c + 2 ^ 9 \<le> 2 ^ Suc t" using d9 b(2) t9 by (intro pow2_gap) simp_all
  have "round53 (c * 2 ^ 55 + 2 * c) = c * 2 ^ 55"
  proof (rule round53_down [of "t + 55"])
    show "2 ^ (t + 55) \<le> c * 2 ^ 55" using b(1) by (simp add: power_add)
    have "(c + 2 ^ 9) * 2 ^ 55 \<le> 2 ^ Suc t * 2 ^ 55" using gap by (rule mult_le_mono1)
    moreover have "2 * c < 2 ^ 9 * 2 ^ 55" using c(2) by simp
    moreover have "(2::nat) ^ Suc (t + 55) = 2 ^ Suc t * 2 ^ 55" by (simp add: power_add)
    ultimately show "c * 2 ^ 55 + 2 * c < 2 ^ Suc (t + 55)" by (simp add: distrib_right)
    show "2 ^ (Suc (t + 55) - 53) dvd c * 2 ^ 55" using d9 t by (intro pow2_dvd_shift [of 9]) simp_all
    have "(2::nat) ^ (Suc (t + 55) - 53) = 4 * 2 ^ Suc t" by (simp add: power_add)
    then show "2 * c = 0 \<or> 2 * (2 * c) < 2 ^ (Suc (t + 55) - 53)" using b(2) by simp
  qed
  then show ?thesis by (simp add: c_def distrib_left mult.commute)
qed

lemma renewBefore_seconds:
  assumes "0 \<le> s" "s * Second \<le> 2 ^ 62"
  shows "renewBefore (s * Second) = s * 200000000"
proof (cases "s = 0")
  case True
  then show ?thesis by (simp add: renewBefore_def round53_exact [of 0 0, simplified])
next
  case False
  define n where "n = nat s"
  have s: "s = int n" "n \<noteq> 0" "n \<le> 4611686018" using assms False by (simp_all add: n_def Second_def)
  have 1: "nat \<bar>s * Second\<bar> = n * 1953125 * 2 ^ 9" by (simp add: s Second_def nat_mult_distrib)
  have "round53 (n * 1953125 * 2 ^ 9) = n * 1953125 * 2 ^ 9" using s(3) by (intro round53_exact) simp
  moreover have "n * 1953125 * 2 ^ 9 * 7205759403792794 = n * 390625 * 2 ^ 9 * (2 ^ 55 + 2)" by simp
  moreover have "round53 (n * 390625 * 2 ^ 9 * (2 ^ 55 + 2)) = n * 390625 * 2 ^ 9 * 2 ^ 55"
    using s by (intro round53_fifth) simp_all
  ultimately have "round53 (round53 (nat \<bar>s * Second\<bar>) * 7205759403792794) = n * 390625 * 2 ^ 9 * 2 ^ 55"
    unfolding 1 by presburger
  then show ?thesis using assms by (simp add: renewBefore_def Second_def s)
qed

section \<open>The provider contract\<close>

text \<open>What the reconciler relies on: a certificate that was created or updated is the one
  that is read afterwards.\<close>

locale certificate_store =
  fixes p :: "'w CertificateProvider"
  assumes create_get: "cpCreate p w = (Inr pair, w') \<Longrightarrow> cpGet p w' = Inr pair"
    and update_get: "cpUpdate p w = (Inr pair, w') \<Longrightarrow> cpGet p w' = Inr pair"
begin

text \<open>A requeue follows a write of the certificate, so the next run finds one.\<close>

lemma requeue_progress:
  assumes "CertificateReconciler_Reconcile hash x clk p r w = (r', (res, None), w')" "crRequeue res"
  shows "\<exists>pair. cpGet p w' = Inr pair"
  using assms
  by (auto simp: CertificateReconciler_Reconcile_def continue_reconcile_def Let_def empty_result_def create_get update_get
      split: sum.splits option.splits if_splits prod.splits)

end

text \<open>The contract of the Kubernetes client on secrets: the object read after a create or an
  update has the data that was written, and a write touches no other object.\<close>

locale secret_store =
  fixes c :: "'w secret_client"
  assumes get_key: "sc_get c w k = Inr s \<Longrightarrow> object_key (tlsMeta s) = k"
    and get_created:
      "sc_create c w s = (None, w') \<Longrightarrow>
         \<exists>s'. sc_get c w' (object_key (tlsMeta s)) = Inr s' \<and> tlsData s' = tlsData s \<and> tlsType s' = tlsType s"
    and create_others: "sc_create c w s = (None, w') \<Longrightarrow> k \<noteq> object_key (tlsMeta s) \<Longrightarrow> sc_get c w' k = sc_get c w k"
    and get_updated:
      "sc_update c w s = (None, w') \<Longrightarrow>
         \<exists>s'. sc_get c w' (object_key (tlsMeta s)) = Inr s' \<and> tlsData s' = tlsData s \<and> tlsType s' = tlsType s"
    and owner_keeps: "sc_owner c d s = Inr s' \<Longrightarrow> tlsMeta s' = tlsMeta s \<and> tlsData s' = tlsData s \<and> tlsType s' = tlsType s"
begin

lemma genSecret_key: "genSecret x g d issuer = Inr s \<Longrightarrow> object_key (tlsMeta s) = secret_key d"
  by (auto simp: genSecret_def object_key_def secret_key_def split: sum.splits)

lemma CreateCertificate_InrD:
  assumes "CreateCertificate_internal c x g d w = (Inr (crt, key), w')"
  shows "\<exists>issuer s s'. getIssuerCertificate c x d w = Inr issuer \<and> genSecret x g d issuer = Inr s \<and>
    sc_owner c d s = Inr s' \<and> sc_create c w s' = (None, w') \<and>
    crt = tls_data s' tlsCertificateKey \<and> key = tls_data s' tlsPrivateKeyKey"
  using assms by (auto simp: CreateCertificate_internal_def split: sum.splits if_splits prod.splits option.splits)

lemma internal_create_get:
  assumes "CreateCertificate_internal c x g d w = (Inr pair, w')"
  shows "GetCertificate_internal c d w' = Inr pair"
proof (cases pair)
  case (Pair crt key)
  with assms obtain issuer s s' where s: "genSecret x g d issuer = Inr s" "sc_owner c d s = Inr s'"
    "sc_create c w s' = (None, w')" "crt = tls_data s' tlsCertificateKey" "key = tls_data s' tlsPrivateKeyKey"
    using CreateCertificate_InrD [of x g d w crt key w'] by blast
  have "object_key (tlsMeta s') = secret_key d" using owner_keeps [OF s(2)] genSecret_key [OF s(1)] by simp
  with get_created [OF s(3)] show ?thesis
    using s(4,5) Pair by (auto simp: GetCertificate_internal_def tls_data_def)
qed

lemma UpdateCertificate_InrD:
  assumes "UpdateCertificate_internal c x g d w = (Inr (crt, key), w')"
  shows "\<exists>s s'. sc_get c w (secret_key d) = Inr s \<and> tlsMeta s' = tlsMeta s \<and> sc_update c w s' = (None, w') \<and>
    crt = tls_data s' tlsCertificateKey \<and> key = tls_data s' tlsPrivateKeyKey"
proof -
  obtain issuer s new where "getIssuerCertificate c x d w = Inr issuer" "sc_get c w (secret_key d) = Inr s"
    "genSecret x g d issuer = Inr new"
    using assms by (auto simp: UpdateCertificate_internal_def split: sum.splits)
  with assms show ?thesis
    by (intro exI [of _ s] exI [of _ "s\<lparr> tlsData := tlsData new \<rparr>"])
      (auto simp: UpdateCertificate_internal_def Let_def split: option.splits prod.splits)
qed

lemma internal_update_get:
  assumes "UpdateCertificate_internal c x g d w = (Inr pair, w')"
  shows "GetCertificate_internal c d w' = Inr pair"
proof (cases pair)
  case (Pair crt key)
  with assms obtain s s' where s: "sc_get c w (secret_key d) = Inr s" "tlsMeta s' = tlsMeta s"
    "sc_update c w s' = (None, w')" "crt = tls_data s' tlsCertificateKey" "key = tls_data s' tlsPrivateKeyKey"
    using UpdateCertificate_InrD [of x g d w crt key w'] by blast
  with get_key [OF s(1)] get_updated [OF s(3)] show ?thesis
    using Pair by (auto simp: GetCertificate_internal_def tls_data_def)
qed

end

text \<open>The internal provider meets the provider contract over every client that meets its own.\<close>

sublocale secret_store \<subseteq> internal: certificate_store "NewCertificateProvider c x g d" for x g d
  by unfold_locales (simp_all add: NewCertificateProvider_def internal_create_get internal_update_get)

subsection \<open>A store of secrets\<close>

definition secret_missing :: goerror where "secret_missing = StatusError StatusReasonNotFound ''secret not found''"

definition list_secrets :: "TLSSecret list secret_client" where
  "list_secrets =
     \<lparr> sc_get = (\<lambda>w k. case find (\<lambda>s. object_key (tlsMeta s) = k) w of None \<Rightarrow> Inl secret_missing | Some s \<Rightarrow> Inr s),
       sc_create = (\<lambda>w s. if list_ex (\<lambda>s'. object_key (tlsMeta s') = object_key (tlsMeta s)) w
                          then (Some (StatusError StatusReasonOther ''already exists''), w) else (None, w @ [s])),
       sc_update = (\<lambda>w s. if list_ex (\<lambda>s'. object_key (tlsMeta s') = object_key (tlsMeta s)) w
                          then (None, replace_by (\<lambda>s. object_key (tlsMeta s)) s w) else (Some secret_missing, w)),
       sc_owner = (\<lambda>d s. Inr (s\<lparr> tlsOwner := Some (object_key (dscMeta d)) \<rparr>)) \<rparr>"

lemma find_append_other: "\<not> P y \<Longrightarrow> find P (xs @ [y]) = find P xs"
  by (induction xs) auto

lemma find_replace_by: "list_ex (\<lambda>y. key y = key x) xs \<Longrightarrow> find (\<lambda>y. key y = key x) (replace_by key x xs) = Some x"
  by (induction xs) (auto simp: replace_by_def)

interpretation listSecrets: secret_store list_secrets
proof unfold_locales
  fix w :: "TLSSecret list" and s w'
  assume "sc_create list_secrets w s = (None, w')"
  then have "find (\<lambda>s'. object_key (tlsMeta s') = object_key (tlsMeta s)) w = None" "w' = w @ [s]"
    by (auto simp: list_secrets_def find_None_iff list_ex_iff split: if_splits)
  then show "\<exists>s'. sc_get list_secrets w' (object_key (tlsMeta s)) = Inr s' \<and> tlsData s' = tlsData s \<and> tlsType s' = tlsType s"
    by (simp add: list_secrets_def find_append_None)
next
  fix w :: "TLSSecret list" and s w' k
  assume "sc_create list_secrets w s = (None, w')" "k \<noteq> object_key (tlsMeta s)"
  then show "sc_get list_secrets w' k = sc_get list_secrets w k"
    by (auto simp: list_secrets_def find_append_other split: if_splits)
next
  fix w :: "TLSSecret list" and s w'
  assume "sc_update list_secrets w s = (None, w')"
  then show "\<exists>s'. sc_get list_secrets w' (object_key (tlsMeta s)) = Inr s' \<and> tlsData s' = tlsData s \<and> tlsType s' = tlsType s"
    using find_replace_by [of "\<lambda>s. object_key (tlsMeta s)" s w] by (auto simp: list_secrets_def split: if_splits)
qed (auto simp: list_secrets_def dest: find_SomeD split: option.splits)

lemma der_time_span: "instant (der_time (Add t (s * Second))) - instant (der_time t) = s * Second"
  by (simp add: der_time_def Add_def)

text \<open>The certificate a successful create leaves, loaded back.\<close>

lemma created_certificate:
  assumes "secret_store c" "x509_encoding x" "CreateCertificate_internal c x g d w = (Inr (crt, key), w')"
  shows "\<exists>cert. LoadX509Certificate x crt = Inr cert \<and> crtNotBefore cert = der_time (entNow g) \<and>
    crtNotAfter cert = der_time (Add (entNow g) (validity d))"
proof -
  obtain issuer s s' where s: "genSecret x g d issuer = Inr s" "sc_owner c d s = Inr s'" "crt = tls_data s' tlsCertificateKey"
    using secret_store.CreateCertificate_InrD [OF assms(1,3)] by blast
  obtain key' where "GenerateCertificate x g issuer (dscCommonName (dscSpec d)) (validity d)
      (DSC_IsServerCertificate d) (DSC_IsCA d) (DSC_GetHosts d) = Inr (crt, key')"
    using s secret_store.owner_keeps [OF assms(1) s(2)] by (auto simp: genSecret_def tls_data_def split: sum.splits)
  from x509_encoding.generated_loads [OF assms(2) this] show ?thesis by (auto simp: der_cert_def)
qed

section \<open>The exits of Reconcile\<close>

definition verified :: "goerror option \<Rightarrow> bool" where
  "verified verr = (verr = None)"

definition verify_result :: "goerror option \<Rightarrow> bool" where
  "verify_result verr = (case verr of None \<Rightarrow> True | Some e \<Rightarrow> IsVerifyError e)"

lemma Reconcile_after_verify:
  assumes "cpGet p w = Inr (crt, key)" "verify_result (cpVerify p (nowVerify clk) w)"
  shows "CertificateReconciler_Reconcile hash x clk p r w =
    continue_reconcile hash x clk p (r\<lparr> crReady := verified (cpVerify p (nowVerify clk) w) \<rparr>) crt w"
  using assms
  by (simp add: CertificateReconciler_Reconcile_def verify_result_def verified_def split: option.splits)

lemma Reconcile_after_verified:
  assumes "cpGet p w = Inr (crt, key)" "cpVerify p (nowVerify clk) w = None"
  shows "CertificateReconciler_Reconcile hash x clk p r w = continue_reconcile hash x clk p (r\<lparr> crReady := True \<rparr>) crt w"
  using Reconcile_after_verify [of p w crt key clk hash x r] assms by (simp add: verify_result_def verified_def)

lemma continue_renewal:
  assumes "LoadX509Certificate x crt = Inr cert" "crcEnabled (GetCertificateRenewalConfig (crDsc r))"
    and "instant (crtNotAfter cert) - instant (crtNotBefore cert) = s * Second" "0 \<le> s" "s * Second \<le> 2 ^ 62"
    and "\<bar>instant (crtNotAfter cert) - instant (nowExpire clk)\<bar> \<le> 2 ^ 62"
  shows "continue_reconcile hash x clk p r crt w =
    (if \<not> crReady r \<or> instant (crtNotAfter cert) - instant (nowExpire clk) < s * 200000000 then
       (case cpUpdate p w of
          (Inl err, w1) \<Rightarrow> (r, (empty_result, Some err), w1)
        | (Inr _, w1) \<Rightarrow> (r, (empty_result\<lparr> crRequeue := True \<rparr>, None), w1))
     else (r\<lparr> crSchedule := Some (instant (crtNotAfter cert) - instant (nowExpire clk) - s * 200000000),
              crHash := hash crt, crNotBefore := Some (crtNotBefore cert), crNotAfter := Some (crtNotAfter cert) \<rparr>,
           (empty_result, None), w))"
proof -
  let ?rem = "instant (crtNotAfter cert) - instant (nowExpire clk)"
  have "Sub (crtNotAfter cert) (crtNotBefore cert) = s * Second"
    using assms(3-5) Sub_exact [of "crtNotAfter cert" "crtNotBefore cert"] by (simp add: Second_def)
  moreover have "Sub (crtNotAfter cert) (nowExpire clk) = ?rem"
    using assms(6) by (intro Sub_exact) simp
  moreover have "wrap64 (?rem - s * 200000000) = ?rem - s * 200000000" if "\<not> ?rem < s * 200000000"
    using that assms(4,6) by (intro wrap64_id) simp_all
  ultimately show ?thesis
    using assms(1,2) renewBefore_seconds [OF assms(4,5)] by (simp add: continue_reconcile_def Let_def)
qed

text \<open>A run that neither fails nor requeues has loaded a certificate and recorded its times.\<close>

lemma Reconcile_done:
  assumes "CertificateReconciler_Reconcile hash x clk p r w = (r', (res, None), w')" "\<not> crRequeue res"
  shows "\<exists>crt key cert. cpGet p w = Inr (crt, key) \<and> LoadX509Certificate x crt = Inr cert \<and>
    crNotBefore r' = Some (crtNotBefore cert) \<and> crNotAfter r' = Some (crtNotAfter cert) \<and> crHash r' = hash crt \<and> w' = w"
  using assms
  by (auto simp: CertificateReconciler_Reconcile_def continue_reconcile_def Let_def
      split: sum.splits option.splits if_splits prod.splits)

section \<open>The status fields\<close>

lemma snd_dsc_step: "snd (dsc_step differs f p) = (if differs then f (snd p) else snd p)"
  by (simp add: dsc_step_def)

lemma dsc_status_fields:
  fixes d h ready nb na
  defines "st \<equiv> dscStatus (snd (DSC_IsStatusReconciled d h ready nb na))"
  shows "GetCertificateHash st = h" "DSC_IsReady st = ready" "dscNotBefore st = Some nb" "dscNotAfter st = Some na"
    "dscConditions st \<noteq> None"
  by (simp_all add: st_def DSC_IsStatusReconciled_def Let_def snd_dsc_step GetCertificateHash_def DSC_IsReady_def)

lemma dsc_status_settled:
  assumes "GetCertificateHash (dscStatus d) = h" "DSC_IsReady (dscStatus d) = ready" "dscNotBefore (dscStatus d) = Some nb"
    "dscNotAfter (dscStatus d) = Some na" "dscConditions (dscStatus d) \<noteq> None"
  shows "DSC_IsStatusReconciled d h ready nb na = (True, d)"
  using assms by (simp add: DSC_IsStatusReconciled_def Let_def dsc_step_def)

section \<open>A sample certificate\<close>

definition sample_dsc :: DiscoveryServiceCertificate where
  "sample_dsc =
     \<lparr> dscMeta = empty_meta\<lparr> Name := ''dsc'', Namespace := ''ns'' \<rparr>,
       dscSpec = \<lparr> dscCommonName = ''cn'', dscIsServerCertificate = Some True, dscIsCA = None, dscValidFor = 1000,
                   dscHosts = Some [''127.0.0.1'', ''svc''], dscSigner = \<lparr> SelfSigned = Some (), CASigned = None \<rparr>,
                   dscSecretRef = \<lparr> srName = ''s'', srNamespace = [] \<rparr>, dscRenewal = None \<rparr>,
       dscStatus = \<lparr> dscReady = None, dscNotBefore = Some \<lparr> instant = 7 * Second, location = Local \<rparr>, dscNotAfter = None,
                     dscCertificateHash = None, dscConditions = None \<rparr> \<rparr>"

definition sample_clock :: clock_reads where
  "sample_clock = (let t = \<lparr> instant = 100 * Second, location = Local \<rparr> in
     \<lparr> nowVerify = t, nowExpire = t, nowAfter = t \<rparr>)"

abbreviation sample_provider :: "TLSSecret list CertificateProvider" where
  "sample_provider \<equiv> NewCertificateProvider list_secrets (one_cert sample_template) sample_entropy sample_dsc"

definition issued_secret :: TLSSecret where
  "issued_secret =
     \<lparr> tlsMeta = empty_meta\<lparr> Name := ''s'', Namespace := ''ns'' \<rparr>, tlsType = ''kubernetes.io/tls'',
       tlsData = [(tlsCertificateKey, len_encode ''CERTIFICATE'' ''der''), (tlsPrivateKeyKey, len_encode ''PRIVATE KEY'' ''k'')],
       tlsOwner = Some (''ns'', ''dsc'') \<rparr>"

lemma sample_validity: "validity sample_dsc = 1000 * Second"
  by (simp add: validity_def sample_dsc_def Second_def)

lemma sample_missing: "sc_get list_secrets [] (secret_key sample_dsc) = Inl secret_missing" "IsNotFound secret_missing"
  by (simp_all add: list_secrets_def secret_missing_def IsNotFound_def)

lemma sample_create:
  "CreateCertificate_internal list_secrets (one_cert sample_template) sample_entropy sample_dsc [] =
     (Inr (len_encode ''CERTIFICATE'' ''der'', len_encode ''PRIVATE KEY'' ''k''), [issued_secret])"
proof -
  have "genSecret (one_cert sample_template) sample_entropy sample_dsc None = Inr (issued_secret\<lparr> tlsOwner := None \<rparr>)"
    unfolding genSecret_def sample_validity
    using sample_generates
    by (simp add: sample_dsc_def DSC_IsServerCertificate_def DSC_IsCA_def DSC_GetHosts_def issued_secret_def)
  moreover have "getIssuerCertificate list_secrets (one_cert sample_template) sample_dsc [] = Inr None"
    by (simp add: getIssuerCertificate_def sample_dsc_def)
  ultimately show ?thesis
    by (simp add: CreateCertificate_internal_def sample_missing)
      (simp add: list_secrets_def sample_dsc_def issued_secret_def object_key_def tls_data_def
        tlsCertificateKey_def tlsPrivateKeyKey_def empty_meta_def)
qed

lemma sample_first_run:
  "CertificateReconciler_Reconcile hash (one_cert sample_template) sample_clock sample_provider (NewCertificateReconciler sample_dsc) [] =
     (NewCertificateReconciler sample_dsc, (empty_result\<lparr> crRequeue := True \<rparr>, None), [issued_secret])"
  by (simp add: CertificateReconciler_Reconcile_def NewCertificateProvider_def GetCertificate_internal_def sample_missing sample_create)

lemma sample_get: "sc_get list_secrets [issued_secret] (secret_key sample_dsc) = Inr issued_secret"
  by (simp add: list_secrets_def secret_key_def sample_dsc_def issued_secret_def object_key_def empty_meta_def)

lemma sample_load:
  "LoadX509Certificate (one_cert sample_template) (tls_data issued_secret tlsCertificateKey) = Inr (der_cert sample_template)"
  by (simp add: LoadX509Certificate_def tls_data_def issued_secret_def one_cert_def len_round_trip)

lemma sample_verify:
  "VerifyCertificate_internal list_secrets (one_cert sample_template) sample_dsc (nowVerify sample_clock) [issued_secret] = None"
  by (simp add: VerifyCertificate_internal_def sample_get sample_load)
    (simp add: sample_dsc_def Verify_def one_cert_def der_cert_def der_time_def sample_template_def sample_entropy_def
      sample_clock_def Add_def Second_def Let_def)

lemma sample_enabled: "crcEnabled (GetCertificateRenewalConfig sample_dsc)"
  by (simp add: GetCertificateRenewalConfig_def sample_dsc_def defaultCertificateRenewalConfig_def)

lemma sample_cp:
  "cpGet sample_provider [issued_secret] =
     Inr (tls_data issued_secret tlsCertificateKey, tls_data issued_secret tlsPrivateKeyKey)"
  "cpVerify sample_provider (nowVerify sample_clock) [issued_secret] = None"
  by (simp_all add: NewCertificateProvider_def GetCertificate_internal_def sample_get sample_verify)

lemma sample_en: "crcEnabled (GetCertificateRenewalConfig (crDsc ((NewCertificateReconciler sample_dsc)\<lparr> crReady := b \<rparr>)))"
  using sample_enabled by (simp add: NewCertificateReconciler_def)

lemma sample_span:
  "instant (crtNotAfter (der_cert sample_template)) - instant (crtNotBefore (der_cert sample_template)) = 1000 * Second"
  by (simp add: der_cert_def sample_template_def der_time_span)

lemma sample_rem:
  "instant (crtNotAfter (der_cert sample_template)) - instant (nowExpire sample_clock) = 907 * Second"
  by (simp add: der_cert_def sample_template_def der_time_def Add_def sample_entropy_def sample_clock_def Second_def Let_def)

lemma sample_bounds:
  "(0::int) \<le> 1000" "1000 * Second \<le> 2 ^ 62"
  "\<bar>instant (crtNotAfter (der_cert sample_template)) - instant (nowExpire sample_clock)\<bar> \<le> 2 ^ 62"
  by (simp_all add: sample_rem Second_def)

lemma sample_second_run:
  "\<exists>r. CertificateReconciler_Reconcile hash (one_cert sample_template) sample_clock sample_provider
       (NewCertificateReconciler sample_dsc) [issued_secret] = (r, (empty_result, None), [issued_secret]) \<and>
     crNotBefore r = Some (crtNotBefore (der_cert sample_template))"
proof -
  let ?r = "(NewCertificateReconciler sample_dsc)\<lparr> crReady := True \<rparr>"
  have "\<not> 907 * Second < 1000 * 200000000" by (simp add: Second_def)
  then show ?thesis
    using continue_renewal [OF sample_load sample_en [of True] sample_span sample_bounds, of hash sample_provider "[issued_secret]"]
      Reconcile_after_verified [OF sample_cp, of hash "one_cert sample_template" "NewCertificateReconciler sample_dsc"]
    by (simp add: sample_rem)
qed

section \<open>Properties\<close>

text \<open>(C29) The renewal window is exactly a fifth of the validity: for every validity of a whole
  number of seconds up to \<open>2 ^ 62\<close> nanoseconds (146 years), the \<open>float64\<close> computation of
  the window makes no rounding error.\<close>

theorem renewBefore_is_a_fifth:
  assumes "0 \<le> s" "s * Second \<le> 2 ^ 62"
  shows "5 * renewBefore (s * Second) = s * Second"
  using renewBefore_seconds [OF assms] by (simp add: Second_def)

theorem renewBefore_is_a_fifth_witness: "5 * renewBefore (31536000 * Second) = 31536000 * Second"
  by (rule renewBefore_is_a_fifth) (simp_all add: Second_def)

text \<open>(C17) The renewal decision: with renewal enabled, a certificate that can be read and loaded
  is reissued exactly when it fails verification or less than a fifth of its validity remains,
  and the outcome is that of the update. Otherwise nothing is written, the certificate is
  reported ready with its hash and times, and the next run is scheduled for the moment at which
  exactly a fifth of the validity remains.\<close>

theorem certificate_renewal_decision:
  assumes "cpGet p w = Inr (crt, key)" "verify_result (cpVerify p (nowVerify clk) w)"
    and "LoadX509Certificate x crt = Inr cert" "crcEnabled (GetCertificateRenewalConfig (crDsc r))"
    and "instant (crtNotAfter cert) - instant (crtNotBefore cert) = s * Second" "0 \<le> s" "s * Second \<le> 2 ^ 62"
    and "\<bar>instant (crtNotAfter cert) - instant (nowExpire clk)\<bar> \<le> 2 ^ 62"
  shows "\<exists>r' res err w'. CertificateReconciler_Reconcile hash x clk p r w = (r', (res, err), w') \<and>
    (if cpVerify p (nowVerify clk) w \<noteq> None \<or> 5 * (instant (crtNotAfter cert) - instant (nowExpire clk)) < s * Second
     then w' = snd (cpUpdate p w) \<and> crSchedule r' = crSchedule r \<and>
          (case fst (cpUpdate p w) of Inl e \<Rightarrow> err = Some e \<and> \<not> crRequeue res | Inr _ \<Rightarrow> err = None \<and> crRequeue res)
     else w' = w \<and> err = None \<and> res = empty_result \<and> crReady r' \<and> crHash r' = hash crt \<and>
          crNotBefore r' = Some (crtNotBefore cert) \<and> crNotAfter r' = Some (crtNotAfter cert) \<and>
          (\<exists>t \<ge> 0. crSchedule r' = Some t \<and> 5 * (instant (crtNotAfter cert) - (instant (nowExpire clk) + t)) = s * Second))"
proof -
  let ?r = "r\<lparr> crReady := verified (cpVerify p (nowVerify clk) w) \<rparr>"
  have "crcEnabled (GetCertificateRenewalConfig (crDsc ?r))" using assms(4) by simp
  from continue_renewal [OF assms(3) this assms(5-8), of hash p w] Reconcile_after_verify [OF assms(1,2), of hash x r]
  show ?thesis by (auto simp: verified_def Second_def empty_result_def split: prod.splits sum.splits)
qed

theorem certificate_renewal_decision_witness:
  "\<exists>r' res err w'. CertificateReconciler_Reconcile (\<lambda>s. s) (one_cert sample_template) sample_clock sample_provider
       (NewCertificateReconciler sample_dsc) [issued_secret] = (r', (res, err), w') \<and>
     (if cpVerify sample_provider (nowVerify sample_clock) [issued_secret] \<noteq> None \<or>
         5 * (instant (crtNotAfter (der_cert sample_template)) - instant (nowExpire sample_clock)) < 1000 * Second
      then w' = snd (cpUpdate sample_provider [issued_secret])
      else w' = [issued_secret] \<and> err = None \<and>
        (\<exists>t \<ge> 0. crSchedule r' = Some t \<and>
           5 * (instant (crtNotAfter (der_cert sample_template)) - (instant (nowExpire sample_clock) + t)) = 1000 * Second))"
proof -
  have ver: "verify_result (cpVerify sample_provider (nowVerify sample_clock) [issued_secret])"
    by (simp add: sample_cp verify_result_def)
  have en: "crcEnabled (GetCertificateRenewalConfig (crDsc (NewCertificateReconciler sample_dsc)))"
    using sample_enabled by (simp add: NewCertificateReconciler_def)
  show ?thesis
    using certificate_renewal_decision [OF sample_cp(1) ver sample_load en sample_span sample_bounds, of "\<lambda>s. s"]
    by (auto simp: sample_cp sample_rem Second_def)
qed

text \<open>A requeue of the certificate reconciler makes progress: it follows a successful create
  or update, after which the certificate is found, so that the next run does not create again.\<close>

theorem certificate_requeue_progress:
  assumes "secret_store c"
    and "CertificateReconciler_Reconcile hash x clk (NewCertificateProvider c x g d) r w = (r', (res, None), w')" "crRequeue res"
  shows "\<exists>pair. GetCertificate_internal c d w' = Inr pair"
proof -
  have "certificate_store (NewCertificateProvider c x g d)"
    by unfold_locales (simp_all add: NewCertificateProvider_def secret_store.internal_create_get [OF assms(1)]
        secret_store.internal_update_get [OF assms(1)])
  from certificate_store.requeue_progress [OF this assms(2,3)] show ?thesis by (simp add: NewCertificateProvider_def)
qed

theorem certificate_requeue_progress_witness:
  "\<exists>pair. GetCertificate_internal list_secrets sample_dsc [issued_secret] = Inr pair"
  by (rule certificate_requeue_progress [OF listSecrets.secret_store_axioms sample_first_run [of "\<lambda>s. s"]]) simp

text \<open>(C18) Issuing settles: when no certificate exists, a run that succeeds creates one and
  requeues; the run after it, if the certificate verifies and at least a fifth of its validity
  remains, writes nothing, reports the certificate ready with the requested expiry and schedules
  the renewal for the start of the last fifth.\<close>

theorem issued_certificate_is_stable:
  assumes "secret_store c" "x509_encoding x"
    and "sc_get c w (secret_key d) = Inl e" "IsNotFound e" "crcEnabled (GetCertificateRenewalConfig d)"
    and "validity d = s * Second" "0 \<le> s" "s * Second \<le> 2 ^ 62"
    and "CertificateReconciler_Reconcile hash x clk (NewCertificateProvider c x g d) (NewCertificateReconciler d) w =
           (r1, (res1, None), w1)"
    and "VerifyCertificate_internal c x d (nowVerify clk') w1 = None"
    and "remaining = instant (der_time (Add (entNow g) (validity d))) - instant (nowExpire clk')"
    and "s * 200000000 \<le> remaining" "remaining \<le> 2 ^ 62"
  shows "crRequeue res1 \<and>
    (\<exists>crt key r2. GetCertificate_internal c d w1 = Inr (crt, key) \<and>
       CertificateReconciler_Reconcile hash x clk' (NewCertificateProvider c x g' d) (NewCertificateReconciler d) w1 =
         (r2, (empty_result, None), w1) \<and>
       crReady r2 \<and> crHash r2 = hash crt \<and> crNotAfter r2 = Some (der_time (Add (entNow g) (validity d))) \<and>
       crSchedule r2 = Some (remaining - s * 200000000))"
proof -
  have "cpGet (NewCertificateProvider c x g d) w = Inl e"
    using assms(3) by (simp add: NewCertificateProvider_def GetCertificate_internal_def)
  then obtain crt key where created: "CreateCertificate_internal c x g d w = (Inr (crt, key), w1)" and "crRequeue res1"
    using assms(4,9) by (auto simp: CertificateReconciler_Reconcile_def NewCertificateProvider_def split: sum.splits prod.splits)
  let ?p = "NewCertificateProvider c x g' d" and ?r = "(NewCertificateReconciler d)\<lparr> crReady := True \<rparr>"
  have get: "GetCertificate_internal c d w1 = Inr (crt, key)"
    by (rule secret_store.internal_create_get [OF assms(1) created])
  then have p: "cpGet ?p w1 = Inr (crt, key)" "cpVerify ?p (nowVerify clk') w1 = None"
    using assms(10) by (simp_all add: NewCertificateProvider_def)
  obtain cert where cert: "LoadX509Certificate x crt = Inr cert" "crtNotBefore cert = der_time (entNow g)"
      "crtNotAfter cert = der_time (Add (entNow g) (validity d))"
    using created_certificate [OF assms(1,2) created] by blast
  have en: "crcEnabled (GetCertificateRenewalConfig (crDsc ?r))" using assms(5) by (simp add: NewCertificateReconciler_def)
  have span: "instant (crtNotAfter cert) - instant (crtNotBefore cert) = s * Second"
    unfolding cert assms(6) by (rule der_time_span)
  have rem: "instant (crtNotAfter cert) - instant (nowExpire clk') = remaining" using assms(11) by (simp add: cert)
  then have "\<bar>instant (crtNotAfter cert) - instant (nowExpire clk')\<bar> \<le> 2 ^ 62" using assms(7,12,13) by simp
  from continue_renewal [OF cert(1) en span assms(7,8) this, of hash ?p w1]
  have "continue_reconcile hash x clk' ?p ?r crt w1 =
      (?r\<lparr> crSchedule := Some (remaining - s * 200000000), crHash := hash crt,
           crNotBefore := Some (crtNotBefore cert), crNotAfter := Some (crtNotAfter cert) \<rparr>, (empty_result, None), w1)"
    using assms(12) by (simp add: rem)
  moreover have "CertificateReconciler_Reconcile hash x clk' ?p (NewCertificateReconciler d) w1 =
      continue_reconcile hash x clk' ?p ?r crt w1"
    using p by (rule Reconcile_after_verified)
  ultimately show ?thesis using get cert(3) \<open>crRequeue res1\<close> by simp
qed

theorem issued_certificate_is_stable_witness:
  "\<exists>crt key r2. GetCertificate_internal list_secrets sample_dsc [issued_secret] = Inr (crt, key) \<and>
     CertificateReconciler_Reconcile (\<lambda>s. s) (one_cert sample_template) sample_clock sample_provider
       (NewCertificateReconciler sample_dsc) [issued_secret] = (r2, (empty_result, None), [issued_secret]) \<and>
     crReady r2 \<and> crSchedule r2 = Some (907 * Second - 1000 * 200000000)"
proof -
  have rem: "907 * Second = instant (der_time (Add (entNow sample_entropy) (validity sample_dsc))) - instant (nowExpire sample_clock)"
    by (simp add: der_time_def Add_def sample_validity sample_entropy_def sample_clock_def Second_def Let_def)
  have bounds: "1000 * Second \<le> 2 ^ 62" "1000 * 200000000 \<le> 907 * Second" "907 * Second \<le> 2 ^ 62" by (simp_all add: Second_def)
  show ?thesis
    using issued_certificate_is_stable [OF listSecrets.secret_store_axioms oneCert.x509_encoding_axioms sample_missing
        sample_enabled sample_validity _ bounds(1) sample_first_run [of "\<lambda>s. s"] sample_verify rem bounds(2,3), of sample_entropy]
    by auto
qed

text \<open>The status calculation settles in memory: calculating again with the same certificate
  reports nothing to do and changes nothing.\<close>

theorem DSC_status_settles:
  "DSC_IsStatusReconciled (snd (DSC_IsStatusReconciled d h ready nb na)) h ready nb na =
     (True, snd (DSC_IsStatusReconciled d h ready nb na))"
  by (rule dsc_status_settled) (rule dsc_status_fields)+

text \<open>On an object read from the API the status is rewritten in every run: decoding puts
  its times in the local location, a loaded certificate has them in UTC, the comparison takes
  the location into account, so every run that is done with the certificate updates the status
  even though the instants agree.\<close>

theorem DSC_status_rewritten_every_run:
  assumes "manage w req DSC_Default = (Inr dsc, w1)"
    and "dscNotBefore (dscStatus dsc) = Some t" "location t = Local"
    and "CertificateReconciler_Reconcile hash x clk (NewCertificateProvider c x g dsc) (NewCertificateReconciler dsc) w1 =
           (r, (empty_result, None), w2)"
    and "crNotBefore r = Some nb" "location nb = UTC"
  shows "\<exists>dsc'. snd (DSC_Reconcile hash x g clk manage c update_status req w) = snd (update_status w2 dsc')"
proof -
  have "\<not> crRequeue empty_result" by (simp add: empty_result_def)
  from Reconcile_done [OF assms(4) this] obtain na where na: "crNotAfter r = Some na" by blast
  let ?res = "DSC_IsStatusReconciled dsc (crHash r) (crReady r) nb na"
  have "\<not> fst ?res" using assms(2,3,6) by (auto simp: DSC_IsStatusReconciled_def dsc_step_def Let_def)
  then have "snd (DSC_Reconcile hash x g clk manage c update_status req w) = snd (update_status w2 (snd ?res))"
    using assms(1,4,5) na
    by (auto simp: DSC_Reconcile_def cr_NotBefore_def cr_NotAfter_def empty_result_def Let_def split: prod.splits option.splits)
  then show ?thesis by blast
qed

theorem DSC_status_rewritten_every_run_witness:
  "snd (DSC_Reconcile (\<lambda>s. s) (one_cert sample_template) sample_entropy sample_clock (\<lambda>w _ _. (Inr sample_dsc, w))
     list_secrets (\<lambda>w d. (None, issued_secret # w)) (''ns'', ''dsc'') [issued_secret]) = [issued_secret, issued_secret]"
proof -
  obtain r where r: "CertificateReconciler_Reconcile (\<lambda>s. s) (one_cert sample_template) sample_clock sample_provider
       (NewCertificateReconciler sample_dsc) [issued_secret] = (r, (empty_result, None), [issued_secret])"
      "crNotBefore r = Some (crtNotBefore (der_cert sample_template))"
    using sample_second_run by blast
  have st: "dscNotBefore (dscStatus sample_dsc) = Some \<lparr> instant = 7 * Second, location = Local \<rparr>"
    by (simp add: sample_dsc_def)
  have utc: "location (crtNotBefore (der_cert sample_template)) = UTC" by (simp add: der_cert_def der_time_def)
  show ?thesis
    using DSC_status_rewritten_every_run [OF _ st _ r utc, where manage = "\<lambda>w _ _. (Inr sample_dsc, w)"
        and w = "[issued_secret]" and req = "(''ns'', ''dsc'')" and update_status = "\<lambda>w d. (None, issued_secret # w)"]
    by simp
qed

end
