(* ===== verification/K8sPods.thy ===== *)
theory K8sPods
  imports Meta "HOL-Library.Word"
begin

text \<open>
  The Kubernetes pod types that the container generator, the sidecar injector and the operator
  fill in, as records of the fields they use. A handler that is not an HTTP request and a
  volume that is neither a secret nor an empty directory, which only user pods have, are kept
  as opaque values. Quantities are the values of \<open>resource.Quantity\<close>; parsing them is the
  parameter \<open>quantity_ops\<close>. An \<open>int32\<close> is a \<open>32 word\<close>, an \<open>int64\<close> a
  \<open>64 word\<close>, both read as signed.
\<close>

datatype Quantity = Quantity string

type_synonym quantity_ops = "string \<Rightarrow> goerror + Quantity"

text \<open>\<open>resource.MustParse\<close>.\<close>

definition MustParse :: "quantity_ops \<Rightarrow> string \<Rightarrow> goerror + Quantity" where
  "MustParse q s = (case q s of Inl _ \<Rightarrow> Inl (Panic (''cannot parse '' @ quoted s)) | Inr v \<Rightarrow> Inr v)"

type_synonym ResourceList = "(string \<times> Quantity) list"

record ResourceRequirements =
  rqRequests :: "ResourceList option"
  rqLimits :: "ResourceList option"

definition no_resources :: ResourceRequirements where
  "no_resources = \<lparr> rqRequests = None, rqLimits = None \<rparr>"

record HTTPGetAction =
  hgPath :: string
  hgPort :: "32 word"
  hgScheme :: string

datatype Handler = HTTPGet HTTPGetAction | OtherHandler string

definition http_get :: "string \<Rightarrow> 32 word \<Rightarrow> Handler" where
  "http_get path port = HTTPGet \<lparr> hgPath = path, hgPort = port, hgScheme = ''HTTP'' \<rparr>"

record ProbeSpec =
  InitialDelaySeconds :: "32 word"
  TimeoutSeconds :: "32 word"
  PeriodSeconds :: "32 word"
  SuccessThreshold :: "32 word"
  FailureThreshold :: "32 word"

record Probe =
  prHandler :: Handler
  prSpec :: ProbeSpec

record Lifecycle =
  lcPostStart :: "Handler option"
  lcPreStop :: "Handler option"

definition pre_stop :: "Handler \<Rightarrow> Lifecycle" where
  "pre_stop h = \<lparr> lcPostStart = None, lcPreStop = Some h \<rparr>"

record ContainerPort =
  ctpName :: string
  ctpContainerPort :: "32 word"
  ctpHostPort :: "32 word"
  ctpProtocol :: string

definition tcp_port :: "string \<Rightarrow> 32 word \<Rightarrow> ContainerPort" where
  "tcp_port name port = \<lparr> ctpName = name, ctpContainerPort = port, ctpHostPort = 0, ctpProtocol = ''TCP'' \<rparr>"

record VolumeMount =
  vmName :: string
  vmReadOnly :: bool
  vmMountPath :: string

record EnvVar =
  evName :: string
  evValue :: string
  evFieldRef :: "(string \<times> string) option" \<comment> \<open>API version and field path\<close>

definition field_env :: "string \<Rightarrow> string \<Rightarrow> EnvVar" where
  "field_env name path = \<lparr> evName = name, evValue = [], evFieldRef = Some (''v1'', path) \<rparr>"

record Container =
  ctName :: string
  ctImage :: string
  ctCommand :: "string list"
  ctArgs :: "string list"
  ctEnv :: "EnvVar list"
  ctResources :: ResourceRequirements
  ctPorts :: "ContainerPort list"
  ctVolumeMounts :: "VolumeMount list"
  ctLivenessProbe :: "Probe option"
  ctReadinessProbe :: "Probe option"
  ctLifecycle :: "Lifecycle option"
  ctTerminationMessagePath :: string
  ctTerminationMessagePolicy :: string
  ctImagePullPolicy :: string

definition empty_container :: Container where
  "empty_container =
     \<lparr> ctName = [], ctImage = [], ctCommand = [], ctArgs = [], ctEnv = [], ctResources = no_resources, ctPorts = [],
       ctVolumeMounts = [], ctLivenessProbe = None, ctReadinessProbe = None, ctLifecycle = None,
       ctTerminationMessagePath = [], ctTerminationMessagePolicy = [], ctImagePullPolicy = [] \<rparr>"

datatype VolumeSource = SecretVolume string "32 word" | EmptyDir | OtherVolume string

record Volume =
  volName :: string
  volSource :: VolumeSource

record PodSpec =
  psInitContainers :: "Container list"
  psContainers :: "Container list"
  psVolumes :: "Volume list"
  psTerminationGracePeriodSeconds :: "64 word option"
  psServiceAccountName :: string
  psPriorityClassName :: string
  psAffinity :: "string option" \<comment> \<open>an opaque value that is only passed on\<close>

record Pod =
  podAnnotations :: string_map
  podSpec :: PodSpec

text \<open>\<open>fmt.Sprintf\<close> of a signed 32-bit and of a 64-bit integer with \<open>%d\<close>.\<close>

definition show32 :: "32 word \<Rightarrow> string" where "show32 w = show_int (sint w)"
definition show64 :: "64 word \<Rightarrow> string" where "show64 w = show_int (sint w)"

end
