(* ===== verification/Containers.thy ===== *)
theory Containers
  imports K8sPods EnvoyTypes
begin

text \<open>
  The Envoy container generator: the defaults (\<open>pkg/envoy/container/defaults\<close>), the image
  of the program itself (\<open>pkg/image\<close>) and the containers, init containers and volumes of an
  Envoy pod (\<open>pkg/envoy/container/generator.go\<close>). The sidecar injector and the
  \<open>EnvoyDeployment\<close> generator both go through it. The image built into the program and the
  environment variable that overrides it are the parameter \<open>image_env\<close>.
\<close>

section \<open>Defaults\<close>

definition DrainStrategyGradual :: string where "DrainStrategyGradual = ''gradual''"
definition DrainStrategyImmediate :: string where "DrainStrategyImmediate = ''immediate''"

definition EnvoyRelease :: string where "EnvoyRelease = ''v1.29.0''"
definition ImageRepo :: string where "ImageRepo = ''envoyproxy/envoy''"
definition Image :: string where "Image = ImageRepo @ '':'' @ EnvoyRelease"
definition EnvoyConfigBasePath :: string where "EnvoyConfigBasePath = ''/etc/envoy/bootstrap''"
definition EnvoyConfigFileName :: string where "EnvoyConfigFileName = ''config.json''"
definition EnvoyExtraArgs :: string where "EnvoyExtraArgs = []"
definition EnvoyTLSBasePath :: string where "EnvoyTLSBasePath = ''/etc/envoy/tls/client''"
definition EnvoyAPIVersion :: string where "EnvoyAPIVersion = APIv3"
definition TlsCertificateSdsSecretFileName :: string where
  "TlsCertificateSdsSecretFileName = ''tls_certificate_sds_secret.json''"
definition EnvoyAdminPort :: "32 word" where "EnvoyAdminPort = 9901"
definition EnvoyAdminBindAddress :: string where "EnvoyAdminBindAddress = ''0.0.0.0''"
definition EnvoyAdminAccessLogPath :: string where "EnvoyAdminAccessLogPath = ''/dev/null''"
definition GracefulShutdownTimeoutSeconds :: "64 word" where "GracefulShutdownTimeoutSeconds = 300"
definition GracefulShutdownStrategy :: string where "GracefulShutdownStrategy = DrainStrategyGradual"

definition defaultLivenessProbe :: ProbeSpec where
  "defaultLivenessProbe =
     \<lparr> InitialDelaySeconds = 30, TimeoutSeconds = 1, PeriodSeconds = 10, SuccessThreshold = 1, FailureThreshold = 10 \<rparr>"

definition defaultReadinessProbe :: ProbeSpec where
  "defaultReadinessProbe =
     \<lparr> InitialDelaySeconds = 15, TimeoutSeconds = 1, PeriodSeconds = 5, SuccessThreshold = 1, FailureThreshold = 1 \<rparr>"

definition SidecarContainerName :: string where "SidecarContainerName = ''envoy-sidecar''"
definition SidecarConfigVolume :: string where "SidecarConfigVolume = ''envoy-sidecar-bootstrap''"
definition SidecarTLSVolume :: string where "SidecarTLSVolume = ''envoy-sidecar-tls''"
definition SidecarClientCertificate :: string where "SidecarClientCertificate = ''envoy-sidecar-client-cert''"

definition DeploymentContainerName :: string where "DeploymentContainerName = ''envoy''"
definition DeploymentConfigVolume :: string where "DeploymentConfigVolume = ''envoy-bootstrap''"
definition DeploymentTLSVolume :: string where "DeploymentTLSVolume = ''envoy-tls''"
definition DeploymentClientCertificate :: string where "DeploymentClientCertificate = ''envoy-client-cert''"

definition InitMgrRtdsLayerResourceName :: string where "InitMgrRtdsLayerResourceName = ''runtime''"

definition ShtdnMgrDefaultServerPort :: "32 word" where "ShtdnMgrDefaultServerPort = 8090"
definition ShtdnMgrDefaultReadyFile :: string where "ShtdnMgrDefaultReadyFile = ''/tmp/shutdown-ok''"
definition ShtdnMgrDefaultReadyCheckInterval :: int where "ShtdnMgrDefaultReadyCheckInterval = 1"
definition ShtdnMgrDefaultDrainCheckInterval :: int where "ShtdnMgrDefaultDrainCheckInterval = 5"
definition ShtdnMgrDefaultStartDrainDelay :: int where "ShtdnMgrDefaultStartDrainDelay = 0"
definition ShtdnMgrDefaultCheckDrainDelay :: int where "ShtdnMgrDefaultCheckDrainDelay = 15"
definition ShtdnMgrDefaultMinOpenConnections :: int where "ShtdnMgrDefaultMinOpenConnections = 0"
definition ShtdnMgrDefaultMemoryRequests :: string where "ShtdnMgrDefaultMemoryRequests = ''25Mi''"
definition ShtdnMgrDefaultMemoryLimits :: string where "ShtdnMgrDefaultMemoryLimits = ''50Mi''"
definition ShtdnMgrDefaultCPURequests :: string where "ShtdnMgrDefaultCPURequests = ''5m''"
definition ShtdnMgrDefaultCPULimits :: string where "ShtdnMgrDefaultCPULimits = ''50m''"

record image_env =
  builtImage :: string
  MARIN3R_IMAGE :: "string option"

definition image_Current :: "image_env \<Rightarrow> string" where
  "image_Current i =
     (case MARIN3R_IMAGE i of
        Some imageOverride \<Rightarrow> if builtImage i \<noteq> [] then imageOverride else builtImage i
      | None \<Rightarrow> builtImage i)"

definition ShtdnMgrImage :: "image_env \<Rightarrow> string" where "ShtdnMgrImage i = image_Current i"
definition InitMgrImage :: "image_env \<Rightarrow> string" where "InitMgrImage i = image_Current i"

section \<open>The generator\<close>

definition ShutdownEndpoint :: string where "ShutdownEndpoint = ''/shutdown''"
definition DrainEndpoint :: string where "DrainEndpoint = ''/drain''"
definition HealthEndpoint :: string where "HealthEndpoint = ''/healthz''"

record ContainerConfig =
  ccName :: string
  ccImage :: string
  ccConfigBasePath :: string
  ccConfigFileName :: string
  ccConfigVolume :: string
  ccTLSBasePath :: string
  ccTLSVolume :: string
  ccNodeID :: string
  ccClusterID :: string
  ccClientCertSecret :: string
  ccExtraArgs :: "string list"
  ccResources :: ResourceRequirements
  ccAdminBindAddress :: string
  ccAdminPort :: "32 word"
  ccAdminAccessLogPath :: string
  ccPorts :: "ContainerPort list"
  ccLivenessProbe :: ProbeSpec
  ccReadinessProbe :: ProbeSpec
  ccInitManagerImage :: string
  ccXdssHost :: string
  ccXdssPort :: int
  ccAPIVersion :: string
  ccShutdownManagerEnabled :: bool
  ccShutdownManagerPort :: "32 word"
  ccShutdownManagerImage :: string
  ccShutdownManagerDrainSeconds :: "64 word"
  ccShutdownManagerDrainStrategy :: string

definition envoy_args :: "ContainerConfig \<Rightarrow> string list" where
  "envoy_args cc =
     [''-c'', ccConfigBasePath cc @ ''/'' @ ccConfigFileName cc, ''--service-node'', ccNodeID cc,
      ''--service-cluster'', ccClusterID cc]
     @ (if ccShutdownManagerEnabled cc then
          [''--drain-time-s'', show64 (ccShutdownManagerDrainSeconds cc),
           ''--drain-strategy'', ccShutdownManagerDrainStrategy cc] else [])
     @ (if ccExtraArgs cc \<noteq> [] then ccExtraArgs cc else [])"

definition default_container :: Container where
  "default_container = empty_container\<lparr> ctTerminationMessagePath := ''/dev/termination-log'',
     ctTerminationMessagePolicy := ''File'', ctImagePullPolicy := ''IfNotPresent'' \<rparr>"

definition envoy_container :: "ContainerConfig \<Rightarrow> Container" where
  "envoy_container cc = default_container\<lparr>
     ctName := ccName cc, ctImage := ccImage cc, ctCommand := [''envoy''], ctArgs := envoy_args cc,
     ctResources := ccResources cc, ctPorts := ccPorts cc @ [tcp_port ''admin'' (ccAdminPort cc)],
     ctVolumeMounts := [\<lparr> vmName = ccTLSVolume cc, vmReadOnly = True, vmMountPath = ccTLSBasePath cc \<rparr>,
                        \<lparr> vmName = ccConfigVolume cc, vmReadOnly = True, vmMountPath = ccConfigBasePath cc \<rparr>],
     ctLivenessProbe := Some \<lparr> prHandler = http_get ''/ready'' (ccAdminPort cc), prSpec = ccLivenessProbe cc \<rparr>,
     ctReadinessProbe := Some \<lparr> prHandler = http_get ''/ready'' (ccAdminPort cc), prSpec = ccReadinessProbe cc \<rparr> \<rparr>"

text \<open>The resources of the shutdown manager are parsed with \<open>MustParse\<close>, in the order of the
  source.\<close>

definition shutdown_manager_resources :: "quantity_ops \<Rightarrow> goerror + ResourceRequirements" where
  "shutdown_manager_resources q =
     (case MustParse q ShtdnMgrDefaultCPURequests of Inl p \<Rightarrow> Inl p | Inr cpuR \<Rightarrow>
     (case MustParse q ShtdnMgrDefaultMemoryRequests of Inl p \<Rightarrow> Inl p | Inr memR \<Rightarrow>
     (case MustParse q ShtdnMgrDefaultCPULimits of Inl p \<Rightarrow> Inl p | Inr cpuL \<Rightarrow>
     (case MustParse q ShtdnMgrDefaultMemoryLimits of Inl p \<Rightarrow> Inl p | Inr memL \<Rightarrow>
        Inr \<lparr> rqRequests = Some [(''cpu'', cpuR), (''memory'', memR)],
              rqLimits = Some [(''cpu'', cpuL), (''memory'', memL)] \<rparr>))))"

definition shutdown_manager_container :: "ContainerConfig \<Rightarrow> ResourceRequirements \<Rightarrow> Container" where
  "shutdown_manager_container cc resources = default_container\<lparr>
     ctName := ''envoy-shtdn-mgr'', ctImage := ccShutdownManagerImage cc,
     ctArgs := [''shutdown-manager'', ''--port'', show32 (ccShutdownManagerPort cc)],
     ctResources := resources,
     ctLivenessProbe := Some \<lparr> prHandler = http_get HealthEndpoint (ccShutdownManagerPort cc),
        prSpec = \<lparr> InitialDelaySeconds = 3, TimeoutSeconds = 1, PeriodSeconds = 10, SuccessThreshold = 1, FailureThreshold = 3 \<rparr> \<rparr>,
     ctLifecycle := Some (pre_stop (http_get DrainEndpoint (ccShutdownManagerPort cc))) \<rparr>"

definition cc_Containers :: "quantity_ops \<Rightarrow> ContainerConfig \<Rightarrow> goerror + Container list" where
  "cc_Containers q cc =
     (if ccShutdownManagerEnabled cc then
        (case shutdown_manager_resources q of
           Inl p \<Rightarrow> Inl p
         | Inr resources \<Rightarrow>
             Inr [(envoy_container cc)\<lparr> ctLifecycle := Some (pre_stop (http_get ShutdownEndpoint (ccShutdownManagerPort cc))) \<rparr>,
                  shutdown_manager_container cc resources])
      else Inr [envoy_container cc])"

definition cc_InitContainers :: "ContainerConfig \<Rightarrow> Container list" where
  "cc_InitContainers cc = [default_container\<lparr>
     ctName := ''envoy-init-mgr'', ctImage := ccInitManagerImage cc,
     ctEnv := [field_env ''POD_NAME'' ''metadata.name'', field_env ''POD_NAMESPACE'' ''metadata.namespace'',
               field_env ''HOST_NAME'' ''spec.nodeName''],
     ctArgs := [''init-manager'',
       ''--admin-access-log-path'', ccAdminAccessLogPath cc,
       ''--admin-bind-address'', ccAdminBindAddress cc @ '':'' @ show32 (ccAdminPort cc),
       ''--api-version'', ccAPIVersion cc,
       ''--client-certificate-path'', ccTLSBasePath cc,
       ''--config-file'', ccConfigBasePath cc @ ''/'' @ ccConfigFileName cc,
       ''--resources-path'', ccConfigBasePath cc,
       ''--rtds-resource-name'', InitMgrRtdsLayerResourceName,
       ''--xdss-host'', ccXdssHost cc,
       ''--xdss-port'', show_int (ccXdssPort cc),
       ''--envoy-image'', ccImage cc],
     ctVolumeMounts := [\<lparr> vmName = ccConfigVolume cc, vmReadOnly = False, vmMountPath = ccConfigBasePath cc \<rparr>] \<rparr>]"

definition cc_Volumes :: "ContainerConfig \<Rightarrow> Volume list" where
  "cc_Volumes cc =
     [\<lparr> volName = ccTLSVolume cc, volSource = SecretVolume (ccClientCertSecret cc) 420 \<rparr>,
      \<lparr> volName = ccConfigVolume cc, volSource = EmptyDir \<rparr>]"

section \<open>Well-formed pods\<close>

text \<open>Every volume mount of a container names a volume of the pod.\<close>

definition mounts_ok :: "Volume list \<Rightarrow> Container \<Rightarrow> bool" where
  "mounts_ok vs c = list_all (\<lambda>m. vmName m \<in> volName ` set vs) (ctVolumeMounts c)"

definition defaults_parse :: "quantity_ops \<Rightarrow> bool" where
  "defaults_parse q = list_all (\<lambda>s. \<not> is_error (q s))
     [ShtdnMgrDefaultCPURequests, ShtdnMgrDefaultMemoryRequests, ShtdnMgrDefaultCPULimits, ShtdnMgrDefaultMemoryLimits]"

lemma MustParse_ok: "\<not> is_error (q s) \<Longrightarrow> \<exists>v. MustParse q s = Inr v"
  by (auto simp: MustParse_def not_is_error_iff)

lemma shutdown_manager_resources_ok: "defaults_parse q \<Longrightarrow> \<exists>r. shutdown_manager_resources q = Inr r"
  by (auto simp: defaults_parse_def shutdown_manager_resources_def dest!: MustParse_ok)

lemma cc_Containers_ok:
  assumes "ccShutdownManagerEnabled cc \<longrightarrow> defaults_parse q"
  shows "\<exists>c cs. cc_Containers q cc = Inr (c # cs) \<and> ctName c = ccName cc \<and>
    list_all (mounts_ok (cc_Volumes cc)) (c # cs) \<and>
    map ctName cs = (if ccShutdownManagerEnabled cc then [''envoy-shtdn-mgr''] else [])"
proof (cases "ccShutdownManagerEnabled cc")
  case True
  with assms obtain r where "shutdown_manager_resources q = Inr r" using shutdown_manager_resources_ok by blast
  with True show ?thesis
    by (simp add: cc_Containers_def mounts_ok_def cc_Volumes_def envoy_container_def shutdown_manager_container_def
        default_container_def empty_container_def)
qed (simp add: cc_Containers_def mounts_ok_def cc_Volumes_def envoy_container_def default_container_def)

lemma cc_InitContainers_mounts: "list_all (mounts_ok (cc_Volumes cc)) (cc_InitContainers cc)"
  by (simp add: cc_InitContainers_def mounts_ok_def cc_Volumes_def)

end
