(* ===== verification/OperatorTypes.thy ===== *)
theory OperatorTypes
  imports Containers Certificates
begin

text \<open>
  The API types of the operator, \<open>DiscoveryService\<close> and \<open>EnvoyDeployment\<close>
  (\<open>apis/operator.marin3r/v1alpha1\<close>), with their accessors and the validating webhook of
  \<open>EnvoyDeployment\<close>. Durations are nanoseconds. Values that the operator only passes on
  (affinity, autoscaler metrics and behaviour, deployment statuses) are opaque texts.
\<close>

section \<open>DiscoveryService\<close>

definition DiscoveryServiceCertificateHashLabelKey :: string where
  "DiscoveryServiceCertificateHashLabelKey = ''marin3r.3scale.net/server-certificate-hash''"
definition DefaultMetricsPort :: "32 word" where "DefaultMetricsPort = 8383"
definition DefaultProbePort :: "32 word" where "DefaultProbePort = 8384"
definition DefaultXdsServerPort :: "32 word" where "DefaultXdsServerPort = 18000"
definition DefaultRootCertificateSecretNamePrefix :: string where
  "DefaultRootCertificateSecretNamePrefix = ''marin3r-ca-cert''"
definition DefaultServerCertificateSecretNamePrefix :: string where
  "DefaultServerCertificateSecretNamePrefix = ''marin3r-server-cert''"

definition Hour :: int where "Hour = 3600 * Second"

datatype ServiceType = ClusterIPType | LoadBalancerType | HeadlessType

record ServiceConfig =
  scName :: string
  scType :: ServiceType

record CertificateOptions =
  coSecretName :: string
  coDuration :: int

record PKIConfig =
  RootCertificateAuthority :: "CertificateOptions option"
  pkiServerCertificate :: "CertificateOptions option"

record DiscoveryServiceSpec =
  dsImage :: "string option"
  dsDebug :: "bool option"
  dsResources :: "ResourceRequirements option"
  dsPKIConfig :: "PKIConfig option"
  dsXdsServerPort :: "32 word option"
  dsMetricsPort :: "32 word option"
  dsProbePort :: "32 word option"
  dsServiceConfig :: "ServiceConfig option"
  dsPodPriorityClass :: "string option"

record DiscoveryServiceStatus =
  dssDeploymentName :: "string option"
  dssDeploymentStatus :: "string option"

record DiscoveryService =
  dsMeta :: ObjectMeta
  dsSpec :: DiscoveryServiceSpec
  dsStatus :: DiscoveryServiceStatus

definition DS_GetDeploymentStatus :: "DiscoveryServiceStatus \<Rightarrow> NamespacedName \<Rightarrow> string option" where
  "DS_GetDeploymentStatus dss key = dssDeploymentStatus dss"

definition DS_SetDeploymentStatus ::
    "DiscoveryServiceStatus \<Rightarrow> NamespacedName \<Rightarrow> string option \<Rightarrow> DiscoveryServiceStatus" where
  "DS_SetDeploymentStatus dss key s = dss\<lparr> dssDeploymentStatus := s \<rparr>"

definition DS_Resources :: "DiscoveryService \<Rightarrow> ResourceRequirements" where
  "DS_Resources d = (case dsResources (dsSpec d) of None \<Rightarrow> no_resources | Some r \<Rightarrow> r)"

definition DS_GetImage :: "image_env \<Rightarrow> DiscoveryService \<Rightarrow> string" where
  "DS_GetImage i d = (case dsImage (dsSpec d) of None \<Rightarrow> image_Current i | Some s \<Rightarrow> s)"

definition DS_Debug :: "DiscoveryService \<Rightarrow> bool" where
  "DS_Debug d = (case dsDebug (dsSpec d) of None \<Rightarrow> False | Some b \<Rightarrow> b)"

definition defaultRootCertificateAuthorityOptions :: "DiscoveryService \<Rightarrow> CertificateOptions" where
  "defaultRootCertificateAuthorityOptions d =
     \<lparr> coSecretName = DefaultRootCertificateSecretNamePrefix @ ''-'' @ Name (dsMeta d), coDuration = 26280 * Hour \<rparr>"

definition GetRootCertificateAuthorityOptions :: "DiscoveryService \<Rightarrow> CertificateOptions" where
  "GetRootCertificateAuthorityOptions d =
     (case dsPKIConfig (dsSpec d) of
        None \<Rightarrow> defaultRootCertificateAuthorityOptions d
      | Some pki \<Rightarrow>
          (case RootCertificateAuthority pki of
             None \<Rightarrow> defaultRootCertificateAuthorityOptions d
           | Some opts \<Rightarrow> opts))"

definition defaultServerCertificateOptions :: "DiscoveryService \<Rightarrow> CertificateOptions" where
  "defaultServerCertificateOptions d =
     \<lparr> coSecretName = DefaultServerCertificateSecretNamePrefix @ ''-'' @ Name (dsMeta d), coDuration = 2160 * Hour \<rparr>"

definition GetServerCertificateOptions :: "DiscoveryService \<Rightarrow> CertificateOptions" where
  "GetServerCertificateOptions d =
     (case dsPKIConfig (dsSpec d) of
        None \<Rightarrow> defaultServerCertificateOptions d
      | Some pki \<Rightarrow>
          (case pkiServerCertificate pki of
             None \<Rightarrow> defaultServerCertificateOptions d
           | Some opts \<Rightarrow> opts))"

definition GetXdsServerPort :: "DiscoveryService \<Rightarrow> 32 word" where
  "GetXdsServerPort d = (case dsXdsServerPort (dsSpec d) of Some p \<Rightarrow> p | None \<Rightarrow> DefaultXdsServerPort)"

definition GetMetricsPort :: "DiscoveryService \<Rightarrow> 32 word" where
  "GetMetricsPort d = (case dsMetricsPort (dsSpec d) of Some p \<Rightarrow> p | None \<Rightarrow> DefaultMetricsPort)"

definition GetProbePort :: "DiscoveryService \<Rightarrow> 32 word" where
  "GetProbePort d = (case dsProbePort (dsSpec d) of Some p \<Rightarrow> p | None \<Rightarrow> DefaultProbePort)"

definition OwnedObjectName :: "DiscoveryService \<Rightarrow> string" where
  "OwnedObjectName d = ''marin3r-'' @ Name (dsMeta d)"

definition defaultServiceConfig :: "DiscoveryService \<Rightarrow> ServiceConfig" where
  "defaultServiceConfig d = \<lparr> scName = OwnedObjectName d, scType = ClusterIPType \<rparr>"

definition GetServiceConfig :: "DiscoveryService \<Rightarrow> ServiceConfig" where
  "GetServiceConfig d = (case dsServiceConfig (dsSpec d) of Some c \<Rightarrow> c | None \<Rightarrow> defaultServiceConfig d)"

definition GetPriorityClass :: "DiscoveryService \<Rightarrow> string option" where
  "GetPriorityClass d = dsPodPriorityClass (dsSpec d)"

section \<open>EnvoyDeployment\<close>

datatype IntOrString = IntVal "32 word" | StrVal string

record DynamicReplicasSpec =
  MinReplicas :: "32 word option"
  MaxReplicas :: "32 word"
  hpaMetrics :: "string list"
  hpaBehavior :: "string option"

record ReplicasSpec =
  Static :: "32 word option"
  Dynamic :: "DynamicReplicasSpec option"

definition ReplicasSpec_Validate :: "ReplicasSpec \<Rightarrow> goerror option" where
  "ReplicasSpec_Validate rs =
     (if Static rs \<noteq> None \<and> Dynamic rs \<noteq> None then
        Some (PlainError (''only one of '' @ quoted ''spec.replicas.static'' @ '' or ''
                @ quoted ''spec.replicas.dynamic'' @ '' is allowed''))
      else None)"

record PodDisruptionBudgetSpec =
  MinAvailable :: "IntOrString option"
  MaxUnavailable :: "IntOrString option"

definition defaultPodDisruptionBudget :: PodDisruptionBudgetSpec where
  "defaultPodDisruptionBudget = \<lparr> MinAvailable = None, MaxUnavailable = None \<rparr>"

definition PodDisruptionBudgetSpec_Validate :: "PodDisruptionBudgetSpec \<Rightarrow> goerror option" where
  "PodDisruptionBudgetSpec_Validate pdbs =
     (if MinAvailable pdbs \<noteq> None \<and> MaxUnavailable pdbs \<noteq> None then
        Some (PlainError (''only one of '' @ quoted ''spec.podDisruptionBudget.minAvailable'' @ '' or ''
                @ quoted ''spec.podDisruptionBudget.maxUnavailable'' @ '' is allowed''))
      else None)"

record ExposedPort =
  xpName :: string
  xpPort :: "32 word"
  xpProtocol :: "string option"

record ShutdownManager =
  smImage :: "string option"
  smServerPort :: "32 word option"
  smDrainTime :: "64 word option"
  smDrainStrategy :: "string option"

definition GetDrainTime :: "ShutdownManager \<Rightarrow> 64 word" where
  "GetDrainTime sm = (case smDrainTime sm of Some t \<Rightarrow> t | None \<Rightarrow> GracefulShutdownTimeoutSeconds)"

definition GetDrainStrategy :: "ShutdownManager \<Rightarrow> string" where
  "GetDrainStrategy sm = (case smDrainStrategy sm of Some s \<Rightarrow> s | None \<Rightarrow> GracefulShutdownStrategy)"

definition SM_GetImage :: "image_env \<Rightarrow> ShutdownManager \<Rightarrow> string" where
  "SM_GetImage i sm = (case smImage sm of Some s \<Rightarrow> s | None \<Rightarrow> ShtdnMgrImage i)"

definition GetServer :: "ShutdownManager \<Rightarrow> 32 word" where
  "GetServer sm = (case smServerPort sm of Some p \<Rightarrow> p | None \<Rightarrow> ShtdnMgrDefaultServerPort)"

record InitManager =
  imImage :: "string option"

definition IM_GetImage :: "image_env \<Rightarrow> InitManager \<Rightarrow> string" where
  "IM_GetImage i im = (case imImage im of Some s \<Rightarrow> s | None \<Rightarrow> InitMgrImage i)"

record EnvoyDeploymentSpec =
  edEnvoyConfigRef :: string
  edDiscoveryServiceRef :: string
  edClusterID :: "string option"
  edPorts :: "ExposedPort list"
  edImage :: "string option"
  edResources :: "ResourceRequirements option"
  edClientCertificateDuration :: "int option"
  edExtraArgs :: "string list"
  edAdminPort :: "32 word option"
  edAdminAccessLogPath :: "string option"
  edReplicas :: "ReplicasSpec option"
  edLivenessProbe :: "ProbeSpec option"
  edReadinessProbe :: "ProbeSpec option"
  edAffinity :: "string option"
  edPodDisruptionBudget :: "PodDisruptionBudgetSpec option"
  edShutdownManager :: "ShutdownManager option"
  edInitManager :: "InitManager option"

record EnvoyDeploymentStatus =
  edsDeploymentName :: "string option"
  edsDeploymentStatus :: "string option"

record EnvoyDeployment =
  edMeta :: ObjectMeta
  edSpec :: EnvoyDeploymentSpec
  edStatus :: EnvoyDeploymentStatus

definition ED_GetDeploymentStatus :: "EnvoyDeploymentStatus \<Rightarrow> NamespacedName \<Rightarrow> string option" where
  "ED_GetDeploymentStatus eds key = edsDeploymentStatus eds"

definition ED_SetDeploymentStatus ::
    "EnvoyDeploymentStatus \<Rightarrow> NamespacedName \<Rightarrow> string option \<Rightarrow> EnvoyDeploymentStatus" where
  "ED_SetDeploymentStatus eds key s = eds\<lparr> edsDeploymentStatus := s \<rparr>"

definition ED_Image :: "EnvoyDeployment \<Rightarrow> string" where
  "ED_Image ed = (case edImage (edSpec ed) of None \<Rightarrow> Image | Some s \<Rightarrow> s)"

definition ED_Resources :: "EnvoyDeployment \<Rightarrow> ResourceRequirements" where
  "ED_Resources ed = (case edResources (edSpec ed) of None \<Rightarrow> no_resources | Some r \<Rightarrow> r)"

definition ED_ClientCertificateDuration :: "EnvoyDeployment \<Rightarrow> int" where
  "ED_ClientCertificateDuration ed =
     (case edClientCertificateDuration (edSpec ed) of None \<Rightarrow> 48 * Hour | Some d \<Rightarrow> d)"

definition ED_AdminPort :: "EnvoyDeployment \<Rightarrow> 32 word" where
  "ED_AdminPort ed = (case edAdminPort (edSpec ed) of None \<Rightarrow> EnvoyAdminPort | Some p \<Rightarrow> p)"

definition ED_AdminAccessLogPath :: "EnvoyDeployment \<Rightarrow> string" where
  "ED_AdminAccessLogPath ed =
     (case edAdminAccessLogPath (edSpec ed) of None \<Rightarrow> EnvoyAdminAccessLogPath | Some p \<Rightarrow> p)"

definition DefaultReplicas :: "32 word" where "DefaultReplicas = 1"

definition ED_Replicas :: "EnvoyDeployment \<Rightarrow> ReplicasSpec" where
  "ED_Replicas ed =
     (case edReplicas (edSpec ed) of
        None \<Rightarrow> \<lparr> Static = Some DefaultReplicas, Dynamic = None \<rparr>
      | Some rs \<Rightarrow>
          (if Static rs \<noteq> None then \<lparr> Static = Static rs, Dynamic = None \<rparr>
           else \<lparr> Static = None, Dynamic = Dynamic rs \<rparr>))"

definition ED_LivenessProbe :: "EnvoyDeployment \<Rightarrow> ProbeSpec" where
  "ED_LivenessProbe ed = (case edLivenessProbe (edSpec ed) of None \<Rightarrow> defaultLivenessProbe | Some p \<Rightarrow> p)"

definition ED_ReadinessProbe :: "EnvoyDeployment \<Rightarrow> ProbeSpec" where
  "ED_ReadinessProbe ed = (case edReadinessProbe (edSpec ed) of None \<Rightarrow> defaultReadinessProbe | Some p \<Rightarrow> p)"

definition ED_Affinity :: "EnvoyDeployment \<Rightarrow> string option" where
  "ED_Affinity ed = edAffinity (edSpec ed)"

definition ED_PodDisruptionBudget :: "EnvoyDeployment \<Rightarrow> PodDisruptionBudgetSpec" where
  "ED_PodDisruptionBudget ed =
     (case edPodDisruptionBudget (edSpec ed) of None \<Rightarrow> defaultPodDisruptionBudget | Some b \<Rightarrow> b)"

section \<open>Webhook\<close>

definition ED_Validate :: "EnvoyDeployment \<Rightarrow> goerror option" where
  "ED_Validate r =
     (case (case edReplicas (edSpec r) of None \<Rightarrow> None | Some rs \<Rightarrow> ReplicasSpec_Validate rs) of
        Some err \<Rightarrow> Some err
      | None \<Rightarrow> (case edPodDisruptionBudget (edSpec r) of None \<Rightarrow> None | Some b \<Rightarrow> PodDisruptionBudgetSpec_Validate b))"

definition ED_ValidateCreate :: "EnvoyDeployment \<Rightarrow> goerror option" where "ED_ValidateCreate r = ED_Validate r"
definition ED_ValidateUpdate :: "EnvoyDeployment \<Rightarrow> EnvoyDeployment \<Rightarrow> goerror option" where
  "ED_ValidateUpdate r old = ED_Validate r"
definition ED_ValidateDelete :: "EnvoyDeployment \<Rightarrow> goerror option" where "ED_ValidateDelete r = None"

section \<open>Lemmas\<close>

lemma Static_xor_Dynamic: "\<not> (Static (ED_Replicas ed) \<noteq> None \<and> Dynamic (ED_Replicas ed) \<noteq> None)"
  by (simp add: ED_Replicas_def split: option.split)

end
