(* ===== verification/OperatorGenerators.thy ===== *)
theory OperatorGenerators
  imports OperatorTypes
begin

text \<open>
  The objects the operator generates: for a \<open>DiscoveryService\<close> the certificates, the
  service account with its role, the service and the deployment
  (\<open>pkg/reconcilers/operator/discoveryservice/generators\<close>), for an \<open>EnvoyDeployment\<close>
  the client certificate, the deployment, the autoscaler and the disruption budget
  (\<open>pkg/reconcilers/operator/envoydeployment/generators\<close>). Each generator is a function of
  the options the controller fills in.
\<close>

section \<open>Generated objects\<close>

datatype DeploymentStrategy = Recreate | RollingUpdate IntOrString IntOrString
  \<comment> \<open>maximum unavailable and maximum surge\<close>

record Deployment =
  depMeta :: ObjectMeta
  depReplicas :: "32 word option"
  depSelector :: string_map
  depTemplateLabels :: string_map
  depPodSpec :: PodSpec
  depStrategy :: DeploymentStrategy

record ServicePort =
  spName :: string
  spPort :: "32 word"
  spProtocol :: string
  spTargetPort :: IntOrString

record Service =
  svcMeta :: ObjectMeta
  svcType :: string
  svcClusterIP :: string
  svcSelector :: string_map
  svcSessionAffinity :: string
  svcPorts :: "ServicePort list"

record PolicyRule =
  APIGroups :: "string list"
  ruleResources :: "string list"
  Verbs :: "string list"

record Role =
  roleMeta :: ObjectMeta
  Rules :: "PolicyRule list"

record RoleBinding =
  rbMeta :: ObjectMeta
  RoleRef :: "string \<times> string \<times> string" \<comment> \<open>API group, kind, name\<close>
  Subjects :: "(string \<times> string \<times> string) list" \<comment> \<open>kind, name, namespace\<close>

record HPA =
  hpaMeta :: ObjectMeta
  ScaleTargetRef :: "string \<times> string \<times> string" \<comment> \<open>API version, kind, name\<close>
  hpaSpec :: DynamicReplicasSpec

record PDB =
  pdbMeta :: ObjectMeta
  pdbSelector :: string_map
  pdbSpec :: PodDisruptionBudgetSpec

definition object_meta :: "string \<Rightarrow> string \<Rightarrow> string_map \<Rightarrow> ObjectMeta" where
  "object_meta name namespace labels = empty_meta\<lparr> Name := name, Namespace := namespace, Labels := labels \<rparr>"

text \<open>The certificate resources have no status and leave the fields they do not set at their
  zero values.\<close>

definition certificate_resource :: "ObjectMeta \<Rightarrow> string \<Rightarrow> 64 word \<Rightarrow> DiscoveryServiceCertificateSigner
    \<Rightarrow> SecretReference \<Rightarrow> DiscoveryServiceCertificate" where
  "certificate_resource meta commonName validFor signer secretRef =
     \<lparr> dscMeta = meta,
       dscSpec = \<lparr> dscCommonName = commonName, dscIsServerCertificate = None, dscIsCA = None, dscValidFor = validFor,
                   dscHosts = None, dscSigner = signer, dscSecretRef = secretRef, dscRenewal = None \<rparr>,
       dscStatus = \<lparr> dscReady = None, dscNotBefore = None, dscNotAfter = None, dscCertificateHash = None,
                     dscConditions = None \<rparr> \<rparr>"

definition ca_signed :: "string \<Rightarrow> string \<Rightarrow> DiscoveryServiceCertificateSigner" where
  "ca_signed name namespace =
     \<lparr> SelfSigned = None, CASigned = Some \<lparr> casSecretRef = \<lparr> srName = name, srNamespace = namespace \<rparr> \<rparr> \<rparr>"

definition valid_for :: "int \<Rightarrow> 64 word" where
  "valid_for duration = word_of_int (Seconds_int64 duration)"

section \<open>EnvoyDeployment generators\<close>

record ED_GeneratorOptions =
  egInstanceName :: string
  egNamespace :: string
  egDiscoveryServiceName :: string
  egXdssAdress :: string
  egXdssPort :: int
  egEnvoyAPIVersion :: APIVersion
  egEnvoyNodeID :: string
  egEnvoyClusterID :: string
  egClientCertificateName :: string
  egClientCertificateDuration :: int
  egSigningCertificateName :: string
  egDeploymentImage :: string
  egDeploymentResources :: ResourceRequirements
  egExposedPorts :: "ExposedPort list"
  egExtraArgs :: "string list"
  egAdminPort :: "32 word"
  egAdminAccessLogPath :: string
  egReplicas :: ReplicasSpec
  egLivenessProbe :: ProbeSpec
  egReadinessProbe :: ProbeSpec
  egAffinity :: "string option"
  egPodDisruptionBudget :: PodDisruptionBudgetSpec
  egShutdownManager :: "ShutdownManager option"
  egInitManager :: "InitManager option"

definition ED_labels :: "ED_GeneratorOptions \<Rightarrow> string_map" where
  "ED_labels cfg =
     [(''app.kubernetes.io/name'', ''marin3r''), (''app.kubernetes.io/managed-by'', ''marin3r-operator''),
      (''app.kubernetes.io/component'', ''envoy-deployment''), (''app.kubernetes.io/instance'', egInstanceName cfg)]"

definition ED_resourceName :: "ED_GeneratorOptions \<Rightarrow> string" where
  "ED_resourceName cfg = ''marin3r-envoydeployment-'' @ egInstanceName cfg"

definition ED_OwnedResourceKey :: "ED_GeneratorOptions \<Rightarrow> NamespacedName" where
  "ED_OwnedResourceKey cfg = (egNamespace cfg, ED_resourceName cfg)"

definition ED_meta :: "ED_GeneratorOptions \<Rightarrow> ObjectMeta" where
  "ED_meta cfg = object_meta (ED_resourceName cfg) (egNamespace cfg) (ED_labels cfg)"

definition ED_ClientCertificate :: "ED_GeneratorOptions \<Rightarrow> DiscoveryServiceCertificate" where
  "ED_ClientCertificate cfg =
     certificate_resource (object_meta (egClientCertificateName cfg) (egNamespace cfg) (ED_labels cfg))
       (egClientCertificateName cfg) (valid_for (egClientCertificateDuration cfg))
       (ca_signed (egSigningCertificateName cfg) (egNamespace cfg))
       \<lparr> srName = egClientCertificateName cfg, srNamespace = [] \<rparr>"

definition exposed_ports :: "ExposedPort list \<Rightarrow> ContainerPort list" where
  "exposed_ports ports =
     map (\<lambda>p. \<lparr> ctpName = xpName p, ctpContainerPort = xpPort p, ctpHostPort = 0,
                ctpProtocol = (case xpProtocol p of Some pr \<Rightarrow> pr | None \<Rightarrow> []) \<rparr>) ports"

definition ED_container_config :: "image_env \<Rightarrow> ED_GeneratorOptions \<Rightarrow> ContainerConfig" where
  "ED_container_config i cfg =
     \<lparr> ccName = DeploymentContainerName, ccImage = egDeploymentImage cfg, ccConfigBasePath = EnvoyConfigBasePath,
       ccConfigFileName = EnvoyConfigFileName, ccConfigVolume = DeploymentConfigVolume, ccTLSBasePath = EnvoyTLSBasePath,
       ccTLSVolume = DeploymentTLSVolume, ccNodeID = egEnvoyNodeID cfg, ccClusterID = egEnvoyClusterID cfg,
       ccClientCertSecret = Join [DeploymentClientCertificate, egInstanceName cfg] ''-'',
       ccExtraArgs = egExtraArgs cfg, ccResources = egDeploymentResources cfg,
       ccAdminBindAddress = EnvoyAdminBindAddress, ccAdminPort = egAdminPort cfg,
       ccAdminAccessLogPath = egAdminAccessLogPath cfg, ccPorts = exposed_ports (egExposedPorts cfg),
       ccLivenessProbe = egLivenessProbe cfg, ccReadinessProbe = egReadinessProbe cfg,
       ccInitManagerImage = (case egInitManager cfg of Some im \<Rightarrow> IM_GetImage i im | None \<Rightarrow> InitMgrImage i),
       ccXdssHost = egXdssAdress cfg, ccXdssPort = egXdssPort cfg,
       ccAPIVersion = APIVersion_String (egEnvoyAPIVersion cfg),
       ccShutdownManagerEnabled = (egShutdownManager cfg \<noteq> None),
       ccShutdownManagerPort = (case egShutdownManager cfg of Some _ \<Rightarrow> ShtdnMgrDefaultServerPort | None \<Rightarrow> 0),
       ccShutdownManagerImage = (case egShutdownManager cfg of Some sm \<Rightarrow> SM_GetImage i sm | None \<Rightarrow> []),
       ccShutdownManagerDrainSeconds = (case egShutdownManager cfg of Some sm \<Rightarrow> GetDrainTime sm | None \<Rightarrow> 0),
       ccShutdownManagerDrainStrategy = (case egShutdownManager cfg of Some sm \<Rightarrow> GetDrainStrategy sm | None \<Rightarrow> []) \<rparr>"

definition DefaultTerminationGracePeriodSeconds :: "64 word" where "DefaultTerminationGracePeriodSeconds = 30"

definition ED_Deployment :: "quantity_ops \<Rightarrow> image_env \<Rightarrow> ED_GeneratorOptions \<Rightarrow> goerror + Deployment" where
  "ED_Deployment q i cfg =
     (let cc = ED_container_config i cfg in
      case cc_Containers q cc of
        Inl p \<Rightarrow> Inl p
      | Inr containers \<Rightarrow>
          Inr \<lparr> depMeta = ED_meta cfg, depReplicas = Static (egReplicas cfg), depSelector = ED_labels cfg,
                depTemplateLabels = ED_labels cfg,
                depPodSpec = \<lparr> psInitContainers = cc_InitContainers cc, psContainers = containers,
                  psVolumes = cc_Volumes cc,
                  psTerminationGracePeriodSeconds =
                    Some (case egShutdownManager cfg of Some sm \<Rightarrow> GetDrainTime sm
                          | None \<Rightarrow> DefaultTerminationGracePeriodSeconds),
                  psServiceAccountName = ''default'', psPriorityClassName = [], psAffinity = egAffinity cfg \<rparr>,
                depStrategy = RollingUpdate (StrVal ''25%'') (StrVal ''25%'') \<rparr>)"

definition ED_HPA :: "ED_GeneratorOptions \<Rightarrow> HPA" where
  "ED_HPA cfg =
     (case Dynamic (egReplicas cfg) of
        None \<Rightarrow> \<lparr> hpaMeta = ED_meta cfg, ScaleTargetRef = ([], [], []),
                 hpaSpec = \<lparr> MinReplicas = None, MaxReplicas = 0, hpaMetrics = [], hpaBehavior = None \<rparr> \<rparr>
      | Some d \<Rightarrow> \<lparr> hpaMeta = ED_meta cfg, ScaleTargetRef = (''apps/v1'', ''Deployment'', ED_resourceName cfg),
                    hpaSpec = d \<rparr>)"

definition ED_PDB :: "ED_GeneratorOptions \<Rightarrow> PDB" where
  "ED_PDB cfg =
     \<lparr> pdbMeta = ED_meta cfg, pdbSelector = ED_labels cfg,
       pdbSpec = (if MinAvailable (egPodDisruptionBudget cfg) \<noteq> None
                  then \<lparr> MinAvailable = MinAvailable (egPodDisruptionBudget cfg), MaxUnavailable = None \<rparr>
                  else \<lparr> MinAvailable = None, MaxUnavailable = MaxUnavailable (egPodDisruptionBudget cfg) \<rparr>) \<rparr>"

section \<open>DiscoveryService generators\<close>

record DS_GeneratorOptions =
  dgInstanceName :: string
  dgNamespace :: string
  dgRootCertificateNamePrefix :: string
  dgRootCertificateCommonNamePrefix :: string
  dgRootCertificateDuration :: int
  dgServerCertificateNamePrefix :: string
  dgServerCertificateCommonNamePrefix :: string
  dgServerCertificateDuration :: int
  dgClientCertificateDuration :: int
  dgXdsServerPort :: "32 word"
  dgMetricsServerPort :: "32 word"
  dgProbePort :: "32 word"
  dgServiceType :: ServiceType
  dgDeploymentImage :: string
  dgDeploymentResources :: ResourceRequirements
  dgDebug :: bool
  dgPodPriorityClass :: "string option"

definition DS_labels :: "DS_GeneratorOptions \<Rightarrow> string_map" where
  "DS_labels cfg =
     [(''app.kubernetes.io/name'', ''marin3r''), (''app.kubernetes.io/managed-by'', ''marin3r-operator''),
      (''app.kubernetes.io/component'', ''discovery-service''), (''app.kubernetes.io/instance'', dgInstanceName cfg)]"

definition RootCertName :: "DS_GeneratorOptions \<Rightarrow> string" where
  "RootCertName cfg = dgRootCertificateNamePrefix cfg @ ''-'' @ dgInstanceName cfg"

definition ServerCertName :: "DS_GeneratorOptions \<Rightarrow> string" where
  "ServerCertName cfg = dgServerCertificateNamePrefix cfg @ ''-'' @ dgInstanceName cfg"

definition ClientCertName :: "DS_GeneratorOptions \<Rightarrow> string" where
  "ClientCertName cfg = SidecarClientCertificate"

definition DS_ResourceName :: "DS_GeneratorOptions \<Rightarrow> string" where
  "DS_ResourceName cfg = ''marin3r-'' @ dgInstanceName cfg"

definition DS_meta :: "DS_GeneratorOptions \<Rightarrow> string \<Rightarrow> ObjectMeta" where
  "DS_meta cfg name = object_meta name (dgNamespace cfg) (DS_labels cfg)"

definition RootCertificationAuthority :: "DS_GeneratorOptions \<Rightarrow> DiscoveryServiceCertificate" where
  "RootCertificationAuthority cfg =
     (let d = certificate_resource (DS_meta cfg (RootCertName cfg))
                (dgRootCertificateCommonNamePrefix cfg @ ''-'' @ dgInstanceName cfg) (valid_for (dgRootCertificateDuration cfg))
                \<lparr> SelfSigned = Some (), CASigned = None \<rparr> \<lparr> srName = RootCertName cfg, srNamespace = dgNamespace cfg \<rparr>
      in d\<lparr> dscSpec := (dscSpec d)\<lparr> dscIsCA := Some True, dscRenewal := Some \<lparr> crcEnabled = True \<rparr> \<rparr> \<rparr>)"

definition DS_ServerCertificate :: "DS_GeneratorOptions \<Rightarrow> DiscoveryServiceCertificate" where
  "DS_ServerCertificate cfg =
     (let d = certificate_resource (DS_meta cfg (ServerCertName cfg))
                (dgServerCertificateCommonNamePrefix cfg @ ''-'' @ dgInstanceName cfg) (valid_for (dgServerCertificateDuration cfg))
                (ca_signed (RootCertName cfg) (dgNamespace cfg)) \<lparr> srName = ServerCertName cfg, srNamespace = dgNamespace cfg \<rparr>
      in d\<lparr> dscSpec := (dscSpec d)\<lparr> dscIsServerCertificate := Some True \<rparr> \<rparr>)"

definition DS_ClientCertificate :: "DS_GeneratorOptions \<Rightarrow> DiscoveryServiceCertificate" where
  "DS_ClientCertificate cfg =
     certificate_resource (DS_meta cfg (ClientCertName cfg)) (ClientCertName cfg) (valid_for (dgClientCertificateDuration cfg))
       (ca_signed (RootCertName cfg) (dgNamespace cfg)) \<lparr> srName = ClientCertName cfg, srNamespace = [] \<rparr>"

definition DS_ServiceAccount :: "DS_GeneratorOptions \<Rightarrow> ObjectMeta" where
  "DS_ServiceAccount cfg = DS_meta cfg (DS_ResourceName cfg)"

definition DS_Role :: "DS_GeneratorOptions \<Rightarrow> Role" where
  "DS_Role cfg =
     \<lparr> roleMeta = DS_meta cfg (DS_ResourceName cfg),
       Rules = [\<lparr> APIGroups = [''''], ruleResources = [''secrets'', ''pods''], Verbs = [''get'', ''list'', ''watch''] \<rparr>,
                \<lparr> APIGroups = [''marin3r.3scale.net''], ruleResources = [''*''], Verbs = [''*''] \<rparr>,
                \<lparr> APIGroups = [''discovery.k8s.io''], ruleResources = [''endpointslices''], Verbs = [''get'', ''list'', ''watch''] \<rparr>] \<rparr>"

definition DS_RoleBinding :: "DS_GeneratorOptions \<Rightarrow> RoleBinding" where
  "DS_RoleBinding cfg =
     \<lparr> rbMeta = DS_meta cfg (DS_ResourceName cfg),
       RoleRef = (''rbac.authorization.k8s.io'', ''Role'', DS_ResourceName cfg),
       Subjects = [(''ServiceAccount'', DS_ResourceName cfg, dgNamespace cfg)] \<rparr>"

definition DS_Service :: "DS_GeneratorOptions \<Rightarrow> Service" where
  "DS_Service cfg =
     \<lparr> svcMeta = DS_meta cfg (DS_ResourceName cfg),
       svcType = (if dgServiceType cfg = LoadBalancerType then ''LoadBalancer'' else ''ClusterIP''),
       svcClusterIP = (if dgServiceType cfg = HeadlessType then ''None'' else ''''),
       svcSelector = DS_labels cfg, svcSessionAffinity = ''None'',
       svcPorts = [\<lparr> spName = ''discovery'', spPort = dgXdsServerPort cfg, spProtocol = ''TCP'', spTargetPort = StrVal ''discovery'' \<rparr>,
                   \<lparr> spName = ''metrics'', spPort = dgMetricsServerPort cfg, spProtocol = ''TCP'', spTargetPort = StrVal ''metrics'' \<rparr>] \<rparr>"

definition DS_container :: "DS_GeneratorOptions \<Rightarrow> Container" where
  "DS_container cfg =
     (let timing = \<lparr> InitialDelaySeconds = 0, TimeoutSeconds = 1, PeriodSeconds = 10, SuccessThreshold = 1, FailureThreshold = 3 \<rparr>
      in empty_container\<lparr>
        ctName := ''marin3r'', ctImage := dgDeploymentImage cfg,
        ctArgs := [''discovery-service'', ''--server-certificate-path=/etc/marin3r/tls/server'',
                   ''--ca-certificate-path=/etc/marin3r/tls/ca'', ''--client-certificate-path=/etc/marin3r/tls/client'',
                   ''--xdss-port='' @ show32 (dgXdsServerPort cfg),
                   ''--metrics-bind-address=:'' @ show32 (dgMetricsServerPort cfg),
                   ''--health-probe-bind-address=:'' @ show32 (dgProbePort cfg)]
                  @ (if dgDebug cfg then [''--debug''] else []),
        ctPorts := [tcp_port ''discovery'' (dgXdsServerPort cfg), tcp_port ''metrics'' (dgMetricsServerPort cfg)],
        ctEnv := [\<lparr> evName = ''WATCH_NAMESPACE'', evValue = dgNamespace cfg, evFieldRef = None \<rparr>,
                  field_env ''POD_NAME'' ''metadata.name''],
        ctLivenessProbe := Some \<lparr> prHandler = http_get ''/healthz'' (dgProbePort cfg), prSpec = timing \<rparr>,
        ctReadinessProbe := Some \<lparr> prHandler = http_get ''/readyz'' (dgProbePort cfg), prSpec = timing \<rparr>,
        ctResources := dgDeploymentResources cfg,
        ctVolumeMounts := [\<lparr> vmName = ''server-cert'', vmReadOnly = True, vmMountPath = ''/etc/marin3r/tls/server/'' \<rparr>,
                           \<lparr> vmName = ''ca-cert'', vmReadOnly = True, vmMountPath = ''/etc/marin3r/tls/ca/'' \<rparr>,
                           \<lparr> vmName = ''client-cert'', vmReadOnly = True, vmMountPath = ''/etc/marin3r/tls/client/'' \<rparr>],
        ctImagePullPolicy := ''IfNotPresent'' \<rparr>)"

definition DS_Deployment :: "DS_GeneratorOptions \<Rightarrow> string \<Rightarrow> Deployment" where
  "DS_Deployment cfg hash =
     \<lparr> depMeta = DS_meta cfg (DS_ResourceName cfg), depReplicas = Some 1, depSelector = DS_labels cfg,
       depTemplateLabels = DS_labels cfg @ [(DiscoveryServiceCertificateHashLabelKey, hash)],
       depPodSpec = \<lparr> psInitContainers = [], psContainers = [DS_container cfg],
         psVolumes = [\<lparr> volName = ''server-cert'', volSource = SecretVolume (ServerCertName cfg) 420 \<rparr>,
                      \<lparr> volName = ''ca-cert'', volSource = SecretVolume (RootCertName cfg) 420 \<rparr>,
                      \<lparr> volName = ''client-cert'', volSource = SecretVolume (ClientCertName cfg) 420 \<rparr>],
         psTerminationGracePeriodSeconds = Some DefaultTerminationGracePeriodSeconds,
         psServiceAccountName = DS_ResourceName cfg,
         psPriorityClassName = (case dgPodPriorityClass cfg of Some c \<Rightarrow> c | None \<Rightarrow> []), psAffinity = None \<rparr>,
       depStrategy = Recreate \<rparr>"

end
