(* ===== verification/OperatorControllers.thy ===== *)
theory OperatorControllers
  imports OperatorGenerators
begin

text \<open>
  The controllers of \<open>DiscoveryService\<close> and \<open>EnvoyDeployment\<close>
  (\<open>controllers/operator.marin3r/discoveryservice_controller.go\<close> and
  \<open>envoydeployment_controller.go\<close>): how they fill in the generator options, which owned
  objects they ask for and when.

  The base reconciler is a parameter: its lifecycle step, the reconciliation of the owned
  objects from a list of templates and the status step each answer either values to return at
  once or nothing. The reads of the client are parameters too.
\<close>

section \<open>Templates\<close>

datatype OwnedObject =
    OwnedCertificate DiscoveryServiceCertificate
  | OwnedServiceAccount ObjectMeta
  | OwnedRole Role
  | OwnedRoleBinding RoleBinding
  | OwnedService Service
  | OwnedDeployment "goerror + Deployment"
  | OwnedHPA HPA
  | OwnedPDB PDB

datatype mutation = SetDeploymentReplicas bool | SetServiceLiveValues

record Template =
  tplObject :: OwnedObject
  tplEnabled :: bool
  tplMutations :: "mutation list"

definition template :: "OwnedObject \<Rightarrow> Template" where
  "template ob = \<lparr> tplObject = ob, tplEnabled = True, tplMutations = [] \<rparr>"

definition dscDefaulter :: "DiscoveryServiceCertificate \<Rightarrow> DiscoveryServiceCertificate" where
  "dscDefaulter o' = DSC_Default o'"

type_synonym ctrl_values = "CtrlResult \<times> goerror option"

record ('w, 'o) base_reconciler =
  ManageResourceLifecycle :: "'w \<Rightarrow> NamespacedName \<Rightarrow> (ctrl_values + 'o) \<times> 'w"
  ReconcileOwnedResources :: "'w \<Rightarrow> 'o \<Rightarrow> Template list \<Rightarrow> ctrl_values option \<times> 'w"
  ReconcileStatus :: "'w \<Rightarrow> 'o \<Rightarrow> NamespacedName list \<Rightarrow> ('o \<Rightarrow> bool \<times> 'o) \<Rightarrow> ctrl_values option \<times> 'w"

record 'w operator_reads =
  get_ds :: "'w \<Rightarrow> NamespacedName \<Rightarrow> goerror + DiscoveryService"
  get_ec :: "'w \<Rightarrow> NamespacedName \<Rightarrow> goerror + EnvoyConfig"
  get_dsc :: "'w \<Rightarrow> NamespacedName \<Rightarrow> goerror + DiscoveryServiceCertificate"

section \<open>DiscoveryService controller\<close>

definition DS_options :: "image_env \<Rightarrow> DiscoveryService \<Rightarrow> DS_GeneratorOptions" where
  "DS_options i ds =
     \<lparr> dgInstanceName = Name (dsMeta ds), dgNamespace = Namespace (dsMeta ds),
       dgRootCertificateNamePrefix = ''marin3r-ca-cert'', dgRootCertificateCommonNamePrefix = ''marin3r-ca'',
       dgRootCertificateDuration = coDuration (GetRootCertificateAuthorityOptions ds),
       dgServerCertificateNamePrefix = ''marin3r-server-cert'', dgServerCertificateCommonNamePrefix = ''marin3r-server'',
       dgServerCertificateDuration = coDuration (GetServerCertificateOptions ds),
       dgClientCertificateDuration = 48 * Hour, dgXdsServerPort = GetXdsServerPort ds,
       dgMetricsServerPort = GetMetricsPort ds, dgProbePort = GetProbePort ds, dgServiceType = ClusterIPType,
       dgDeploymentImage = DS_GetImage i ds, dgDeploymentResources = DS_Resources ds, dgDebug = DS_Debug ds,
       dgPodPriorityClass = GetPriorityClass ds \<rparr>"

definition calculateServerCertificateHash :: "'w operator_reads \<Rightarrow> 'w \<Rightarrow> NamespacedName \<Rightarrow> goerror + string" where
  "calculateServerCertificateHash k w key =
     (case get_dsc k w key of
        Inl err \<Rightarrow> if IsNotFound err then Inr [] else Inl err
      | Inr serverDSC \<Rightarrow> Inr (GetCertificateHash (dscStatus serverDSC)))"

definition DS_templates :: "DS_GeneratorOptions \<Rightarrow> string \<Rightarrow> Template list" where
  "DS_templates gen serverCertHash =
     [template (OwnedCertificate (dscDefaulter (RootCertificationAuthority gen))),
      template (OwnedCertificate (dscDefaulter (DS_ServerCertificate gen))),
      template (OwnedCertificate (dscDefaulter (DS_ClientCertificate gen))),
      template (OwnedServiceAccount (DS_ServiceAccount gen)),
      template (OwnedRole (DS_Role gen)),
      template (OwnedRoleBinding (DS_RoleBinding gen)),
      (template (OwnedService (DS_Service gen)))\<lparr> tplMutations := [SetServiceLiveValues] \<rparr>,
      (template (OwnedDeployment (Inr (DS_Deployment gen serverCertHash))))\<lparr> tplEnabled := (serverCertHash \<noteq> []) \<rparr>]"

definition DS_status_update :: "DS_GeneratorOptions \<Rightarrow> DiscoveryService \<Rightarrow> bool \<times> DiscoveryService" where
  "DS_status_update gen ds =
     (if dssDeploymentName (dsStatus ds) = None \<or> dssDeploymentName (dsStatus ds) \<noteq> Some (DS_ResourceName gen)
      then (True, ds\<lparr> dsStatus := (dsStatus ds)\<lparr> dssDeploymentName := Some (DS_ResourceName gen) \<rparr> \<rparr>)
      else (False, ds))"

definition DS_Reconcile ::
    "image_env \<Rightarrow> ('w, DiscoveryService) base_reconciler \<Rightarrow> 'w operator_reads \<Rightarrow> NamespacedName \<Rightarrow> 'w \<Rightarrow> ctrl_values \<times> 'w" where
  "DS_Reconcile i b k req w =
     (case ManageResourceLifecycle b w req of
        (Inl vals, w1) \<Rightarrow> (vals, w1)
      | (Inr ds, w1) \<Rightarrow>
          (let gen = DS_options i ds in
           case calculateServerCertificateHash k w1 (dgNamespace gen, ServerCertName gen) of
             Inl err \<Rightarrow> ((empty_result, Some err), w1)
           | Inr serverCertHash \<Rightarrow>
               (case ReconcileOwnedResources b w1 ds (DS_templates gen serverCertHash) of
                  (Some vals, w2) \<Rightarrow> (vals, w2)
                | (None, w2) \<Rightarrow>
                    (if serverCertHash = [] then ((empty_result\<lparr> crRequeue := True \<rparr>, None), w2)
                     else case ReconcileStatus b w2 ds [(Namespace (dsMeta ds), DS_ResourceName gen)] (DS_status_update gen) of
                            (Some vals, w3) \<Rightarrow> (vals, w3)
                          | (None, w3) \<Rightarrow> ((empty_result, None), w3)))))"

section \<open>EnvoyDeployment controller\<close>

definition ED_options :: "EnvoyDeployment \<Rightarrow> DiscoveryService \<Rightarrow> EnvoyConfig \<Rightarrow> ED_GeneratorOptions" where
  "ED_options ed ds ec =
     \<lparr> egInstanceName = Name (edMeta ed), egNamespace = Namespace (edMeta ed),
       egDiscoveryServiceName = edDiscoveryServiceRef (edSpec ed),
       egXdssAdress = scName (GetServiceConfig ds) @ ''.'' @ Namespace (dsMeta ds) @ ''.svc'',
       egXdssPort = uint (GetXdsServerPort ds), egEnvoyAPIVersion = EC_GetEnvoyAPIVersion ec,
       egEnvoyNodeID = ecNodeID (ecSpec ec),
       egEnvoyClusterID = (case edClusterID (edSpec ed) of Some c \<Rightarrow> c | None \<Rightarrow> ecNodeID (ecSpec ec)),
       egClientCertificateName = DeploymentClientCertificate @ ''-'' @ Name (edMeta ed),
       egClientCertificateDuration = ED_ClientCertificateDuration ed,
       egSigningCertificateName = coSecretName (GetRootCertificateAuthorityOptions ds),
       egDeploymentImage = ED_Image ed, egDeploymentResources = ED_Resources ed, egExposedPorts = edPorts (edSpec ed),
       egExtraArgs = edExtraArgs (edSpec ed), egAdminPort = ED_AdminPort ed,
       egAdminAccessLogPath = ED_AdminAccessLogPath ed, egReplicas = ED_Replicas ed,
       egLivenessProbe = ED_LivenessProbe ed, egReadinessProbe = ED_ReadinessProbe ed, egAffinity = ED_Affinity ed,
       egPodDisruptionBudget = ED_PodDisruptionBudget ed, egShutdownManager = edShutdownManager (edSpec ed),
       egInitManager = edInitManager (edSpec ed) \<rparr>"

definition ED_templates :: "quantity_ops \<Rightarrow> image_env \<Rightarrow> EnvoyDeployment \<Rightarrow> ED_GeneratorOptions \<Rightarrow> Template list" where
  "ED_templates q i ed gen =
     [template (OwnedCertificate (dscDefaulter (ED_ClientCertificate gen))),
      (template (OwnedDeployment (ED_Deployment q i gen)))
        \<lparr> tplMutations := [SetDeploymentReplicas (Dynamic (ED_Replicas ed) = None)] \<rparr>,
      (template (OwnedHPA (ED_HPA gen)))\<lparr> tplEnabled := (Dynamic (ED_Replicas ed) \<noteq> None) \<rparr>,
      (template (OwnedPDB (ED_PDB gen)))\<lparr> tplEnabled := (ED_PodDisruptionBudget ed \<noteq> defaultPodDisruptionBudget) \<rparr>]"

definition ED_status_update :: "ED_GeneratorOptions \<Rightarrow> EnvoyDeployment \<Rightarrow> bool \<times> EnvoyDeployment" where
  "ED_status_update gen ed =
     (if edsDeploymentName (edStatus ed) = None \<or> edsDeploymentName (edStatus ed) \<noteq> Some (snd (ED_OwnedResourceKey gen))
      then (True, ed\<lparr> edStatus := (edStatus ed)\<lparr> edsDeploymentName := Some (snd (ED_OwnedResourceKey gen)) \<rparr> \<rparr>)
      else (False, ed))"

definition ED_getEnvoyConfig :: "'w operator_reads \<Rightarrow> 'w \<Rightarrow> NamespacedName \<Rightarrow> goerror + EnvoyConfig" where
  "ED_getEnvoyConfig k w key = (case get_ec k w key of Inl err \<Rightarrow> Inl err | Inr ec \<Rightarrow> Inr ec)"

definition ED_Reconcile ::
    "quantity_ops \<Rightarrow> image_env \<Rightarrow> ('w, EnvoyDeployment) base_reconciler \<Rightarrow> 'w operator_reads \<Rightarrow> NamespacedName \<Rightarrow> 'w
     \<Rightarrow> ctrl_values \<times> 'w" where
  "ED_Reconcile q i b k req w =
     (case ManageResourceLifecycle b w req of
        (Inl vals, w1) \<Rightarrow> (vals, w1)
      | (Inr ed, w1) \<Rightarrow>
          (case get_ds k w1 (Namespace (edMeta ed), edDiscoveryServiceRef (edSpec ed)) of
             Inl err \<Rightarrow> ((\<lparr> crRequeue = True, crRequeueAfter = 10 * Second \<rparr>, Some err), w1)
           | Inr ds \<Rightarrow>
               (case ED_getEnvoyConfig k w1 (Namespace (edMeta ed), edEnvoyConfigRef (edSpec ed)) of
                  Inl err \<Rightarrow> ((empty_result, Some err), w1)
                | Inr ec \<Rightarrow>
                    (let gen = ED_options ed ds ec in
                     case ReconcileOwnedResources b w1 ed (ED_templates q i ed gen) of
                       (Some vals, w2) \<Rightarrow> (vals, w2)
                     | (None, w2) \<Rightarrow>
                         (case ReconcileStatus b w2 ed [ED_OwnedResourceKey gen] (ED_status_update gen) of
                            (Some vals, w3) \<Rightarrow> (vals, w3)
                          | (None, w3) \<Rightarrow> ((empty_result, None), w3))))))"

text \<open>The filters of the event handlers.\<close>

definition EnvoyConfigHandler :: "EnvoyConfig \<Rightarrow> EnvoyDeployment \<Rightarrow> bool" where
  "EnvoyConfigHandler ec ed = (edEnvoyConfigRef (edSpec ed) = Name (ecMeta ec))"

definition DiscoveryServiceHandler :: "DiscoveryService \<Rightarrow> EnvoyDeployment \<Rightarrow> bool" where
  "DiscoveryServiceHandler ds ed = (edDiscoveryServiceRef (edSpec ed) = Name (dsMeta ds))"

end
