(* ===== verification/OperatorProperties.thy ===== *)
theory OperatorProperties
  imports OperatorControllers RevisionProperties
begin

text \<open>
  What the objects the operator asks for guarantee together: the secrets a deployment mounts are
  the ones its certificates produce, mounts name volumes, selectors match labels, the autoscaler
  and the disruption budget aim at the deployment; when the discovery service waits for its
  certificate; and under which configuration an \<open>EnvoyDeployment\<close> finds the service and the
  signing certificate of its \<open>DiscoveryService\<close>.
\<close>

section \<open>Reading a list of templates\<close>

definition enabled_objects :: "Template list \<Rightarrow> OwnedObject list" where
  "enabled_objects ts = map tplObject (filter tplEnabled ts)"

fun certificates_of :: "OwnedObject list \<Rightarrow> DiscoveryServiceCertificate list" where
  "certificates_of [] = []"
| "certificates_of (OwnedCertificate d # obs) = d # certificates_of obs"
| "certificates_of (_ # obs) = certificates_of obs"

fun deployments_of :: "OwnedObject list \<Rightarrow> (goerror + Deployment) list" where
  "deployments_of [] = []"
| "deployments_of (OwnedDeployment d # obs) = d # deployments_of obs"
| "deployments_of (_ # obs) = deployments_of obs"

fun hpas_of :: "OwnedObject list \<Rightarrow> HPA list" where
  "hpas_of [] = []"
| "hpas_of (OwnedHPA h # obs) = h # hpas_of obs"
| "hpas_of (_ # obs) = hpas_of obs"

definition issued_secrets :: "Template list \<Rightarrow> NamespacedName list" where
  "issued_secrets ts = map secret_key (certificates_of (enabled_objects ts))"

text \<open>The secrets a certificate is signed with.\<close>

definition issuer_secrets :: "DiscoveryServiceCertificate \<Rightarrow> NamespacedName list" where
  "issuer_secrets d =
     (case CASigned (dscSigner (dscSpec d)) of
        None \<Rightarrow> []
      | Some ca \<Rightarrow> [(srNamespace (casSecretRef ca), srName (casSecretRef ca))])"

fun secret_volumes :: "Volume list \<Rightarrow> string list" where
  "secret_volumes [] = []"
| "secret_volumes (v # vs) =
     (case volSource v of SecretVolume s _ \<Rightarrow> s # secret_volumes vs | _ \<Rightarrow> secret_volumes vs)"

definition mounted_secrets :: "Deployment \<Rightarrow> NamespacedName list" where
  "mounted_secrets dep = map (Pair (Namespace (depMeta dep))) (secret_volumes (psVolumes (depPodSpec dep)))"

definition pod_mounts_ok :: "PodSpec \<Rightarrow> bool" where
  "pod_mounts_ok ps = list_all (mounts_ok (psVolumes ps)) (psInitContainers ps @ psContainers ps)"

section \<open>Lemmas\<close>

lemma DSC_Default_sel [simp]:
  "dscMeta (DSC_Default d) = dscMeta d" "dscSecretRef (dscSpec (DSC_Default d)) = dscSecretRef (dscSpec d)"
  "dscSigner (dscSpec (DSC_Default d)) = dscSigner (dscSpec d)" "dscValidFor (dscSpec (DSC_Default d)) = dscValidFor (dscSpec d)"
  "dscCommonName (dscSpec (DSC_Default d)) = dscCommonName (dscSpec d)"
  "dscIsCA (dscSpec (DSC_Default d)) = Some (DSC_IsCA d)"
  by (auto simp: DSC_Default_def Let_def DSC_IsCA_def split: option.split)

lemma secret_key_Default [simp]: "secret_key (DSC_Default d) = secret_key d"
  by (simp add: secret_key_def)

lemma issuer_secrets_Default [simp]: "issuer_secrets (DSC_Default d) = issuer_secrets d"
  by (simp add: issuer_secrets_def)

lemma certificate_resource_sel [simp]:
  "dscMeta (certificate_resource m cn v sg sr) = m" "dscSecretRef (dscSpec (certificate_resource m cn v sg sr)) = sr"
  "dscSigner (dscSpec (certificate_resource m cn v sg sr)) = sg"
  "dscValidFor (dscSpec (certificate_resource m cn v sg sr)) = v"
  by (simp_all add: certificate_resource_def)

lemma object_meta_sel [simp]:
  "Name (object_meta n ns l) = n" "Namespace (object_meta n ns l) = ns" "Labels (object_meta n ns l) = l"
  by (simp_all add: object_meta_def)

lemma template_sel [simp]:
  "tplObject (template ob) = ob" "tplEnabled (template ob)" "tplMutations (template ob) = []"
  by (simp_all add: template_def)

lemma sint_of_int64: "- (2 ^ 63) \<le> x \<Longrightarrow> x < 2 ^ 63 \<Longrightarrow> sint (word_of_int x :: 64 word) = x"
  by (simp add: signed_of_int signed_take_bit_int_eq_self)

lemma validity_whole:
  assumes "0 \<le> s" "s * Second < 2 ^ 63" "dscValidFor (dscSpec d) = valid_for (s * Second)"
  shows "validity d = s * Second"
proof -
  have "s < 2 ^ 53" using assms(1,2) by (simp add: Second_def)
  then have "valid_for (s * Second) = word_of_int s" using assms(1) by (simp add: valid_for_def Second_def Seconds_whole)
  then have "validity d = sint (word_of_int (s * Second) :: 64 word)" by (simp add: validity_def assms(3) Second_def)
  also have "\<dots> = s * Second" using assms(1,2) by (intro sint_of_int64) (simp_all add: Second_def)
  finally show ?thesis .
qed

lemma ED_Deployment_ok:
  assumes "egShutdownManager cfg \<noteq> None \<longrightarrow> defaults_parse q"
  shows "\<exists>dep. ED_Deployment q i cfg = Inr dep \<and> depMeta dep = ED_meta cfg \<and> depReplicas dep = Static (egReplicas cfg) \<and>
    depSelector dep = ED_labels cfg \<and> depTemplateLabels dep = ED_labels cfg \<and>
    psVolumes (depPodSpec dep) = cc_Volumes (ED_container_config i cfg) \<and> pod_mounts_ok (depPodSpec dep)"
proof -
  let ?cc = "ED_container_config i cfg"
  have "ccShutdownManagerEnabled ?cc \<longrightarrow> defaults_parse q" using assms by (simp add: ED_container_config_def)
  from cc_Containers_ok [OF this] obtain cs where cs: "cc_Containers q ?cc = Inr cs" "list_all (mounts_ok (cc_Volumes ?cc)) cs"
    by blast
  then show ?thesis
    using cc_InitContainers_mounts [of ?cc] by (simp add: ED_Deployment_def Let_def pod_mounts_ok_def)
qed

section \<open>A sample\<close>

definition sample_ds :: DiscoveryService where
  "sample_ds =
     \<lparr> dsMeta = empty_meta\<lparr> Name := ''ds'', Namespace := ''ns'' \<rparr>,
       dsSpec = \<lparr> dsImage = None, dsDebug = None, dsResources = None, dsPKIConfig = None, dsXdsServerPort = None,
                  dsMetricsPort = None, dsProbePort = None, dsServiceConfig = None, dsPodPriorityClass = None \<rparr>,
       dsStatus = \<lparr> dssDeploymentName = None, dssDeploymentStatus = None \<rparr> \<rparr>"

definition sample_ed :: EnvoyDeployment where
  "sample_ed =
     \<lparr> edMeta = empty_meta\<lparr> Name := ''ed'', Namespace := ''ns'' \<rparr>,
       edSpec = \<lparr> edEnvoyConfigRef = ''ec'', edDiscoveryServiceRef = ''ds'', edClusterID = None, edPorts = [], edImage = None,
                  edResources = None, edClientCertificateDuration = None, edExtraArgs = [], edAdminPort = None,
                  edAdminAccessLogPath = None, edReplicas = None, edLivenessProbe = None, edReadinessProbe = None,
                  edAffinity = None, edPodDisruptionBudget = None,
                  edShutdownManager = Some \<lparr> smImage = None, smServerPort = None, smDrainTime = None, smDrainStrategy = None \<rparr>,
                  edInitManager = None \<rparr>,
       edStatus = \<lparr> edsDeploymentName = None, edsDeploymentStatus = None \<rparr> \<rparr>"

definition sample_base :: "(nat list, DiscoveryService) base_reconciler" where
  "sample_base =
     \<lparr> ManageResourceLifecycle = (\<lambda>w _. (Inr sample_ds, w)),
       ReconcileOwnedResources = (\<lambda>w _ ts. (None, w @ [length (enabled_objects ts)])),
       ReconcileStatus = (\<lambda>w _ _ _. (None, w @ [0])) \<rparr>"

definition sample_reads :: "nat list operator_reads" where
  "sample_reads = \<lparr> get_ds = (\<lambda>_ _. Inr sample_ds), get_ec = (\<lambda>_ _. Inl (PlainError [])),
     get_dsc = (\<lambda>_ _. Inl (StatusError StatusReasonNotFound [])) \<rparr>"

definition sample_image :: image_env where
  "sample_image = \<lparr> builtImage = ''quay.io/3scale/marin3r:v0.13'', MARIN3R_IMAGE = None \<rparr>"

section \<open>Properties\<close>

text \<open>(C35) The objects of an \<open>EnvoyDeployment\<close> fit together: exactly one deployment is asked for
  and it can be generated; every secret it mounts is issued by the certificate asked for along
  with it, every mount of its containers names one of its volumes, its selector is the label set
  of its pods; an autoscaler is asked for exactly when the replicas are not fixed, and it aims at
  this deployment.\<close>

theorem envoy_deployment_self_contained:
  assumes "edShutdownManager (edSpec ed) \<noteq> None \<longrightarrow> defaults_parse q"
  shows "\<exists>dep. deployments_of (enabled_objects (ED_templates q i ed (ED_options ed ds ec))) = [Inr dep] \<and>
    set (mounted_secrets dep) \<subseteq> set (issued_secrets (ED_templates q i ed (ED_options ed ds ec))) \<and>
    pod_mounts_ok (depPodSpec dep) \<and> depSelector dep = depTemplateLabels dep \<and>
    (if depReplicas dep = None \<and> Dynamic (ED_Replicas ed) \<noteq> None
     then map (\<lambda>h. (Namespace (hpaMeta h), ScaleTargetRef h)) (hpas_of (enabled_objects (ED_templates q i ed (ED_options ed ds ec)))) =
       [(Namespace (depMeta dep), ''apps/v1'', ''Deployment'', Name (depMeta dep))]
     else hpas_of (enabled_objects (ED_templates q i ed (ED_options ed ds ec))) = [])"
proof -
  let ?gen = "ED_options ed ds ec"
  have sel: "egShutdownManager ?gen = edShutdownManager (edSpec ed)" "egReplicas ?gen = ED_Replicas ed"
    "egNamespace ?gen = Namespace (edMeta ed)" "egInstanceName ?gen = Name (edMeta ed)"
    "egClientCertificateName ?gen = DeploymentClientCertificate @ ''-'' @ Name (edMeta ed)"
    by (simp_all add: ED_options_def)
  obtain dep where dep: "ED_Deployment q i ?gen = Inr dep" "depMeta dep = ED_meta ?gen" "depReplicas dep = Static (egReplicas ?gen)"
    "depSelector dep = ED_labels ?gen" "depTemplateLabels dep = ED_labels ?gen"
    "psVolumes (depPodSpec dep) = cc_Volumes (ED_container_config i ?gen)" "pod_mounts_ok (depPodSpec dep)"
    using ED_Deployment_ok [of ?gen q i] assms sel(1) by auto
  have "mounted_secrets dep = [(Namespace (edMeta ed), DeploymentClientCertificate @ ''-'' @ Name (edMeta ed))]"
    by (simp add: mounted_secrets_def dep ED_meta_def cc_Volumes_def ED_container_config_def sel)
  moreover have "issued_secrets (ED_templates q i ed ?gen) = [(Namespace (edMeta ed), DeploymentClientCertificate @ ''-'' @ Name (edMeta ed))]"
    by (simp add: issued_secrets_def enabled_objects_def ED_templates_def dscDefaulter_def ED_ClientCertificate_def secret_key_def sel)
  moreover have "Static (ED_Replicas ed) = None \<or> Dynamic (ED_Replicas ed) = None" using Static_xor_Dynamic [of ed] by simp
  ultimately show ?thesis
    using dep sel
    by (auto simp: ED_templates_def enabled_objects_def ED_HPA_def ED_meta_def split: option.split)
qed

theorem envoy_deployment_self_contained_witness:
  "\<exists>dep. deployments_of (enabled_objects (ED_templates (\<lambda>s. Inr (Quantity s)) sample_image sample_ed
      (ED_options sample_ed sample_ds sample_config))) = [Inr dep] \<and> pod_mounts_ok (depPodSpec dep) \<and>
     set (mounted_secrets dep) \<subseteq> set (issued_secrets (ED_templates (\<lambda>s. Inr (Quantity s)) sample_image sample_ed
      (ED_options sample_ed sample_ds sample_config)))"
proof -
  have "edShutdownManager (edSpec sample_ed) \<noteq> None \<longrightarrow> defaults_parse (\<lambda>s. Inr (Quantity s))" by (simp add: defaults_parse_def)
  from envoy_deployment_self_contained [OF this, of sample_image sample_ds sample_config] show ?thesis by blast
qed

text \<open>The objects of a \<open>DiscoveryService\<close> fit together: every secret the deployment
  mounts is issued by one of the three certificates, every certificate that is signed is signed
  by the root certificate, which is a self-signed authority, every mount names a volume, the
  selectors of deployment and service match the labels of the pods, the service sends to ports
  the container names, and the role is bound to the account the pods run as.\<close>

theorem discovery_service_self_contained:
  "set (mounted_secrets (DS_Deployment (DS_options i ds) h)) \<subseteq> set (issued_secrets (DS_templates (DS_options i ds) h)) \<and>
   set (concat (map issuer_secrets (certificates_of (enabled_objects (DS_templates (DS_options i ds) h))))) \<subseteq>
     {secret_key (RootCertificationAuthority (DS_options i ds))} \<and>
   DSC_IsCA (RootCertificationAuthority (DS_options i ds)) \<and> issuer_secrets (RootCertificationAuthority (DS_options i ds)) = [] \<and>
   pod_mounts_ok (depPodSpec (DS_Deployment (DS_options i ds) h)) \<and>
   set (depSelector (DS_Deployment (DS_options i ds) h)) \<subseteq> set (depTemplateLabels (DS_Deployment (DS_options i ds) h)) \<and>
   set (svcSelector (DS_Service (DS_options i ds))) \<subseteq> set (depTemplateLabels (DS_Deployment (DS_options i ds) h)) \<and>
   map spTargetPort (svcPorts (DS_Service (DS_options i ds))) = map (\<lambda>p. StrVal (ctpName p)) (ctPorts (DS_container (DS_options i ds))) \<and>
   map spPort (svcPorts (DS_Service (DS_options i ds))) = map ctpContainerPort (ctPorts (DS_container (DS_options i ds))) \<and>
   (''ServiceAccount'', psServiceAccountName (depPodSpec (DS_Deployment (DS_options i ds) h)), Namespace (dsMeta ds))
     \<in> set (Subjects (DS_RoleBinding (DS_options i ds))) \<and>
   snd (snd (RoleRef (DS_RoleBinding (DS_options i ds)))) = Name (roleMeta (DS_Role (DS_options i ds)))"
proof -
  let ?g = "DS_options i ds"
  have certs: "certificates_of (enabled_objects (DS_templates ?g h)) =
      [DSC_Default (RootCertificationAuthority ?g), DSC_Default (DS_ServerCertificate ?g), DSC_Default (DS_ClientCertificate ?g)]"
    by (simp add: enabled_objects_def DS_templates_def dscDefaulter_def)
  have keys: "secret_key (RootCertificationAuthority ?g) = (dgNamespace ?g, RootCertName ?g)"
    "secret_key (DS_ServerCertificate ?g) = (dgNamespace ?g, ServerCertName ?g)"
    "secret_key (DS_ClientCertificate ?g) = (dgNamespace ?g, ClientCertName ?g)"
    by (simp_all add: secret_key_def RootCertificationAuthority_def DS_ServerCertificate_def DS_ClientCertificate_def DS_meta_def Let_def)
  have issuers: "issuer_secrets (RootCertificationAuthority ?g) = []"
    "issuer_secrets (DS_ServerCertificate ?g) = [(dgNamespace ?g, RootCertName ?g)]"
    "issuer_secrets (DS_ClientCertificate ?g) = [(dgNamespace ?g, RootCertName ?g)]"
    by (simp_all add: issuer_secrets_def RootCertificationAuthority_def DS_ServerCertificate_def DS_ClientCertificate_def
        ca_signed_def Let_def)
  have "DSC_IsCA (RootCertificationAuthority ?g)" by (simp add: DSC_IsCA_def RootCertificationAuthority_def Let_def)
  moreover have "set (mounted_secrets (DS_Deployment ?g h)) = set (issued_secrets (DS_templates ?g h))"
    by (auto simp: mounted_secrets_def DS_Deployment_def DS_meta_def issued_secrets_def certs keys)
  moreover have "pod_mounts_ok (depPodSpec (DS_Deployment ?g h))"
    by (simp add: pod_mounts_ok_def mounts_ok_def DS_Deployment_def DS_container_def Let_def)
  ultimately show ?thesis
    by (simp add: certs keys issuers DS_Deployment_def DS_Service_def DS_container_def DS_RoleBinding_def DS_Role_def DS_meta_def
        tcp_port_def Let_def) (auto simp: DS_options_def)
qed

text \<open>The requested lifetime reaches the certificate: a client certificate duration of a whole
  number of seconds, which goes through \<open>Seconds\<close> as a \<open>float64\<close>, through an \<open>int64\<close>
  and back to nanoseconds in the provider, is the validity that the certificate is issued with,
  up to the longest duration there is.\<close>

theorem client_certificate_lifetime:
  assumes "0 \<le> s" "s * Second < 2 ^ 63" "ED_ClientCertificateDuration ed = s * Second"
  shows "validity (dscDefaulter (ED_ClientCertificate (ED_options ed ds ec))) = s * Second"
  using assms by (intro validity_whole) (simp_all add: dscDefaulter_def ED_ClientCertificate_def ED_options_def)

theorem client_certificate_lifetime_witness:
  "validity (dscDefaulter (ED_ClientCertificate (ED_options sample_ed sample_ds sample_config))) = 172800 * Second"
  by (rule client_certificate_lifetime)
    (simp_all add: Second_def ED_ClientCertificateDuration_def sample_ed_def Hour_def)

text \<open>(C39) Which configuration lets an \<open>EnvoyDeployment\<close> work: the address it gives to Envoy is
  that of the service created for its \<open>DiscoveryService\<close>, and its client certificate is
  signed with the root certificate created there, exactly when the service name and the root
  secret name of the \<open>DiscoveryService\<close> are the default ones. Any other value is used by the
  one controller and ignored by the other.\<close>

theorem envoy_deployment_reaches_discovery_service_iff:
  "(egXdssAdress (ED_options ed ds ec) =
      Name (svcMeta (DS_Service (DS_options i ds))) @ ''.'' @ Namespace (svcMeta (DS_Service (DS_options i ds))) @ ''.svc'' \<and>
    egSigningCertificateName (ED_options ed ds ec) = snd (secret_key (RootCertificationAuthority (DS_options i ds)))) \<longleftrightarrow>
   (scName (GetServiceConfig ds) = OwnedObjectName ds \<and>
    coSecretName (GetRootCertificateAuthorityOptions ds) = coSecretName (defaultRootCertificateAuthorityOptions ds))"
proof -
  let ?g = "DS_options i ds"
  have "Name (svcMeta (DS_Service ?g)) = OwnedObjectName ds" "Namespace (svcMeta (DS_Service ?g)) = Namespace (dsMeta ds)"
    by (simp_all add: DS_Service_def DS_meta_def DS_ResourceName_def DS_options_def OwnedObjectName_def)
  moreover have "snd (secret_key (RootCertificationAuthority ?g)) = coSecretName (defaultRootCertificateAuthorityOptions ds)"
    by (simp add: secret_key_def RootCertificationAuthority_def RootCertName_def DS_options_def Let_def
        defaultRootCertificateAuthorityOptions_def DefaultRootCertificateSecretNamePrefix_def)
  ultimately show ?thesis by (simp add: ED_options_def)
qed

text \<open>The discovery service starts only with a certificate: a run that gets past the lifecycle
  step and reads the server certificate without error asks for the owned objects once. Without
  a certificate hash it asks for no deployment, and when the base reconciler has nothing to
  return it requeues and leaves the status alone. With a hash it asks for exactly the deployment
  whose pods carry that hash, so that a new certificate rolls them over.\<close>

theorem discovery_service_waits_for_certificate:
  assumes "ManageResourceLifecycle b w req = (Inr ds, w1)"
    and "calculateServerCertificateHash k w1 (Namespace (dsMeta ds), ServerCertName (DS_options i ds)) = Inr h"
    and "ReconcileOwnedResources b w1 ds (DS_templates (DS_options i ds) h) = (None, w2)"
  shows "if h = []
    then deployments_of (enabled_objects (DS_templates (DS_options i ds) h)) = [] \<and>
         DS_Reconcile i b k req w = ((empty_result\<lparr> crRequeue := True \<rparr>, None), w2)
    else (\<exists>dep. deployments_of (enabled_objects (DS_templates (DS_options i ds) h)) = [Inr dep] \<and>
            map_of (depTemplateLabels dep) DiscoveryServiceCertificateHashLabelKey = Some h) \<and>
         snd (DS_Reconcile i b k req w) =
           snd (ReconcileStatus b w2 ds [(Namespace (dsMeta ds), OwnedObjectName ds)] (DS_status_update (DS_options i ds)))"
proof -
  have gen: "dgNamespace (DS_options i ds) = Namespace (dsMeta ds)" "DS_ResourceName (DS_options i ds) = OwnedObjectName ds"
    by (simp_all add: DS_options_def DS_ResourceName_def OwnedObjectName_def)
  have "map_of (depTemplateLabels (DS_Deployment (DS_options i ds) h)) DiscoveryServiceCertificateHashLabelKey = Some h"
    by (simp add: DS_Deployment_def DS_labels_def DiscoveryServiceCertificateHashLabelKey_def)
  then show ?thesis
    using assms gen
    by (auto simp: DS_Reconcile_def Let_def enabled_objects_def DS_templates_def split: option.splits prod.splits)
qed

theorem discovery_service_waits_for_certificate_witness:
  "DS_Reconcile sample_image sample_base sample_reads (''ns'', ''ds'') [] =
     ((empty_result\<lparr> crRequeue := True \<rparr>, None), [7])"
proof -
  have own: "ReconcileOwnedResources sample_base [] sample_ds (DS_templates (DS_options sample_image sample_ds) []) = (None, [7])"
    by (simp add: sample_base_def enabled_objects_def DS_templates_def)
  show ?thesis
    using discovery_service_waits_for_certificate [OF _ _ own, of "[]" "(''ns'', ''ds'')" sample_reads]
    by (simp add: sample_base_def sample_reads_def calculateServerCertificateHash_def IsNotFound_def)
qed

end
