(* ===== verification/ShutdownManager.thy ===== *)
theory ShutdownManager
  imports Containers
begin

text \<open>
  The shutdown manager (\<open>pkg/envoy/container/shutdownmanager/manager.go\<close>): the HTTP handlers
  that let an Envoy pod drain before it stops. The preStop hook of the manager's own container
  calls \<open>/drain\<close>, which tells Envoy to fail its health check, polls the open connections and
  creates a file once they are few enough; the preStop hook of the Envoy container calls
  \<open>/shutdown\<close>, which blocks until that file exists.

  The handlers loop until something happens outside: what each iteration observes (the answer of
  the admin API, the state of the file, whether the wait ended or the request was cancelled) is
  an argument, a handler is a function of the observations so far, and \<open>None\<close> means that it is
  still waiting. The Prometheus parser and the retry helper are parameters. The two handlers run
  concurrently; their interleavings are the step relation \<open>shtdn_step\<close>.
\<close>

section \<open>Configuration\<close>

record Manager =
  HTTPServePort :: int
  ShutdownReadyFile :: string
  ShutdownReadyCheckInterval :: int
  CheckDrainInterval :: int
  CheckDrainDelay :: int
  StartDrainDelay :: int
  EnvoyAdminAddress :: string
  MinOpenConnections :: int

definition envoyPrometheusEndpoint :: string where "envoyPrometheusEndpoint = ''/stats/prometheus''"
definition envoyShutdownEndpoint :: string where "envoyShutdownEndpoint = ''/healthcheck/fail''"
definition prometheusStat :: string where "prometheusStat = ''envoy_http_downstream_cx_active''"
definition adminListenerPrefix :: string where "adminListenerPrefix = ''admin''"

definition envoyPrometheusURL :: "Manager \<Rightarrow> string" where
  "envoyPrometheusURL mgr = Join [EnvoyAdminAddress mgr, envoyPrometheusEndpoint] []"

definition envoyShutdownURL :: "Manager \<Rightarrow> string" where
  "envoyShutdownURL mgr = Join [EnvoyAdminAddress mgr, envoyShutdownEndpoint] []"

section \<open>Talking to Envoy\<close>

text \<open>The answer to an HTTP request: an error, or the status code, the status line and the
  body.\<close>

type_synonym http_answer = "goerror + nat \<times> string \<times> string"

text \<open>A metric as the parser returns it: the values of its labels and the gauge, converted to an
  integer.\<close>

record PromMetric =
  mLabelValues :: "string list"
  mGauge :: int

type_synonym metric_parser = "string \<Rightarrow> goerror + (string \<times> PromMetric list) list"

record parser_ops =
  TextToMetricFamilies :: metric_parser
  sm_err_text :: "goerror \<Rightarrow> string"

definition shutdownEnvoy :: "parser_ops \<Rightarrow> Manager \<Rightarrow> http_answer \<Rightarrow> goerror option" where
  "shutdownEnvoy x mgr answer =
     (case answer of
        Inl err \<Rightarrow> Some (PlainError (''creating POST request to '' @ envoyShutdownURL mgr @ '' failed: '' @ sm_err_text x err))
      | Inr (code, status, _) \<Rightarrow>
          (if code \<noteq> 200 then Some (PlainError (''POST for '' @ Quote (envoyShutdownURL mgr) @ '' returned HTTP status '' @ status))
           else None))"

fun count_labels :: "string list \<Rightarrow> int \<Rightarrow> int \<Rightarrow> int" where
  "count_labels [] gauge openConnections = openConnections"
| "count_labels (l # ls) gauge openConnections =
     count_labels ls gauge (if l \<noteq> adminListenerPrefix then openConnections + gauge else openConnections)"

fun count_metrics :: "PromMetric list \<Rightarrow> int \<Rightarrow> int" where
  "count_metrics [] openConnections = openConnections"
| "count_metrics (m # ms) openConnections = count_metrics ms (count_labels (mLabelValues m) (mGauge m) openConnections)"

definition parseOpenConnections :: "parser_ops \<Rightarrow> string option \<Rightarrow> goerror + int" where
  "parseOpenConnections x stats =
     (case stats of
        None \<Rightarrow> Inl (PlainError ''stats input was nil'')
      | Some text \<Rightarrow>
          (case TextToMetricFamilies x text of
             Inl err \<Rightarrow> Inl (PlainError (''parsing Prometheus text format failed: '' @ sm_err_text x err))
           | Inr families \<Rightarrow>
               (case map_of families prometheusStat of
                  None \<Rightarrow> Inl (PlainError (''error finding Prometheus stat '' @ Quote prometheusStat @ '' in the request result''))
                | Some ms \<Rightarrow> Inr (count_metrics ms 0))))"

definition getOpenConnections :: "parser_ops \<Rightarrow> Manager \<Rightarrow> http_answer \<Rightarrow> goerror + int" where
  "getOpenConnections x mgr answer =
     (case answer of
        Inl err \<Rightarrow> Inl (PlainError (''creating GET request to '' @ envoyPrometheusURL mgr @ '' failed: '' @ sm_err_text x err))
      | Inr (code, status, body) \<Rightarrow>
          (if code \<noteq> 200 then Inl (PlainError (''GET for '' @ Quote (envoyPrometheusURL mgr) @ '' returned HTTP status '' @ status))
           else parseOpenConnections x (Some body)))"

section \<open>Handlers\<close>

datatype response = WroteOK | NoResponse | WroteStatus nat

datatype wait_result = Elapsed | CtxDone

datatype stat_result = FileExists | FileMissing | StatFailed

definition healthzHandler :: response where "healthzHandler = WroteOK"

text \<open>One iteration of the loop of \<open>shutdownHandler\<close>, and the loop.\<close>

definition shutdown_poll :: "stat_result \<Rightarrow> wait_result \<Rightarrow> response option" where
  "shutdown_poll stat wait =
     (if stat = FileExists then Some WroteOK
      else case wait of Elapsed \<Rightarrow> None | CtxDone \<Rightarrow> Some NoResponse)"

fun shutdownHandler :: "(stat_result \<times> wait_result) list \<Rightarrow> response option" where
  "shutdownHandler [] = None"
| "shutdownHandler ((stat, wait) # obs) =
     (case shutdown_poll stat wait of Some r \<Rightarrow> Some r | None \<Rightarrow> shutdownHandler obs)"

text \<open>One iteration of the loop of \<open>drainHandler\<close>: the response, if any, and whether the file
  was created. When creating it fails the error is logged and the response is the same.\<close>

record drain_obs =
  obsAnswer :: http_answer
  obsCreate :: "goerror option"
  obsWait :: wait_result

definition drain_poll :: "parser_ops \<Rightarrow> Manager \<Rightarrow> drain_obs \<Rightarrow> response option \<times> bool" where
  "drain_poll x mgr ob =
     (let go_on = (case obsWait ob of Elapsed \<Rightarrow> (None, False) | CtxDone \<Rightarrow> (Some (WroteStatus 499), False)) in
      case getOpenConnections x mgr (obsAnswer ob) of
        Inr openConnections \<Rightarrow>
          (if openConnections \<le> MinOpenConnections mgr then (Some WroteOK, obsCreate ob = None) else go_on)
      | Inl _ \<Rightarrow> go_on)"

fun drain_loop :: "parser_ops \<Rightarrow> Manager \<Rightarrow> drain_obs list \<Rightarrow> response option \<times> bool" where
  "drain_loop x mgr [] = (None, False)"
| "drain_loop x mgr (ob # obs) =
     (case drain_poll x mgr ob of (Some r, created) \<Rightarrow> (Some r, created) | (None, _) \<Rightarrow> drain_loop x mgr obs)"

text \<open>The whole handler: the signal to Envoy goes through the retry helper, which is given the
  number of steps and the outcome of each attempt; its error is only logged.\<close>

definition drainHandler ::
    "(nat \<Rightarrow> (nat \<Rightarrow> goerror option) \<Rightarrow> goerror option) \<Rightarrow> parser_ops \<Rightarrow> Manager \<Rightarrow> (nat \<Rightarrow> http_answer) \<Rightarrow> drain_obs list
     \<Rightarrow> goerror option \<times> response option \<times> bool" where
  "drainHandler onError x mgr posts obs =
     (let err = onError 4 (\<lambda>n. shutdownEnvoy x mgr (posts n)) in (err, drain_loop x mgr obs))"

section \<open>The handlers together\<close>

text \<open>The state of a terminating pod: the ready file, what each handler has answered, and the
  connection counts the drain handler has seen.\<close>

record shtdn_state =
  ssFile :: bool
  ssDrain :: "response option"
  ssShutdown :: "response option"
  ssPolls :: "(goerror + int) list"

definition shtdn_init :: shtdn_state where
  "shtdn_init = \<lparr> ssFile = False, ssDrain = None, ssShutdown = None, ssPolls = [] \<rparr>"

text \<open>What \<open>os.Stat\<close> may answer: it may fail, but does not lie about the file.\<close>

definition stat_ok :: "bool \<Rightarrow> stat_result \<Rightarrow> bool" where
  "stat_ok file stat = (case stat of FileExists \<Rightarrow> file | FileMissing \<Rightarrow> \<not> file | StatFailed \<Rightarrow> True)"

inductive shtdn_step :: "parser_ops \<Rightarrow> Manager \<Rightarrow> shtdn_state \<Rightarrow> shtdn_state \<Rightarrow> bool" for x mgr where
  drain: "ssDrain s = None \<Longrightarrow> drain_poll x mgr ob = (r, created) \<Longrightarrow>
    shtdn_step x mgr s (s\<lparr> ssDrain := r, ssFile := ssFile s \<or> created,
                          ssPolls := getOpenConnections x mgr (obsAnswer ob) # ssPolls s \<rparr>)"
| shutdown: "ssShutdown s = None \<Longrightarrow> stat_ok (ssFile s) stat \<Longrightarrow>
    shtdn_step x mgr s (s\<lparr> ssShutdown := shutdown_poll stat wait \<rparr>)"

inductive shtdn_reach :: "parser_ops \<Rightarrow> Manager \<Rightarrow> shtdn_state \<Rightarrow> shtdn_state \<Rightarrow> bool" for x mgr where
  refl: "shtdn_reach x mgr s s"
| step: "shtdn_reach x mgr s t \<Longrightarrow> shtdn_step x mgr t u \<Longrightarrow> shtdn_reach x mgr s u"

inductive_cases shtdn_stepE: "shtdn_step x mgr s t"

section \<open>Lemmas\<close>

definition low_poll :: "Manager \<Rightarrow> goerror + int \<Rightarrow> bool" where
  "low_poll mgr poll = (case poll of Inl _ \<Rightarrow> False | Inr n \<Rightarrow> n \<le> MinOpenConnections mgr)"


lemma drain_poll_OK: "drain_poll x mgr ob = (Some WroteOK, c) \<Longrightarrow> low_poll mgr (getOpenConnections x mgr (obsAnswer ob))"
  by (auto simp: drain_poll_def low_poll_def Let_def split: sum.splits if_splits wait_result.splits)

lemma shutdown_poll_OK: "shutdown_poll stat wait = Some WroteOK \<Longrightarrow> stat = FileExists"
  by (auto simp: shutdown_poll_def split: if_splits wait_result.splits)





text \<open>Once the drain handler has answered, the file no longer changes.\<close>

lemma drained_file_step: "shtdn_step x mgr s t \<Longrightarrow> ssDrain s = Some r \<Longrightarrow> ssDrain t = Some r \<and> ssFile t = ssFile s"
  by (erule shtdn_stepE) auto

lemma drained_file_reach: "shtdn_reach x mgr s t \<Longrightarrow> ssDrain s = Some r \<Longrightarrow> ssDrain t = Some r \<and> ssFile t = ssFile s"
  by (induction rule: shtdn_reach.induct) (auto dest: drained_file_step)

lemma blocked_reach:
  "shtdn_reach x mgr s t \<Longrightarrow> ssDrain s = Some r \<Longrightarrow> \<not> ssFile s \<Longrightarrow> ssShutdown s \<noteq> Some WroteOK \<Longrightarrow>
   ssShutdown t \<noteq> Some WroteOK"
proof (induction rule: shtdn_reach.induct)
  case (step s t u)
  have "\<not> ssFile t" using drained_file_reach [OF step.hyps(1)] step.prems by auto
  moreover have "ssShutdown t \<noteq> Some WroteOK" using step by simp
  ultimately show ?case
    using step.hyps(2) by (auto simp: stat_ok_def dest!: shutdown_poll_OK elim!: shtdn_stepE)
qed simp

lemma count_labels_eq: "count_labels ls g n = n + g * int (length (filter (\<lambda>l. l \<noteq> adminListenerPrefix) ls))"
  by (induction ls arbitrary: n) (simp_all add: algebra_simps)

lemma count_metrics_eq:
  "count_metrics ms n = n + (\<Sum>m\<leftarrow>ms. mGauge m * int (length (filter (\<lambda>l. l \<noteq> adminListenerPrefix) (mLabelValues m))))"
  by (induction ms arbitrary: n) (simp_all add: count_labels_eq)

section \<open>A sample pod\<close>

definition sample_mgr :: Manager where
  "sample_mgr = \<lparr> HTTPServePort = 8090, ShutdownReadyFile = ''/tmp/shutdown-ok'', ShutdownReadyCheckInterval = 1,
     CheckDrainInterval = 5, CheckDrainDelay = 15, StartDrainDelay = 0, EnvoyAdminAddress = ''http://localhost:9901'',
     MinOpenConnections = 0 \<rparr>"

text \<open>A parser for bodies that are a list of counts, one \<open>x\<close> per connection, separated by commas;
  the last one is the admin listener.\<close>

definition sample_parser :: parser_ops where
  "sample_parser =
     \<lparr> TextToMetricFamilies = (\<lambda>s.
         let parts = Split s CHR '',''; n = length parts in
         Inr [(prometheusStat, map (\<lambda>k. \<lparr> mLabelValues = [if Suc k = n then ''admin'' else ''ingress''],
                                          mGauge = int (length (parts ! k)) \<rparr>) [0..<n])]),
       sm_err_text = (\<lambda>_. []) \<rparr>"

definition sample_obs :: "string \<Rightarrow> goerror option \<Rightarrow> drain_obs" where
  "sample_obs body create = \<lparr> obsAnswer = Inr (200, ''200 OK'', body), obsCreate = create, obsWait = Elapsed \<rparr>"

lemma sample_polls:
  "getOpenConnections sample_parser sample_mgr (obsAnswer (sample_obs '',xx'' c)) = Inr 0"
  "getOpenConnections sample_parser sample_mgr (obsAnswer (sample_obs ''xxx,'' c)) = Inr 3"
  by (simp_all add: sample_obs_def getOpenConnections_def parseOpenConnections_def sample_parser_def prometheusStat_def
      adminListenerPrefix_def upt_rec)

lemma sample_low: "low_poll sample_mgr (Inr 0)" "\<not> low_poll sample_mgr (Inr 3)"
  by (simp_all add: low_poll_def sample_mgr_def)

lemma sample_drain: "drain_poll sample_parser sample_mgr (sample_obs '',xx'' c) = (Some WroteOK, c = None)"
proof -
  have "getOpenConnections sample_parser sample_mgr (Inr (200, ''200 OK'', '',xx'')) = Inr 0"
    using sample_polls(1) [of c] by (simp add: sample_obs_def)
  then show ?thesis by (simp add: drain_poll_def sample_obs_def sample_mgr_def)
qed

definition drained_state :: "bool \<Rightarrow> shtdn_state" where
  "drained_state file = \<lparr> ssFile = file, ssDrain = Some WroteOK, ssShutdown = None, ssPolls = [Inr 0] \<rparr>"


section \<open>Properties\<close>



text \<open>When the ready file cannot be created the pod hangs: \<open>/drain\<close> still answers OK, and
  from then on \<open>/shutdown\<close> is never answered with OK; it waits until its request is cancelled.\<close>

theorem shutdown_blocked_without_file:
  assumes "ssDrain s = None" "\<not> ssFile s" "ssShutdown s = None"
    and "drain_poll x mgr ob = (Some WroteOK, False)"
    and "shtdn_reach x mgr (s\<lparr> ssDrain := Some WroteOK,
           ssPolls := getOpenConnections x mgr (obsAnswer ob) # ssPolls s \<rparr>) t"
  shows "ssShutdown t \<noteq> Some WroteOK"
  using assms(5) by (rule blocked_reach) (simp_all add: assms(2,3))

theorem shutdown_blocked_without_file_witness:
  "ssShutdown (drained_state False) \<noteq> Some WroteOK"
proof (rule shutdown_blocked_without_file [of shtdn_init])
  show "drain_poll sample_parser sample_mgr (sample_obs '',xx'' (Some (PlainError ''read-only file system''))) = (Some WroteOK, False)"
    by (simp add: sample_drain)
  show "shtdn_reach sample_parser sample_mgr (shtdn_init\<lparr> ssDrain := Some WroteOK, ssPolls :=
      getOpenConnections sample_parser sample_mgr (obsAnswer (sample_obs '',xx'' (Some (PlainError ''read-only file system''))))
      # ssPolls shtdn_init \<rparr>) (drained_state False)"
    unfolding sample_polls by (simp add: shtdn_init_def drained_state_def shtdn_reach.refl)
qed (simp_all add: shtdn_init_def)

text \<open>(C40) The handlers terminate when they should: \<open>/drain\<close> answers OK, and creates the file if
  the file system lets it, at the first poll that sees few enough connections, however many
  polls failed or saw more before; \<open>/shutdown\<close> answers OK at the first poll that finds the
  file.\<close>

theorem handlers_answer:
  assumes "list_all (\<lambda>ob. \<not> low_poll mgr (getOpenConnections x mgr (obsAnswer ob)) \<and> obsWait ob = Elapsed) before"
    and "low_poll mgr (getOpenConnections x mgr (obsAnswer ob))"
    and "list_all (\<lambda>(stat, wait). stat \<noteq> FileExists \<and> wait = Elapsed) waiting"
  shows "drain_loop x mgr (before @ ob # after) = (Some WroteOK, obsCreate ob = None) \<and>
    shutdownHandler (waiting @ (FileExists, wait) # rest) = Some WroteOK"
proof -
  have poll: "drain_poll x mgr ob = (Some WroteOK, obsCreate ob = None)"
    using assms(2) by (auto simp: drain_poll_def low_poll_def split: sum.splits)
  have skip: "drain_poll x mgr ob' = (None, False)"
    if "\<not> low_poll mgr (getOpenConnections x mgr (obsAnswer ob'))" "obsWait ob' = Elapsed" for ob'
    using that by (auto simp: drain_poll_def low_poll_def split: sum.splits)
  have "drain_loop x mgr (before @ ob # after) = (Some WroteOK, obsCreate ob = None)"
    using assms(1) by (induction before) (simp_all add: poll skip)
  moreover have "shutdownHandler (waiting @ (FileExists, wait) # rest) = Some WroteOK"
    using assms(3) by (induction waiting) (auto simp: shutdown_poll_def)
  ultimately show ?thesis by simp
qed

theorem handlers_answer_witness:
  "drain_loop sample_parser sample_mgr [sample_obs ''xxx,'' None, sample_obs '',xx'' None] = (Some WroteOK, True) \<and>
   shutdownHandler [(StatFailed, Elapsed), (FileMissing, Elapsed), (FileExists, Elapsed)] = Some WroteOK"
  using handlers_answer [of sample_mgr sample_parser "[sample_obs ''xxx,'' None]" "sample_obs '',xx'' None"
      "[(StatFailed, Elapsed), (FileMissing, Elapsed)]" "[]" Elapsed "[]"]
  by (simp add: sample_polls sample_low) (simp add: sample_obs_def)

text \<open>What is counted as open connections: each metric counts once for every label value that
  is not \<open>admin\<close>. So when every metric has one label, the count is the sum over the listeners
  other than the admin listener; a metric with two such labels counts twice.\<close>

theorem open_connections_count:
  assumes "TextToMetricFamilies x text = Inr families" "map_of families prometheusStat = Some ms"
  shows "parseOpenConnections x (Some text) =
      Inr (\<Sum>m\<leftarrow>ms. mGauge m * int (length (filter (\<lambda>l. l \<noteq> adminListenerPrefix) (mLabelValues m)))) \<and>
    (list_all (\<lambda>m. length (mLabelValues m) = 1) ms \<longrightarrow>
     parseOpenConnections x (Some text) = Inr (\<Sum>m\<leftarrow>filter (\<lambda>m. mLabelValues m \<noteq> [adminListenerPrefix]) ms. mGauge m))"
proof -
  have "(\<Sum>m\<leftarrow>ms. mGauge m * int (length (filter (\<lambda>l. l \<noteq> adminListenerPrefix) (mLabelValues m)))) =
      (\<Sum>m\<leftarrow>filter (\<lambda>m. mLabelValues m \<noteq> [adminListenerPrefix]) ms. mGauge m)"
    if "list_all (\<lambda>m. length (mLabelValues m) = 1) ms"
    using that by (induction ms) (auto simp: length_Suc_conv)
  then show ?thesis using assms by (simp add: parseOpenConnections_def count_metrics_eq)
qed

theorem open_connections_count_witness:
  "parseOpenConnections (sample_parser\<lparr> TextToMetricFamilies := (\<lambda>_. Inr [(prometheusStat,
     [\<lparr> mLabelValues = [''ingress'', ''zone''], mGauge = 2 \<rparr>, \<lparr> mLabelValues = [''admin''], mGauge = 7 \<rparr>])]) \<rparr>) (Some []) = Inr 4"
  using open_connections_count [of "sample_parser\<lparr> TextToMetricFamilies := (\<lambda>_. Inr [(prometheusStat,
     [\<lparr> mLabelValues = [''ingress'', ''zone''], mGauge = 2 \<rparr>, \<lparr> mLabelValues = [''admin''], mGauge = 7 \<rparr>])]) \<rparr>" "[]"]
  by (simp add: adminListenerPrefix_def)

end
