(* ===== verification/Sidecar.thy ===== *)
theory Sidecar
  imports OperatorTypes NetIP
begin

text \<open>
  The mutating webhook that injects an Envoy sidecar into pods
  (\<open>pkg/webhooks/podv1mutator\<close>): reading the container configuration from the annotations of
  the pod (\<open>sidecar.go\<close>) and adding containers, volumes and lifecycle hooks
  (\<open>handle.go\<close>).

  Decoding the admission request and encoding the pod, quantities, the image of the program and
  the reads of \<open>DiscoveryService\<close> objects are parameters.
\<close>

section \<open>Annotations\<close>

definition marin3rAnnotationsDomain :: string where "marin3rAnnotationsDomain = ''marin3r.3scale.net''"

definition paramNodeID :: string where "paramNodeID = ''node-id''"
definition paramClusterID :: string where "paramClusterID = ''cluster-id''"
definition paramContainerName :: string where "paramContainerName = ''container-name''"
definition paramPorts :: string where "paramPorts = ''ports''"
definition paramHostPortMapings :: string where "paramHostPortMapings = ''host-port-mappings''"
definition paramImage :: string where "paramImage = ''envoy-image''"
definition paramConfigVolume :: string where "paramConfigVolume = ''config-volume''"
definition paramTLSVolume :: string where "paramTLSVolume = ''tls-volume''"
definition paramClientCertificate :: string where "paramClientCertificate = ''client-certificate''"
definition paramEnvoyExtraArgs :: string where "paramEnvoyExtraArgs = ''envoy-extra-args''"
definition paramEnvoyAPIVersion :: string where "paramEnvoyAPIVersion = ''envoy-api-version''"
definition paramDiscoveryServiceName :: string where "paramDiscoveryServiceName = ''discovery-service.name''"
definition paramEnvoyAdminPort :: string where "paramEnvoyAdminPort = ''admin.port''"
definition paramEnvoyAdminBindAddress :: string where "paramEnvoyAdminBindAddress = ''admin.bind-address''"
definition paramEnvoyAdminAccessLogPath :: string where "paramEnvoyAdminAccessLogPath = ''admin.access-log-path''"
definition paramResourceRequestsCPU :: string where "paramResourceRequestsCPU = ''resources.requests.cpu''"
definition paramResourceRequestsMemory :: string where "paramResourceRequestsMemory = ''resources.requests.memory''"
definition paramResourceLimitsCPU :: string where "paramResourceLimitsCPU = ''resources.limits.cpu''"
definition paramResourceLimitsMemory :: string where "paramResourceLimitsMemory = ''resources.limits.memory''"
definition paramShtdnMgrEnabled :: string where "paramShtdnMgrEnabled = ''shutdown-manager.enabled''"
definition paramShtdnMgrServerPort :: string where "paramShtdnMgrServerPort = ''shutdown-manager.port''"
definition paramShtdnMgrImage :: string where "paramShtdnMgrImage = ''shutdown-manager.image''"
definition paramShtdnMgrExtraLifecycleHooks :: string where
  "paramShtdnMgrExtraLifecycleHooks = ''shutdown-manager.extra-lifecycle-hooks''"
definition paramShtdnMgrDrainTime :: string where "paramShtdnMgrDrainTime = ''shutdown-manager.drain-time''"
definition paramShtdnMgrDrainStrategy :: string where "paramShtdnMgrDrainStrategy = ''shutdown-manager.drain-strategy''"
definition paramInitMgrImage :: string where "paramInitMgrImage = ''init-manager.image''"

definition lookupMarin3rAnnotation :: "string \<Rightarrow> string_map \<Rightarrow> string option" where
  "lookupMarin3rAnnotation key annotations = map_of annotations (marin3rAnnotationsDomain @ ''/'' @ key)"

definition getNodeID :: "string_map \<Rightarrow> string" where
  "getNodeID annotations = (case lookupMarin3rAnnotation paramNodeID annotations of Some v \<Rightarrow> v | None \<Rightarrow> [])"

definition string_defaults :: "image_env \<Rightarrow> (string \<times> string) list" where
  "string_defaults i =
     [(paramContainerName, SidecarContainerName), (paramImage, Image), (paramConfigVolume, SidecarConfigVolume),
      (paramTLSVolume, SidecarTLSVolume), (paramClientCertificate, SidecarClientCertificate),
      (paramEnvoyExtraArgs, EnvoyExtraArgs), (paramEnvoyAPIVersion, EnvoyAPIVersion), (paramShtdnMgrEnabled, ''false''),
      (paramShtdnMgrImage, ShtdnMgrImage i), (paramDiscoveryServiceName, []),
      (paramEnvoyAdminBindAddress, EnvoyAdminBindAddress), (paramEnvoyAdminAccessLogPath, EnvoyAdminAccessLogPath),
      (paramInitMgrImage, InitMgrImage i)]"

definition getStringParam :: "image_env \<Rightarrow> string \<Rightarrow> string_map \<Rightarrow> string" where
  "getStringParam i key annotations =
     (case lookupMarin3rAnnotation key annotations of
        Some value \<Rightarrow> value
      | None \<Rightarrow>
          (if key = ''cluster-id'' then getNodeID annotations
           else case map_of (string_defaults i) key of Some v \<Rightarrow> v | None \<Rightarrow> []))"

definition getInt64Param :: "string \<Rightarrow> string_map \<Rightarrow> 64 word" where
  "getInt64Param key annotations =
     (let default = (if key = paramShtdnMgrDrainTime then GracefulShutdownTimeoutSeconds else 0) in
      case lookupMarin3rAnnotation key annotations of
        Some s \<Rightarrow> (case Atoi s of Some n \<Rightarrow> word_of_int n | None \<Rightarrow> default)
      | None \<Rightarrow> default)"

definition getDrainStrategy :: "string_map \<Rightarrow> string" where
  "getDrainStrategy annotations =
     (case lookupMarin3rAnnotation paramShtdnMgrDrainStrategy annotations of
        Some value \<Rightarrow> if value = DrainStrategyGradual \<or> value = DrainStrategyImmediate then value else GracefulShutdownStrategy
      | None \<Rightarrow> GracefulShutdownStrategy)"

section \<open>Resources\<close>

text \<open>One of the four optional quantities: parse it and add it to the list.\<close>

definition add_quantity ::
    "quantity_ops \<Rightarrow> string \<Rightarrow> string option \<Rightarrow> ResourceList option \<Rightarrow> goerror + ResourceList option" where
  "add_quantity q resource annotation rl =
     (case annotation of
        None \<Rightarrow> Inr rl
      | Some s \<Rightarrow>
          (case q s of
             Inl err \<Rightarrow> Inl err
           | Inr v \<Rightarrow> Inr (map_option (\<lambda>l. l @ [(resource, v)]) rl)))"

definition getContainerResourceRequirements :: "quantity_ops \<Rightarrow> string_map \<Rightarrow> goerror + ResourceRequirements" where
  "getContainerResourceRequirements q annotations =
     (let cpuR = lookupMarin3rAnnotation paramResourceRequestsCPU annotations;
          memR = lookupMarin3rAnnotation paramResourceRequestsMemory annotations;
          cpuL = lookupMarin3rAnnotation paramResourceLimitsCPU annotations;
          memL = lookupMarin3rAnnotation paramResourceLimitsMemory annotations;
          requests = (if cpuR \<noteq> None \<or> memR \<noteq> None then Some [] else None);
          limits = (if cpuL \<noteq> None \<or> memL \<noteq> None then Some [] else None)
      in case add_quantity q ''cpu'' cpuR requests of Inl err \<Rightarrow> Inl err | Inr requests1 \<Rightarrow>
         (case add_quantity q ''memory'' memR requests1 of Inl err \<Rightarrow> Inl err | Inr requests2 \<Rightarrow>
         (case add_quantity q ''cpu'' cpuL limits of Inl err \<Rightarrow> Inl err | Inr limits1 \<Rightarrow>
         (case add_quantity q ''memory'' memL limits1 of Inl err \<Rightarrow> Inl err | Inr limits2 \<Rightarrow>
            Inr \<lparr> rqRequests = requests2, rqLimits = limits2 \<rparr>))))"

section \<open>Ports\<close>

definition portNumber :: "string \<Rightarrow> goerror + 32 word" where
  "portNumber sport =
     (case Atoi sport of
        None \<Rightarrow> Inl (PlainError (sport @ '' doesn'' @ [CHR 39] @ ''t look like a port number, check your port specs''))
      | Some iport \<Rightarrow>
          (if iport < 1024 \<or> iport > 65535
           then Inl (PlainError (''port number '' @ show_int iport @ '' is not in the range 1024-65535''))
           else Inr (word_of_int iport)))"

definition getPortOrDefault :: "string \<Rightarrow> string_map \<Rightarrow> 32 word \<Rightarrow> 32 word" where
  "getPortOrDefault key annotations defaultPort =
     (case lookupMarin3rAnnotation key annotations of
        Some s \<Rightarrow> (case portNumber s of Inl _ \<Rightarrow> defaultPort | Inr p \<Rightarrow> p)
      | None \<Rightarrow> defaultPort)"

definition parsePortSpec :: "string \<Rightarrow> goerror + ContainerPort" where
  "parsePortSpec spec =
     (case Split spec CHR '':'' of
        name # number # rest \<Rightarrow>
          (case portNumber number of
             Inl err \<Rightarrow> Inl err
           | Inr p \<Rightarrow>
               (let port = \<lparr> ctpName = name, ctpContainerPort = p, ctpHostPort = 0, ctpProtocol = [] \<rparr> in
                case rest of
                  [protocol] \<Rightarrow>
                    (if protocol = ''TCP'' \<or> protocol = ''UDP'' \<or> protocol = ''SCTP''
                     then Inr (port\<lparr> ctpProtocol := protocol \<rparr>)
                     else Inl (PlainError (''unsupported port protocol '' @ quoted protocol)))
                | _ \<Rightarrow> Inr port))
      | _ \<Rightarrow> Inl (PlainError (''incorrect format, the por specification format for the envoy sidecar container is ''
                    @ quoted ''name:port[:protocol]'')))"

fun find_host_port :: "string \<Rightarrow> string list \<Rightarrow> goerror + 32 word" where
  "find_host_port portName [] = Inr 0"
| "find_host_port portName (spec # specs) =
     (case Split spec CHR '':'' of
        [name, number] \<Rightarrow>
          (if name = portName then portNumber number else find_host_port portName specs)
      | _ \<Rightarrow> Inl (PlainError (''incorrect number of params in host-port-mapping spec '' @ quoted spec)))"

definition hostPortMapping :: "string \<Rightarrow> string_map \<Rightarrow> goerror + 32 word" where
  "hostPortMapping portName annotations =
     (case lookupMarin3rAnnotation paramHostPortMapings annotations of
        Some specs \<Rightarrow> find_host_port portName (Split specs CHR '','')
      | None \<Rightarrow> Inr 0)"

fun container_ports :: "string_map \<Rightarrow> string list \<Rightarrow> goerror + ContainerPort list" where
  "container_ports annotations [] = Inr []"
| "container_ports annotations (spec # specs) =
     (case parsePortSpec spec of
        Inl err \<Rightarrow> Inl err
      | Inr p \<Rightarrow>
          (case hostPortMapping (ctpName p) annotations of
             Inl err \<Rightarrow> Inl err
           | Inr hp \<Rightarrow>
               (case container_ports annotations specs of
                  Inl err \<Rightarrow> Inl err
                | Inr plist \<Rightarrow> Inr ((if hp \<noteq> 0 then p\<lparr> ctpHostPort := hp \<rparr> else p) # plist))))"

definition getContainerPorts :: "string_map \<Rightarrow> goerror + ContainerPort list" where
  "getContainerPorts annotations =
     (case lookupMarin3rAnnotation paramPorts annotations of
        Some ports \<Rightarrow> container_ports annotations (Split ports CHR '','')
      | None \<Rightarrow> Inr [])"

section \<open>The configuration\<close>

definition isShtdnMgrEnabled :: "image_env \<Rightarrow> string_map \<Rightarrow> bool" where
  "isShtdnMgrEnabled i annotations =
     (case ParseBool (getStringParam i paramShtdnMgrEnabled annotations) of Some b \<Rightarrow> b | None \<Rightarrow> False)"

record 'w ds_reads =
  sd_get :: "'w \<Rightarrow> NamespacedName \<Rightarrow> goerror + DiscoveryService"
  sd_list :: "'w \<Rightarrow> string \<Rightarrow> goerror + DiscoveryService list"

definition ds_address :: "DiscoveryService \<Rightarrow> string \<Rightarrow> string \<times> int" where
  "ds_address ds namespace = (scName (GetServiceConfig ds) @ ''.'' @ namespace @ ''.svc'', uint (GetXdsServerPort ds))"

definition getDiscoveryServiceAddress ::
    "image_env \<Rightarrow> 'w ds_reads \<Rightarrow> 'w \<Rightarrow> string \<Rightarrow> string_map \<Rightarrow> goerror + string \<times> int" where
  "getDiscoveryServiceAddress i k w namespace annotations =
     (let dsName = getStringParam i paramDiscoveryServiceName annotations in
      if dsName \<noteq> [] then
        (case sd_get k w (namespace, dsName) of Inl err \<Rightarrow> Inl err | Inr ds \<Rightarrow> Inr (ds_address ds namespace))
      else
        (case sd_list k w namespace of
           Inl err \<Rightarrow> Inl err
         | Inr [ds] \<Rightarrow> Inr (ds_address ds namespace)
         | Inr dss \<Rightarrow> Inl (PlainError (''expected just one DiscoveryService, got '' @ show_nat (length dss)))))"

definition PopulateFromAnnotations ::
    "quantity_ops \<Rightarrow> image_env \<Rightarrow> 'w ds_reads \<Rightarrow> 'w \<Rightarrow> string \<Rightarrow> string_map \<Rightarrow> goerror + ContainerConfig" where
  "PopulateFromAnnotations q i k w namespace annotations =
     (case getContainerPorts annotations of Inl err \<Rightarrow> Inl err | Inr ports \<Rightarrow>
     (case getContainerResourceRequirements q annotations of Inl err \<Rightarrow> Inl err | Inr resources \<Rightarrow>
     (case getDiscoveryServiceAddress i k w namespace annotations of Inl err \<Rightarrow> Inl err | Inr (xdssHost, xdssPort) \<Rightarrow>
        (let param = (\<lambda>key. getStringParam i key annotations) in
         Inr \<lparr> ccName = param paramContainerName, ccImage = param paramImage, ccConfigBasePath = EnvoyConfigBasePath,
               ccConfigFileName = EnvoyConfigFileName, ccConfigVolume = param paramConfigVolume,
               ccTLSBasePath = EnvoyTLSBasePath, ccTLSVolume = param paramTLSVolume, ccNodeID = getNodeID annotations,
               ccClusterID = param paramClusterID, ccClientCertSecret = param paramClientCertificate,
               ccExtraArgs = (let extraArgs = param paramEnvoyExtraArgs in
                              if extraArgs \<noteq> [] then Split extraArgs CHR '' '' else []),
               ccResources = resources, ccAdminBindAddress = param paramEnvoyAdminBindAddress,
               ccAdminPort = getPortOrDefault paramEnvoyAdminPort annotations EnvoyAdminPort,
               ccAdminAccessLogPath = param paramEnvoyAdminAccessLogPath, ccPorts = ports,
               ccLivenessProbe = defaultLivenessProbe, ccReadinessProbe = defaultReadinessProbe,
               ccInitManagerImage = param paramInitMgrImage, ccXdssHost = xdssHost, ccXdssPort = xdssPort,
               ccAPIVersion = param paramEnvoyAPIVersion,
               ccShutdownManagerEnabled = isShtdnMgrEnabled i annotations,
               ccShutdownManagerPort = getPortOrDefault paramShtdnMgrServerPort annotations ShtdnMgrDefaultServerPort,
               ccShutdownManagerImage = param paramShtdnMgrImage,
               ccShutdownManagerDrainSeconds = getInt64Param paramShtdnMgrDrainTime annotations,
               ccShutdownManagerDrainStrategy = getDrainStrategy annotations \<rparr>))))"

section \<open>Extra lifecycle hooks\<close>

definition parseExtraLifecycleHooksAnnotation :: "image_env \<Rightarrow> string_map \<Rightarrow> string list" where
  "parseExtraLifecycleHooksAnnotation i annotations =
     (let c = getStringParam i paramShtdnMgrExtraLifecycleHooks annotations in
      if c = [] then [] else Split c CHR '','')"

fun getContainerByName :: "string \<Rightarrow> Container list \<Rightarrow> goerror + Container \<times> nat" where
  "getContainerByName name [] =
     Inl (PlainError (''container '' @ quoted name @ '' specified in the ''
            @ quoted ''shutdown-manager.extra-lifecycle-hooks'' @ '' annotation was not found''))"
| "getContainerByName name (c # cs) =
     (if ctName c = name then Inr (c, 0)
      else case getContainerByName name cs of Inl err \<Rightarrow> Inl err | Inr (c', pos) \<Rightarrow> Inr (c', Suc pos))"

fun add_hooks :: "32 word \<Rightarrow> Container list \<Rightarrow> string list \<Rightarrow> goerror + Container list" where
  "add_hooks port containers [] = Inr containers"
| "add_hooks port containers (name # names) =
     (case getContainerByName name containers of
        Inl err \<Rightarrow> Inl err
      | Inr (_, pos) \<Rightarrow>
          add_hooks port
            (containers[pos := (containers ! pos)\<lparr> ctLifecycle := Some (pre_stop (http_get DrainEndpoint port)) \<rparr>]) names)"

definition addExtraLifecycleHooks ::
    "image_env \<Rightarrow> ContainerConfig \<Rightarrow> Container list \<Rightarrow> string_map \<Rightarrow> goerror + Container list" where
  "addExtraLifecycleHooks i cc containers annotations =
     add_hooks (ccShutdownManagerPort cc) containers (parseExtraLifecycleHooksAnnotation i annotations)"

section \<open>The handler\<close>

text \<open>What the handler does to the decoded pod: an HTTP status with an error, or the new pod. A
  panic of the generator is passed on with status 500, which is what the server answers.\<close>

definition mutate_pod ::
    "quantity_ops \<Rightarrow> image_env \<Rightarrow> 'w ds_reads \<Rightarrow> (goerror \<Rightarrow> string) \<Rightarrow> 'w \<Rightarrow> string \<Rightarrow> Pod \<Rightarrow> (nat \<times> goerror) + Pod" where
  "mutate_pod q i k err_text w namespace pod =
     (if lookupMarin3rAnnotation paramNodeID (podAnnotations pod) = None
      then Inl (400, PlainError (''missing '' @ quoted (marin3rAnnotationsDomain @ ''/'' @ paramNodeID) @ '' annotation''))
      else case PopulateFromAnnotations q i k w namespace (podAnnotations pod) of
        Inl err \<Rightarrow> Inl (400, PlainError (''error trying to build envoy container config: '' @ quoted (err_text err)))
      | Inr cc \<Rightarrow>
          (case cc_Containers q cc of
             Inl p \<Rightarrow> Inl (500, p)
           | Inr injected \<Rightarrow>
               (let ps = (podSpec pod)\<lparr> psInitContainers := psInitContainers (podSpec pod) @ cc_InitContainers cc,
                                       psContainers := psContainers (podSpec pod) @ injected,
                                       psVolumes := psVolumes (podSpec pod) @ cc_Volumes cc \<rparr>
                in if isShtdnMgrEnabled i (podAnnotations pod) then
                     (case addExtraLifecycleHooks i cc (psContainers ps) (podAnnotations pod) of
                        Inl err \<Rightarrow> Inl (400, err)
                      | Inr containers \<Rightarrow>
                          Inr (pod\<lparr> podSpec := ps\<lparr> psTerminationGracePeriodSeconds := Some (ccShutdownManagerDrainSeconds cc),
                                                  psContainers := containers \<rparr> \<rparr>))
                   else Inr (pod\<lparr> podSpec := ps \<rparr>))))"

datatype admission_response = Errored nat goerror | PatchResponse string string

definition PodMutator_Handle ::
    "quantity_ops \<Rightarrow> image_env \<Rightarrow> 'w ds_reads \<Rightarrow> (goerror \<Rightarrow> string) \<Rightarrow> (string \<Rightarrow> goerror + Pod) \<Rightarrow> (Pod \<Rightarrow> goerror + string)
     \<Rightarrow> 'w \<Rightarrow> string \<Rightarrow> string \<Rightarrow> admission_response" where
  "PodMutator_Handle q i k err_text decode marshal w namespace raw =
     (case decode raw of
        Inl err \<Rightarrow> Errored 400 err
      | Inr pod \<Rightarrow>
          (case mutate_pod q i k err_text w namespace pod of
             Inl (code, err) \<Rightarrow> Errored code err
           | Inr pod' \<Rightarrow>
               (case marshal pod' of Inl err \<Rightarrow> Errored 500 err | Inr marshaledPod \<Rightarrow> PatchResponse raw marshaledPod)))"

end
