(* ===== verification/SidecarProperties.thy ===== *)
theory SidecarProperties
  imports Sidecar
begin

text \<open>
  What the sidecar injector guarantees: the ports it accepts, that the port annotation is read
  as it is meant, and that injection adds to a pod without changing what the user put there,
  lifecycle hooks that the user asks for apart.
\<close>

section \<open>Ports\<close>

definition valid_port :: "32 word \<Rightarrow> bool" where
  "valid_port p = (1024 \<le> uint p \<and> uint p \<le> 65535)"

definition port_ok :: "ContainerPort \<Rightarrow> bool" where
  "port_ok p = (valid_port (ctpContainerPort p) \<and> (ctpHostPort p = 0 \<or> valid_port (ctpHostPort p)) \<and>
     ctpProtocol p \<in> {'''', ''TCP'', ''UDP'', ''SCTP''})"

lemma uint_small: "0 \<le> n \<Longrightarrow> n < 2 ^ 32 \<Longrightarrow> uint (word_of_int n :: 32 word) = n"
  by (simp add: unsigned_of_int take_bit_int_eq_self)

lemma portNumber_valid: "portNumber s = Inr p \<Longrightarrow> valid_port p"
  by (auto simp: portNumber_def valid_port_def uint_small split: option.splits if_splits)

lemma portNumber_show:
  assumes "1024 \<le> n" "n \<le> 65535"
  shows "portNumber (show_int n) = Inr (word_of_int n)"
  using assms by (simp add: portNumber_def Atoi_show_int min_int64_def max_int64_def)

lemma parsePortSpec_ok: "parsePortSpec spec = Inr p \<Longrightarrow> port_ok p"
  by (auto simp: parsePortSpec_def port_ok_def Let_def dest: portNumber_valid
      split: list.splits sum.splits if_splits)

lemma find_host_port_ok: "find_host_port name specs = Inr hp \<Longrightarrow> hp = 0 \<or> valid_port hp"
  by (induction specs) (auto dest: portNumber_valid split: list.splits if_splits)

lemma hostPortMapping_ok: "hostPortMapping name a = Inr hp \<Longrightarrow> hp = 0 \<or> valid_port hp"
  by (auto simp: hostPortMapping_def dest: find_host_port_ok split: option.splits)

lemma container_ports_ok: "container_ports a specs = Inr ps \<Longrightarrow> list_all port_ok ps"
proof (induction specs arbitrary: ps)
  case (Cons spec specs)
  then obtain p hp plist where p: "parsePortSpec spec = Inr p" "hostPortMapping (ctpName p) a = Inr hp"
    "container_ports a specs = Inr plist" "ps = (if hp \<noteq> 0 then p\<lparr> ctpHostPort := hp \<rparr> else p) # plist"
    by (auto split: sum.splits)
  have "port_ok p" using p(1) by (rule parsePortSpec_ok)
  then have "port_ok (if hp \<noteq> 0 then p\<lparr> ctpHostPort := hp \<rparr> else p)"
    using hostPortMapping_ok [OF p(2)] by (auto simp: port_ok_def)
  with Cons.IH [OF p(3)] p(4) show ?case by simp
qed simp

text \<open>How a list of ports is written in the annotation.\<close>

record port_spec =
  psName :: string
  psNumber :: int
  psProtocol :: "string option"

definition spec_ok :: "port_spec \<Rightarrow> bool" where
  "spec_ok s = (CHR '':'' \<notin> set (psName s) \<and> CHR '','' \<notin> set (psName s) \<and> 1024 \<le> psNumber s \<and> psNumber s \<le> 65535 \<and>
     (case psProtocol s of None \<Rightarrow> True | Some p \<Rightarrow> p \<in> {''TCP'', ''UDP'', ''SCTP''}))"

definition print_spec :: "port_spec \<Rightarrow> string" where
  "print_spec s = Join ([psName s, show_int (psNumber s)] @ (case psProtocol s of None \<Rightarrow> [] | Some p \<Rightarrow> [p])) '':''"

definition spec_port :: "port_spec \<Rightarrow> ContainerPort" where
  "spec_port s = \<lparr> ctpName = psName s, ctpContainerPort = word_of_int (psNumber s), ctpHostPort = 0,
     ctpProtocol = (case psProtocol s of None \<Rightarrow> [] | Some p \<Rightarrow> p) \<rparr>"

lemma digit_char_no_sep: "d < 10 \<Longrightarrow> digit_char d \<noteq> CHR '','' \<and> digit_char d \<noteq> CHR '':''"
  using digit_val_digit_char [of d] by (auto simp: digit_val_def Let_def)

lemma show_nat_no_sep: "CHR '','' \<notin> set (show_nat n) \<and> CHR '':'' \<notin> set (show_nat n)"
  using show_nat_digits [of _ n] digit_char_no_sep by metis

lemma spec_fields:
  assumes "spec_ok s"
  shows "Split (print_spec s) CHR '':'' = [psName s, show_int (psNumber s)] @ (case psProtocol s of None \<Rightarrow> [] | Some p \<Rightarrow> [p])"
  unfolding print_spec_def
  using assms show_nat_no_sep
  by (intro Split_Join) (auto simp: spec_ok_def show_int_def split: option.splits)

lemma parse_print_spec: "spec_ok s \<Longrightarrow> parsePortSpec (print_spec s) = Inr (spec_port s)"
  by (auto simp: parsePortSpec_def spec_fields spec_port_def spec_ok_def portNumber_show split: option.splits)

lemma print_spec_no_comma: "spec_ok s \<Longrightarrow> CHR '','' \<notin> set (print_spec s)"
  using show_nat_no_sep [of "nat (psNumber s)"]
  by (auto simp: print_spec_def spec_ok_def show_int_def split: option.splits)

section \<open>Lifecycle hooks\<close>

lemma getContainerByName_Inr: "getContainerByName name cs = Inr (c, pos) \<Longrightarrow> pos < length cs \<and> ctName (cs ! pos) = name"
  by (induction cs arbitrary: pos) (auto split: if_splits sum.splits)

definition hooked :: "32 word \<Rightarrow> Container \<Rightarrow> Container" where
  "hooked port c = c\<lparr> ctLifecycle := Some (pre_stop (http_get DrainEndpoint port)) \<rparr>"

definition hook_rel :: "32 word \<Rightarrow> string list \<Rightarrow> Container \<Rightarrow> Container \<Rightarrow> bool" where
  "hook_rel port names c c' = (c' = c \<or> (ctName c \<in> set names \<and> c' = hooked port c))"

lemma hooked_simps [simp]: "ctName (hooked port c) = ctName c" "hooked port (hooked port c) = hooked port c"
  "ctVolumeMounts (hooked port c) = ctVolumeMounts c"
  by (simp_all add: hooked_def)

lemma add_hooks_rel: "add_hooks port cs names = Inr cs' \<Longrightarrow> list_all2 (hook_rel port names) cs cs'"
proof (induction names arbitrary: cs)
  case Nil
  then show ?case by (simp add: hook_rel_def list_all2_refl)
next
  case (Cons name names)
  then obtain c pos where pos: "getContainerByName name cs = Inr (c, pos)"
    and rest: "add_hooks port (cs[pos := hooked port (cs ! pos)]) names = Inr cs'"
    by (auto simp: hooked_def split: sum.splits)
  have name: "pos < length cs" "ctName (cs ! pos) = name" using getContainerByName_Inr [OF pos] by simp_all
  have rel: "list_all2 (hook_rel port names) (cs[pos := hooked port (cs ! pos)]) cs'" by (rule Cons.IH [OF rest])
  show ?case
  proof (rule list_all2_all_nthI)
    show "length cs = length cs'" using list_all2_lengthD [OF rel] by simp
    fix n assume n: "n < length cs"
    then have "hook_rel port names (cs[pos := hooked port (cs ! pos)] ! n) (cs' ! n)"
      using list_all2_nthD [OF rel] by simp
    then show "hook_rel port (name # names) (cs ! n) (cs' ! n)"
      using n name by (cases "n = pos") (auto simp: hook_rel_def)
  qed
qed

section \<open>Injection\<close>

lemma mutate_pod_cases:
  assumes "mutate_pod q i k et w ns pod = Inr pod'"
  shows "\<exists>cc injected. PopulateFromAnnotations q i k w ns (podAnnotations pod) = Inr cc \<and>
    cc_Containers q cc = Inr injected \<and>
    psInitContainers (podSpec pod') = psInitContainers (podSpec pod) @ cc_InitContainers cc \<and>
    psVolumes (podSpec pod') = psVolumes (podSpec pod) @ cc_Volumes cc \<and>
    (if isShtdnMgrEnabled i (podAnnotations pod)
     then addExtraLifecycleHooks i cc (psContainers (podSpec pod) @ injected) (podAnnotations pod) = Inr (psContainers (podSpec pod')) \<and>
          psTerminationGracePeriodSeconds (podSpec pod') = Some (ccShutdownManagerDrainSeconds cc)
     else psContainers (podSpec pod') = psContainers (podSpec pod) @ injected \<and>
          psTerminationGracePeriodSeconds (podSpec pod') = psTerminationGracePeriodSeconds (podSpec pod))"
proof -
  obtain cc where cc: "PopulateFromAnnotations q i k w ns (podAnnotations pod) = Inr cc"
    using assms by (auto simp: mutate_pod_def split: if_splits sum.splits)
  then obtain injected where "cc_Containers q cc = Inr injected"
    using assms by (auto simp: mutate_pod_def split: if_splits sum.splits)
  with cc show ?thesis
    using assms by (auto simp: mutate_pod_def Let_def split: if_splits sum.splits)
qed

lemma Populate_enabled:
  "PopulateFromAnnotations q i k w ns a = Inr cc \<Longrightarrow> ccShutdownManagerEnabled cc = isShtdnMgrEnabled i a"
  by (auto simp: PopulateFromAnnotations_def Let_def split: sum.splits)

lemma cc_Containers_mounts: "cc_Containers q cc = Inr cs \<Longrightarrow> list_all (mounts_ok (cc_Volumes cc)) cs"
  by (auto simp: cc_Containers_def mounts_ok_def cc_Volumes_def envoy_container_def shutdown_manager_container_def
      default_container_def empty_container_def split: if_splits sum.splits)

lemma mounts_ok_append: "mounts_ok vs c \<Longrightarrow> mounts_ok (us @ vs) c"
  by (auto simp: mounts_ok_def list_all_iff)

lemma mounts_ok_hook: "hook_rel port names c c' \<Longrightarrow> mounts_ok vs c' = mounts_ok vs c"
  by (auto simp: hook_rel_def mounts_ok_def hooked_def)

lemma container_ports_printed:
  assumes "list_all spec_ok ss" "lookupMarin3rAnnotation paramHostPortMapings a = None"
  shows "container_ports a (map print_spec ss) = Inr (map spec_port ss)"
  using assms by (induction ss) (simp_all add: parse_print_spec hostPortMapping_def)

text \<open>A specification with more than three fields is accepted, and its protocol is dropped.\<close>

lemma parsePortSpec_extra_fields:
  "parsePortSpec ''http:8080:UDP:x'' = Inr \<lparr> ctpName = ''http'', ctpContainerPort = 8080, ctpHostPort = 0, ctpProtocol = [] \<rparr>"
  by code_simp

section \<open>A sample pod\<close>

definition user_container :: Container where
  "user_container = empty_container\<lparr> ctName := ''app'', ctImage := ''app:1'',
     ctLifecycle := Some \<lparr> lcPostStart = Some (OtherHandler ''exec warm-up''), lcPreStop = None \<rparr> \<rparr>"

definition sample_pod :: Pod where
  "sample_pod =
     \<lparr> podAnnotations = [(''marin3r.3scale.net/node-id'', ''node''),
         (''marin3r.3scale.net/ports'', ''http:8080,dns:5353:UDP''),
         (''marin3r.3scale.net/shutdown-manager.enabled'', ''true''),
         (''marin3r.3scale.net/shutdown-manager.extra-lifecycle-hooks'', ''app'')],
       podSpec = \<lparr> psInitContainers = [], psContainers = [user_container], psVolumes = [],
         psTerminationGracePeriodSeconds = Some 30, psServiceAccountName = ''default'', psPriorityClassName = [],
         psAffinity = None \<rparr> \<rparr>"

definition sidecar_ds :: DiscoveryService where
  "sidecar_ds =
     \<lparr> dsMeta = empty_meta\<lparr> Name := ''ds'', Namespace := ''ns'' \<rparr>,
       dsSpec = \<lparr> dsImage = None, dsDebug = None, dsResources = None, dsPKIConfig = None, dsXdsServerPort = None,
                  dsMetricsPort = None, dsProbePort = None, dsServiceConfig = None, dsPodPriorityClass = None \<rparr>,
       dsStatus = \<lparr> dssDeploymentName = None, dssDeploymentStatus = None \<rparr> \<rparr>"

definition sidecar_reads :: "unit ds_reads" where
  "sidecar_reads = \<lparr> sd_get = (\<lambda>_ _. Inr sidecar_ds), sd_list = (\<lambda>_ _. Inr [sidecar_ds]) \<rparr>"

definition sidecar_image :: image_env where
  "sidecar_image = \<lparr> builtImage = ''marin3r:v0'', MARIN3R_IMAGE = None \<rparr>"

abbreviation injected_sample :: "(nat \<times> goerror) + Pod" where
  "injected_sample \<equiv> mutate_pod (\<lambda>s. Inr (Quantity s)) sidecar_image sidecar_reads (\<lambda>_. []) () ''ns'' sample_pod"

abbreviation sample_specs :: "port_spec list" where
  "sample_specs \<equiv> [\<lparr> psName = ''http'', psNumber = 8080, psProtocol = None \<rparr>,
                    \<lparr> psName = ''dns'', psNumber = 5353, psProtocol = Some ''UDP'' \<rparr>]"

lemma sample_annotations:
  "lookupMarin3rAnnotation paramNodeID (podAnnotations sample_pod) = Some ''node''"
  "lookupMarin3rAnnotation paramPorts (podAnnotations sample_pod) = Some ''http:8080,dns:5353:UDP''"
  "lookupMarin3rAnnotation paramHostPortMapings (podAnnotations sample_pod) = None"
  "getStringParam sidecar_image paramDiscoveryServiceName (podAnnotations sample_pod) = []"
  "getContainerResourceRequirements (\<lambda>s. Inr (Quantity s)) (podAnnotations sample_pod) = Inr no_resources"
  "isShtdnMgrEnabled sidecar_image (podAnnotations sample_pod)"
  "parseExtraLifecycleHooksAnnotation sidecar_image (podAnnotations sample_pod) = [''app'']"
  "getInt64Param paramShtdnMgrDrainTime (podAnnotations sample_pod) = 300"
  by code_simp+

lemma sample_ports: "getContainerPorts (podAnnotations sample_pod) = Inr (map spec_port sample_specs)"
  by code_simp

lemma sample_injected: "\<exists>pod'. injected_sample = Inr pod'"
proof -
  have "\<exists>cc. PopulateFromAnnotations (\<lambda>s. Inr (Quantity s)) sidecar_image sidecar_reads () ''ns'' (podAnnotations sample_pod) = Inr cc"
    by (simp add: PopulateFromAnnotations_def sample_ports sample_annotations getDiscoveryServiceAddress_def sidecar_reads_def
        ds_address_def Let_def)
  then obtain cc where cc: "PopulateFromAnnotations (\<lambda>s. Inr (Quantity s)) sidecar_image sidecar_reads () ''ns'' (podAnnotations sample_pod) = Inr cc" ..
  obtain injected where inj: "cc_Containers (\<lambda>s. Inr (Quantity s)) cc = Inr injected"
    using cc_Containers_ok [of cc "\<lambda>s. Inr (Quantity s)"] by (auto simp: defaults_parse_def)
  have "psContainers (podSpec sample_pod) = [user_container]" "ctName user_container = ''app''"
    by (simp_all add: sample_pod_def user_container_def)
  with cc inj show ?thesis
    by (simp add: mutate_pod_def sample_annotations addExtraLifecycleHooks_def Let_def)
qed

section \<open>Properties\<close>

text \<open>(C37) The ports that are accepted: whatever the annotations say, when the container ports can be
  built every container port is between 1024 and 65535, every host port is unset or in that
  range, and every protocol is unset or one of TCP, UDP and SCTP.\<close>

theorem getContainerPorts_bounds:
  assumes "getContainerPorts annotations = Inr ps"
  shows "list_all port_ok ps"
  using assms by (auto simp: getContainerPorts_def dest: container_ports_ok split: option.splits)

theorem getContainerPorts_bounds_witness: "list_all port_ok (map spec_port sample_specs)"
  by (rule getContainerPorts_bounds [OF sample_ports])

text \<open>The port annotation is read as it is written: a list of one or more specifications
  \<open>name:port[:protocol]\<close> with names free of commas and colons, ports in the allowed range and
  supported protocols gives exactly these container ports, in order.\<close>

theorem getContainerPorts_round_trip:
  assumes "ss \<noteq> []" "list_all spec_ok ss"
    and "lookupMarin3rAnnotation paramPorts annotations = Some (Join (map print_spec ss) '','')"
    and "lookupMarin3rAnnotation paramHostPortMapings annotations = None"
  shows "getContainerPorts annotations = Inr (map spec_port ss)"
proof -
  have "Split (Join (map print_spec ss) '','') CHR '','' = map print_spec ss"
    using assms(1,2) print_spec_no_comma by (intro Split_Join) (auto simp: list_all_iff)
  then show ?thesis
    using assms(3) container_ports_printed [OF assms(2,4)] by (simp add: getContainerPorts_def)
qed

theorem getContainerPorts_round_trip_witness:
  "getContainerPorts (podAnnotations sample_pod) = Inr (map spec_port sample_specs)"
proof (rule getContainerPorts_round_trip)
  have "show_int 8080 = ''8080''" "show_int 5353 = ''5353''"
    by (simp_all add: show_int_def show_nat.simps digit_char_def char_of_def bit_0)
  then show "lookupMarin3rAnnotation paramPorts (podAnnotations sample_pod) = Some (Join (map print_spec sample_specs) '','')"
    by (simp add: sample_annotations print_spec_def)
qed (simp_all add: spec_ok_def sample_annotations)

text \<open>(C36) Injection adds and does not change: when a pod is mutated, its init containers, its
  containers and its volumes come first and in order, followed by the generated ones; annotations
  stay. A container is unchanged, except that, with the shutdown manager enabled, those the hooks
  annotation names get the drain hook as their whole lifecycle. Every mount of a generated
  container names a volume of the new pod, and an enabled shutdown manager comes with a grace
  period equal to the drain time.\<close>

theorem injection_preserves_pod:
  assumes "mutate_pod q i k et w ns pod = Inr pod'"
  shows "\<exists>cc injected. cc_Containers q cc = Inr injected \<and> podAnnotations pod' = podAnnotations pod \<and>
    psInitContainers (podSpec pod') = psInitContainers (podSpec pod) @ cc_InitContainers cc \<and>
    psVolumes (podSpec pod') = psVolumes (podSpec pod) @ cc_Volumes cc \<and>
    list_all2 (hook_rel (ccShutdownManagerPort cc)
        (if isShtdnMgrEnabled i (podAnnotations pod) then parseExtraLifecycleHooksAnnotation i (podAnnotations pod) else []))
      (psContainers (podSpec pod) @ injected) (psContainers (podSpec pod')) \<and>
    list_all (mounts_ok (psVolumes (podSpec pod')))
      (cc_InitContainers cc @ drop (length (psContainers (podSpec pod))) (psContainers (podSpec pod'))) \<and>
    psTerminationGracePeriodSeconds (podSpec pod') =
      (if isShtdnMgrEnabled i (podAnnotations pod) then Some (getInt64Param paramShtdnMgrDrainTime (podAnnotations pod))
       else psTerminationGracePeriodSeconds (podSpec pod))"
proof -
  let ?hooks = "if isShtdnMgrEnabled i (podAnnotations pod) then parseExtraLifecycleHooksAnnotation i (podAnnotations pod) else []"
  obtain cc injected where pop: "PopulateFromAnnotations q i k w ns (podAnnotations pod) = Inr cc"
    and cc: "cc_Containers q cc = Inr injected"
      "psInitContainers (podSpec pod') = psInitContainers (podSpec pod) @ cc_InitContainers cc"
      "psVolumes (podSpec pod') = psVolumes (podSpec pod) @ cc_Volumes cc"
    and containers: "if isShtdnMgrEnabled i (podAnnotations pod)
     then addExtraLifecycleHooks i cc (psContainers (podSpec pod) @ injected) (podAnnotations pod) = Inr (psContainers (podSpec pod')) \<and>
          psTerminationGracePeriodSeconds (podSpec pod') = Some (ccShutdownManagerDrainSeconds cc)
     else psContainers (podSpec pod') = psContainers (podSpec pod) @ injected \<and>
          psTerminationGracePeriodSeconds (podSpec pod') = psTerminationGracePeriodSeconds (podSpec pod)"
    using mutate_pod_cases [OF assms] by blast
  have rel: "list_all2 (hook_rel (ccShutdownManagerPort cc) ?hooks) (psContainers (podSpec pod) @ injected) (psContainers (podSpec pod'))"
    using containers add_hooks_rel
    by (auto simp: addExtraLifecycleHooks_def hook_rel_def list_all2_refl split: if_splits)
  have "list_all2 (hook_rel (ccShutdownManagerPort cc) ?hooks) injected
      (drop (length (psContainers (podSpec pod))) (psContainers (podSpec pod')))"
    using list_all2_dropI [OF rel, of "length (psContainers (podSpec pod))"] by simp
  then have "list_all (mounts_ok (psVolumes (podSpec pod'))) (drop (length (psContainers (podSpec pod))) (psContainers (podSpec pod')))"
    using cc_Containers_mounts [OF cc(1)] unfolding cc(3)
    by (induction rule: list_all2_induct) (auto simp: mounts_ok_hook mounts_ok_append)
  moreover have "list_all (mounts_ok (psVolumes (podSpec pod'))) (cc_InitContainers cc)"
    using cc_InitContainers_mounts [of cc] by (auto simp: cc(3) list_all_iff mounts_ok_append)
  moreover have "podAnnotations pod' = podAnnotations pod"
    using assms by (auto simp: mutate_pod_def Let_def split: if_splits sum.splits)
  moreover have "ccShutdownManagerDrainSeconds cc = getInt64Param paramShtdnMgrDrainTime (podAnnotations pod)"
    using pop by (auto simp: PopulateFromAnnotations_def Let_def split: sum.splits)
  ultimately show ?thesis using cc rel containers by (intro exI [of _ cc] exI [of _ injected]) simp
qed

theorem injection_preserves_pod_witness:
  "\<exists>pod' cc injected. injected_sample = Inr pod' \<and> cc_Containers (\<lambda>s. Inr (Quantity s)) cc = Inr injected \<and>
     list_all2 (hook_rel (ccShutdownManagerPort cc) [''app'']) ([user_container] @ injected) (psContainers (podSpec pod')) \<and>
     psTerminationGracePeriodSeconds (podSpec pod') = Some 300"
proof -
  obtain pod' where pod': "injected_sample = Inr pod'" using sample_injected ..
  have "psContainers (podSpec sample_pod) = [user_container]" by (simp add: sample_pod_def)
  then show ?thesis using injection_preserves_pod [OF pod'] pod' by (auto simp: sample_annotations)
qed

end
