(* ===== verification/Bootstrap.thy ===== *)
theory Bootstrap
  imports EnvoyTypes
begin

text \<open>
  The bootstrap configuration an Envoy proxy starts with
  (\<open>pkg/envoy/bootstrap/v3/bootstrap.go\<close> and the options in
  \<open>pkg/envoy/bootstrap/options\<close>): where the admin listener binds, who the node is, which
  static cluster is the discovery service and that clusters, listeners and the runtime layer come
  from it, and the file that tells Envoy where its client certificate is. The protobuf messages
  of Envoy are records with the fields the source sets. Packing a message into an \<open>Any\<close> and
  printing a message as JSON are code of the protobuf library and the parameters of
  \<open>proto_ops\<close>.
\<close>

section \<open>Options\<close>

record ConfigOptions =
  optNodeID :: string
  optCluster :: string
  optXdsHost :: string
  optXdsPort :: "32 word"
  optXdsClientCertificatePath :: string
  optXdsClientCertificateKeyPath :: string
  optSdsConfigSourcePath :: string
  optRtdsLayerResourceName :: string
  optAdminAddress :: string
  optAdminPort :: "32 word"
  optAdminAccessLogPath :: string
  optMetadata :: "(string \<times> string) list" \<comment> \<open>a map: the keys are distinct\<close>

definition SdsSecretFileName :: string where "SdsSecretFileName = ''tls_certificate_sds_secret.json''"
definition XdsClusterName :: string where "XdsClusterName = ''xds_cluster''"

definition stringOrDefault :: "string \<Rightarrow> string \<Rightarrow> string" where
  "stringOrDefault s def = (if s = [] then def else s)"

definition intOrDefault :: "32 word \<Rightarrow> 32 word \<Rightarrow> 32 word" where
  "intOrDefault i def = (if i = 0 then def else i)"

definition getAdminAddress :: "ConfigOptions \<Rightarrow> string" where
  "getAdminAddress c = stringOrDefault (optAdminAddress c) ''0.0.0.0''"

definition getAdminPort :: "ConfigOptions \<Rightarrow> 32 word" where
  "getAdminPort c = intOrDefault (optAdminPort c) 9001"

definition getAdminAccessLogPath :: "ConfigOptions \<Rightarrow> string" where
  "getAdminAccessLogPath c = stringOrDefault (optAdminAccessLogPath c) ''/dev/null''"

section \<open>Messages\<close>

datatype ApiVersion = ApiAUTO | ApiV2 | ApiV3

datatype ConfigSourceSpecifier = PathConfigSource string | AdsConfigSource

record ConfigSource =
  ResourceApiVersion :: ApiVersion
  SourceSpecifier :: ConfigSourceSpecifier

datatype ApiType = REST | GRPC

record ApiConfigSource =
  acApiType :: ApiType
  TransportApiVersion :: ApiVersion
  GrpcServices :: "string list" \<comment> \<open>the cluster names of the \<open>EnvoyGrpc\<close> targets\<close>

text \<open>The messages that travel packed: the TLS context of a cluster with its secrets by name, the
  access log file, the choice of HTTP/2, and an SDS secret.\<close>

datatype ext_message =
    UpstreamTlsContext "(string \<times> ConfigSource) list"
  | FileAccessLog string
  | ExplicitHttp2ProtocolOptions
  | PackedSecret Message

datatype any = Any (AnyTypeUrl: string) (AnyBytes: string)

record AdminMsg =
  adAccessLog :: "(string \<times> any) list"
  adAddress :: "string \<times> 32 word"

datatype struct_value = StringValue string

record NodeMsg =
  ndId :: string
  ndCluster :: string
  ndMetadata :: "(string \<times> struct_value) list option"

record DynamicResourcesMsg =
  AdsConfig :: ApiConfigSource
  CdsConfig :: ConfigSource
  LdsConfig :: ConfigSource

datatype DiscoveryType = STATIC | STRICT_DNS | LOGICAL_DNS | EDS | ORIGINAL_DST

record ClusterMsg =
  clName :: string
  clConnectTimeoutSeconds :: int
  clDiscoveryType :: DiscoveryType
  clAssignmentName :: string
  clEndpoints :: "(string \<times> 32 word) list list" \<comment> \<open>the endpoints of every locality\<close>
  clTransportSocket :: "string \<times> any"
  clProtocolOptions :: "(string \<times> any) list"

record RuntimeLayerMsg =
  rlName :: string
  rlRtdsName :: string
  rlRtdsConfig :: ConfigSource

record BootstrapMsg =
  bsAdmin :: AdminMsg
  bsNode :: NodeMsg
  bsDynamicResources :: DynamicResourcesMsg
  bsStaticClusters :: "ClusterMsg list"
  bsRuntimeLayers :: "RuntimeLayerMsg list"

record proto_ops =
  anypb_New :: "ext_message \<Rightarrow> string + any" \<comment> \<open>an error text, or the packed message\<close>
  protojson_Bootstrap :: "BootstrapMsg \<Rightarrow> string + string"
  protojson_Response :: "any list \<Rightarrow> string + string" \<comment> \<open>a \<open>DiscoveryResponse\<close> with these resources\<close>
  TransportSocketTls :: string \<comment> \<open>the constant of the package \<open>wellknown\<close>\<close>

section \<open>The generator\<close>

definition ads_source :: ConfigSource where
  "ads_source = \<lparr> ResourceApiVersion = ApiV3, SourceSpecifier = AdsConfigSource \<rparr>"

definition tls_context :: "ConfigOptions \<Rightarrow> ext_message" where
  "tls_context c = UpstreamTlsContext [(''xds_client_certificate'',
     \<lparr> ResourceApiVersion = ApiV3, SourceSpecifier = PathConfigSource (optSdsConfigSourcePath c) \<rparr>)]"

definition xds_cluster :: "proto_ops \<Rightarrow> ConfigOptions \<Rightarrow> any \<Rightarrow> any \<Rightarrow> ClusterMsg" where
  "xds_cluster p c tlsContext http2ProtocolOptions =
     \<lparr> clName = XdsClusterName, clConnectTimeoutSeconds = 1, clDiscoveryType = STRICT_DNS,
       clAssignmentName = XdsClusterName, clEndpoints = [[(optXdsHost c, optXdsPort c)]],
       clTransportSocket = (TransportSocketTls p, tlsContext),
       clProtocolOptions = [(''envoy.extensions.upstreams.http.v3.HttpProtocolOptions'', http2ProtocolOptions)] \<rparr>"

definition node_metadata :: "(string \<times> string) list \<Rightarrow> (string \<times> struct_value) list option" where
  "node_metadata metadata =
     (if length metadata > 0 then Some (map (\<lambda>(key, value). (key, StringValue value)) metadata) else None)"

definition bootstrap_message :: "proto_ops \<Rightarrow> ConfigOptions \<Rightarrow> any \<Rightarrow> any \<Rightarrow> any \<Rightarrow> BootstrapMsg" where
  "bootstrap_message p c tlsContext adminAccessLogConfig http2ProtocolOptions =
     \<lparr> bsAdmin = \<lparr> adAccessLog = [(''envoy.access_loggers.file'', adminAccessLogConfig)],
                   adAddress = (getAdminAddress c, getAdminPort c) \<rparr>,
       bsNode = \<lparr> ndId = optNodeID c, ndCluster = optCluster c, ndMetadata = node_metadata (optMetadata c) \<rparr>,
       bsDynamicResources = \<lparr>
         AdsConfig = \<lparr> acApiType = GRPC, TransportApiVersion = ApiV3, GrpcServices = [XdsClusterName] \<rparr>,
         CdsConfig = ads_source, LdsConfig = ads_source \<rparr>,
       bsStaticClusters = [xds_cluster p c tlsContext http2ProtocolOptions],
       bsRuntimeLayers = [\<lparr> rlName = optRtdsLayerResourceName c, rlRtdsName = optRtdsLayerResourceName c,
                           rlRtdsConfig = ads_source \<rparr>] \<rparr>"

text \<open>An error of the protobuf library is passed on as it is.\<close>

definition pack :: "proto_ops \<Rightarrow> ext_message \<Rightarrow> goerror + any" where
  "pack p m = (case anypb_New p m of Inl err \<Rightarrow> Inl (PlainError err) | Inr a \<Rightarrow> Inr a)"

definition GenerateStatic :: "proto_ops \<Rightarrow> ConfigOptions \<Rightarrow> goerror + string" where
  "GenerateStatic p c =
     (case pack p (tls_context c) of
        Inl err \<Rightarrow> Inl err
      | Inr tlsContext \<Rightarrow>
          (case pack p (FileAccessLog (getAdminAccessLogPath c)) of
             Inl err \<Rightarrow> Inl err
           | Inr adminAccessLogConfig \<Rightarrow>
               (case pack p ExplicitHttp2ProtocolOptions of
                  Inl err \<Rightarrow> Inl err
                | Inr http2ProtocolOptions \<Rightarrow>
                    JSON_Marshal (protojson_Bootstrap p)
                      (bootstrap_message p c tlsContext adminAccessLogConfig http2ProtocolOptions))))"

definition GenerateSdsResources :: "proto_ops \<Rightarrow> ConfigOptions \<Rightarrow> goerror + (string \<times> string) list" where
  "GenerateSdsResources p c =
     (let secret = NewTlsSecretFromPath ''xds_client_certificate''
                     (optXdsClientCertificatePath c) (optXdsClientCertificateKeyPath c)
      in case pack p (PackedSecret secret) of
           Inl err \<Rightarrow> Inl err
         | Inr a \<Rightarrow>
             (case JSON_Marshal (protojson_Response p) [a] of
                Inl err \<Rightarrow> Inl err
              | Inr json \<Rightarrow> Inr [(SdsSecretFileName, json)]))"

section \<open>When generation succeeds\<close>

text \<open>The protobuf library accepts the messages built from these options. It refuses a text that
  is not UTF-8.\<close>

definition sds_secret :: "ConfigOptions \<Rightarrow> ext_message" where
  "sds_secret c = PackedSecret (NewTlsSecretFromPath ''xds_client_certificate''
     (optXdsClientCertificatePath c) (optXdsClientCertificateKeyPath c))"

definition protos_accept :: "proto_ops \<Rightarrow> ConfigOptions \<Rightarrow> bool" where
  "protos_accept p c \<longleftrightarrow>
     list_all (\<lambda>m. \<not> is_error (anypb_New p m))
       [tls_context c, FileAccessLog (getAdminAccessLogPath c), ExplicitHttp2ProtocolOptions, sds_secret c] \<and>
     (\<forall>tls log http2. \<not> is_error (protojson_Bootstrap p (bootstrap_message p c tls log http2))) \<and>
     (\<forall>a. \<not> is_error (protojson_Response p [a]))"

lemma pack_ok: "\<not> is_error (anypb_New p m) \<Longrightarrow> \<exists>a. anypb_New p m = Inr a \<and> pack p m = Inr a"
  by (auto simp: pack_def not_is_error_iff)

lemma protos_accept_packs:
  assumes "protos_accept p c"
  shows "\<not> is_error (anypb_New p (tls_context c))" "\<not> is_error (anypb_New p (FileAccessLog (getAdminAccessLogPath c)))"
    "\<not> is_error (anypb_New p ExplicitHttp2ProtocolOptions)" "\<not> is_error (anypb_New p (sds_secret c))"
  using assms by (simp_all add: protos_accept_def)

lemmas accepted_pack = protos_accept_packs [THEN pack_ok]

lemma JSON_Marshal_ok: "\<not> is_error (marshal x) \<Longrightarrow> \<exists>s. JSON_Marshal marshal x = Inr s"
  by (auto simp: JSON_Marshal_def not_is_error_iff)

lemma GenerateStatic_ok:
  assumes "protos_accept p c"
  obtains tls log http2 config where "anypb_New p (tls_context c) = Inr tls"
    "JSON_Marshal (protojson_Bootstrap p) (bootstrap_message p c tls log http2) = Inr config"
    "GenerateStatic p c = Inr config"
proof -
  obtain tls where tls: "anypb_New p (tls_context c) = Inr tls" "pack p (tls_context c) = Inr tls"
    using accepted_pack [OF assms] by blast
  obtain log where log: "pack p (FileAccessLog (getAdminAccessLogPath c)) = Inr log"
    using accepted_pack [OF assms] by blast
  obtain http2 where http2: "pack p ExplicitHttp2ProtocolOptions = Inr http2"
    using accepted_pack [OF assms] by blast
  have "\<not> is_error (protojson_Bootstrap p (bootstrap_message p c tls log http2))"
    using assms by (simp add: protos_accept_def)
  from JSON_Marshal_ok [of "protojson_Bootstrap p", OF this] obtain config where
    config: "JSON_Marshal (protojson_Bootstrap p) (bootstrap_message p c tls log http2) = Inr config" ..
  then have "GenerateStatic p c = Inr config" using tls log http2 by (simp add: GenerateStatic_def)
  with that tls(1) config show thesis by blast
qed

lemma GenerateSdsResources_ok:
  assumes "protos_accept p c"
  obtains a json where "anypb_New p (sds_secret c) = Inr a"
    "JSON_Marshal (protojson_Response p) [a] = Inr json" "GenerateSdsResources p c = Inr [(SdsSecretFileName, json)]"
proof -
  obtain a where a: "anypb_New p (sds_secret c) = Inr a" "pack p (sds_secret c) = Inr a"
    using accepted_pack [OF assms] by blast
  have "\<not> is_error (protojson_Response p [a])" using assms by (simp add: protos_accept_def)
  from JSON_Marshal_ok [of "protojson_Response p", OF this] obtain json where json: "JSON_Marshal (protojson_Response p) [a] = Inr json" ..
  then have "GenerateSdsResources p c = Inr [(SdsSecretFileName, json)]"
    using a by (simp add: GenerateSdsResources_def sds_secret_def)
  with that a(1) json show thesis by blast
qed

end
