(* ===== verification/Commands.thy ===== *)
theory Commands
  imports Bootstrap ShutdownManager NetIP OperatorTypes
begin

text \<open>
  The commands that run inside an Envoy pod: \<open>init-manager\<close> (\<open>cmd/initmanager.go\<close>), which
  writes the bootstrap configuration before Envoy starts, and \<open>shutdown-manager\<close>
  (\<open>cmd/shutdownmanager.go\<close>), which fills in the configuration of the shutdown manager. Both
  are started by the containers of theory \<open>Containers\<close>, with the arguments generated there.

  The flag library splits the arguments into assignments and reads the numbers; the locale
  \<open>command_line\<close> says what is used of it. The file system is the parameter \<open>fs_ops\<close>, with
  the files as a map. A command that calls \<open>os.Exit\<close> returns the error.
\<close>

section \<open>Flags\<close>

type_synonym assignments = "(string \<times> string) list"
type_synonym flag_splitter = "string list \<Rightarrow> string list \<Rightarrow> assignments option"
  \<comment> \<open>the names of the flags that take a value, the arguments\<close>

definition string_flag :: "assignments \<Rightarrow> string \<Rightarrow> string \<Rightarrow> string" where
  "string_flag kvs name def = (case map_of (rev kvs) name of None \<Rightarrow> def | Some v \<Rightarrow> v)"

text \<open>An integer flag is read at every assignment; the last one counts, a malformed one ends the
  program.\<close>

definition int_flag :: "(string \<Rightarrow> int option) \<Rightarrow> assignments \<Rightarrow> string \<Rightarrow> int \<Rightarrow> int option" where
  "int_flag ival kvs name def =
     (let vs = map snd (filter (\<lambda>(k, _). k = name) kvs) in
      if list_ex (\<lambda>v. ival v = None) vs then None
      else if vs = [] then Some def else ival (last vs))"

definition flag_error :: goerror where "flag_error = PlainError ''invalid arguments''"

definition flag_args :: "assignments \<Rightarrow> string list" where
  "flag_args kvs = concat (map (\<lambda>(k, v). [''--'' @ k, v]) kvs)"

section \<open>The init manager\<close>

record InitFlags =
  initmgrNodeID :: string
  initmgrCluster :: string
  initmgrXdsHost :: string
  initmgrXdsPort :: int
  initmgrConfigPath :: string
  initmgrSdsConfigSourcePath :: string
  initmgrXdsClientCertificatePath :: string
  initmgrRtdsLayerResourceName :: string
  initmgrAdminBindAddress :: string
  initmgrAdminAccessLogPath :: string
  initmgrAPIVersion :: string
  initmgrEnvoyImage :: string

definition initmgr_flag_names :: "string list" where
  "initmgr_flag_names = [''node-id'', ''cluster'', ''xdss-host'', ''xdss-port'', ''config-file'', ''resources-path'',
     ''client-certificate-path'', ''rtds-resource-name'', ''admin-bind-address'', ''admin-access-log-path'',
     ''api-version'', ''envoy-image'']"

definition initmgr_flags :: "(string \<Rightarrow> int option) \<Rightarrow> assignments \<Rightarrow> goerror + InitFlags" where
  "initmgr_flags ival kvs =
     (case int_flag ival kvs ''xdss-port'' (uint DefaultXdsServerPort) of
        None \<Rightarrow> Inl flag_error
      | Some port \<Rightarrow> Inr
          \<lparr> initmgrNodeID = string_flag kvs ''node-id'' [], initmgrCluster = string_flag kvs ''cluster'' [],
            initmgrXdsHost = string_flag kvs ''xdss-host'' [], initmgrXdsPort = port,
            initmgrConfigPath = string_flag kvs ''config-file'' (EnvoyConfigBasePath @ ''/'' @ EnvoyConfigFileName),
            initmgrSdsConfigSourcePath = string_flag kvs ''resources-path'' EnvoyConfigBasePath,
            initmgrXdsClientCertificatePath = string_flag kvs ''client-certificate-path'' EnvoyTLSBasePath,
            initmgrRtdsLayerResourceName = string_flag kvs ''rtds-resource-name'' InitMgrRtdsLayerResourceName,
            initmgrAdminBindAddress = string_flag kvs ''admin-bind-address'' (EnvoyAdminBindAddress @ '':'' @ show_int (uint EnvoyAdminPort)),
            initmgrAdminAccessLogPath = string_flag kvs ''admin-access-log-path'' EnvoyAdminAccessLogPath,
            initmgrAPIVersion = string_flag kvs ''api-version'' ''v3'',
            initmgrEnvoyImage = string_flag kvs ''envoy-image'' [] \<rparr>)"

text \<open>\<open>strconv.ParseInt(s, 10, 32)\<close>, and the address parser. The port becomes unsigned at the
  end, so that a negative one wraps around.\<close>

definition ParseInt32 :: "string \<Rightarrow> int option" where
  "ParseInt32 s = (case Atoi s of None \<Rightarrow> None
     | Some i \<Rightarrow> if - (2 ^ 31) \<le> i \<and> i < 2 ^ 31 then Some i else None)"

definition parseBindAddress :: "string \<Rightarrow> goerror + string \<times> 32 word" where
  "parseBindAddress address =
     (case Split address CHR '':'' of
        [host, portText] \<Rightarrow>
          (if ParseIP host = None then Inl (PlainError (''ip address '' @ host @ '' is invalid''))
           else case ParseInt32 portText of
                  None \<Rightarrow> Inl (PlainError (''unable to parse port value in '' @ quoted ''spec.envoyStaticConfig.adminBindAddress''))
                | Some port \<Rightarrow> Inr (host, of_int port))
      | _ \<Rightarrow> Inl (PlainError (''wrong '' @ quoted ''spec.envoyStaticConfig.adminBindAddress''
               @ '' specification, expected '' @ quoted ''<ip>:<port>'')))"

type_synonym files = "string \<Rightarrow> string option"

record fs_ops =
  fs_create :: "string \<Rightarrow> goerror option"
  fs_write :: "string \<Rightarrow> string \<Rightarrow> (goerror \<times> nat) option"
    \<comment> \<open>the error and the number of bytes written before it, \<open>None\<close> when all are written\<close>

definition write_file :: "fs_ops \<Rightarrow> string \<Rightarrow> string \<Rightarrow> files \<Rightarrow> goerror option \<times> files" where
  "write_file disk path content fs =
     (case fs_create disk path of
        Some err \<Rightarrow> (Some err, fs)
      | None \<Rightarrow>
          (case fs_write disk path content of
             Some (err, n) \<Rightarrow> (Some err, fs(path \<mapsto> take n content))
           | None \<Rightarrow> (None, fs(path \<mapsto> content))))"

fun write_resources :: "fs_ops \<Rightarrow> string \<Rightarrow> (string \<times> string) list \<Rightarrow> files \<Rightarrow> goerror option \<times> files" where
  "write_resources disk dir [] fs = (None, fs)"
| "write_resources disk dir ((file, contents) # rest) fs =
     (case write_file disk (dir @ ''/'' @ file) contents fs of
        (Some err, fs') \<Rightarrow> (Some err, fs')
      | (None, fs') \<Rightarrow> write_resources disk dir rest fs')"

definition init_options :: "(string \<Rightarrow> string) \<Rightarrow> InitFlags \<Rightarrow> string \<Rightarrow> 32 word \<Rightarrow> ConfigOptions" where
  "init_options Getenv fl host port =
     \<lparr> optNodeID = initmgrNodeID fl, optCluster = initmgrCluster fl, optXdsHost = initmgrXdsHost fl,
       optXdsPort = of_int (initmgrXdsPort fl),
       optXdsClientCertificatePath = initmgrXdsClientCertificatePath fl @ ''/'' @ ''tls.crt'',
       optXdsClientCertificateKeyPath = initmgrXdsClientCertificatePath fl @ ''/'' @ ''tls.key'',
       optSdsConfigSourcePath = initmgrSdsConfigSourcePath fl @ ''/'' @ SdsSecretFileName,
       optRtdsLayerResourceName = initmgrRtdsLayerResourceName fl, optAdminAddress = host, optAdminPort = port,
       optAdminAccessLogPath = initmgrAdminAccessLogPath fl,
       optMetadata = [(''pod_name'', Getenv ''POD_NAME''), (''pod_namespace'', Getenv ''POD_NAMESPACE''),
                      (''host_name'', Getenv ''HOST_NAME''), (''envoy_image'', initmgrEnvoyImage fl)] \<rparr>"

definition runInitManager ::
  "fs_ops \<Rightarrow> proto_ops \<Rightarrow> (string \<Rightarrow> string) \<Rightarrow> InitFlags \<Rightarrow> files \<Rightarrow> goerror option \<times> files" where
  "runInitManager disk p Getenv fl fs =
     (if initmgrXdsHost fl = [] then (Some (PlainError ''cannot be empty''), fs)
      else case parseBindAddress (initmgrAdminBindAddress fl) of
        Inl err \<Rightarrow> (Some err, fs)
      | Inr (host, port) \<Rightarrow>
          (case ParseAPIVersion (initmgrAPIVersion fl) of
             Inl err \<Rightarrow> (Some err, fs)
           | Inr envoyAPI \<Rightarrow>
               (let opts = init_options Getenv fl host port in
                case GenerateStatic p opts of
                  Inl err \<Rightarrow> (Some err, fs)
                | Inr config \<Rightarrow>
                    (case GenerateSdsResources p opts of
                       Inl err \<Rightarrow> (Some err, fs)
                     | Inr sdsResources \<Rightarrow>
                         (case write_file disk (initmgrConfigPath fl) config fs of
                            (Some err, fs') \<Rightarrow> (Some err, fs')
                          | (None, fs') \<Rightarrow> write_resources disk (initmgrSdsConfigSourcePath fl) sdsResources fs')))))"

definition init_manager_command ::
  "flag_splitter \<Rightarrow> (string \<Rightarrow> int option) \<Rightarrow> fs_ops \<Rightarrow> proto_ops \<Rightarrow> (string \<Rightarrow> string) \<Rightarrow> string list \<Rightarrow> files \<Rightarrow>
   goerror option \<times> files" where
  "init_manager_command split ival disk p Getenv args fs =
     (case split initmgr_flag_names args of
        None \<Rightarrow> (Some flag_error, fs)
      | Some kvs \<Rightarrow>
          (case initmgr_flags ival kvs of
             Inl err \<Rightarrow> (Some err, fs)
           | Inr fl \<Rightarrow> runInitManager disk p Getenv fl fs))"

section \<open>The shutdown manager\<close>

definition shtdnmgr_flag_names :: "string list" where
  "shtdnmgr_flag_names = [''port'', ''ready-file'', ''check-ready-interval'', ''check-drain-interval'', ''start-drain-delay'',
     ''check-drain-delay'', ''envoy-admin-address'', ''min-open-connections'']"

text \<open>\<open>time.Duration(n) * time.Second\<close>.\<close>

definition seconds :: "int \<Rightarrow> int" where "seconds n = wrap64 (n * 1000000000)"

definition runShutdownManager :: "(string \<Rightarrow> int option) \<Rightarrow> assignments \<Rightarrow> Manager option" where
  "runShutdownManager ival kvs =
     (case (int_flag ival kvs ''port'' (uint ShtdnMgrDefaultServerPort),
            int_flag ival kvs ''check-ready-interval'' ShtdnMgrDefaultReadyCheckInterval,
            int_flag ival kvs ''check-drain-interval'' ShtdnMgrDefaultDrainCheckInterval,
            int_flag ival kvs ''start-drain-delay'' ShtdnMgrDefaultStartDrainDelay,
            int_flag ival kvs ''check-drain-delay'' ShtdnMgrDefaultCheckDrainDelay,
            int_flag ival kvs ''min-open-connections'' ShtdnMgrDefaultMinOpenConnections) of
        (Some port, Some readyInterval, Some drainInterval, Some startDelay, Some checkDelay, Some minOpen) \<Rightarrow>
          Some \<lparr> HTTPServePort = port,
                 ShutdownReadyFile = string_flag kvs ''ready-file'' ShtdnMgrDefaultReadyFile,
                 ShutdownReadyCheckInterval = seconds readyInterval, CheckDrainInterval = seconds drainInterval,
                 CheckDrainDelay = seconds checkDelay, StartDrainDelay = seconds startDelay,
                 EnvoyAdminAddress = string_flag kvs ''envoy-admin-address'' (''http://localhost:'' @ show_int (uint EnvoyAdminPort)),
                 MinOpenConnections = minOpen \<rparr>
      | _ \<Rightarrow> None)"

definition shutdown_manager_command :: "flag_splitter \<Rightarrow> (string \<Rightarrow> int option) \<Rightarrow> string list \<Rightarrow> Manager option" where
  "shutdown_manager_command split ival args =
     (case split shtdnmgr_flag_names args of None \<Rightarrow> None | Some kvs \<Rightarrow> runShutdownManager ival kvs)"

section \<open>Watched namespaces\<close>

text \<open>\<open>getWatchNamespace\<close> and the namespaces the operator's cache is restricted to
  (\<open>cmd/operator.go\<close>): \<open>None\<close> is cluster scope. An unset variable only logs an error and
  watches all namespaces.\<close>

definition getWatchNamespace :: "(string \<Rightarrow> string option) \<Rightarrow> goerror + string" where
  "getWatchNamespace LookupEnv =
     (case LookupEnv ''WATCH_NAMESPACE'' of
        None \<Rightarrow> Inl (PlainError (''WATCH_NAMESPACE must be set''))
      | Some ns \<Rightarrow> Inr ns)"

definition DefaultNamespaces :: "(string \<Rightarrow> string option) \<Rightarrow> string set option" where
  "DefaultNamespaces LookupEnv =
     (let watchNamespace = (case getWatchNamespace LookupEnv of Inl _ \<Rightarrow> [] | Inr ns \<Rightarrow> ns) in
      if Contains watchNamespace '','' then Some (set (Split watchNamespace CHR '',''))
      else if watchNamespace \<noteq> [] then Some {watchNamespace}
      else None)"

text \<open>The three modes are one rule: a non-empty value is a comma-separated list.\<close>

lemma DefaultNamespaces_list:
  assumes "LookupEnv ''WATCH_NAMESPACE'' = Some (Join nss '','')" "nss \<noteq> []" "Join nss '','' \<noteq> []"
    and "\<And>ns. ns \<in> set nss \<Longrightarrow> CHR '','' \<notin> set ns"
  shows "DefaultNamespaces LookupEnv = Some (set nss)"
proof -
  have parts: "Split (Join nss '','') CHR '','' = nss" using assms(2,4) by (intro Split_Join) auto
  have "nss = [Join nss '','']" if "\<not> Contains (Join nss '','') '',''"
  proof -
    have "CHR '','' \<notin> set (Join nss '','')" using that by (metis Contains_iff append_Cons append_Nil split_list)
    from Split_no_sep [OF this] parts show ?thesis by simp
  qed
  then have "set nss = {Join nss '',''}" if "\<not> Contains (Join nss '','') '',''"
    using that by (metis list.simps(15) set_empty2)
  then show ?thesis using assms(1,3) parts by (auto simp: DefaultNamespaces_def getWatchNamespace_def Let_def)
qed

end
