(* ===== verification/CommandProperties.thy ===== *)
theory CommandProperties
  imports Commands
begin

text \<open>
  Guarantees for the commands of an Envoy pod. The locale \<open>command_line\<close> has the two laws of
  the flag library that are used: the arguments \<open>--name value\<close> are split into the assignments
  they write down, and decimal numbers are read. Inside it the arguments of the generated
  containers are traced to the configuration of the commands.
\<close>

section \<open>The flag library\<close>

definition flag_name :: "string \<Rightarrow> bool" where
  "flag_name n = (n \<noteq> [] \<and> hd n \<noteq> CHR ''-'' \<and> CHR ''='' \<notin> set n)"

locale command_line =
  fixes split :: flag_splitter
    and ival :: "string \<Rightarrow> int option"
  assumes split_assignments:
      "list_all flag_name names \<Longrightarrow> set (map fst kvs) \<subseteq> set names \<Longrightarrow> split names (flag_args kvs) = Some kvs"
    and ival_decimal: "min_int64 \<le> i \<Longrightarrow> i \<le> max_int64 \<Longrightarrow> ival (show_int i) = Some i"

fun list_split :: flag_splitter where
  "list_split names [] = Some []"
| "list_split names [a] = None"
| "list_split names (a # v # rest) =
     (if take 2 a = ''--'' \<and> drop 2 a \<in> set names
      then map_option (\<lambda>kvs. (drop 2 a, v) # kvs) (list_split names rest) else None)"

interpretation listFlags: command_line list_split Atoi
proof
  show "list_split names (flag_args kvs) = Some kvs" if "set (map fst kvs) \<subseteq> set names" for names kvs
    using that by (induction kvs) (auto simp: flag_args_def)
qed (rule Atoi_show_int)

section \<open>The arguments of the containers\<close>

definition init_assignments :: "ContainerConfig \<Rightarrow> assignments" where
  "init_assignments cc =
     [(''admin-access-log-path'', ccAdminAccessLogPath cc),
      (''admin-bind-address'', ccAdminBindAddress cc @ '':'' @ show32 (ccAdminPort cc)),
      (''api-version'', ccAPIVersion cc), (''client-certificate-path'', ccTLSBasePath cc),
      (''config-file'', ccConfigBasePath cc @ ''/'' @ ccConfigFileName cc), (''resources-path'', ccConfigBasePath cc),
      (''rtds-resource-name'', InitMgrRtdsLayerResourceName), (''xdss-host'', ccXdssHost cc),
      (''xdss-port'', show_int (ccXdssPort cc)), (''envoy-image'', ccImage cc)]"


definition init_flags :: "ContainerConfig \<Rightarrow> InitFlags" where
  "init_flags cc =
     \<lparr> initmgrNodeID = [], initmgrCluster = [], initmgrXdsHost = ccXdssHost cc, initmgrXdsPort = ccXdssPort cc,
       initmgrConfigPath = ccConfigBasePath cc @ ''/'' @ ccConfigFileName cc,
       initmgrSdsConfigSourcePath = ccConfigBasePath cc, initmgrXdsClientCertificatePath = ccTLSBasePath cc,
       initmgrRtdsLayerResourceName = InitMgrRtdsLayerResourceName,
       initmgrAdminBindAddress = ccAdminBindAddress cc @ '':'' @ show32 (ccAdminPort cc),
       initmgrAdminAccessLogPath = ccAdminAccessLogPath cc, initmgrAPIVersion = ccAPIVersion cc,
       initmgrEnvoyImage = ccImage cc \<rparr>"

lemma flag_names_ok: "list_all flag_name initmgr_flag_names" "list_all flag_name shtdnmgr_flag_names"
  by (simp_all add: flag_name_def initmgr_flag_names_def shtdnmgr_flag_names_def)

lemma show32_range: "min_int64 \<le> sint (w :: 32 word)" "sint (w :: 32 word) \<le> max_int64"
  using sint_ge [of w] sint_lt [of w] by (simp_all add: min_int64_def max_int64_def)

lemma show32_inject: "show32 v = show32 w \<longleftrightarrow> v = w"
proof
  assume "show32 v = show32 w"
  then have "Atoi (show32 v) = Atoi (show32 w)" by simp
  then show "v = w" by (simp add: show32_def Atoi_show_int show32_range signed_word_eqI)
qed simp

context command_line
begin

lemma init_container_flags:
  assumes "min_int64 \<le> ccXdssPort cc" "ccXdssPort cc \<le> max_int64"
  shows "init_manager_command split ival disk p Getenv (flag_args (init_assignments cc)) fs =
    runInitManager disk p Getenv (init_flags cc) fs"
proof -
  have "split initmgr_flag_names (flag_args (init_assignments cc)) = Some (init_assignments cc)"
    by (rule split_assignments [OF flag_names_ok(1)]) (simp add: init_assignments_def initmgr_flag_names_def)
  moreover have "initmgr_flags ival (init_assignments cc) = Inr (init_flags cc)"
    using ival_decimal [OF assms]
    by (simp add: initmgr_flags_def init_assignments_def init_flags_def int_flag_def string_flag_def)
  ultimately show ?thesis by (simp add: init_manager_command_def)
qed

lemma shutdown_container_flags:
  "shutdown_manager_command split ival (flag_args [(''port'', show32 w)]) =
     Some \<lparr> HTTPServePort = sint w, ShutdownReadyFile = ShtdnMgrDefaultReadyFile,
            ShutdownReadyCheckInterval = seconds ShtdnMgrDefaultReadyCheckInterval,
            CheckDrainInterval = seconds ShtdnMgrDefaultDrainCheckInterval,
            CheckDrainDelay = seconds ShtdnMgrDefaultCheckDrainDelay, StartDrainDelay = seconds ShtdnMgrDefaultStartDrainDelay,
            EnvoyAdminAddress = ''http://localhost:'' @ show32 EnvoyAdminPort,
            MinOpenConnections = ShtdnMgrDefaultMinOpenConnections \<rparr>"
proof -
  have "split shtdnmgr_flag_names (flag_args [(''port'', show32 w)]) = Some [(''port'', show32 w)]"
    by (rule split_assignments [OF flag_names_ok(2)]) (simp add: shtdnmgr_flag_names_def)
  moreover have "ival (show32 w) = Some (sint w)" by (simp add: show32_def ival_decimal show32_range)
  moreover have "show_int (uint EnvoyAdminPort) = show32 EnvoyAdminPort" by (simp add: show32_def EnvoyAdminPort_def)
  ultimately show ?thesis
    by (simp add: shutdown_manager_command_def runShutdownManager_def int_flag_def string_flag_def)
qed

end

section \<open>Binding addresses\<close>

lemma show_nat_no_colon: "CHR '':'' \<notin> set (show_nat n)"
proof
  assume "CHR '':'' \<in> set (show_nat n)"
  then obtain d where d: "d < 10" "CHR '':'' = digit_char d" using show_nat_digits by blast
  have "digit_val (digit_char d) = Some d" using d(1) by simp
  then show False unfolding d(2) [symmetric] by (simp add: digit_val_def)
qed

lemma show32_no_colon: "CHR '':'' \<notin> set (show32 w)"
  using show_nat_no_colon by (auto simp: show32_def show_int_def)

lemma ParseInt32_show32: "ParseInt32 (show32 w) = Some (sint w)"
  using sint_ge [of w] sint_lt [of w] by (simp add: ParseInt32_def show32_def Atoi_show_int show32_range)

lemma parseBindAddress_host_port:
  assumes "CHR '':'' \<notin> set host"
  shows "parseBindAddress (host @ '':'' @ show32 w) =
    (if ParseIP host = None then Inl (PlainError (''ip address '' @ host @ '' is invalid'')) else Inr (host, w))"
proof -
  have "Split (host @ CHR '':'' # show32 w) CHR '':'' = [host, show32 w]"
    using assms by (simp add: Split_append_sep Split_no_sep show32_no_colon)
  then show ?thesis by (simp add: parseBindAddress_def ParseInt32_show32)
qed

section \<open>Running the init manager\<close>






section \<open>Witness data\<close>




definition sample_cc :: ContainerConfig where
  "sample_cc =
     \<lparr> ccName = ''envoy'', ccImage = Image, ccConfigBasePath = EnvoyConfigBasePath, ccConfigFileName = EnvoyConfigFileName,
       ccConfigVolume = ''c'', ccTLSBasePath = EnvoyTLSBasePath, ccTLSVolume = ''t'', ccNodeID = ''n'', ccClusterID = ''n'',
       ccClientCertSecret = ''s'', ccExtraArgs = [], ccResources = no_resources, ccAdminBindAddress = EnvoyAdminBindAddress,
       ccAdminPort = EnvoyAdminPort, ccAdminAccessLogPath = EnvoyAdminAccessLogPath, ccPorts = [],
       ccLivenessProbe = defaultLivenessProbe, ccReadinessProbe = defaultReadinessProbe, ccInitManagerImage = ''i'',
       ccXdssHost = ''marin3r-ds.ns.svc'', ccXdssPort = 18000, ccAPIVersion = APIv3, ccShutdownManagerEnabled = True,
       ccShutdownManagerPort = ShtdnMgrDefaultServerPort, ccShutdownManagerImage = ''i'', ccShutdownManagerDrainSeconds = 300,
       ccShutdownManagerDrainStrategy = DrainStrategyGradual \<rparr>"



section \<open>Properties\<close>



text \<open>The admin port survives the way from the operator to Envoy: the signed text of any 32-bit
  port is read back as the same unsigned port, above \<open>2 ^ 31\<close> too, where the text is a negative
  number. The address is refused when the host has a colon, as every IPv6 address has, or is not
  an IP address.\<close>

theorem admin_port_round_trip:
  "parseBindAddress (host @ '':'' @ show32 w) =
    (if CHR '':'' \<in> set host
     then Inl (PlainError (''wrong '' @ quoted ''spec.envoyStaticConfig.adminBindAddress'' @
            '' specification, expected '' @ quoted ''<ip>:<port>''))
     else if ParseIP host = None then Inl (PlainError (''ip address '' @ host @ '' is invalid''))
     else Inr (host, w))"
proof (cases "CHR '':'' \<in> set host")
  case True
  then obtain a b where "host = a @ CHR '':'' # b" "CHR '':'' \<notin> set a" by (blast dest: split_list_first)
  moreover have "length (Split (u @ CHR '':'' # v) CHR '':'') \<ge> 2" for u v :: string
    by (induction u) (auto split: list.splits simp: Suc_le_eq neq_Nil_conv)
  then have "length (Split (b @ CHR '':'' # show32 w) CHR '':'') \<ge> 2" .
  ultimately show ?thesis
    by (auto simp: parseBindAddress_def Split_append_sep split: list.splits)
qed (simp add: parseBindAddress_host_port [simplified])

text \<open>(C34) The shutdown manager serves where the hooks call it, but polls the default admin port: the
  generated container starts it on the port that the preStop hooks of both containers and its
  probe use. The admin address it polls is the one of the Envoy container of the pod exactly when
  that container keeps the default admin port.\<close>

theorem shutdown_manager_polls_envoy_iff:
  assumes "command_line split ival" "cc_Containers q cc = Inr [envoy, shtdn]"
  shows "\<exists>mgr. shutdown_manager_command split ival (tl (ctArgs shtdn)) = Some mgr \<and> hd (ctArgs shtdn) = ''shutdown-manager'' \<and>
    HTTPServePort mgr = sint (ccShutdownManagerPort cc) \<and>
    ctLifecycle envoy = Some (pre_stop (http_get ShutdownEndpoint (ccShutdownManagerPort cc))) \<and>
    ctLifecycle shtdn = Some (pre_stop (http_get DrainEndpoint (ccShutdownManagerPort cc))) \<and>
    tcp_port ''admin'' (ccAdminPort cc) \<in> set (ctPorts envoy) \<and>
    (EnvoyAdminAddress mgr = ''http://localhost:'' @ show32 (ccAdminPort cc) \<longleftrightarrow> ccAdminPort cc = EnvoyAdminPort)"
proof -
  obtain r where shtdn: "shtdn = shutdown_manager_container cc r"
    and envoy: "envoy = (envoy_container cc)\<lparr> ctLifecycle := Some (pre_stop (http_get ShutdownEndpoint (ccShutdownManagerPort cc))) \<rparr>"
    using assms(2) by (auto simp: cc_Containers_def split: if_splits sum.splits)
  have "ctArgs shtdn = ''shutdown-manager'' # flag_args [(''port'', show32 (ccShutdownManagerPort cc))]"
    by (simp add: shtdn shutdown_manager_container_def flag_args_def)
  then show ?thesis
    using show32_inject [of EnvoyAdminPort "ccAdminPort cc"]
    by (auto simp: command_line.shutdown_container_flags [OF assms(1)] envoy shtdn shutdown_manager_container_def envoy_container_def)
qed

theorem shutdown_manager_polls_envoy_iff_witness:
  "\<exists>envoy shtdn mgr. cc_Containers (\<lambda>s. Inr (Quantity s)) sample_cc = Inr [envoy, shtdn] \<and>
     shutdown_manager_command list_split Atoi (tl (ctArgs shtdn)) = Some mgr \<and>
     EnvoyAdminAddress mgr = ''http://localhost:'' @ show32 (ccAdminPort sample_cc)"
proof -
  obtain envoy shtdn where cs: "cc_Containers (\<lambda>s. Inr (Quantity s)) sample_cc = Inr [envoy, shtdn]"
    by (simp add: cc_Containers_def sample_cc_def shutdown_manager_resources_def MustParse_def)
  have "ccAdminPort sample_cc = EnvoyAdminPort" by (simp add: sample_cc_def)
  with shutdown_manager_polls_envoy_iff [OF listFlags.command_line_axioms cs] cs show ?thesis by auto
qed

end
