(* ===== verification/RevisionConvergence.thy ===== *)
theory RevisionConvergence
  imports RevisionProperties
begin

text \<open>
  Repeated runs of the revision reconciler. Which revisions a finished run leaves behind, and,
  against an API server whose calls succeed (locale \<open>working_api\<close>), that two runs are enough to
  publish the current resources and that a third one changes nothing.
\<close>

section \<open>An API server that works\<close>

locale working_api = revision_api m c stored setOwner
  for m :: meta_ops and c :: "'w ecr_client" and stored :: "'w \<Rightarrow> EnvoyConfigRevision list" and setOwner :: set_owner +
  assumes list_works: "\<exists>items. list_ecr c w sel ns = Inr items"
    and create_works: "key_of e \<notin> key_of ` set (stored w) \<Longrightarrow> fst (create_ecr c w e) = None"
    and update_works: "key_of e \<in> key_of ` set (stored w) \<Longrightarrow> fst (update_status_ecr c w e) = None"
    and delete_works: "key_of e \<in> key_of ` set (stored w) \<Longrightarrow> fst (delete_ecr c w e) = None"
    and owner_works: "\<exists>e'. setOwner ec e = Inr e'"

interpretation workingListApi: working_api meta_list list_api "\<lambda>w. w" keep_owner
  by unfold_locales (auto simp: list_api_def keep_owner_def)

section \<open>What a finished run leaves\<close>

context revision_api
begin

text \<open>The revisions that survive are the ten at the end of the publication order; only their
  status may have changed.\<close>

lemma apply_survivors:
  assumes l: "listed sel ns list w"
    and ok: "snd (fst (snd (apply_revisions m c dv list r w))) = None"
  defines "items \<equiv> SortByPublication dv list"
  defines "kept \<equiv> drop (length items - 10) items"
  shows "(\<lambda>e. (ecrMeta e, ecrSpec e)) ` {x \<in> set (stored (snd (snd (apply_revisions m c dv list r w)))). matches sel ns x} =
    (\<lambda>e. (ecrMeta e, ecrSpec e)) ` set kept"
proof (cases rule: apply_revisions_exits [of w dv list r])
  case delete
  let ?g = "\<lambda>e. (ecrMeta e, ecrSpec e)"
  let ?v = "fst (getVersionToPublish m items)"
  define w2 where "w2 = snd (write_all (update_status_ecr c)
    (snd (write_all (update_status_ecr c) w (to_unpublish ?v items))) (to_publish ?v items))"
  let ?D = "key_of ` set (take (length items - 10) items)"
  have st: "stored (snd (snd (apply_revisions m c dv list r w))) = filter (\<lambda>y. key_of y \<notin> ?D) (stored w2)"
    using delete delete_all_ok ok by (simp add: w2_def items_def)
  have sh: "shape (stored w2) = shape (stored w)" by (simp add: w2_def phase2_shape)
  have "mset items = mset list" by (simp add: items_def)
  then have "distinct (map key_of items)" by (rule listed_distinct [OF l])
  then have "distinct (map key_of (take (length items - 10) items) @ map key_of kept)"
    unfolding kept_def map_append [symmetric] append_take_drop_id .
  then have disj: "?D \<inter> key_of ` set kept = {}" by simp
  have items: "set items = set kept \<union> set (take (length items - 10) items)"
    unfolding kept_def by (metis append_take_drop_id set_append sup_commute)
  have mem: "x \<in> set items \<longleftrightarrow> x \<in> set (stored w) \<and> matches sel ns x" for x
    using listed_set [OF l] by (simp add: items_def)
  show ?thesis
  proof (intro set_eqI iffI)
    fix p assume "p \<in> ?g ` {x \<in> set (stored (snd (snd (apply_revisions m c dv list r w)))). matches sel ns x}"
    then obtain x where x: "p = ?g x" "x \<in> set (stored w2)" "key_of x \<notin> ?D" "matches sel ns x" by (auto simp: st)
    obtain y where y: "y \<in> set (stored w)" "ecrMeta y = ecrMeta x" "ecrSpec y = ecrSpec x"
      by (rule shape_eq_obtain [OF sh x(2)])
    then have "y \<in> set items" using mem x(4) matches_cong [of y x] by simp
    moreover have "y \<notin> set (take (length items - 10) items)" using x(3) y(2) by (metis image_eqI)
    ultimately have "y \<in> set kept" using items by blast
    then show "p \<in> ?g ` set kept" using x(1) y by (auto intro!: image_eqI [of _ _ y])
  next
    fix p assume "p \<in> ?g ` set kept"
    then obtain y where y: "p = ?g y" "y \<in> set kept" by blast
    then have "y \<in> set (stored w)" "matches sel ns y" using items mem by auto
    then obtain x where x: "x \<in> set (stored w2)" "ecrMeta x = ecrMeta y" "ecrSpec x = ecrSpec y"
      by (metis shape_eq_obtain [OF sh [symmetric]])
    moreover have "key_of y \<notin> ?D" using disj y(2) by blast
    ultimately have "x \<in> set (stored (snd (snd (apply_revisions m c dv list r w))))" by (simp add: st)
    moreover have "matches sel ns x" using \<open>matches sel ns y\<close> x(2) matches_cong [of x y] by simp
    ultimately show "p \<in> ?g ` {x \<in> set (stored (snd (snd (apply_revisions m c dv list r w)))). matches sel ns x}"
      using y(1) x(2,3) by (intro image_eqI [of _ _ x]) simp_all
  qed
qed (use ok in simp_all)

text \<open>A run taints nothing.\<close>

definition taints_from :: "'w \<Rightarrow> 'w \<Rightarrow> bool" where
  "taints_from w0 w \<longleftrightarrow> (\<forall>x \<in> set (stored w). tainted_true m x \<longrightarrow>
     (\<exists>y \<in> set (stored w0). key_of y = key_of x \<and> tainted_true m y))"

lemma taint_publish [simp]: "tainted_true m (publish m v e) = tainted_true m e" "tainted_true m (unpublish m e) = tainted_true m e"
  by (simp_all add: publish_def unpublish_def is_true_set_other is_true_remove_other
      RevisionTaintedCondition_def RevisionPublishedCondition_def)

lemma taints_update:
  assumes "taints_from w0 w" "y \<in> set (stored w0)" "key_of e = key_of y" "tainted_true m e = tainted_true m y"
  shows "taints_from w0 (snd (update_status_ecr c w e))"
proof (cases rule: update_cases [of w e])
  case 1
  then show ?thesis using assms in_put_status [of _ e "stored w"] unfolding taints_from_def by (metis (no_types, lifting))
qed (use assms in \<open>simp add: taints_from_def\<close>)

lemma taints_update_all:
  assumes "taints_from w0 w"
    and "\<And>e. e \<in> set es \<Longrightarrow> \<exists>y \<in> set (stored w0). key_of e = key_of y \<and> tainted_true m e = tainted_true m y"
  shows "taints_from w0 (snd (write_all (update_status_ecr c) w es))"
  using assms(1) by (rule write_all_inv [rotated]) (use assms(2) taints_update in blast)

lemma apply_taints:
  assumes l: "listed sel ns list w"
  shows "taints_from w (snd (snd (apply_revisions m c dv list r w)))"
proof -
  let ?items = "SortByPublication dv list"
  let ?v = "fst (getVersionToPublish m ?items)"
  let ?w1 = "snd (write_all (update_status_ecr c) w (to_unpublish ?v ?items))"
  let ?w2 = "snd (write_all (update_status_ecr c) ?w1 (to_publish ?v ?items))"
  have items: "y \<in> set (stored w)" if "y \<in> set ?items" for y
    using that listed_set [OF l, of y] by simp
  have "taints_from w w" unfolding taints_from_def by blast
  then have 1: "taints_from w ?w1"
    by (rule taints_update_all) (use items in \<open>force simp: to_unpublish_def\<close>)
  have 2: "taints_from w ?w2"
    by (rule taints_update_all [OF 1]) (use items in \<open>force dest!: to_publish_elem\<close>)
  have "taints_from w (snd (write_all (delete_ecr c) ?w2 (take (length ?items - 10) ?items)))"
  proof (rule write_all_inv [where I = "taints_from w", OF _ 2])
    fix w' e assume "taints_from w w'"
    then show "taints_from w (snd (delete_ecr c w' e))"
      using delete_effect [of w' e] by (auto simp: taints_from_def remove_key_def)
  qed
  then show ?thesis
    by (cases rule: apply_revisions_exits [of w dv list r]) (use 1 2 in simp_all)
qed

end



section \<open>Runs that succeed\<close>

context working_api
begin

lemma update_all_works:
  assumes "key_of ` set es \<subseteq> key_of ` set (stored w)"
  shows "fst (write_all (update_status_ecr c) w es) = None"
  using assms
proof (induction es arbitrary: w)
  case (Cons e es)
  obtain err w' where u: "update_status_ecr c w e = (err, w')" by fastforce
  have "err = None" using update_works [of e w] Cons.prems u by auto
  moreover have "map key_of (stored w') = map key_of (stored w)"
    using update_effect [of w e] u by (auto simp: put_status_def)
  then have "key_of ` set (stored w') = key_of ` set (stored w)" by (metis set_map)
  ultimately show ?case using Cons u by simp
qed simp

lemma keys_remove: "key_of ` set (remove_key e l) = key_of ` set l - {key_of e}"
  by (auto simp: remove_key_def)

lemma delete_all_works:
  assumes "key_of ` set es \<subseteq> key_of ` set (stored w)" "distinct (map key_of es)"
  shows "fst (write_all (delete_ecr c) w es) = None"
  using assms
proof (induction es arbitrary: w)
  case (Cons e es)
  obtain err w' where u: "delete_ecr c w e = (err, w')" by fastforce
  have "err = None" using delete_works [of e w] Cons.prems u by auto
  moreover have "stored w' = remove_key e (stored w)" using delete_effect [of w e] u \<open>err = None\<close> by auto
  then have "key_of ` set es \<subseteq> key_of ` set (stored w')" using Cons.prems keys_remove [of e "stored w"] by auto
  ultimately show ?case using Cons u by simp
qed simp

lemma apply_works:
  assumes l: "listed sel ns list w"
  shows "snd (fst (snd (apply_revisions m c dv list r w))) = None"
proof -
  let ?items = "SortByPublication dv list"
  let ?v = "fst (getVersionToPublish m ?items)"
  let ?w1 = "snd (write_all (update_status_ecr c) w (to_unpublish ?v ?items))"
  let ?w2 = "snd (write_all (update_status_ecr c) ?w1 (to_publish ?v ?items))"
  have keys: "key_of ` set (stored ?w1) = key_of ` set (stored w)" "key_of ` set (stored ?w2) = key_of ` set (stored w)"
    using keys_of_shape phase2_shape by (metis set_map)+
  have items: "key_of ` set ?items \<subseteq> key_of ` set (stored w)" using listed_set [OF l] by auto
  have 1: "fst (write_all (update_status_ecr c) w (to_unpublish ?v ?items)) = None"
    by (rule update_all_works) (use items in \<open>auto simp: to_unpublish_def\<close>)
  have 2: "fst (write_all (update_status_ecr c) ?w1 (to_publish ?v ?items)) = None"
    by (rule update_all_works) (use items keys in \<open>auto dest!: to_publish_elem\<close>)
  have "distinct (map key_of ?items)" by (rule listed_distinct [OF l]) simp
  then have "distinct (map key_of (take (length ?items - 10) ?items))" by (metis distinct_take take_map)
  then have 3: "fst (write_all (delete_ecr c) ?w2 (take (length ?items - 10) ?items)) = None"
    by (intro delete_all_works) (use items keys in_set_takeD in fastforce)
  show ?thesis
    by (cases rule: apply_revisions_exits [of w dv list r]) (use 1 2 3 in simp_all)
qed

end

section \<open>The invariant of a node\<close>

text \<open>In addition to \<open>revision_inv\<close>: the version label of a revision is its version, and names
  of the form the reconciler uses for the node are used for the node only.\<close>

definition node_inv :: "meta_ops \<Rightarrow> EnvoyConfig \<Rightarrow> EnvoyConfigRevision list \<Rightarrow> bool" where
  "node_inv m ec l \<longleftrightarrow> revision_inv m ec l \<and>
     (\<forall>e \<in> set l. matches (node_selector ec) (Namespace (ecMeta ec)) e \<longrightarrow>
        map_of (Labels (ecrMeta e)) VersionTag = Some (version_of e)) \<and>
     (\<forall>e \<in> set l. \<forall>v. key_of e = (Namespace (ecMeta ec), revision_name ec v) \<longrightarrow>
        matches (node_selector ec) (Namespace (ecMeta ec)) e)"

lemma version_selector_iff:
  "matches (version_selector ec v) ns e \<longleftrightarrow>
     matches (node_selector ec) ns e \<and> map_of (Labels (ecrMeta e)) VersionTag = Some v"
  by (auto simp: matches_def version_selector_def node_selector_def build_selector_def ByNodeID_def ByVersion_def
      ByEnvoyAPI_def NodeIDTag_def VersionTag_def EnvoyAPITag_def)

lemma node_inv_version:
  "node_inv m ec l \<Longrightarrow> e \<in> set l \<Longrightarrow>
   matches (version_selector ec v) (Namespace (ecMeta ec)) e \<longleftrightarrow>
   matches (node_selector ec) (Namespace (ecMeta ec)) e \<and> version_of e = v"
  by (auto simp: version_selector_iff node_inv_def)

text \<open>What only changes statuses and removes objects keeps the part on labels and names.\<close>

lemma node_inv_transfer:
  assumes "node_inv m ec l" "revision_inv m ec l'"
    and "\<And>x. x \<in> set l' \<Longrightarrow> \<exists>y \<in> set l. ecrMeta y = ecrMeta x \<and> ecrSpec y = ecrSpec x"
  shows "node_inv m ec l'"
proof -
  have "(matches (node_selector ec) (Namespace (ecMeta ec)) x \<longrightarrow> map_of (Labels (ecrMeta x)) VersionTag = Some (version_of x)) \<and>
      (\<forall>v. key_of x = (Namespace (ecMeta ec), revision_name ec v) \<longrightarrow> matches (node_selector ec) (Namespace (ecMeta ec)) x)"
    if x: "x \<in> set l'" for x
  proof -
    obtain y where y: "y \<in> set l" "ecrMeta y = ecrMeta x" "ecrSpec y = ecrSpec x" using assms(3) [OF x] by blast
    then have "matches (node_selector ec) (Namespace (ecMeta ec)) y = matches (node_selector ec) (Namespace (ecMeta ec)) x"
      by (intro matches_cong)
    with y assms(1) show ?thesis unfolding node_inv_def by metis
  qed
  with assms(2) show ?thesis by (simp add: node_inv_def)
qed

context revision_api
begin

lemma new_revision_sel:
  assumes "created_from (newRevisionForCurrentResources dv (started hash ec)) e"
  shows "key_of e = (Namespace (ecMeta ec), revision_name ec dv)" "version_of e = dv"
    "matches (node_selector ec) (Namespace (ecMeta ec)) e" "map_of (Labels (ecrMeta e)) VersionTag = Some dv"
    "ecrResources (ecrSpec e) = ecResources (ecSpec ec)" "\<not> published_true m e" "\<not> tainted_true m e"
  using assms
  by (auto simp: created_from_def newRevisionForCurrentResources_def object_key_def revision_name_def matches_def
      node_selector_def build_selector_def ByNodeID_def ByEnvoyAPI_def NodeIDTag_def VersionTag_def EnvoyAPITag_def is_true_nil)

lemma node_inv_Reconcile:
  assumes inv: "node_inv m ec (stored w)"
  shows "node_inv m ec (stored (snd (snd (Reconcile hash m setOwner c (NewRevisionReconciler ec) w))))"
proof -
  have rinv: "revision_inv m ec (stored w)" using inv by (simp add: node_inv_def)
  note keep = inv_Reconcile [OF rinv, of hash]
  show ?thesis
  proof (cases rule: Reconcile_cases [of hash m setOwner c ec w])
    case (error err)
    with inv show ?thesis by simp
  next
    case create
    show ?thesis
    proof (cases rule: create_cases [of "GetEnvoyResourcesVersion hash ec" "started hash ec" w])
      case none
      with inv create show ?thesis by simp
    next
      case (added e)
      with inv keep new_revision_sel [OF added(2)] create show ?thesis by (simp add: node_inv_def)
    qed
  next
    case (applied e list)
    note l = listed_of_inv [OF rinv applied(3)]
    show ?thesis
      by (rule node_inv_transfer [OF inv keep]) (use apply_from [OF l] applied(1) in simp)
  qed
qed

end

lemma Reconcile_eqs:
  fixes hash ec
  defines "dv \<equiv> GetEnvoyResourcesVersion hash ec"
  shows "list_ecr c w (version_selector ec dv) (Namespace (ecMeta ec)) = Inr [] \<Longrightarrow>
      Reconcile hash m setOwner c (NewRevisionReconciler ec) w = create_revision setOwner c dv (started hash ec) w"
    and "list_ecr c w (version_selector ec dv) (Namespace (ecMeta ec)) = Inr [e] \<Longrightarrow>
      list_ecr c w (node_selector ec) (Namespace (ecMeta ec)) = Inr list \<Longrightarrow> list \<noteq> [] \<Longrightarrow>
      Reconcile hash m setOwner c (NewRevisionReconciler ec) w = apply_revisions m c dv list (started hash ec) w"
proof -
  have "DesiredVersion hash (NewRevisionReconciler ec) = (dv, started hash ec)"
    by (simp add: DesiredVersion_def dv_def started_def Let_def)
  note unf = Reconcile_def this started_sel version_selector_def [symmetric] node_selector_def [symmetric]
    revisions_Get_def revisions_List_def Let_def prod.case
  show "list_ecr c w (version_selector ec dv) (Namespace (ecMeta ec)) = Inr [] \<Longrightarrow>
      Reconcile hash m setOwner c (NewRevisionReconciler ec) w = create_revision setOwner c dv (started hash ec) w"
    by (simp add: unf ErrorIsNoMatchesForFilter_def ReasonForError_def NewError_def)
  show "list_ecr c w (version_selector ec dv) (Namespace (ecMeta ec)) = Inr [e] \<Longrightarrow>
      list_ecr c w (node_selector ec) (Namespace (ecMeta ec)) = Inr list \<Longrightarrow> list \<noteq> [] \<Longrightarrow>
      Reconcile hash m setOwner c (NewRevisionReconciler ec) w = apply_revisions m c dv list (started hash ec) w"
    by (simp add: unf)
qed

text \<open>The revision of the current resources is stored and not tainted.\<close>

definition current_usable :: "resources_hash \<Rightarrow> meta_ops \<Rightarrow> EnvoyConfig \<Rightarrow> EnvoyConfigRevision list \<Rightarrow> bool" where
  "current_usable hash m ec l \<longleftrightarrow>
     (\<exists>e \<in> set l. matches (node_selector ec) (Namespace (ecMeta ec)) e \<and> version_of e = GetEnvoyResourcesVersion hash ec \<and>
        \<not> tainted_true m e)"

context working_api
begin

lemma version_list:
  assumes inv: "node_inv m ec (stored w)"
  obtains "list_ecr c w (version_selector ec v) (Namespace (ecMeta ec)) = Inr []"
      "\<And>e. e \<in> set (stored w) \<Longrightarrow> matches (node_selector ec) (Namespace (ecMeta ec)) e \<Longrightarrow> version_of e \<noteq> v"
  | e where "list_ecr c w (version_selector ec v) (Namespace (ecMeta ec)) = Inr [e]" "e \<in> set (stored w)"
      "matches (node_selector ec) (Namespace (ecMeta ec)) e" "version_of e = v"
proof -
  obtain items where items: "list_ecr c w (version_selector ec v) (Namespace (ecMeta ec)) = Inr items" using list_works by blast
  let ?f = "filter (\<lambda>e. matches (node_selector ec) (Namespace (ecMeta ec)) e \<and> version_of e = v) (stored w)"
  have "filter (matches (version_selector ec v) (Namespace (ecMeta ec))) (stored w) = ?f"
    using node_inv_version [OF inv] by (intro filter_cong) auto
  with list_current [OF items] have ms: "mset items = mset ?f" by simp
  have "distinct (map version_of (filter (matches (node_selector ec) (Namespace (ecMeta ec))) (stored w)))"
    using inv by (intro distinct_versions [of _ _ _ ec]) (auto simp: node_inv_def revision_inv_def Let_def list_all_iff)
  then have "length (filter (\<lambda>e. version_of e = v) (filter (matches (node_selector ec) (Namespace (ecMeta ec))) (stored w))) \<le> 1"
    by (rule filter_distinct_image_le_1)
  then have "length ?f \<le> 1" by (simp add: conj_commute)
  then have "length items \<le> 1" using ms by (metis size_mset)
  moreover have set: "set items = set ?f" using ms by (metis set_mset_mset)
  ultimately consider "items = []" | e where "items = [e]" by (cases items) auto
  then show thesis
    using that items set by cases (auto simp: filter_empty_conv)
qed

lemma run_creates:
  assumes inv: "node_inv m ec (stored w)"
    and missing: "\<And>e. e \<in> set (stored w) \<Longrightarrow> matches (node_selector ec) (Namespace (ecMeta ec)) e \<Longrightarrow>
      version_of e \<noteq> GetEnvoyResourcesVersion hash ec"
    and none: "list_ecr c w (version_selector ec (GetEnvoyResourcesVersion hash ec)) (Namespace (ecMeta ec)) = Inr []"
  obtains e w' where "Reconcile hash m setOwner c (NewRevisionReconciler ec) w =
      (started hash ec, (empty_result\<lparr> crRequeue := True \<rparr>, None), w')" "stored w' = stored w @ [e]"
    "created_from (newRevisionForCurrentResources (GetEnvoyResourcesVersion hash ec) (started hash ec)) e"
proof -
  let ?dv = "GetEnvoyResourcesVersion hash ec"
  let ?new = "newRevisionForCurrentResources ?dv (started hash ec)"
  have "key_of ?new = (Namespace (ecMeta ec), revision_name ec ?dv)"
    by (simp add: newRevisionForCurrentResources_def object_key_def revision_name_def)
  moreover have "key_of y \<noteq> (Namespace (ecMeta ec), revision_name ec ?dv)" if "y \<in> set (stored w)" for y
  proof
    assume k: "key_of y = (Namespace (ecMeta ec), revision_name ec ?dv)"
    with inv that have y: "matches (node_selector ec) (Namespace (ecMeta ec)) y" by (auto simp: node_inv_def)
    with inv that have "Name (ecrMeta y) = revision_name ec (version_of y)"
      by (auto simp: node_inv_def revision_inv_def Let_def list_all_iff)
    with k have "version_of y = ?dv" by (simp add: object_key_def revision_name_def)
    with missing that y show False by blast
  qed
  ultimately have fresh: "key_of ?new \<notin> key_of ` set (stored w)" by force
  obtain o' where o': "setOwner ec ?new = Inr o'" using owner_works by blast
  then have "key_of o' = key_of ?new" using owner_keeps by blast
  then have "fst (create_ecr c w o') = None" using fresh create_works by simp
  then obtain w' where w': "create_ecr c w o' = (None, w')" by (metis prod.collapse)
  have res: "create_revision setOwner c ?dv (started hash ec) w = (started hash ec, (empty_result\<lparr> crRequeue := True \<rparr>, None), w')"
    by (simp add: create_revision_def o' w')
  obtain e where "stored w' = stored w @ [e]" "created_from ?new e"
    by (cases rule: create_cases [of ?dv "started hash ec" w]) (use res in simp_all)
  then show thesis using that Reconcile_eqs(1) [OF none, of m setOwner] res by simp
qed

lemma usable_obtain:
  assumes inv: "node_inv m ec (stored w)" and usable: "current_usable hash m ec (stored w)"
  obtains e list where "listed (node_selector ec) (Namespace (ecMeta ec)) list w" "e \<in> set list" "\<not> tainted_true m e"
    "version_of e = GetEnvoyResourcesVersion hash ec" "e \<in> set (stored w)" "matches (node_selector ec) (Namespace (ecMeta ec)) e"
    "Reconcile hash m setOwner c (NewRevisionReconciler ec) w =
       apply_revisions m c (GetEnvoyResourcesVersion hash ec) list (started hash ec) w"
proof -
  let ?dv = "GetEnvoyResourcesVersion hash ec"
  obtain e where e: "e \<in> set (stored w)" "matches (node_selector ec) (Namespace (ecMeta ec)) e" "version_of e = ?dv" "\<not> tainted_true m e"
    using usable unfolding current_usable_def by blast
  obtain list where list: "list_ecr c w (node_selector ec) (Namespace (ecMeta ec)) = Inr list" using list_works by blast
  have l: "listed (node_selector ec) (Namespace (ecMeta ec)) list w"
    by (rule listed_of_inv [OF _ list]) (use inv in \<open>simp add: node_inv_def\<close>)
  then have mem: "e \<in> set list" using listed_set e(1,2) by blast
  then have "list \<noteq> []" by auto
  then have "Reconcile hash m setOwner c (NewRevisionReconciler ec) w = apply_revisions m c ?dv list (started hash ec) w"
    by (cases rule: version_list [OF inv, of ?dv]) (use e Reconcile_eqs(2) [OF _ list] in auto)
  with that l mem e show thesis by blast
qed

lemma run_publishes:
  assumes inv: "node_inv m ec (stored w)" and usable: "current_usable hash m ec (stored w)"
    and dv: "GetEnvoyResourcesVersion hash ec \<noteq> []"
  obtains r' w' where "Reconcile hash m setOwner c (NewRevisionReconciler ec) w = (r', (empty_result, None), w')"
    "rrPublishedVersion r' = Some (GetEnvoyResourcesVersion hash ec)" "rrCacheState r' = Some InSyncState"
    "node_inv m ec (stored w')" "current_usable hash m ec (stored w')"
    "published_exact (node_selector ec) (Namespace (ecMeta ec)) (GetEnvoyResourcesVersion hash ec) w'"
    "length (filter (matches (node_selector ec) (Namespace (ecMeta ec))) (stored w')) \<le> 10"
proof -
  let ?dv = "GetEnvoyResourcesVersion hash ec" and ?sel = "node_selector ec" and ?ns = "Namespace (ecMeta ec)"
  obtain e list where l: "listed ?sel ?ns list w" and e: "e \<in> set list" "\<not> tainted_true m e" "version_of e = ?dv"
      "e \<in> set (stored w)" "matches ?sel ?ns e"
    and res: "Reconcile hash m setOwner c (NewRevisionReconciler ec) w = apply_revisions m c ?dv list (started hash ec) w"
    by (rule usable_obtain [OF inv usable])
  let ?res = "apply_revisions m c ?dv list (started hash ec) w" and ?items = "SortByPublication ?dv list"
  have pick: "getVersionToPublish m ?items = (?dv, InSyncState)" using desired_picked [OF l e(1)] e(2,3) dv by simp
  note ok = apply_works [OF l, of ?dv "started hash ec"]
  have ctrl: "fst (fst (snd ?res)) = empty_result"
    by (simp add: apply_revisions_def Let_def split: prod.split option.split)
  have fields: "rrPublishedVersion (fst ?res) = Some ?dv" "rrCacheState (fst ?res) = Some InSyncState"
    by (cases rule: apply_revisions_exits [of w ?dv list "started hash ec"]; use ok pick in simp)+
  have "last ?items = e"
    using SortByPublication_last [OF e(1)] e(3) filter_distinct_image_le_1 [OF listed_distinct(2) [OF l refl]] by metis
  moreover have "?items \<noteq> []" using e(1) by auto
  ultimately have "e \<in> set (drop (length ?items - 10) ?items)"
    by (metis diff_less last_drop last_in_set length_greater_0_conv drop_eq_Nil not_le zero_less_numeral)
  then have "(ecrMeta e, ecrSpec e) \<in> (\<lambda>e. (ecrMeta e, ecrSpec e)) ` {x \<in> set (stored (snd (snd ?res))). matches ?sel ?ns x}"
    unfolding apply_survivors [OF l ok] by blast
  then obtain x where x: "x \<in> set (stored (snd (snd ?res)))" "matches ?sel ?ns x" "ecrMeta x = ecrMeta e" "ecrSpec x = ecrSpec e"
    by auto
  have "\<not> tainted_true m x"
  proof
    assume "tainted_true m x"
    with apply_taints [OF l] x(1) obtain y where y: "y \<in> set (stored w)" "key_of y = key_of x" "tainted_true m y"
      unfolding taints_from_def by blast
    have "distinct (map key_of (stored w))" using l by (simp add: listed_def)
    with y(1,2) x(3) e(4) have "y = e" by (metis distinct_map inj_onD)
    with y(3) e(2) show False by simp
  qed
  then have "current_usable hash m ec (stored (snd (snd ?res)))" using x e(3) unfolding current_usable_def by metis
  moreover have "node_inv m ec (stored (snd (snd ?res)))" using node_inv_Reconcile [OF inv, of hash] by (simp add: res)
  moreover have "published_exact ?sel ?ns ?dv (snd (snd ?res))" using apply_exact [OF l ok] by (simp add: pick)
  moreover have "length (filter (matches ?sel ?ns) (stored (snd (snd ?res)))) \<le> 10" using apply_retention [OF l ok] by simp
  moreover have "?res = (fst ?res, (empty_result, None), snd (snd ?res))" using ctrl ok by (metis prod.collapse)
  ultimately show thesis using that [of "fst ?res" "snd (snd ?res)"] fields res by simp
qed

text \<open>When nothing is left to do, nothing is written.\<close>

lemma run_stable:
  assumes inv: "node_inv m ec (stored w)" and usable: "current_usable hash m ec (stored w)"
    and dv: "GetEnvoyResourcesVersion hash ec \<noteq> []"
    and exact: "published_exact (node_selector ec) (Namespace (ecMeta ec)) (GetEnvoyResourcesVersion hash ec) w"
    and le: "length (filter (matches (node_selector ec) (Namespace (ecMeta ec))) (stored w)) \<le> 10"
  shows "snd (snd (Reconcile hash m setOwner c (NewRevisionReconciler ec) w)) = w"
proof -
  let ?dv = "GetEnvoyResourcesVersion hash ec" and ?sel = "node_selector ec" and ?ns = "Namespace (ecMeta ec)"
  obtain e list where l: "listed ?sel ?ns list w" and e: "e \<in> set list" "\<not> tainted_true m e" "version_of e = ?dv"
    and res: "Reconcile hash m setOwner c (NewRevisionReconciler ec) w = apply_revisions m c ?dv list (started hash ec) w"
    by (rule usable_obtain [OF inv usable])
  let ?items = "SortByPublication ?dv list"
  have pick: "getVersionToPublish m ?items = (?dv, InSyncState)" using desired_picked [OF l e(1)] e(2,3) dv by simp
  have pub: "published_true m x = (version_of x = ?dv)" if "x \<in> set ?items" for x
    using that listed_set [OF l, of x] exact by (simp add: published_exact_def)
  have "to_unpublish ?dv ?items = []" using pub by (auto simp: to_unpublish_def filter_empty_conv)
  moreover have "filter (\<lambda>e. version_of e = ?dv \<and> \<not> published_true m e) ?items = []" using pub by (auto simp: filter_empty_conv)
  then have "to_publish ?dv ?items = []" by (simp add: to_publish_def)
  moreover have "length ?items \<le> 10" using l le by (metis length_SortByPublication listed_def size_mset)
  ultimately show ?thesis
    unfolding res using pick by (cases rule: apply_revisions_exits [of w ?dv list "started hash ec"]) simp_all
qed

end

section \<open>Properties\<close>

text \<open>(C5) A change is rolled out in two runs: from any store that satisfies the invariant of the node,
  when the API server works and no revision of the current resources is tainted, the second of
  two runs ends without error, reports the current version as published and in sync, and leaves
  its revision, and no other revision of the node, published. Every further run writes nothing.\<close>

theorem two_runs_publish_current:
  fixes hash ec m setOwner c
  defines "run \<equiv> \<lambda>w. Reconcile hash m setOwner c (NewRevisionReconciler ec) w"
    and "sel \<equiv> matches (node_selector ec) (Namespace (ecMeta ec))" and "dv \<equiv> GetEnvoyResourcesVersion hash ec"
  assumes "working_api m c stored setOwner" "node_inv m ec (stored w)" "dv \<noteq> []"
    and "\<And>e. e \<in> set (stored w) \<Longrightarrow> sel e \<Longrightarrow> version_of e = dv \<Longrightarrow> \<not> tainted_true m e"
  shows "\<exists>r2 w2. run (snd (snd (run w))) = (r2, (empty_result, None), w2) \<and>
    rrPublishedVersion r2 = Some dv \<and> rrCacheState r2 = Some InSyncState \<and>
    list_ex (\<lambda>x. sel x \<and> version_of x = dv) (stored w2) \<and>
    list_all (\<lambda>x. sel x \<longrightarrow> published_true m x = (version_of x = dv)) (stored w2) \<and> snd (snd (run w2)) = w2"
proof -
  note api = working_api.axioms(1) [OF assms(4)]
  have dv: "GetEnvoyResourcesVersion hash ec \<noteq> []" using assms(6) by (simp add: dv_def)
  have first: "node_inv m ec (stored (snd (snd (run w)))) \<and> current_usable hash m ec (stored (snd (snd (run w))))"
  proof (cases rule: working_api.version_list [OF assms(4,5), of dv])
    case 1
    obtain e w' where "run w = (started hash ec, (empty_result\<lparr> crRequeue := True \<rparr>, None), w')" "stored w' = stored w @ [e]"
      "created_from (newRevisionForCurrentResources dv (started hash ec)) e"
      using working_api.run_creates [OF assms(4,5) 1(2) [unfolded dv_def] 1(1) [unfolded dv_def]] unfolding run_def dv_def by blast
    with revision_api.new_revision_sel [OF api, of dv hash ec e] have "current_usable hash m ec (stored (snd (snd (run w))))"
      by (auto simp: current_usable_def dv_def)
    with revision_api.node_inv_Reconcile [OF api assms(5), of hash] show ?thesis by (simp add: run_def)
  next
    case (2 e)
    then have "current_usable hash m ec (stored w)" using assms(7) unfolding current_usable_def dv_def sel_def by blast
    then show ?thesis using working_api.run_publishes [OF assms(4,5) _ dv] unfolding run_def by (metis snd_conv)
  qed
  obtain r2 w2 where second: "run (snd (snd (run w))) = (r2, (empty_result, None), w2)"
    "rrPublishedVersion r2 = Some dv" "rrCacheState r2 = Some InSyncState" "node_inv m ec (stored w2)"
    "current_usable hash m ec (stored w2)"
    "revision_api.published_exact m stored (node_selector ec) (Namespace (ecMeta ec)) dv w2"
    "length (filter sel (stored w2)) \<le> 10"
    using working_api.run_publishes [OF assms(4) first [THEN conjunct1] first [THEN conjunct2] dv]
    unfolding run_def dv_def sel_def by metis
  have "snd (snd (run w2)) = w2"
    using working_api.run_stable [OF assms(4) second(4,5) dv] second(6,7) by (simp add: run_def dv_def sel_def)
  moreover have "list_ex (\<lambda>x. sel x \<and> version_of x = dv) (stored w2)"
    using second(5) by (auto simp: current_usable_def list_ex_iff sel_def dv_def)
  moreover have "list_all (\<lambda>x. sel x \<longrightarrow> published_true m x = (version_of x = dv)) (stored w2)"
    using second(6) by (simp add: revision_api.published_exact_def [OF api] list_all_iff sel_def)
  ultimately show ?thesis using second(1-3) by blast
qed

lemma sample_node_inv: "node_inv meta_list sample_config []"
  by (simp add: node_inv_def revision_inv_def Let_def)

theorem two_runs_publish_current_witness:
  "\<exists>r2 w2. Reconcile sample_hash meta_list keep_owner list_api (NewRevisionReconciler sample_config)
       (snd (snd (Reconcile sample_hash meta_list keep_owner list_api (NewRevisionReconciler sample_config) [])))
     = (r2, (empty_result, None), w2) \<and> rrPublishedVersion r2 = Some ''b'' \<and> rrCacheState r2 = Some InSyncState"
proof -
  have "GetEnvoyResourcesVersion sample_hash sample_config = ''b''" by code_simp
  then show ?thesis
    using two_runs_publish_current [OF workingListApi.working_api_axioms sample_node_inv, of sample_hash] by auto
qed




end
