(* ===== verification/ControlLoop.thy ===== *)
theory ControlLoop
  imports RevisionConvergence RevisionStatusProperties
begin

text \<open>
  The two controllers of the discovery service on one API server. Their runs, for any
  configuration and any revision and in any order, interleaved with changes by users, proxies
  and other programs, are the step relation \<open>control_step\<close>; what a run asks of the base
  reconciler and of the API server is the locale \<open>control_system\<close>. Shown is that no reachable
  state has two published revisions of one node.
\<close>

section \<open>Runs for one configuration leave the others alone\<close>

lemma node_selector_eq:
  "node_selector ec = [(NodeIDTag, ecNodeID (ecSpec ec)), (EnvoyAPITag, APIv3)]"
  by (simp add: node_selector_def build_selector_def ByNodeID_def ByEnvoyAPI_def NodeIDTag_def EnvoyAPITag_def APIVersion_String_def)

lemma matches_node:
  "matches (node_selector ec) (Namespace (ecMeta ec)) x \<Longrightarrow> matches (node_selector ec') (Namespace (ecMeta ec')) x \<Longrightarrow>
   ecNodeID (ecSpec ec) = ecNodeID (ecSpec ec') \<and> Namespace (ecMeta ec) = Namespace (ecMeta ec')"
  by (simp add: matches_def node_selector_eq)

lemma revision_inv_cong:
  "ecNodeID (ecSpec ec) = ecNodeID (ecSpec ec') \<Longrightarrow> Namespace (ecMeta ec) = Namespace (ecMeta ec') \<Longrightarrow>
   revision_inv m ec l = revision_inv m ec' l"
  by (simp add: revision_inv_def node_selector_eq revision_name_def APIVersion_String_def)

text \<open>What neither adds objects nor publishes any keeps the invariant of every configuration.\<close>

definition no_new_publication :: "meta_ops \<Rightarrow> EnvoyConfigRevision list \<Rightarrow> EnvoyConfigRevision list \<Rightarrow> bool" where
  "no_new_publication m l l' \<longleftrightarrow> distinct (map key_of l') \<and>
     (\<forall>x \<in> set l'. \<exists>y \<in> set l. key_of y = key_of x \<and> Labels (ecrMeta y) = Labels (ecrMeta x) \<and>
        version_of y = version_of x \<and> (published_true m x \<longrightarrow> published_true m y))"

lemma no_new_publication_refl: "distinct (map key_of l) \<Longrightarrow> no_new_publication m l l"
  by (auto simp: no_new_publication_def)

lemma no_new_publication_trans:
  "no_new_publication m l1 l2 \<Longrightarrow> no_new_publication m l2 l3 \<Longrightarrow> no_new_publication m l1 l3"
  unfolding no_new_publication_def by metis

lemma matches_key_labels:
  "key_of y = key_of x \<Longrightarrow> Labels (ecrMeta y) = Labels (ecrMeta x) \<Longrightarrow> matches sel ns y = matches sel ns x"
  by (simp add: matches_def object_key_def)

lemma no_new_publication_inv:
  assumes inv: "revision_inv m ec l" and keep: "no_new_publication m l l'"
  shows "revision_inv m ec l'"
proof -
  let ?sel = "node_selector ec" and ?ns = "Namespace (ecMeta ec)"
  have old: "\<exists>y \<in> set l. key_of y = key_of x \<and> matches ?sel ?ns y = matches ?sel ?ns x \<and> version_of y = version_of x \<and>
      (published_true m x \<longrightarrow> published_true m y)" if x: "x \<in> set l'" for x
  proof -
    obtain y where "y \<in> set l" "key_of y = key_of x" "Labels (ecrMeta y) = Labels (ecrMeta x)" "version_of y = version_of x"
        "published_true m x \<longrightarrow> published_true m y"
      using keep x by (auto simp: no_new_publication_def)
    with matches_key_labels show ?thesis by blast
  qed
  have dist: "distinct (map key_of l')" using keep by (simp add: no_new_publication_def)
  have one: "\<forall>x \<in> set l. \<forall>y \<in> set l. published_in m ?sel ?ns x \<and> published_in m ?sel ?ns y \<longrightarrow> key_of x = key_of y"
    by (rule iffD1 [OF same_key_le_1]) (use inv in \<open>simp_all add: revision_inv_def Let_def\<close>)
  have "length (filter (published_in m ?sel ?ns) l') \<le> 1"
    unfolding same_key_le_1 [OF dist]
  proof (intro ballI impI)
    fix x x' assume "x \<in> set l'" "x' \<in> set l'" and p: "published_in m ?sel ?ns x \<and> published_in m ?sel ?ns x'"
    then obtain y y' where "y \<in> set l" "key_of y = key_of x" "published_in m ?sel ?ns y"
        "y' \<in> set l" "key_of y' = key_of x'" "published_in m ?sel ?ns y'"
      using old [of x] old [of x'] by blast
    then show "key_of x = key_of x'" using one by (metis (no_types, lifting))
  qed
  moreover have "Name (ecrMeta x) = revision_name ec (version_of x)" if x: "x \<in> set l'" "matches ?sel ?ns x" for x
  proof -
    obtain y where "y \<in> set l" "key_of y = key_of x" "matches ?sel ?ns y" "version_of y = version_of x"
      using old [OF x(1)] x(2) by blast
    with inv show ?thesis by (auto simp: revision_inv_def Let_def list_all_iff object_key_def)
  qed
  ultimately show ?thesis using dist by (simp add: revision_inv_def Let_def list_all_iff)
qed

context revision_api
begin

definition untouched :: "string_map \<Rightarrow> string \<Rightarrow> 'w \<Rightarrow> 'w \<Rightarrow> bool" where
  "untouched sel ns w0 w \<longleftrightarrow>
     (\<forall>x \<in> set (stored w). (\<exists>y \<in> set (stored w0). ecrMeta y = ecrMeta x) \<and> (\<not> matches sel ns x \<longrightarrow> x \<in> set (stored w0)))"

lemma untouched_update:
  assumes unt: "untouched sel ns w0 w" and dist: "distinct (map key_of (stored w0))"
    and y: "y \<in> set (stored w0)" "ecrMeta y = ecrMeta e" "matches sel ns y"
  shows "untouched sel ns w0 (snd (update_status_ecr c w e))"
proof (cases rule: update_cases [of w e])
  case 1
  have "(\<exists>z \<in> set (stored w0). ecrMeta z = ecrMeta x) \<and> (\<not> matches sel ns x \<longrightarrow> x \<in> set (stored w0))"
    if "x \<in> set (put_status e (stored w))" for x
    using in_put_status [OF that]
  proof (elim disjE conjE bexE)
    fix z assume z: "key_of x = key_of e" "z \<in> set (stored w)" "ecrMeta z = ecrMeta x"
    then obtain z0 where z0: "z0 \<in> set (stored w0)" "ecrMeta z0 = ecrMeta x" using unt unfolding untouched_def by metis
    with z y dist have "z0 = y" by (metis distinct_map inj_onD)
    with z0 y(3) matches_cong [of y x] show ?thesis by auto
  qed (use unt in \<open>simp add: untouched_def\<close>)
  with 1 show ?thesis by (simp add: untouched_def)
qed (use unt in \<open>simp add: untouched_def\<close>)

lemma untouched_delete: "untouched sel ns w0 w \<Longrightarrow> untouched sel ns w0 (snd (delete_ecr c w e))"
  using delete_effect [of w e] by (auto simp: untouched_def remove_key_def)

lemma apply_untouched:
  assumes l: "listed sel ns list w"
  shows "untouched sel ns w (snd (snd (apply_revisions m c dv list r w)))"
proof -
  let ?items = "SortByPublication dv list"
  have dist: "distinct (map key_of (stored w))" using l by (simp add: listed_def)
  have upd: "untouched sel ns w (snd (write_all (update_status_ecr c) w' es))"
    if start: "untouched sel ns w w'" and es: "\<And>e. e \<in> set es \<Longrightarrow> \<exists>y \<in> set ?items. ecrMeta y = ecrMeta e" for w' es
  proof (rule write_all_inv [where I = "untouched sel ns w"])
    fix w' e assume e: "e \<in> set es" and unt: "untouched sel ns w w'"
    obtain y where "y \<in> set ?items" "ecrMeta y = ecrMeta e" using es [OF e] by blast
    then show "untouched sel ns w (snd (update_status_ecr c w' e))"
      using listed_set [OF l, of y] by (intro untouched_update [OF unt dist, of y]) auto
  qed (rule start)
  have 0: "untouched sel ns w w" by (auto simp: untouched_def)
  note 1 = upd [OF 0, of "to_unpublish v ?items" for v]
  have u1: "untouched sel ns w (snd (write_all (update_status_ecr c) w (to_unpublish v ?items)))" for v
    by (rule 1) (auto simp: to_unpublish_def)
  have u2: "untouched sel ns w (snd (write_all (update_status_ecr c)
      (snd (write_all (update_status_ecr c) w (to_unpublish v ?items))) (to_publish v ?items)))" for v
    by (rule upd [OF u1]) (use to_publish_elem in fastforce)
  show ?thesis
  proof (cases rule: apply_revisions_exits [of w dv list r])
    case delete
    show ?thesis unfolding delete(3) by (rule write_all_inv [where I = "untouched sel ns w", OF untouched_delete u2])
  qed (use u1 u2 in simp_all)
qed

lemma Reconcile_keeps_all:
  assumes inv: "\<And>ec'. revision_inv m ec' (stored w)"
  shows "revision_inv m ec' (stored (snd (snd (Reconcile hash m setOwner c (NewRevisionReconciler ec) w))))"
proof (cases "ecNodeID (ecSpec ec) = ecNodeID (ecSpec ec') \<and> Namespace (ecMeta ec) = Namespace (ecMeta ec')")
  case True
  then show ?thesis using inv_Reconcile [OF inv [of ec], of hash] revision_inv_cong [of ec ec'] by blast
next
  case foreign: False
  let ?sel = "matches (node_selector ec) (Namespace (ecMeta ec))"
  let ?sel' = "matches (node_selector ec') (Namespace (ecMeta ec'))"
  have disj: "\<not> (?sel x \<and> ?sel' x)" for x using matches_node foreign by metis
  show ?thesis
  proof (cases rule: Reconcile_cases [of hash m setOwner c ec w])
    case create
    show ?thesis
    proof (cases rule: create_cases [of "GetEnvoyResourcesVersion hash ec" "started hash ec" w])
      case (added e')
      note new = new_revision_sel [OF added(2)]
      have "key_of e' \<notin> key_of ` set (stored w)" using added(3) added(2) by (simp add: created_from_def)
      moreover have "\<not> ?sel' e'" using new(3) disj by blast
      ultimately show ?thesis using inv [of ec'] create(1) added(1) by (simp add: revision_inv_def Let_def)
    qed (use inv create in simp)
  next
    case (applied e list)
    note l = listed_of_inv [OF inv applied(3)]
    let ?l' = "stored (snd (snd (apply_revisions m c (GetEnvoyResourcesVersion hash ec) list (started hash ec) w)))"
    have dist: "distinct (map key_of ?l')" using apply_from [OF l] by blast
    have old: "x \<in> set (stored w)" if "x \<in> set ?l'" "?sel' x" for x
      using apply_untouched [OF l] that disj [of x] by (auto simp: untouched_def)
    have one: "\<forall>x \<in> set (stored w). \<forall>y \<in> set (stored w). (?sel' x \<and> published_true m x) \<and> (?sel' y \<and> published_true m y) \<longrightarrow>
        key_of x = key_of y"
      by (rule iffD1 [OF same_key_le_1]) (use inv [of ec'] in \<open>simp_all add: revision_inv_def Let_def\<close>)
    have "length (filter (published_in m (node_selector ec') (Namespace (ecMeta ec'))) ?l') \<le> 1"
      unfolding same_key_le_1 [OF dist]
      using one old by blast
    with dist old inv [of ec'] show ?thesis unfolding applied(1) by (simp add: revision_inv_def Let_def list_all_iff)
  qed (use inv in simp)
qed

end

section \<open>The system\<close>

text \<open>Everything the two controllers are given. The fields stand for code that is not part of the
  repository; \<open>stored\<close> of the locale observes the revisions the API server holds.\<close>

record ('w, 'st, 'c, 's) controller_env =
  e_hash :: resources_hash
  e_codec :: codec_ops
  e_meta :: meta_ops
  e_setOwner :: set_owner
  e_manageConfig :: "'w lifecycle"
  e_revisions :: "'w ecr_client"
  e_updateConfig :: "'w \<Rightarrow> EnvoyConfig \<Rightarrow> goerror option \<times> 'w"
  e_urls :: type_urls
  e_snapshot :: "'s Snapshot_iface"
  e_cache :: "('c, 's) Cache_iface"
  e_reads :: "'w kube_reads"
  e_writes :: "'w ecr_writes"
  e_kv :: "'st kv_ops"
  e_manageRevision :: "('w, 'st, 'c) ecr_lifecycle"

definition run_config :: "('w, 'st, 'c, 's) controller_env \<Rightarrow> NamespacedName \<Rightarrow> 'w \<Rightarrow> (CtrlResult \<times> goerror option) \<times> 'w" where
  "run_config E req w =
     EnvoyConfigReconciler_Reconcile (e_hash E) (e_codec E) (e_meta E) (e_setOwner E) (e_manageConfig E) (e_revisions E)
       (e_updateConfig E) req w"

definition run_revision ::
    "('w, 'st, 'c, 's) controller_env \<Rightarrow> Time \<Rightarrow> NamespacedName \<Rightarrow> 'w \<times> 'st \<times> 'c
     \<Rightarrow> (CtrlResult \<times> goerror option) \<times> ('w \<times> 'st \<times> 'c)" where
  "run_revision E now req s =
     ECR_Reconcile (e_urls E) (e_snapshot E) (e_cache E) (e_meta E) (e_codec E) (e_reads E) (e_writes E) (e_kv E)
       (e_manageRevision E) now req s"

text \<open>A step is a run of one of the controllers for any request, or a change of anything but the
  revisions: users edit configurations, proxies call back into the statistics, secrets and
  endpoints change.\<close>

inductive control_step ::
    "('w, 'st, 'c, 's) controller_env \<Rightarrow> ('w \<Rightarrow> EnvoyConfigRevision list) \<Rightarrow> 'w \<times> 'st \<times> 'c \<Rightarrow> 'w \<times> 'st \<times> 'c \<Rightarrow> bool"
  for E stored where
  config_run: "run_config E req w = (res, w') \<Longrightarrow> control_step E stored (w, st, c) (w', st, c)"
| revision_run: "run_revision E now req (w, st, c) = (res, s') \<Longrightarrow> control_step E stored (w, st, c) s'"
| environment: "stored w' = stored w \<Longrightarrow> control_step E stored (w, st, c) (w', st', c')"

inductive control_reachable ::
    "('w, 'st, 'c, 's) controller_env \<Rightarrow> ('w \<Rightarrow> EnvoyConfigRevision list) \<Rightarrow> 'w \<times> 'st \<times> 'c \<Rightarrow> bool"
  for E stored where
  initial: "stored w = [] \<Longrightarrow> control_reachable E stored (w, st, c)"
| step: "control_reachable E stored s \<Longrightarrow> control_step E stored s s' \<Longrightarrow> control_reachable E stored s'"

inductive_cases control_stepE: "control_step E stored (w, st, c) s'"

text \<open>What the base reconciler and the API server promise. The lifecycle of an \<open>EnvoyConfig\<close> and
  the update of its status do not write revisions. The lifecycle of a revision stores what the
  initialisation function makes of it, or removes it, and hands over a stored revision after the
  in-memory initialisation. A write of a status has its effect or none.\<close>

definition initialised :: "(EnvoyConfigRevision \<Rightarrow> EnvoyConfigRevision) \<Rightarrow> EnvoyConfigRevision \<Rightarrow> EnvoyConfigRevision \<Rightarrow> bool" where
  "initialised f y x \<longleftrightarrow> key_of x = key_of y \<and> Labels (ecrMeta x) = Labels (ecrMeta y) \<and> ecrStatus x = ecrStatus y \<and>
     (ecrSpec x = ecrSpec y \<or> ecrSpec x = ecrSpec (f y))"

locale control_system = revision_api "e_meta E" "e_revisions E" stored "e_setOwner E"
  for E :: "('w, 'st, 'c, 's) controller_env" and stored :: "'w \<Rightarrow> EnvoyConfigRevision list" +
  assumes config_lifecycle: "stored (snd (e_manageConfig E w req f0 g0)) = stored w"
    and config_status: "stored (snd (e_updateConfig E w ec)) = stored w"
    and revision_lifecycle:
      "e_manageRevision E (w, st, c) req f g h = (res, (w', st', c')) \<Longrightarrow> distinct (map key_of (stored w)) \<Longrightarrow>
         distinct (map key_of (stored w')) \<and> (\<forall>x \<in> set (stored w'). \<exists>y \<in> set (stored w). initialised f y x)"
    and revision_object:
      "e_manageRevision E (w, st, c) req f g h = (Inr ecr, (w', st', c')) \<Longrightarrow> \<exists>y \<in> set (stored w'). g y = Inr ecr"
    and patch_effect: "stored (snd (patch_status (e_writes E) w e e')) \<in> {put_status e' (stored w), stored w}"
    and status_effect: "stored (snd (update_status (e_writes E) w e)) \<in> {put_status e (stored w), stored w}"
begin

lemma run_config_keeps:
  assumes "\<And>ec. revision_inv (e_meta E) ec (stored w)"
  shows "revision_inv (e_meta E) ec (stored (snd (run_config E req w)))"
proof -
  obtain r w1 where man: "e_manageConfig E w req EC_Default (convert_resources (e_codec E)) = (r, w1)" by fastforce
  have st1: "stored w1 = stored w" using config_lifecycle [of w req EC_Default "convert_resources (e_codec E)"] man by simp
  show ?thesis
  proof (cases r)
    case (Inl a)
    then show ?thesis using assms man st1 by (simp add: run_config_def EnvoyConfigReconciler_Reconcile_def)
  next
    case (Inr ec')
    obtain rr ctrl err w2 where rec: "Reconcile (e_hash E) (e_meta E) (e_setOwner E) (e_revisions E) (NewRevisionReconciler ec') w1 =
        (rr, (ctrl, err), w2)" by (metis prod.collapse)
    have inv2: "revision_inv (e_meta E) ec (stored w2)"
      using Reconcile_keeps_all [of w1 ec "e_hash E" ec'] assms by (simp add: rec st1)
    have "stored (snd (run_config E req w)) = stored w2"
      using config_status
      by (auto simp: run_config_def EnvoyConfigReconciler_Reconcile_def man Inr rec Let_def split: sum.split option.split prod.split)
         (metis snd_conv)+
    with inv2 show ?thesis by simp
  qed
qed

text \<open>A status write that publishes nothing new.\<close>

lemma put_status_keeps:
  assumes "distinct (map key_of l)" "y \<in> set l" "key_of y = key_of e"
    and "published_true (e_meta E) e \<Longrightarrow> published_true (e_meta E) y"
  shows "no_new_publication (e_meta E) l (put_status e l)"
proof -
  have "map key_of (put_status e l) = map key_of l" by (simp only: keys_of_shape shape_put_status)
  moreover have "\<exists>z \<in> set l. key_of z = key_of x \<and> Labels (ecrMeta z) = Labels (ecrMeta x) \<and> version_of z = version_of x \<and>
      (published_true (e_meta E) x \<longrightarrow> published_true (e_meta E) z)" if "x \<in> set (put_status e l)" for x
    using in_put_status [OF that]
  proof (elim disjE conjE bexE)
    fix z assume z: "key_of x = key_of e" "ecrStatus x = ecrStatus e" "z \<in> set l" "ecrMeta z = ecrMeta x" "ecrSpec z = ecrSpec x"
    then have "z = y" using assms(1-3) by (metis distinct_map inj_onD)
    with z assms(4) show ?thesis by (intro bexI [of _ z]) auto
  qed blast
  ultimately show ?thesis using assms(1) by (simp add: no_new_publication_def)
qed

definition current :: "EnvoyConfigRevision \<Rightarrow> 'w \<Rightarrow> bool" where
  "current e w \<longleftrightarrow> distinct (map key_of (stored w)) \<and>
     (\<exists>y \<in> set (stored w). key_of y = key_of e \<and> published_true (e_meta E) y = published_true (e_meta E) e)"

lemma current_refl: "current e w \<Longrightarrow> no_new_publication (e_meta E) (stored w) (stored w)"
  by (simp add: current_def no_new_publication_refl)

lemma write_keeps:
  assumes cur: "current e w" and eff: "stored w' \<in> {put_status e' (stored w), stored w}"
    and same: "ecrMeta e' = ecrMeta e" "published_true (e_meta E) e' = published_true (e_meta E) e"
  shows "no_new_publication (e_meta E) (stored w) (stored w') \<and> current e' w'"
proof -
  obtain y where y: "distinct (map key_of (stored w))" "y \<in> set (stored w)" "key_of y = key_of e'"
      "published_true (e_meta E) y = published_true (e_meta E) e'"
    using cur by (auto simp: current_def same)
  show ?thesis
  proof (cases "stored w' = stored w")
    case True
    with y show ?thesis by (auto simp: current_def no_new_publication_refl)
  next
    case False
    with eff have w': "stored w' = put_status e' (stored w)" by simp
    have keep: "no_new_publication (e_meta E) (stored w) (stored w')"
      unfolding w' by (rule put_status_keeps [OF y(1-3)]) (use y in simp)
    moreover have "y\<lparr> ecrStatus := ecrStatus e' \<rparr> \<in> set (stored w')" using y(2,3) by (force simp: w' put_status_def)
    then have "current e' w'"
      using keep y(3) by (auto simp: current_def no_new_publication_def intro!: bexI [of _ "y\<lparr> ecrStatus := ecrStatus e' \<rparr>"])
    ultimately show ?thesis ..
  qed
qed

lemma load_published_keeps:
  assumes cur: "current ecr w"
    and res: "load_published S C (e_meta E) d k (e_writes E) req ecr w c = (r, ecr', w', c')"
  shows "no_new_publication (e_meta E) (stored w) (stored w') \<and> current ecr' w' \<and> ecrMeta ecr' = ecrMeta ecr"
proof -
  have id: "no_new_publication (e_meta E) (stored w) (stored w) \<and> current ecr w"
    using cur current_refl by blast
  have taint: "no_new_publication (e_meta E) (stored w) (stored w1) \<and> current ecr1 w1 \<and> ecrMeta ecr1 = ecrMeta ecr"
    if t: "taintSelf (e_meta E) (e_writes E) ecr reason msg w = (err, ecr1, w1)" for reason msg err ecr1 w1
  proof (cases "tainted_true (e_meta E) ecr")
    case True
    with t id show ?thesis by (simp add: taintSelf_def)
  next
    case False
    let ?e = "tainted_revision (e_meta E) reason msg ecr"
    have same: "ecrMeta ?e = ecrMeta ecr" "published_true (e_meta E) ?e = published_true (e_meta E) ecr"
      by (simp_all add: tainted_revision_def is_true_set_other)
    from False t have "ecr1 = ?e" "w1 = snd (patch_status (e_writes E) w ecr ?e)"
      by (auto simp: taintSelf_def Let_def split: prod.splits)
    with write_keeps [OF cur patch_effect same] same show ?thesis by simp
  qed
  show ?thesis
    using res id taint [of "''FailedLoadingResources''"]
    by (auto simp: load_published_def split: if_splits prod.splits sum.splits goerror.splits option.splits)
qed

lemma run_revision_keeps:
  assumes dist: "distinct (map key_of (stored w))" and res: "run_revision E now req (w, st, c) = (r, (w', st', c'))"
  shows "no_new_publication (e_meta E) (stored w) (stored w')"
proof -
  obtain mr w1 st1 c1 where man: "e_manageRevision E (w, st, c) req ECR_Default (ECR_convert_resources (e_codec E))
      (CleanupLogic (e_meta E) (e_kv E) (e_cache E)) = (mr, (w1, st1, c1))" by (metis prod.collapse)
  have "version_of (ECR_Default y) = version_of y" for y by (simp add: ECR_Default_def)
  then have 1: "no_new_publication (e_meta E) (stored w) (stored w1)"
    using revision_lifecycle [OF man dist] unfolding no_new_publication_def initialised_def by metis
  show ?thesis
  proof (cases mr)
    case (Inl a)
    with res man 1 show ?thesis by (simp add: run_revision_def ECR_Reconcile_def)
  next
    case (Inr ecr0)
    obtain y where y: "y \<in> set (stored w1)" "ECR_convert_resources (e_codec E) y = Inr ecr0"
      using revision_object [OF man [unfolded Inr]] by blast
    then have "ecrMeta ecr0 = ecrMeta y" "ecrStatus ecr0 = ecrStatus y"
      by (auto simp: ECR_convert_resources_def split: option.splits sum.splits)
    with y 1 have cur: "current ecr0 w1" by (auto simp: current_def no_new_publication_def)
    obtain lr ecr w2 c2 where load: "load_published (e_snapshot E) (e_cache E) (e_meta E) (e_codec E) (e_reads E) (e_writes E) req
        ecr0 w1 c1 = (lr, ecr, w2, c2)" by (metis prod.collapse)
    note 2 = load_published_keeps [OF cur load]
    note unf = run_revision_def ECR_Reconcile_def man Inr load
    have "no_new_publication (e_meta E) (stored w2) (stored w')"
    proof (cases lr)
      case (Inl err)
      with res 2 show ?thesis by (auto simp: unf current_refl)
    next
      case lr: (Inr vt)
      show ?thesis
      proof (cases "ECR_IsStatusReconciled (e_urls E) (e_meta E) (e_kv E) (e_cache E) now ecr vt c2 st1")
        case (Inl p)
        with res lr 2 show ?thesis by (auto simp: unf current_refl)
      next
        case (Inr p)
        obtain ok ecr' where p: "p = (ok, ecr')" by fastforce
        note st = Inr [unfolded p]
        have meta: "ecrMeta ecr' = ecrMeta ecr" by (rule ECR_status_cases [OF st])
        have "w' = (if ok then w2 else snd (update_status (e_writes E) w2 ecr'))"
          using res lr st by (auto simp: unf Let_def split: if_splits)
        then show ?thesis
          using write_keeps [OF _ status_effect meta ECR_status_published [OF st], of w2] 2 current_refl [of ecr w2] by simp
      qed
    qed
    with 1 2 show ?thesis using no_new_publication_trans by blast
  qed
qed

lemma reachable_inv:
  "control_reachable E stored s \<Longrightarrow> revision_inv (e_meta E) ec (stored (fst s))"
proof (induction arbitrary: ec rule: control_reachable.induct)
  case (initial w st c)
  then show ?case by (simp add: revision_inv_def Let_def)
next
  case (step s s')
  obtain w st c where s: "s = (w, st, c)" by (metis prod.collapse)
  note inv = step.IH [unfolded s fst_conv]
  have dist: "distinct (map key_of (stored w))" using inv [of ec] by (simp add: revision_inv_def Let_def)
  from step.hyps(2) [unfolded s] show ?case
  proof (rule control_stepE)
    fix req res w' assume "s' = (w', st, c)" "run_config E req w = (res, w')"
    then show ?thesis using run_config_keeps [OF inv, of ec req] by simp
  next
    fix now req res assume run: "run_revision E now req (w, st, c) = (res, s')"
    obtain w' st' c' where s': "s' = (w', st', c')" by (metis prod.collapse)
    from run_revision_keeps [OF dist run [unfolded s']] show ?thesis
      unfolding s' fst_conv by (rule no_new_publication_inv [OF inv])
  next
    fix w' st' c' assume "s' = (w', st', c')" "stored w' = stored w"
    then show ?thesis using inv by simp
  qed
qed

end

section \<open>An executable system\<close>

text \<open>The revisions are a list, there is one configuration, which is always found, and a failing
  conversion is returned as the error.\<close>

definition config_lifecycle_of :: "EnvoyConfig \<Rightarrow> EnvoyConfigRevision list lifecycle" where
  "config_lifecycle_of ec w req f g =
     (case g (f ec) of Inl e \<Rightarrow> (Inl (empty_result, Some e), w) | Inr ec' \<Rightarrow> (Inr ec', w))"

definition revision_lifecycle_list :: "(EnvoyConfigRevision list, 'st, 'c) ecr_lifecycle" where
  "revision_lifecycle_list = (\<lambda>(w, st, c) req f g h.
     let w' = map (\<lambda>y. if key_of y = req then y\<lparr> ecrSpec := ecrSpec (f y) \<rparr> else y) w in
     case find (\<lambda>y. key_of y = req) w' of
       None \<Rightarrow> (Inl (empty_result, None), (w', st, c))
     | Some y \<Rightarrow> (case g y of Inl e \<Rightarrow> (Inl (empty_result, Some e), (w', st, c)) | Inr ecr \<Rightarrow> (Inr ecr, (w', st, c))))"

definition list_env :: "EnvoyConfig \<Rightarrow> resources_hash \<Rightarrow> (EnvoyConfigRevision list, kv_state, (string \<times> v3snapshot) list, v3snapshot) controller_env" where
  "list_env ec hash = \<lparr> e_hash = hash, e_codec = failing_codec, e_meta = meta_list, e_setOwner = keep_owner,
     e_manageConfig = config_lifecycle_of ec, e_revisions = list_api, e_updateConfig = (\<lambda>w ec. (None, w)),
     e_urls = sample_urls, e_snapshot = v3_Snapshot sample_xds, e_cache = v3_Cache sample_xds sample_gcp,
     e_reads = \<lparr> get_secret = (\<lambda>w. get_secret sample_kube ()), list_slices = (\<lambda>w. list_slices sample_kube ()),
       LabelSelectorAsSelector = LabelSelectorAsSelector sample_kube, err_text = err_text sample_kube \<rparr>,
     e_writes = \<lparr> patch_status = (\<lambda>w a b. (None, put_status b w)), update_status = (\<lambda>w a. (None, put_status a w)) \<rparr>,
     e_kv = kv_list, e_manageRevision = revision_lifecycle_list \<rparr>"

lemma list_env_sel [simp]:
  "e_meta (list_env ec hash) = meta_list" "e_revisions (list_env ec hash) = list_api" "e_setOwner (list_env ec hash) = keep_owner"
  "e_manageConfig (list_env ec hash) = config_lifecycle_of ec" "e_updateConfig (list_env ec hash) = (\<lambda>w ec. (None, w))"
  "e_manageRevision (list_env ec hash) = revision_lifecycle_list"
  "patch_status (e_writes (list_env ec hash)) w a b = (None, put_status b w)"
  "update_status (e_writes (list_env ec hash)) w a = (None, put_status a w)"
  by (simp_all add: list_env_def)

interpretation listSystem: control_system "list_env ec hash" "\<lambda>w. w" for ec hash
proof (rule control_system.intro, simp add: listApi.revision_api_axioms, rule control_system_axioms.intro)
  note unf = revision_lifecycle_list_def Let_def
  fix w w' :: "EnvoyConfigRevision list" and st st' :: kv_state and c c' :: "(string \<times> v3snapshot) list" and req f g h res ecr
  assume man: "e_manageRevision (list_env ec hash) (w, st, c) req f g h = (res, w', st', c')" and dist: "distinct (map key_of w)"
  have w': "w' = map (\<lambda>y. if key_of y = req then y\<lparr> ecrSpec := ecrSpec (f y) \<rparr> else y) w"
    using man by (auto simp: unf split: option.splits sum.splits)
  then have "map key_of w' = map key_of w" by simp
  then have "distinct (map key_of w')" using dist by (simp only:)
  moreover have "\<forall>x \<in> set w'. \<exists>y \<in> set w. initialised f y x" by (auto simp: w' initialised_def)
  ultimately show "distinct (map key_of w') \<and> (\<forall>x \<in> set w'. \<exists>y \<in> set w. initialised f y x)" ..
next
  fix w w' :: "EnvoyConfigRevision list" and st st' :: kv_state and c c' :: "(string \<times> v3snapshot) list" and req f g h ecr
  assume "e_manageRevision (list_env ec hash) (w, st, c) req f g h = (Inr ecr, w', st', c')"
  then show "\<exists>y \<in> set w'. g y = Inr ecr"
    by (auto simp: revision_lifecycle_list_def Let_def dest!: find_SomeD split: option.splits sum.splits)
qed (simp_all add: config_lifecycle_of_def split: sum.split)

section \<open>The property\<close>

text \<open>(C2) In every reachable state of the control loop, however complete runs of the two controllers for
  any configurations and revisions interleave with each other and with changes by others, and
  whichever API calls failed, at most one revision of a node in a namespace is published and no
  two revisions of the node have the same version.\<close>

theorem one_published_revision_per_node:
  assumes "control_system E stored" "control_reachable E stored (w, st, c)"
  shows "length (filter (\<lambda>e. matches (node_selector ec) (Namespace (ecMeta ec)) e \<and> published_true (e_meta E) e) (stored w)) \<le> 1 \<and>
    distinct (map version_of (filter (matches (node_selector ec) (Namespace (ecMeta ec))) (stored w)))"
proof -
  have "revision_inv (e_meta E) ec (stored w)" using control_system.reachable_inv [OF assms, of ec] by simp
  then show ?thesis by (auto simp: revision_inv_def Let_def list_all_iff intro: distinct_versions)
qed

definition sample_run :: "EnvoyConfigRevision list" where
  "sample_run =
     (let E = list_env sample_config sample_hash;
          w1 = snd (run_config E (''ns'', ''ec'') []);
          w2 = snd (run_config E (''ns'', ''ec'') w1)
      in fst (snd (run_revision E 5 (''ns'', ''n-v3-b'') (w2, kv_empty, []))))"

theorem one_published_revision_per_node_witness:
  "map (\<lambda>e. (version_of e, published_true meta_list e)) sample_run = [(''b'', True)] \<and>
   length (filter (\<lambda>e. matches (node_selector sample_config) ''ns'' e \<and> published_true meta_list e) sample_run) \<le> 1"
proof -
  let ?E = "list_env sample_config sample_hash"
  define w1 where "w1 = snd (run_config ?E (''ns'', ''ec'') [])"
  define w2 where "w2 = snd (run_config ?E (''ns'', ''ec'') w1)"
  have "control_reachable ?E (\<lambda>w. w) ([], kv_empty, [])" by (rule control_reachable.initial) simp
  then have "control_reachable ?E (\<lambda>w. w) (w1, kv_empty, [])"
    by (rule control_reachable.step [OF _ control_step.config_run]) (simp add: w1_def prod_eq_iff)
  then have "control_reachable ?E (\<lambda>w. w) (w2, kv_empty, [])"
    by (rule control_reachable.step [OF _ control_step.config_run]) (simp add: w2_def prod_eq_iff)
  then have "control_reachable ?E (\<lambda>w. w) (snd (run_revision ?E 5 (''ns'', ''n-v3-b'') (w2, kv_empty, [])))"
    by (rule control_reachable.step [OF _ control_step.revision_run]) (simp add: prod_eq_iff)
  moreover have "sample_run = fst (snd (run_revision ?E 5 (''ns'', ''n-v3-b'') (w2, kv_empty, [])))"
    by (simp add: sample_run_def Let_def w1_def w2_def)
  moreover obtain w3 st3 c3 where "snd (run_revision ?E 5 (''ns'', ''n-v3-b'') (w2, kv_empty, [])) = (w3, st3, c3)"
    by (metis prod.collapse)
  ultimately have "control_reachable ?E (\<lambda>w. w) (sample_run, st3, c3)" by simp
  note one_published_revision_per_node [OF listSystem.control_system_axioms this, of sample_config]
  moreover have "Namespace (ecMeta sample_config) = ''ns''" by code_simp
  moreover have "map (\<lambda>e. (version_of e, published_true meta_list e)) sample_run = [(''b'', True)]" by code_simp
  ultimately show ?thesis by simp
qed

end
