(* ===== verification/AdmittedResources.thy ===== *)
theory AdmittedResources
  imports EnvoyConfigWebhook CacheProperties RevisionProperties
begin

text \<open>
  From the webhook to the cache: what validation promises about loading. An \<open>EnvoyConfig\<close>
  passes through \<open>Validate\<close>, becomes a revision and is loaded by \<open>GenerateSnapshot\<close>. The
  shape the webhook admits (\<open>resource_ok\<close>) is the one loading needs: what can still go wrong
  depends on secrets and endpoint slices only, and every loaded message has the type of the
  list it is put into.
\<close>

section \<open>Types of messages\<close>

definition message_type :: "Message \<Rightarrow> EnvoyType" where
  "message_type msg =
     (case msg of EmptyMessage t \<Rightarrow> t | SecretMessage _ _ \<Rightarrow> Secret | ClusterLoadAssignment _ _ \<Rightarrow> Endpoint | Parsed t _ \<Rightarrow> t)"



lemma message_type_simps [simp]:
  "message_type (Parsed t v) = t" "message_type (NewTlsCertificateSecret n a b) = Secret"
  "message_type (NewValidationContextSecret n a) = Secret" "message_type (NewGenericSecret n a) = Secret"
  "message_type (NewClusterLoadAssignment s n hosts) = Endpoint"
  by (simp_all add: message_type_def NewTlsCertificateSecret_def NewValidationContextSecret_def NewGenericSecret_def
      NewClusterLoadAssignment_def)

section \<open>What loading still depends on\<close>




section \<open>Loading one resource\<close>








section \<open>The property\<close>





end
