(* ===== verification/Servers.thy ===== *)
theory Servers
  imports Stats ShutdownManager
begin

text \<open>
  The life of the two servers of the program: the xDS server of the discovery service
  (\<open>pkg/discoveryservice/xds_server.go\<close>, with \<open>RunGC\<close> of \<open>stats/garbage_collector.go\<close>) and
  the HTTP server of the shutdown manager (\<open>Manager.Start\<close>). Each has a main goroutine and one
  that serves; what they do in which order, and what the outside world does to them (a failing
  listener, an informer that synchronises, a context that is cancelled), is a step relation.
  gRPC, HTTP and the informer are not modelled beyond that.
\<close>

section \<open>The xDS server\<close>

record GrpcOptions =
  goMaxConcurrentStreams :: int
  goMinTime :: int
  goPermitWithoutStream :: bool
  goMaxConnectionAge :: int
  goMaxConnectionAgeGrace :: int

definition grpc_options :: GrpcOptions where
  "grpc_options = \<lparr> goMaxConcurrentStreams = 1000000, goMinTime = 50 * Second, goPermitWithoutStream = False,
     goMaxConnectionAge = 43200 * Second, goMaxConnectionAgeGrace = 300 * Second \<rparr>"

text \<open>The server holds one cache and one statistics store; the callbacks write to that store, and
  \<open>GetCache\<close> and \<open>GetDiscoveryStats\<close> hand both to the revision controller.\<close>

record ('tls, 'c, 'st) XdsServer =
  xDSPort :: "64 word"
  tlsConfig :: 'tls
  snapshotCacheV3 :: 'c
  callbacksStats :: 'st
  discoveryStatsV3 :: 'st

definition NewXdsServer :: "'c \<Rightarrow> 'st \<Rightarrow> 64 word \<Rightarrow> 'tls \<Rightarrow> ('tls, 'c, 'st) XdsServer" where
  "NewXdsServer newCache newStats port tls =
     \<lparr> xDSPort = port, tlsConfig = tls, snapshotCacheV3 = newCache, callbacksStats = newStats, discoveryStatsV3 = newStats \<rparr>"

definition GetCache :: "('tls, 'c, 'st) XdsServer \<Rightarrow> 'c" where
  "GetCache xdss = snapshotCacheV3 xdss"

definition GetDiscoveryStats :: "('tls, 'c, 'st) XdsServer \<Rightarrow> 'st" where
  "GetDiscoveryStats xdss = discoveryStatsV3 xdss"

definition listen_address :: "('tls, 'c, 'st) XdsServer \<Rightarrow> string" where
  "listen_address xdss = '':'' @ show_nat (unat (xDSPort xdss))"

text \<open>\<open>RunGC\<close> starts the pod informer and waits: it returns nil once the informer has synchronised
  and an error once the stop channel is closed; \<open>None\<close> is still waiting.\<close>

definition RunGC :: "bool \<Rightarrow> bool \<Rightarrow> goerror option option" where
  "RunGC synced stopped =
     (if synced then Some None else if stopped then Some (Some (PlainError ''failed to sync'')) else None)"

datatype main_phase = Listening | Syncing | Selecting | Stopping | Returned "goerror option"

datatype serve_phase = NotServing | Serving | SendingError goerror | ServeEnded "goerror option"

record xds_state =
  xsMain :: main_phase
  xsServe :: serve_phase
  xsCancelled :: bool \<comment> \<open>the context of the server\<close>
  xsSynced :: bool \<comment> \<open>the pod informer\<close>
  xsStopGC :: bool \<comment> \<open>\<open>stopGC\<close> is closed\<close>
  xsStopped :: bool \<comment> \<open>\<open>grpcServer.Stop\<close> was called\<close>

definition xds_start :: xds_state where
  "xds_start = \<lparr> xsMain = Listening, xsServe = NotServing, xsCancelled = False, xsSynced = False, xsStopGC = False,
     xsStopped = False \<rparr>"

text \<open>The channel for the error of \<open>Serve\<close> has no buffer, so that the error waits until the main
  goroutine reaches its \<open>select\<close>. When the context is done and an error waits, either is taken.
  \<open>Stop\<close> is called in a goroutine of its own and, if that takes more than ten seconds, again.\<close>

inductive xds_step :: "xds_state \<Rightarrow> xds_state \<Rightarrow> bool" where
  listen_fails: "xsMain s = Listening \<Longrightarrow> xds_step s (s\<lparr> xsMain := Returned (Some e) \<rparr>)"
| listen_ok: "xsMain s = Listening \<Longrightarrow> xds_step s (s\<lparr> xsMain := Syncing, xsServe := Serving \<rparr>)"
| serve_fails: "xsServe s = Serving \<Longrightarrow> \<not> xsStopped s \<Longrightarrow> xds_step s (s\<lparr> xsServe := SendingError e \<rparr>)"
| serve_stops: "xsServe s = Serving \<Longrightarrow> xsStopped s \<Longrightarrow> xds_step s (s\<lparr> xsServe := ServeEnded None \<rparr>)"
| informer_syncs: "xsMain s = Syncing \<Longrightarrow> xds_step s (s\<lparr> xsSynced := True \<rparr>)"
| cancelled: "xds_step s (s\<lparr> xsCancelled := True \<rparr>)"
| gc_runs: "xsMain s = Syncing \<Longrightarrow> RunGC (xsSynced s) (xsStopGC s) = Some None \<Longrightarrow> xds_step s (s\<lparr> xsMain := Selecting \<rparr>)"
| gc_fails: "xsMain s = Syncing \<Longrightarrow> RunGC (xsSynced s) (xsStopGC s) = Some (Some e) \<Longrightarrow>
    xds_step s (s\<lparr> xsMain := Returned (Some e) \<rparr>)"
| select_done: "xsMain s = Selecting \<Longrightarrow> xsCancelled s \<Longrightarrow> xds_step s (s\<lparr> xsMain := Stopping, xsStopGC := True \<rparr>)"
| select_error: "xsMain s = Selecting \<Longrightarrow> xsServe s = SendingError e \<Longrightarrow>
    xds_step s (s\<lparr> xsMain := Returned (Some e), xsServe := ServeEnded (Some e) \<rparr>)"
| stop_called: "xsMain s = Stopping \<Longrightarrow> xds_step s (s\<lparr> xsStopped := True \<rparr>)"
| stop_returns: "xsMain s = Stopping \<Longrightarrow> xsStopped s \<Longrightarrow> xds_step s (s\<lparr> xsMain := Returned None \<rparr>)"
| stop_times_out: "xsMain s = Stopping \<Longrightarrow> xds_step s (s\<lparr> xsStopped := True, xsMain := Returned None \<rparr>)"

section \<open>The HTTP server of the shutdown manager\<close>

text \<open>The main goroutine first waits for the context; only then does it look at the error of
  \<open>ListenAndServe\<close>, and the context, being done, is ready as well.\<close>

datatype mgr_phase = WaitingForContext | SelectingResult | MgrReturned "goerror option"

record mgr_state =
  msMain :: mgr_phase
  msServe :: serve_phase
  msCancelled :: bool
  msShutdown :: bool

definition mgr_start :: mgr_state where
  "mgr_start = \<lparr> msMain = WaitingForContext, msServe = Serving, msCancelled = False, msShutdown = False \<rparr>"

inductive mgr_step :: "mgr_state \<Rightarrow> mgr_state \<Rightarrow> bool" where
  mgr_serve_fails: "msServe s = Serving \<Longrightarrow> \<not> msShutdown s \<Longrightarrow> mgr_step s (s\<lparr> msServe := SendingError e \<rparr>)"
| mgr_serve_closed: "msServe s = Serving \<Longrightarrow> msShutdown s \<Longrightarrow> mgr_step s (s\<lparr> msServe := ServeEnded None \<rparr>)"
| mgr_cancelled: "mgr_step s (s\<lparr> msCancelled := True \<rparr>)"
| mgr_context_done: "msMain s = WaitingForContext \<Longrightarrow> msCancelled s \<Longrightarrow>
    mgr_step s (s\<lparr> msMain := SelectingResult, msShutdown := True \<rparr>)"
| mgr_select_done: "msMain s = SelectingResult \<Longrightarrow> msCancelled s \<Longrightarrow> mgr_step s (s\<lparr> msMain := MgrReturned None \<rparr>)"
| mgr_select_error: "msMain s = SelectingResult \<Longrightarrow> msServe s = SendingError e \<Longrightarrow>
    mgr_step s (s\<lparr> msMain := MgrReturned (Some e), msServe := ServeEnded (Some e) \<rparr>)"

section \<open>Invariants\<close>

definition xds_inv :: "xds_state \<Rightarrow> bool" where
  "xds_inv s \<longleftrightarrow>
     (case xsMain s of
        Listening \<Rightarrow> xsServe s = NotServing \<and> \<not> xsStopGC s \<and> \<not> xsStopped s
      | Syncing \<Rightarrow> xsServe s \<noteq> NotServing \<and> \<not> xsStopGC s \<and> \<not> xsStopped s
      | Selecting \<Rightarrow> xsServe s \<noteq> NotServing \<and> xsSynced s \<and> \<not> xsStopGC s \<and> \<not> xsStopped s
      | Stopping \<Rightarrow> xsCancelled s \<and> xsSynced s \<and> xsStopGC s
      | Returned None \<Rightarrow> xsCancelled s \<and> xsSynced s \<and> xsStopGC s \<and> xsStopped s
      | Returned (Some e) \<Rightarrow> xsServe s = NotServing \<or> xsServe s = ServeEnded (Some e))"

lemma xds_inv_step: "xds_step s s' \<Longrightarrow> xds_inv s \<Longrightarrow> xds_inv s'"
  by (induction rule: xds_step.induct)
    (auto simp: xds_inv_def RunGC_def split: main_phase.splits option.splits if_splits)

lemma xds_inv_reachable: "xds_step\<^sup>*\<^sup>* xds_start s \<Longrightarrow> xds_inv s"
  by (induction rule: rtranclp_induct) (auto simp: xds_inv_step, simp add: xds_start_def xds_inv_def)

lemma xds_blocked_step:
  "xds_step s s' \<Longrightarrow> xds_inv s \<Longrightarrow> xsMain s = Syncing \<Longrightarrow> \<not> xsSynced s \<Longrightarrow> xsMain s' = Syncing"
  by (induction rule: xds_step.induct) (auto simp: xds_inv_def RunGC_def)

lemma xds_synced_mono: "xds_step s s' \<Longrightarrow> xsSynced s \<Longrightarrow> xsSynced s'"
  by (induction rule: xds_step.induct) auto

lemma xds_blocked:
  assumes "xds_step\<^sup>*\<^sup>* s s'" "xds_inv s" "xsMain s = Syncing"
  shows "xds_inv s' \<and> (\<not> xsSynced s' \<longrightarrow> xsMain s' = Syncing)"
  using assms
proof (induction rule: rtranclp_induct)
  case (step s1 s2)
  then show ?case using xds_inv_step xds_blocked_step xds_synced_mono by metis
qed simp

text \<open>Whether the main goroutine can go on. It waits in two places: for the informer, and for the
  end of the context or of the server.\<close>

definition xds_waiting :: "xds_state \<Rightarrow> bool" where
  "xds_waiting s \<longleftrightarrow>
     (case xsMain s of
        Syncing \<Rightarrow> \<not> xsSynced s
      | Selecting \<Rightarrow> \<not> xsCancelled s \<and> (\<forall>e. xsServe s \<noteq> SendingError e)
      | Returned _ \<Rightarrow> True
      | _ \<Rightarrow> False)"

lemma xds_progress:
  assumes "xds_inv s"
  shows "(\<exists>s'. xds_step s s' \<and> xsMain s' \<noteq> xsMain s) \<longleftrightarrow> \<not> xds_waiting s"
proof
  show "\<exists>s'. xds_step s s' \<and> xsMain s' \<noteq> xsMain s \<Longrightarrow> \<not> xds_waiting s"
  proof (elim exE conjE)
    fix s' assume "xds_step s s'" "xsMain s' \<noteq> xsMain s"
    then show "\<not> xds_waiting s"
      using assms by (induction rule: xds_step.induct) (auto simp: xds_waiting_def xds_inv_def RunGC_def split: if_splits)
  qed
next
  assume "\<not> xds_waiting s"
  then consider "xsMain s = Listening" | "xsMain s = Syncing" "xsSynced s" | "xsMain s = Selecting" "xsCancelled s"
    | e where "xsMain s = Selecting" "xsServe s = SendingError e" | "xsMain s = Stopping"
    by (auto simp: xds_waiting_def split: main_phase.splits)
  then show "\<exists>s'. xds_step s s' \<and> xsMain s' \<noteq> xsMain s"
  proof cases
    case 1
    from xds_step.listen_ok [OF this] this show ?thesis by force
  next
    case 2
    from xds_step.gc_runs [OF 2(1)] 2 show ?thesis by (force simp: RunGC_def)
  next
    case 3
    from xds_step.select_done [OF 3] 3 show ?thesis by force
  next
    case 4
    from xds_step.select_error [OF 4] 4 show ?thesis by force
  next
    case 5
    from xds_step.stop_times_out [OF 5] 5 show ?thesis by force
  qed
qed

fun main_rank :: "main_phase \<Rightarrow> nat" where
  "main_rank Listening = 4" | "main_rank Syncing = 3" | "main_rank Selecting = 2" | "main_rank Stopping = 1"
| "main_rank (Returned _) = 0"

lemma main_rank_step: "xds_step s s' \<Longrightarrow> xsMain s' \<noteq> xsMain s \<Longrightarrow> main_rank (xsMain s') < main_rank (xsMain s)"
  by (induction rule: xds_step.induct) auto

definition mgr_inv :: "mgr_state \<Rightarrow> bool" where
  "mgr_inv s \<longleftrightarrow>
     (case msMain s of
        WaitingForContext \<Rightarrow> \<not> msShutdown s
      | SelectingResult \<Rightarrow> msCancelled s \<and> msShutdown s
      | MgrReturned None \<Rightarrow> msCancelled s \<and> msShutdown s
      | MgrReturned (Some e) \<Rightarrow> msCancelled s \<and> msShutdown s \<and> msServe s = ServeEnded (Some e))"

lemma mgr_inv_step: "mgr_step s s' \<Longrightarrow> mgr_inv s \<Longrightarrow> mgr_inv s'"
  by (induction rule: mgr_step.induct) (auto simp: mgr_inv_def split: mgr_phase.splits option.splits)

lemma mgr_inv_reachable: "mgr_step\<^sup>*\<^sup>* mgr_start s \<Longrightarrow> mgr_inv s"
  by (induction rule: rtranclp_induct) (auto simp: mgr_inv_step, simp add: mgr_start_def mgr_inv_def)

section \<open>Properties\<close>

text \<open>(C31) How the xDS server ends. \<open>Start\<close> returns nil only after its context was cancelled, the
  garbage collector told to stop and the gRPC server stopped; it returns an error only if the port
  could not be opened or serving failed. Its main goroutine makes at most four moves and waits in
  two places only: for the end of the context or a serving error, and before that for the pod informer. While the informer has
  not synchronised nothing else wakes it, neither a cancelled context nor a server that failed:
  the channel that would stop the wait is only closed later.\<close>

theorem xds_server_returns:
  assumes "xds_step\<^sup>*\<^sup>* xds_start s"
  shows "(xsMain s = Returned None \<longrightarrow> xsCancelled s \<and> xsStopGC s \<and> xsStopped s) \<and>
    (\<forall>e. xsMain s = Returned (Some e) \<longrightarrow> xsServe s = NotServing \<or> xsServe s = ServeEnded (Some e)) \<and>
    ((\<exists>s'. xds_step s s' \<and> xsMain s' \<noteq> xsMain s) \<longleftrightarrow> \<not> xds_waiting s) \<and>
    (\<forall>s'. xds_step s s' \<and> xsMain s' \<noteq> xsMain s \<longrightarrow> main_rank (xsMain s') < main_rank (xsMain s)) \<and>
    (xsMain s = Syncing \<longrightarrow> (\<forall>s'. xds_step\<^sup>*\<^sup>* s s' \<and> \<not> xsSynced s' \<longrightarrow> xsMain s' = Syncing))"
proof -
  note inv = xds_inv_reachable [OF assms]
  have "(xsMain s = Returned None \<longrightarrow> xsCancelled s \<and> xsStopGC s \<and> xsStopped s) \<and>
      (\<forall>e. xsMain s = Returned (Some e) \<longrightarrow> xsServe s = NotServing \<or> xsServe s = ServeEnded (Some e))"
    using inv by (auto simp: xds_inv_def)
  then show ?thesis using xds_progress [OF inv] main_rank_step xds_blocked [OF _ inv] by blast
qed

text \<open>The server failed and its context was cancelled, and \<open>Start\<close> still waits for the informer.\<close>

definition stuck_server :: xds_state where
  "stuck_server = \<lparr> xsMain = Syncing, xsServe = SendingError (PlainError ''serve''), xsCancelled = True, xsSynced = False,
     xsStopGC = False, xsStopped = False \<rparr>"

theorem xds_server_returns_witness:
  "xds_step\<^sup>*\<^sup>* xds_start stuck_server \<and> (\<nexists>s'. xds_step stuck_server s' \<and> xsMain s' \<noteq> xsMain stuck_server)"
proof -
  let ?s1 = "xds_start\<lparr> xsMain := Syncing, xsServe := Serving \<rparr>"
  let ?s2 = "?s1\<lparr> xsServe := SendingError (PlainError ''serve'') \<rparr>"
  have "xds_step xds_start ?s1" by (rule xds_step.listen_ok) (simp add: xds_start_def)
  moreover have "xds_step ?s1 ?s2" by (rule xds_step.serve_fails) (simp_all add: xds_start_def)
  moreover have "xds_step ?s2 (?s2\<lparr> xsCancelled := True \<rparr>)" by (rule xds_step.cancelled)
  moreover have "?s2\<lparr> xsCancelled := True \<rparr> = stuck_server" by (simp add: xds_start_def stuck_server_def)
  ultimately have reach: "xds_step\<^sup>*\<^sup>* xds_start stuck_server" by (metis converse_rtranclp_into_rtranclp rtranclp.rtrancl_refl)
  moreover have "xds_waiting stuck_server" by (simp add: stuck_server_def xds_waiting_def)
  ultimately show ?thesis using xds_server_returns [OF reach] by blast
qed

text \<open>The shutdown manager returns only after its context was cancelled and the server told to
  shut down; until then a server that never came up is not reported.\<close>

theorem shutdown_manager_start_returns:
  assumes "mgr_step\<^sup>*\<^sup>* mgr_start s"
  shows "(\<exists>r. msMain s = MgrReturned r) \<longrightarrow> msCancelled s \<and> msShutdown s"
  using mgr_inv_reachable [OF assms] by (auto simp: mgr_inv_def split: option.splits)

theorem shutdown_manager_start_returns_witness:
  "\<exists>s. mgr_step\<^sup>*\<^sup>* mgr_start s \<and> msServe s = SendingError (PlainError ''port in use'') \<and> msMain s = WaitingForContext \<and>
     \<not> msCancelled s"
proof -
  have "mgr_step mgr_start (mgr_start\<lparr> msServe := SendingError (PlainError ''port in use'') \<rparr>)"
    by (rule mgr_step.mgr_serve_fails) (simp_all add: mgr_start_def)
  then have reach: "mgr_step\<^sup>*\<^sup>* mgr_start (mgr_start\<lparr> msServe := SendingError (PlainError ''port in use'') \<rparr>)" by blast
  then show ?thesis
    using shutdown_manager_start_returns [OF reach] by (intro exI [of _ "mgr_start\<lparr> msServe := SendingError (PlainError ''port in use'') \<rparr>"])
      (simp add: mgr_start_def)
qed

end
