(* ===== verification/ServiceCommands.thy ===== *)
theory ServiceCommands
  imports Servers OperatorGenerators CommandProperties
begin

text \<open>
  The long-running commands: \<open>discovery-service\<close>, \<open>operator\<close> and \<open>webhook\<close>
  (\<open>cmd/discoveryservice.go\<close>, \<open>cmd/operator.go\<close>, \<open>cmd/webhook.go\<close>, flags of
  \<open>cmd/root.go\<close>). Each reads its flags, builds the options of the controller manager and
  registers controllers, checks and webhooks one after the other; the first failing call ends the
  process. What a started process is configured with is the result of the command, an exit of the
  process the error.

  Controller runtime and the TLS library are parameters (\<open>runtime_ops\<close>, \<open>tls_ops\<close>); files are
  a map. The flag library is the locale \<open>flag_library\<close>, which adds to \<open>command_line\<close> the
  forms \<open>--name=value\<close> and \<open>--name\<close>.
\<close>

section \<open>Global flags\<close>

type_synonym flag_parser = "string list \<Rightarrow> string list \<Rightarrow> string list \<Rightarrow> assignments option"
  \<comment> \<open>the flags that take a value, the boolean flags, the arguments\<close>

record RootFlags =
  debug :: bool
  metricsAddr :: string
  probeAddr :: string

definition root_flag_names :: "string list" where
  "root_flag_names = [''metrics-bind-address'', ''health-probe-bind-address'']"

definition bool_flag :: "(string \<Rightarrow> bool option) \<Rightarrow> assignments \<Rightarrow> string \<Rightarrow> bool \<Rightarrow> bool option" where
  "bool_flag bval kvs name def =
     (let vs = map snd (filter (\<lambda>(k, _). k = name) kvs) in
      if list_ex (\<lambda>v. bval v = None) vs then None
      else if vs = [] then Some def else bval (last vs))"

definition root_flags :: "(string \<Rightarrow> bool option) \<Rightarrow> assignments \<Rightarrow> RootFlags option" where
  "root_flags bval kvs =
     map_option (\<lambda>b. \<lparr> debug = b, metricsAddr = string_flag kvs ''metrics-bind-address'' '':8080'',
                       probeAddr = string_flag kvs ''health-probe-bind-address'' '':8081'' \<rparr>)
       (bool_flag bval kvs ''debug'' False)"

section \<open>Certificates from files\<close>

record ('k, 'p) tls_ops =
  X509KeyPair :: "string \<Rightarrow> string \<Rightarrow> goerror + 'k"
  AppendCertsFromPEM :: "string \<Rightarrow> 'p option" \<comment> \<open>to an empty pool; \<open>None\<close> when it returns false\<close>

definition certificateFile :: string where "certificateFile = ''tls.crt''"
definition certificateKeyFile :: string where "certificateKeyFile = ''tls.key''"

definition ReadFile :: "files \<Rightarrow> string \<Rightarrow> goerror + string" where
  "ReadFile fs path = (case fs path of None \<Rightarrow> Inl (PlainError (''open '' @ path @ '': no such file or directory'')) | Some s \<Rightarrow> Inr s)"

definition loadCertificate :: "('k, 'p) tls_ops \<Rightarrow> files \<Rightarrow> string \<Rightarrow> goerror + 'k" where
  "loadCertificate t fs directory =
     (case ReadFile fs (directory @ ''/'' @ certificateFile) of
        Inl err \<Rightarrow> Inl err
      | Inr cert \<Rightarrow>
          (case ReadFile fs (directory @ ''/'' @ certificateKeyFile) of
             Inl err \<Rightarrow> Inl err
           | Inr key \<Rightarrow> X509KeyPair t cert key))"

definition loadCA :: "('k, 'p) tls_ops \<Rightarrow> files \<Rightarrow> string \<Rightarrow> goerror + 'p" where
  "loadCA t fs directory =
     (case ReadFile fs (directory @ ''/'' @ certificateFile) of
        Inl err \<Rightarrow> Inl err
      | Inr bs \<Rightarrow> (case AppendCertsFromPEM t bs of None \<Rightarrow> Inl (PlainError ''Failed to append client certs'') | Some pool \<Rightarrow> Inr pool))"

datatype ClientAuthType = NoClientCert | RequireAndVerifyClientCert

datatype CurveID = CurveP521 | CurveP384 | CurveP256

record ('k, 'p) TlsConfig =
  tcMinVersion :: nat
  tcCurvePreferences :: "CurveID list"
  tcPreferServerCipherSuites :: bool
  tcCipherSuites :: "string list"
  tcCertificates :: "'k list"
  tcClientAuth :: ClientAuthType
  tcClientCAs :: "'p option"
  tcInsecureSkipVerify :: bool

definition VersionTLS12 :: nat where "VersionTLS12 = 0x0303"

section \<open>The controller manager\<close>

record ManagerOptions =
  moMetricsBindAddress :: string
  moHealthProbeBindAddress :: string
  moLeaderElection :: bool
  moLeaderElectionID :: string
  moNamespaces :: "string set option" \<comment> \<open>\<open>None\<close>: all\<close>

datatype registration =
    Controller string
  | HealthzCheck string
  | ReadyzCheck string
  | HandlerAt string
  | ObjectWebhook string

record runtime_ops =
  NewManager :: "ManagerOptions \<Rightarrow> goerror option"
  Register :: "registration \<Rightarrow> goerror option"

text \<open>Registering a handler with the webhook server cannot fail.\<close>

fun register_all :: "runtime_ops \<Rightarrow> registration list \<Rightarrow> goerror option" where
  "register_all rt [] = None"
| "register_all rt (r # rs) =
     (case r of
        HandlerAt _ \<Rightarrow> register_all rt rs
      | _ \<Rightarrow> (case Register rt r of Some err \<Rightarrow> Some err | None \<Rightarrow> register_all rt rs))"

section \<open>The discovery service\<close>

record DsFlags =
  xdssPort :: int
  xdssTLSServerCertificatePath :: string
  xdssTLSCACertificatePath :: string
  xdssTLSClientCertificatePath :: string

definition ds_flag_names :: "string list" where
  "ds_flag_names = [''xdss-port'', ''server-certificate-path'', ''ca-certificate-path'', ''client-certificate-path'']"

definition ds_flags :: "(string \<Rightarrow> int option) \<Rightarrow> assignments \<Rightarrow> DsFlags option" where
  "ds_flags ival kvs =
     map_option (\<lambda>port.
       \<lparr> xdssPort = port,
         xdssTLSServerCertificatePath = string_flag kvs ''server-certificate-path'' ''/etc/marin3r/tls/server'',
         xdssTLSCACertificatePath = string_flag kvs ''ca-certificate-path'' ''/etc/marin3r/tls/ca'',
         xdssTLSClientCertificatePath = string_flag kvs ''client-certificate-path'' ''/etc/marin3r/tls/client'' \<rparr>)
       (int_flag ival kvs ''xdss-port'' (uint DefaultXdsServerPort))"

definition ds_manager_options :: "RootFlags \<Rightarrow> (string \<Rightarrow> string) \<Rightarrow> ManagerOptions" where
  "ds_manager_options rf Getenv =
     \<lparr> moMetricsBindAddress = ''0'', moHealthProbeBindAddress = probeAddr rf, moLeaderElection = False,
       moLeaderElectionID = ''2cfbe7d6.marin3r.3scale.net'', moNamespaces = Some {Getenv ''WATCH_NAMESPACE''} \<rparr>"

definition server_tls :: "('k, 'p) tls_ops \<Rightarrow> files \<Rightarrow> DsFlags \<Rightarrow> goerror + ('k, 'p) TlsConfig" where
  "server_tls t fs fl =
     (case loadCertificate t fs (xdssTLSServerCertificatePath fl) of
        Inl err \<Rightarrow> Inl err
      | Inr cert \<Rightarrow>
          (case loadCA t fs (xdssTLSCACertificatePath fl) of
             Inl err \<Rightarrow> Inl err
           | Inr pool \<Rightarrow> Inr
               \<lparr> tcMinVersion = VersionTLS12, tcCurvePreferences = [CurveP521, CurveP384, CurveP256],
                 tcPreferServerCipherSuites = True,
                 tcCipherSuites = [''TLS_ECDHE_RSA_WITH_AES_128_GCM_SHA256'', ''TLS_ECDHE_ECDSA_WITH_AES_128_GCM_SHA256''],
                 tcCertificates = [cert], tcClientAuth = RequireAndVerifyClientCert, tcClientCAs = Some pool,
                 tcInsecureSkipVerify = False \<rparr>))"

definition ds_registrations :: "registration list" where
  "ds_registrations =
     [Controller ''envoyconfig'', Controller (''envoyconfigrevision_'' @ APIv3),
      HealthzCheck ''gRPC'', HealthzCheck ''ping'', ReadyzCheck ''gRPC'', ReadyzCheck ''ping'']"

text \<open>A started discovery service: the manager, the xDS server, the namespace whose pods the
  garbage collector watches, and the cache and statistics of the revision controller.\<close>

record ('k, 'p, 'c, 'st) DsProcess =
  dpManager :: ManagerOptions
  dpServer :: "(('k, 'p) TlsConfig, 'c, 'st) XdsServer"
  dpGCNamespace :: string
  dpXdsCache :: 'c
  dpDiscoveryStats :: 'st

definition runDiscoveryService ::
  "runtime_ops \<Rightarrow> ('k, 'p) tls_ops \<Rightarrow> 'c \<Rightarrow> 'st \<Rightarrow> (string \<Rightarrow> string) \<Rightarrow> files \<Rightarrow> RootFlags \<Rightarrow> DsFlags
   \<Rightarrow> goerror + ('k, 'p, 'c, 'st) DsProcess" where
  "runDiscoveryService rt t newCache newStats Getenv fs rf fl =
     (let options = ds_manager_options rf Getenv in
      case NewManager rt options of
        Some err \<Rightarrow> Inl err
      | None \<Rightarrow>
          (case server_tls t fs fl of
             Inl err \<Rightarrow> Inl err
           | Inr tls \<Rightarrow>
               (let xdss = NewXdsServer newCache newStats (of_int (xdssPort fl)) tls in
                case register_all rt ds_registrations of
                  Some err \<Rightarrow> Inl err
                | None \<Rightarrow> Inr \<lparr> dpManager = options, dpServer = xdss, dpGCNamespace = Getenv ''WATCH_NAMESPACE'',
                                 dpXdsCache = GetCache xdss, dpDiscoveryStats = GetDiscoveryStats xdss \<rparr>)))"

text \<open>The process waits for both goroutines, the xDS server and the manager; an error of either
  ends it at once. Arguments: what each returned so far, if anything.\<close>

definition ds_exit :: "goerror option option \<Rightarrow> goerror option option \<Rightarrow> nat option" where
  "ds_exit xds mgr =
     (case (xds, mgr) of
        (Some (Some _), _) \<Rightarrow> Some 1
      | (_, Some (Some _)) \<Rightarrow> Some 1
      | (Some None, Some None) \<Rightarrow> Some 0
      | _ \<Rightarrow> None)"

definition discovery_service_command ::
  "flag_parser \<Rightarrow> (string \<Rightarrow> int option) \<Rightarrow> (string \<Rightarrow> bool option) \<Rightarrow> runtime_ops \<Rightarrow> ('k, 'p) tls_ops \<Rightarrow> 'c \<Rightarrow> 'st
   \<Rightarrow> (string \<Rightarrow> string) \<Rightarrow> files \<Rightarrow> string list \<Rightarrow> goerror + ('k, 'p, 'c, 'st) DsProcess" where
  "discovery_service_command parse ival bval rt t newCache newStats Getenv fs args =
     (case parse (root_flag_names @ ds_flag_names) [''debug''] args of
        None \<Rightarrow> Inl flag_error
      | Some kvs \<Rightarrow>
          (case (root_flags bval kvs, ds_flags ival kvs) of
             (Some rf, Some fl) \<Rightarrow> runDiscoveryService rt t newCache newStats Getenv fs rf fl
           | _ \<Rightarrow> Inl flag_error))"

text \<open>The health check connects to the server with the client certificate, without verifying the
  server. Files that cannot be loaded end the process; a call that fails is the result.\<close>

datatype check_result = CheckPassed | CheckFailed goerror | ProcessExits goerror

definition check_tls :: "('k, 'p) tls_ops \<Rightarrow> files \<Rightarrow> DsFlags \<Rightarrow> goerror + ('k, 'p) TlsConfig" where
  "check_tls t fs fl =
     (case loadCertificate t fs (xdssTLSClientCertificatePath fl) of
        Inl err \<Rightarrow> Inl err
      | Inr cert \<Rightarrow>
          (case loadCA t fs (xdssTLSCACertificatePath fl) of
             Inl err \<Rightarrow> Inl err
           | Inr pool \<Rightarrow> Inr \<lparr> tcMinVersion = 0, tcCurvePreferences = [], tcPreferServerCipherSuites = False, tcCipherSuites = [],
                              tcCertificates = [cert],
                              tcClientAuth = NoClientCert, tcClientCAs = Some pool, tcInsecureSkipVerify = True \<rparr>))"

definition xdssHealthzCheck ::
  "('k, 'p) tls_ops \<Rightarrow> (string \<Rightarrow> ('k, 'p) TlsConfig \<Rightarrow> goerror option) \<Rightarrow> (string \<Rightarrow> ('k, 'p) TlsConfig \<Rightarrow> goerror option)
   \<Rightarrow> files \<Rightarrow> DsFlags \<Rightarrow> check_result" where
  "xdssHealthzCheck t Dial Check fs fl =
     (case check_tls t fs fl of
        Inl err \<Rightarrow> ProcessExits err
      | Inr tls \<Rightarrow>
          (let address = ''localhost:'' @ show_int (xdssPort fl) in
           case Dial address tls of
             Some err \<Rightarrow> ProcessExits err
           | None \<Rightarrow> (case Check address tls of Some err \<Rightarrow> CheckFailed err | None \<Rightarrow> CheckPassed)))"

section \<open>The operator and the webhook\<close>

text \<open>The exit code once the manager has returned, for these two commands.\<close>

definition manager_exit :: "goerror option option \<Rightarrow> nat option" where
  "manager_exit mgr = (case mgr of None \<Rightarrow> None | Some None \<Rightarrow> Some 0 | Some (Some _) \<Rightarrow> Some 1)"

definition operator_registrations :: "registration list" where
  "operator_registrations =
     [Controller ''discoveryservice'', Controller ''discoveryservicecertificate'', Controller ''envoydeployment'',
      HealthzCheck ''health'', ReadyzCheck ''readyz'']"

definition runOperator :: "runtime_ops \<Rightarrow> (string \<Rightarrow> string option) \<Rightarrow> RootFlags \<Rightarrow> bool \<Rightarrow> goerror + ManagerOptions" where
  "runOperator rt LookupEnv rf leaderElect =
     (let options = \<lparr> moMetricsBindAddress = metricsAddr rf, moHealthProbeBindAddress = probeAddr rf,
            moLeaderElection = leaderElect, moLeaderElectionID = ''2cfbe7d6.operator.marin3r.3scale.net'',
            moNamespaces = DefaultNamespaces LookupEnv \<rparr> in
      case NewManager rt options of
        Some err \<Rightarrow> Inl err
      | None \<Rightarrow> (case register_all rt operator_registrations of Some err \<Rightarrow> Inl err | None \<Rightarrow> Inr options))"

definition MutatePath :: string where "MutatePath = ''/pod-v1-mutate''"

record WebhookFlags =
  webhookPort :: int
  webhookTLSCertDir :: string
  webhookTLSCertName :: string
  webhookTLSKeyName :: string

definition webhook_flags :: "(string \<Rightarrow> int option) \<Rightarrow> assignments \<Rightarrow> WebhookFlags option" where
  "webhook_flags ival kvs =
     map_option (\<lambda>port.
       \<lparr> webhookPort = port, webhookTLSCertDir = string_flag kvs ''tls-dir'' ''/apiserver.local.config/certificates'',
         webhookTLSCertName = string_flag kvs ''tls-cert-name'' ''apiserver.crt'',
         webhookTLSKeyName = string_flag kvs ''tls-key-name'' ''apiserver.key'' \<rparr>)
       (int_flag ival kvs ''webhook-port'' 9443)"

definition webhook_registrations :: "registration list" where
  "webhook_registrations =
     [HandlerAt MutatePath, ObjectWebhook ''EnvoyConfig'', ObjectWebhook ''EnvoyDeployment'',
      HealthzCheck ''health'', ReadyzCheck ''readyz'']"

definition runWebhook ::
  "runtime_ops \<Rightarrow> (string \<Rightarrow> string option) \<Rightarrow> RootFlags \<Rightarrow> WebhookFlags \<Rightarrow> goerror + ManagerOptions \<times> WebhookFlags" where
  "runWebhook rt LookupEnv rf fl =
     (let options = \<lparr> moMetricsBindAddress = ''0'', moHealthProbeBindAddress = probeAddr rf, moLeaderElection = False,
            moLeaderElectionID = [], moNamespaces = DefaultNamespaces LookupEnv \<rparr> in
      case NewManager rt options of
        Some err \<Rightarrow> Inl err
      | None \<Rightarrow> (case register_all rt webhook_registrations of Some err \<Rightarrow> Inl err | None \<Rightarrow> Inr (options, fl)))"

end
