(* ===== verification/ServiceCommandProperties.thy ===== *)
theory ServiceCommandProperties
  imports ServiceCommands
begin

text \<open>
  The discovery service that the operator deploys: the arguments, volumes, probes and environment
  of the generated deployment are traced to the configuration of the process they start. The
  locale \<open>flag_library\<close> says how the arguments are read, \<open>mounted\<close> what Kubernetes puts into
  the file system of a container.
\<close>

section \<open>The flag library\<close>

datatype written_flag = ValueFlag string string | BoolFlag string

fun write_flag :: "written_flag \<Rightarrow> string" where
  "write_flag (ValueFlag n v) = ''--'' @ n @ ''='' @ v"
| "write_flag (BoolFlag n) = ''--'' @ n"

fun flag_assignment :: "written_flag \<Rightarrow> string \<times> string" where
  "flag_assignment (ValueFlag n v) = (n, v)"
| "flag_assignment (BoolFlag n) = (n, ''true'')"

fun flag_known :: "string list \<Rightarrow> string list \<Rightarrow> written_flag \<Rightarrow> bool" where
  "flag_known names bools (ValueFlag n v) = (n \<in> set names)"
| "flag_known names bools (BoolFlag n) = (n \<in> set bools)"

locale flag_library = command_line split ival for split :: flag_splitter and ival :: "string \<Rightarrow> int option" +
  fixes parse :: flag_parser and bval :: "string \<Rightarrow> bool option"
  assumes parse_written:
      "list_all flag_name (names @ bools) \<Longrightarrow> list_all (flag_known names bools) fs \<Longrightarrow>
         parse names bools (map write_flag fs) = Some (map flag_assignment fs)"
    and bval_true: "bval ''true'' = Some True"
    and bval_false: "bval ''false'' = Some False"

definition parse_flag :: "string list \<Rightarrow> string list \<Rightarrow> string \<Rightarrow> (string \<times> string) option" where
  "parse_flag names bools a =
     (let body = drop 2 a; n = takeWhile (\<lambda>c. c \<noteq> CHR ''='') body in
      if take 2 a \<noteq> ''--'' then None
      else if CHR ''='' \<in> set body then
        (if n \<in> set (names @ bools) then Some (n, drop (Suc (length n)) body) else None)
      else if body \<in> set bools then Some (body, ''true'') else None)"

fun list_parse :: flag_parser where
  "list_parse names bools [] = Some []"
| "list_parse names bools (a # rest) =
     (case parse_flag names bools a of None \<Rightarrow> None | Some kv \<Rightarrow> map_option (\<lambda>kvs. kv # kvs) (list_parse names bools rest))"

lemma parse_flag_written:
  assumes "list_all flag_name (names @ bools)" "flag_known names bools f"
  shows "parse_flag names bools (write_flag f) = Some (flag_assignment f)"
proof -
  have no_eq: "CHR ''='' \<notin> set n" if "n \<in> set (names @ bools)" for n
    using assms(1) that by (auto simp: flag_name_def list_all_iff)
  show ?thesis
  proof (cases f)
    case (ValueFlag n v)
    have "takeWhile (\<lambda>c. c \<noteq> CHR ''='') (n @ CHR ''='' # v) = n"
      using no_eq [of n] assms(2) ValueFlag by (subst takeWhile_append2) auto
    with assms(2) ValueFlag show ?thesis by (simp add: parse_flag_def)
  next
    case (BoolFlag n)
    with assms(2) no_eq [of n] show ?thesis by (simp add: parse_flag_def)
  qed
qed

interpretation listParse: flag_library list_split Atoi list_parse ParseBool
proof
  show "list_parse names bools (map write_flag fs) = Some (map flag_assignment fs)"
    if "list_all flag_name (names @ bools)" "list_all (flag_known names bools) fs" for names bools fs
    using that by (induction fs) (simp_all add: parse_flag_written)
qed (simp_all add: ParseBool_def)

section \<open>The arguments of the deployment\<close>

definition ds_written :: "DS_GeneratorOptions \<Rightarrow> written_flag list" where
  "ds_written cfg =
     [ValueFlag ''server-certificate-path'' ''/etc/marin3r/tls/server'', ValueFlag ''ca-certificate-path'' ''/etc/marin3r/tls/ca'',
      ValueFlag ''client-certificate-path'' ''/etc/marin3r/tls/client'', ValueFlag ''xdss-port'' (show32 (dgXdsServerPort cfg)),
      ValueFlag ''metrics-bind-address'' ('':'' @ show32 (dgMetricsServerPort cfg)),
      ValueFlag ''health-probe-bind-address'' ('':'' @ show32 (dgProbePort cfg))] @ (if dgDebug cfg then [BoolFlag ''debug''] else [])"

lemma ds_container_args: "ctArgs (DS_container cfg) = ''discovery-service'' # map write_flag (ds_written cfg)"
  by (simp add: DS_container_def ds_written_def Let_def)

definition generated_flags :: "DS_GeneratorOptions \<Rightarrow> DsFlags" where
  "generated_flags cfg =
     \<lparr> xdssPort = sint (dgXdsServerPort cfg), xdssTLSServerCertificatePath = ''/etc/marin3r/tls/server'',
       xdssTLSCACertificatePath = ''/etc/marin3r/tls/ca'', xdssTLSClientCertificatePath = ''/etc/marin3r/tls/client'' \<rparr>"

definition generated_root_flags :: "DS_GeneratorOptions \<Rightarrow> RootFlags" where
  "generated_root_flags cfg =
     \<lparr> debug = dgDebug cfg, metricsAddr = '':'' @ show32 (dgMetricsServerPort cfg), probeAddr = '':'' @ show32 (dgProbePort cfg) \<rparr>"

context flag_library
begin

lemma generated_command:
  "discovery_service_command parse ival bval rt t newCache newStats Getenv fs (map write_flag (ds_written cfg)) =
     runDiscoveryService rt t newCache newStats Getenv fs (generated_root_flags cfg) (generated_flags cfg)"
proof -
  let ?kvs = "map flag_assignment (ds_written cfg)"
  have "parse (root_flag_names @ ds_flag_names) [''debug''] (map write_flag (ds_written cfg)) = Some ?kvs"
    by (rule parse_written) (simp_all add: root_flag_names_def ds_flag_names_def flag_name_def ds_written_def)
  moreover have "root_flags bval ?kvs = Some (generated_root_flags cfg)"
    by (simp add: root_flags_def bool_flag_def string_flag_def ds_written_def generated_root_flags_def bval_true)
  moreover have "ival (show32 (dgXdsServerPort cfg)) = Some (sint (dgXdsServerPort cfg))"
    by (simp add: show32_def ival_decimal show32_range)
  then have "ds_flags ival ?kvs = Some (generated_flags cfg)"
    by (simp add: ds_flags_def int_flag_def string_flag_def ds_written_def generated_flags_def)
  ultimately show ?thesis by (simp add: discovery_service_command_def)
qed

end

section \<open>Files of a pod\<close>

text \<open>The keys of a secret appear as files below the path its volume is mounted at.\<close>

definition mounted :: "(string \<Rightarrow> string \<Rightarrow> string option) \<Rightarrow> PodSpec \<Rightarrow> Container \<Rightarrow> files \<Rightarrow> bool" where
  "mounted secrets ps ct fs \<longleftrightarrow>
     (\<forall>m \<in> set (ctVolumeMounts ct). \<forall>v \<in> set (psVolumes ps). volName v = vmName m \<longrightarrow>
        (\<forall>s mode. volSource v = SecretVolume s mode \<longrightarrow> (\<forall>key. fs (vmMountPath m @ key) = secrets s key)))"

definition env_value :: "Container \<Rightarrow> string \<Rightarrow> string" where
  "env_value ct name = (case find (\<lambda>ev. evName ev = name) (ctEnv ct) of None \<Rightarrow> [] | Some ev \<Rightarrow> evValue ev)"

lemma mounted_files:
  assumes "mounted secrets (depPodSpec (DS_Deployment cfg hash)) (DS_container cfg) fs"
  shows "fs (''/etc/marin3r/tls/server/'' @ key) = secrets (ServerCertName cfg) key"
    "fs (''/etc/marin3r/tls/ca/'' @ key) = secrets (RootCertName cfg) key"
    "fs (''/etc/marin3r/tls/client/'' @ key) = secrets (ClientCertName cfg) key"
  using assms unfolding mounted_def DS_Deployment_def DS_container_def Let_def by force+

text \<open>What the process uses of the secrets.\<close>

definition secret_pair :: "('k, 'p) tls_ops \<Rightarrow> (string \<Rightarrow> string \<Rightarrow> string option) \<Rightarrow> string \<Rightarrow> 'k option" where
  "secret_pair t secrets s =
     (case (secrets s ''tls.crt'', secrets s ''tls.key'') of
        (Some cert, Some key) \<Rightarrow> (case X509KeyPair t cert key of Inl _ \<Rightarrow> None | Inr k \<Rightarrow> Some k)
      | _ \<Rightarrow> None)"

definition secret_pool :: "('k, 'p) tls_ops \<Rightarrow> (string \<Rightarrow> string \<Rightarrow> string option) \<Rightarrow> string \<Rightarrow> 'p option" where
  "secret_pool t secrets s = (case secrets s ''tls.crt'' of None \<Rightarrow> None | Some cert \<Rightarrow> AppendCertsFromPEM t cert)"

lemma load_from_secret:
  assumes "\<And>key. fs (dir @ ''/'' @ key) = secrets s key"
  shows "loadCertificate t fs dir = Inr k \<longleftrightarrow> secret_pair t secrets s = Some k"
    "loadCA t fs dir = Inr pool \<longleftrightarrow> secret_pool t secrets s = Some pool"
  using assms
  by (auto simp: loadCertificate_def loadCA_def ReadFile_def secret_pair_def secret_pool_def certificateFile_def
      certificateKeyFile_def split: option.splits sum.splits)

lemma runDiscoveryService_ok:
  assumes "\<And>r. Register rt r = None" "\<And>o'. NewManager rt o' = None" "server_tls t fs fl = Inr tls"
  shows "\<exists>proc. runDiscoveryService rt t newCache newStats Getenv fs rf fl = Inr proc \<and>
    dpManager proc = ds_manager_options rf Getenv \<and> xDSPort (dpServer proc) = of_int (xdssPort fl) \<and>
    tlsConfig (dpServer proc) = tls \<and> dpGCNamespace proc = Getenv ''WATCH_NAMESPACE'' \<and>
    dpXdsCache proc = snapshotCacheV3 (dpServer proc) \<and> dpDiscoveryStats proc = callbacksStats (dpServer proc)"
proof -
  have "register_all rt ds_registrations = None" by (simp add: ds_registrations_def assms(1))
  with assms(2,3) show ?thesis
    by (simp add: runDiscoveryService_def Let_def NewXdsServer_def GetCache_def GetDiscoveryStats_def)
qed

section \<open>The property\<close>

text \<open>(C33) The deployment starts the discovery service it describes. With the generated arguments,
  environment and mounted secrets, and libraries that do not fail, the process serves the port the
  container exposes as \<open>discovery\<close>, with the certificate of the server secret, and demands client
  certificates signed by the root secret; its health check presents the client secret; it watches
  the namespace of the discovery service and answers probes on the port they are sent to. The
  callbacks of the server write the statistics the revision controller reads. The metrics server
  is off whatever port is configured.\<close>

theorem generated_discovery_service_starts:
  assumes "flag_library split ival parse bval"
    and "mounted secrets (depPodSpec (DS_Deployment cfg hash)) (DS_container cfg) fs"
    and "secret_pair t secrets (ServerCertName cfg) = Some cert" "secret_pool t secrets (RootCertName cfg) = Some pool"
    and "secret_pair t secrets (ClientCertName cfg) = Some client"
    and "\<And>r. Register rt r = None" "\<And>options. NewManager rt options = None"
  shows "\<exists>proc tls check. discovery_service_command parse ival bval rt t newCache newStats (env_value (DS_container cfg)) fs
       (tl (ctArgs (DS_container cfg))) = Inr proc \<and>
     tcp_port ''discovery'' (dgXdsServerPort cfg) \<in> set (ctPorts (DS_container cfg)) \<and>
     xDSPort (dpServer proc) = of_int (sint (dgXdsServerPort cfg)) \<and>
     tlsConfig (dpServer proc) = tls \<and> tcCertificates tls = [cert] \<and> tcClientAuth tls = RequireAndVerifyClientCert \<and>
     tcClientCAs tls = Some pool \<and> check_tls t fs (generated_flags cfg) = Inr check \<and> tcCertificates check = [client] \<and>
     moNamespaces (dpManager proc) = Some {dgNamespace cfg} \<and> dpGCNamespace proc = dgNamespace cfg \<and>
     moHealthProbeBindAddress (dpManager proc) = '':'' @ show32 (dgProbePort cfg) \<and>
     map_option prHandler (ctLivenessProbe (DS_container cfg)) = Some (http_get ''/healthz'' (dgProbePort cfg)) \<and>
     map_option prHandler (ctReadinessProbe (DS_container cfg)) = Some (http_get ''/readyz'' (dgProbePort cfg)) \<and>
     dpDiscoveryStats proc = callbacksStats (dpServer proc) \<and> moMetricsBindAddress (dpManager proc) = ''0''"
proof -
  let ?fl = "generated_flags cfg"
  note files = mounted_files [OF assms(2)]
  have "loadCertificate t fs ''/etc/marin3r/tls/server'' = Inr cert"
    using load_from_secret(1) [of fs "''/etc/marin3r/tls/server''" secrets "ServerCertName cfg" t] files(1) assms(3) by simp
  moreover have ca: "loadCA t fs ''/etc/marin3r/tls/ca'' = Inr pool"
    using load_from_secret(2) [of fs "''/etc/marin3r/tls/ca''" secrets "RootCertName cfg" t] files(2) assms(4) by simp
  moreover have "loadCertificate t fs ''/etc/marin3r/tls/client'' = Inr client"
    using load_from_secret(1) [of fs "''/etc/marin3r/tls/client''" secrets "ClientCertName cfg" t] files(3) assms(5) by simp
  ultimately obtain tls check where tls: "server_tls t fs ?fl = Inr tls" "tcCertificates tls = [cert]"
      "tcClientAuth tls = RequireAndVerifyClientCert" "tcClientCAs tls = Some pool"
    and check: "check_tls t fs ?fl = Inr check" "tcCertificates check = [client]"
    by (simp add: server_tls_def check_tls_def generated_flags_def)
  have ns: "env_value (DS_container cfg) ''WATCH_NAMESPACE'' = dgNamespace cfg"
    by (simp add: env_value_def DS_container_def Let_def)
  have command: "discovery_service_command parse ival bval rt t newCache newStats (env_value (DS_container cfg)) fs
      (tl (ctArgs (DS_container cfg))) = runDiscoveryService rt t newCache newStats (env_value (DS_container cfg)) fs
      (generated_root_flags cfg) ?fl"
    using flag_library.generated_command [OF assms(1)] by (simp add: ds_container_args)
  obtain proc where proc: "runDiscoveryService rt t newCache newStats (env_value (DS_container cfg)) fs (generated_root_flags cfg) ?fl
      = Inr proc" "dpManager proc = ds_manager_options (generated_root_flags cfg) (env_value (DS_container cfg))"
      "xDSPort (dpServer proc) = of_int (xdssPort ?fl)" "tlsConfig (dpServer proc) = tls"
      "dpGCNamespace proc = env_value (DS_container cfg) ''WATCH_NAMESPACE''" "dpDiscoveryStats proc = callbacksStats (dpServer proc)"
    using runDiscoveryService_ok [OF assms(6,7) tls(1), of newCache newStats "env_value (DS_container cfg)" "generated_root_flags cfg"]
    by blast
  have "tcp_port ''discovery'' (dgXdsServerPort cfg) \<in> set (ctPorts (DS_container cfg))"
      "map_option prHandler (ctLivenessProbe (DS_container cfg)) = Some (http_get ''/healthz'' (dgProbePort cfg))"
      "map_option prHandler (ctReadinessProbe (DS_container cfg)) = Some (http_get ''/readyz'' (dgProbePort cfg))"
    by (simp_all add: DS_container_def Let_def)
  with command proc tls check ns show ?thesis
    by (intro exI [of _ proc] exI [of _ tls] exI [of _ check])
      (simp add: ds_manager_options_def generated_root_flags_def generated_flags_def)
qed

definition sample_options :: DS_GeneratorOptions where
  "sample_options =
     \<lparr> dgInstanceName = ''instance'', dgNamespace = ''ns'', dgRootCertificateNamePrefix = ''ca'',
       dgRootCertificateCommonNamePrefix = ''ca'', dgRootCertificateDuration = 10, dgServerCertificateNamePrefix = ''server'',
       dgServerCertificateCommonNamePrefix = ''server'', dgServerCertificateDuration = 10, dgClientCertificateDuration = 10,
       dgXdsServerPort = 18000, dgMetricsServerPort = 8080, dgProbePort = 8081, dgServiceType = ClusterIPType,
       dgDeploymentImage = ''image'', dgDeploymentResources = no_resources, dgDebug = True, dgPodPriorityClass = None \<rparr>"

definition sample_tls :: "(string, string) tls_ops" where
  "sample_tls = \<lparr> X509KeyPair = (\<lambda>cert key. Inr (cert @ key)), AppendCertsFromPEM = Some \<rparr>"

definition sample_secrets :: "string \<Rightarrow> string \<Rightarrow> string option" where
  "sample_secrets s key = Some (s @ ''/'' @ key)"

definition sample_pod_files :: files where
  "sample_pod_files path =
     (case find (\<lambda>(mp, s). take (length mp) path = mp)
        [(''/etc/marin3r/tls/server/'', ServerCertName sample_options), (''/etc/marin3r/tls/ca/'', RootCertName sample_options),
         (''/etc/marin3r/tls/client/'', ClientCertName sample_options)] of
        None \<Rightarrow> None
      | Some (mp, s) \<Rightarrow> sample_secrets s (drop (length mp) path))"

definition sample_runtime :: runtime_ops where
  "sample_runtime = \<lparr> NewManager = (\<lambda>_. None), Register = (\<lambda>_. None) \<rparr>"

theorem generated_discovery_service_starts_witness:
  "\<exists>proc. discovery_service_command list_parse Atoi ParseBool sample_runtime sample_tls () ()
      (env_value (DS_container sample_options)) sample_pod_files (tl (ctArgs (DS_container sample_options))) = Inr proc \<and>
     tcCertificates (tlsConfig (dpServer proc)) = [''server-instance/tls.crtserver-instance/tls.key''] \<and>
     tcClientCAs (tlsConfig (dpServer proc)) = Some ''ca-instance/tls.crt'' \<and> moMetricsBindAddress (dpManager proc) = ''0''"
proof -
  have m: "mounted sample_secrets (depPodSpec (DS_Deployment sample_options ''h'')) (DS_container sample_options) sample_pod_files"
    by (simp add: mounted_def DS_Deployment_def DS_container_def Let_def sample_pod_files_def)
  have pairs: "secret_pair sample_tls sample_secrets (ServerCertName sample_options) =
      Some ''server-instance/tls.crtserver-instance/tls.key''"
    "secret_pool sample_tls sample_secrets (RootCertName sample_options) = Some ''ca-instance/tls.crt''"
    by (simp_all add: secret_pair_def secret_pool_def sample_tls_def sample_secrets_def ServerCertName_def RootCertName_def
        sample_options_def)
  have client: "secret_pair sample_tls sample_secrets (ClientCertName sample_options) =
      Some (ClientCertName sample_options @ ''/tls.crt'' @ ClientCertName sample_options @ ''/tls.key'')"
    by (simp add: secret_pair_def sample_tls_def sample_secrets_def)
  show ?thesis
    using generated_discovery_service_starts [OF listParse.flag_library_axioms m pairs client, of sample_runtime "()" "()"]
    by (auto simp: sample_runtime_def)
qed

end
