(* ===== verification/ReconcilerConfig.thy ===== *)
theory ReconcilerConfig
  imports OperatorProperties
begin

text \<open>
  Which properties of the owned objects the operator enforces
  (\<open>controllers/operator.marin3r/reconciler_config.go\<close>). The base reconciler compares an
  existing object with the generated one by property paths: those listed for the kind are set to
  the generated value, everything else is left as it is found. Its behaviour is the relation
  \<open>updated\<close> between the live object, the generated one and the result; the paths of the modelled
  fields are tables, one per kind.
\<close>

section \<open>The configuration\<close>

record ReconcileConfigForGVK =
  EnsureProperties :: "string list"
  IgnoreProperties :: "string list"

record ReconcilerSettings =
  AnnotationsDomain :: string
  ResourcePruner :: bool
  DynamicWatches :: bool

definition reconciler_settings :: ReconcilerSettings where
  "reconciler_settings = \<lparr> AnnotationsDomain = ''marin3r.3scale.net'', ResourcePruner = False, DynamicWatches = False \<rparr>"

definition service_config :: ReconcileConfigForGVK where
  "service_config = \<lparr> EnsureProperties = [''metadata.annotations'', ''metadata.labels'', ''spec.type'', ''spec.ports'',
     ''spec.selector'', ''spec.clusterIP'', ''spec.clusterIPs''], IgnoreProperties = [] \<rparr>"

definition deployment_config :: ReconcileConfigForGVK where
  "deployment_config = \<lparr>
     EnsureProperties = [''metadata.annotations'', ''metadata.labels'', ''spec.minReadySeconds'', ''spec.replicas'',
       ''spec.selector'', ''spec.strategy'', ''spec.template.metadata.labels'', ''spec.template.metadata.annotations'',
       ''spec.template.spec''],
     IgnoreProperties = [''metadata.annotations['' @ [CHR 39] @ ''deployment.kubernetes.io/revision'' @ [CHR 39] @ '']'',
       ''spec.template.spec.dnsPolicy'', ''spec.template.spec.schedulerName'', ''spec.template.spec.restartPolicy'',
       ''spec.template.spec.securityContext'', ''spec.template.spec.containers[*].terminationMessagePath'',
       ''spec.template.spec.containers[*].terminationMessagePolicy'',
       ''spec.template.spec.initContainers[*].terminationMessagePath'',
       ''spec.template.spec.initContainers[*].terminationMessagePolicy''] \<rparr>"

definition hpa_config :: ReconcileConfigForGVK where
  "hpa_config = \<lparr> EnsureProperties = [''metadata.annotations'', ''metadata.labels'', ''spec.scaleTargetRef'',
     ''spec.minReplicas'', ''spec.maxReplicas'', ''spec.metrics''], IgnoreProperties = [] \<rparr>"

definition pdb_config :: ReconcileConfigForGVK where
  "pdb_config = \<lparr> EnsureProperties = [''metadata.annotations'', ''metadata.labels'', ''spec.maxUnavailable'',
     ''spec.minAvailable'', ''spec.selector''], IgnoreProperties = [] \<rparr>"

definition role_config :: ReconcileConfigForGVK where
  "role_config = \<lparr> EnsureProperties = [''metadata.annotations'', ''metadata.labels'', ''rules''], IgnoreProperties = [] \<rparr>"

definition role_binding_config :: ReconcileConfigForGVK where
  "role_binding_config =
     \<lparr> EnsureProperties = [''metadata.annotations'', ''metadata.labels'', ''roleRef'', ''subjects''], IgnoreProperties = [] \<rparr>"

definition service_account_config :: ReconcileConfigForGVK where
  "service_account_config = \<lparr> EnsureProperties = [''metadata.labels''], IgnoreProperties = [] \<rparr>"

definition DefaultReconcileConfig :: "string \<times> string \<Rightarrow> ReconcileConfigForGVK option" where
  "DefaultReconcileConfig = map_of
     [((''v1'', ''Service''), service_config), ((''apps/v1'', ''Deployment''), deployment_config),
      ((''autoscaling/v2'', ''HorizontalPodAutoscaler''), hpa_config), ((''policy/v1'', ''PodDisruptionBudget''), pdb_config),
      ((''rbac.authorization.k8s.io/v1'', ''Role''), role_config),
      ((''rbac.authorization.k8s.io/v1'', ''RoleBinding''), role_binding_config), ((''v1'', ''ServiceAccount''), service_account_config)]"

section \<open>Paths of the modelled fields\<close>

type_synonym 'o properties = "(string \<times> ('o \<Rightarrow> 'o \<Rightarrow> bool)) list"

definition same :: "('o \<Rightarrow> 'v) \<Rightarrow> 'o \<Rightarrow> 'o \<Rightarrow> bool" where "same f a b = (f a = f b)"



definition service_properties :: "Service properties" where
  "service_properties = [(''metadata.labels'', same (Labels \<circ> svcMeta)), (''spec.type'', same svcType), (''spec.ports'', same svcPorts),
     (''spec.selector'', same svcSelector), (''spec.clusterIP'', same svcClusterIP), (''spec.sessionAffinity'', same svcSessionAffinity)]"




text \<open>What the base reconciler makes of a live object: the listed properties are those of the
  generated object, the others those of the live one.\<close>

definition updated :: "ReconcileConfigForGVK option \<Rightarrow> 'o properties \<Rightarrow> 'o \<Rightarrow> 'o \<Rightarrow> 'o \<Rightarrow> bool" where
  "updated config props live generated result =
     (case config of
        None \<Rightarrow> False
      | Some c \<Rightarrow> list_all (\<lambda>(path, eq). eq result (if path \<in> set (EnsureProperties c) then generated else live)) props)"

lemmas property_simps = updated_def DefaultReconcileConfig_def same_def

text \<open>The service of a discovery service: all but the session affinity is enforced.\<close>

lemma service_drift:
  assumes "updated (DefaultReconcileConfig (''v1'', ''Service'')) service_properties live (DS_Service cfg) res"
  shows "res = (DS_Service cfg)\<lparr> svcMeta := svcMeta res, svcSessionAffinity := svcSessionAffinity live \<rparr> \<and>
    Labels (svcMeta res) = DS_labels cfg"
  using assms
  by (auto simp: property_simps service_config_def service_properties_def DS_Service_def DS_meta_def object_meta_def)

section \<open>The property\<close>



end
