(* ===== verification/MultiErrorText.thy ===== *)
theory MultiErrorText
  imports EnvoyConfigWebhook NetIP
begin

text \<open>
  The text of a rejected configuration: \<open>MultiError\<close> (\<open>apis/marin3r/v1alpha1/error.go\<close>) prints
  itself as a JSON object with the list of the error texts. Modelled are the two marshallers and
  what \<open>encoding/json\<close> makes of a string: bytes that need no escape are copied, quotes, control
  characters and the characters with a meaning in HTML are escaped, bytes that are not UTF-8 are
  replaced. A reader for such texts shows that nothing is lost.
\<close>

section \<open>UTF-8\<close>

definition byte_in :: "nat \<Rightarrow> nat \<Rightarrow> char \<Rightarrow> bool" where
  "byte_in lo hi c = (lo \<le> (of_char c :: nat) \<and> (of_char c :: nat) \<le> hi)"

abbreviation cont_byte :: "char \<Rightarrow> bool" where "cont_byte \<equiv> byte_in 0x80 0xBF"

text \<open>Second bytes that would make the rune too long, a surrogate or too large are excluded.\<close>

definition second_byte :: "char \<Rightarrow> char \<Rightarrow> bool" where
  "second_byte a b =
     (if a = CHR 0xE0 then byte_in 0xA0 0xBF b else if a = CHR 0xED then byte_in 0x80 0x9F b
      else if a = CHR 0xF0 then byte_in 0x90 0xBF b else if a = CHR 0xF4 then byte_in 0x80 0x8F b else cont_byte b)"

text \<open>The length of the first rune, \<open>0\<close> when the bytes do not start with a valid one.\<close>

definition rune_len :: "string \<Rightarrow> nat" where
  "rune_len s =
     (case s of
        [] \<Rightarrow> 0
      | a # s1 \<Rightarrow>
          if byte_in 0 0x7F a then 1
          else case s1 of
            [] \<Rightarrow> 0
          | b # s2 \<Rightarrow>
              if byte_in 0xC2 0xDF a \<and> second_byte a b then 2
              else case s2 of
                [] \<Rightarrow> 0
              | c # s3 \<Rightarrow>
                  if byte_in 0xE0 0xEF a \<and> second_byte a b \<and> cont_byte c then 3
                  else case s3 of
                    [] \<Rightarrow> 0
                  | d # _ \<Rightarrow> if byte_in 0xF0 0xF4 a \<and> second_byte a b \<and> cont_byte c \<and> cont_byte d then 4 else 0)"

section \<open>Strings in JSON\<close>

text \<open>A byte below 128, for Go 1.21: the backspace and the form feed have no escape of their own.\<close>

definition json_ascii :: "char \<Rightarrow> string" where
  "json_ascii c =
     (if c = CHR 34 \<or> c = CHR 92 then [CHR 92, c]
      else if c = CHR 10 then CHR 92 # ''n''
      else if c = CHR 13 then CHR 92 # ''r''
      else if c = CHR 9 then CHR 92 # ''t''
      else if (of_char c :: nat) < 32 \<or> c = CHR ''<'' \<or> c = CHR ''>'' \<or> c = CHR ''&'' then
        CHR 92 # ''u00'' @ [hex_digit (of_char c div 16), hex_digit (of_char c mod 16)]
      else [c])"

function json_body :: "string \<Rightarrow> string" where
  "json_body [] = []"
| "json_body (c # s) =
     (let n = rune_len (c # s); r = take n (c # s) in
      if n = 0 then CHR 92 # ''ufffd'' @ json_body s
      else if n = 1 then json_ascii c @ json_body s
      else if r = [CHR 0xE2, CHR 0x80, CHR 0xA8] then CHR 92 # ''u2028'' @ json_body (drop n (c # s))
      else if r = [CHR 0xE2, CHR 0x80, CHR 0xA9] then CHR 92 # ''u2029'' @ json_body (drop n (c # s))
      else r @ json_body (drop n (c # s)))"
  by pat_completeness auto
termination by (relation "measure length") auto

definition json_string :: "string \<Rightarrow> string" where
  "json_string s = CHR 34 # json_body s @ [CHR 34]"

definition ErrorList_MarshalJSON :: "string list \<Rightarrow> string" where
  "ErrorList_MarshalJSON texts = ''['' @ Join (map json_string texts) '','' @ '']''"

text \<open>\<open>json.Marshal\<close> of the struct: the field by its tag. The output of \<open>MarshalJSON\<close> is compacted,
  which changes nothing.\<close>

definition MultiError_Error :: "(goerror \<Rightarrow> string) \<Rightarrow> goerror list \<Rightarrow> string" where
  "MultiError_Error err_text errors =
     ''{'' @ json_string ''errors'' @ '':'' @ ErrorList_MarshalJSON (map err_text errors) @ ''}''"

section \<open>Reading it back\<close>

definition utf8_encode :: "nat \<Rightarrow> string" where
  "utf8_encode n =
     (if n < 0x80 then [char_of n]
      else if n < 0x800 then [char_of (0xC0 + n div 64), char_of (0x80 + n mod 64)]
      else [char_of (0xE0 + n div 4096), char_of (0x80 + n div 64 mod 64), char_of (0x80 + n mod 64)])"

fun json_read :: "string \<Rightarrow> (string \<times> string) option" where
  "json_read [] = None"
| "json_read (c # s) =
     (if c = CHR 34 then Some ([], s)
      else if c = CHR 92 then
        (case s of
           e # s' \<Rightarrow>
             (if e = CHR ''u'' then
                (case s' of
                   h1 # h2 # h3 # h4 # s'' \<Rightarrow>
                     map_option (\<lambda>(x, r). (utf8_encode (hex_group [h1, h2, h3, h4]) @ x, r)) (json_read s'')
                 | _ \<Rightarrow> None)
              else map_option (\<lambda>(x, r).
                ((if e = CHR ''n'' then CHR 10 else if e = CHR ''r'' then CHR 13 else if e = CHR ''t'' then CHR 9 else e) # x, r))
                (json_read s'))
         | [] \<Rightarrow> None)
      else map_option (\<lambda>(x, r). (c # x, r)) (json_read s))"

fun valid_utf8 :: "string \<Rightarrow> bool" where
  "valid_utf8 [] = True"
| "valid_utf8 (c # s) = (rune_len (c # s) > 0 \<and> valid_utf8 (drop (rune_len (c # s) - 1) s))"

definition high :: "char \<Rightarrow> bool" where "high c = ((of_char c :: nat) \<ge> 128)"

lemma byte_in_high: "byte_in lo hi c \<Longrightarrow> lo \<ge> 128 \<Longrightarrow> high c"
  by (simp add: byte_in_def high_def)

lemma second_byte_high: "second_byte a b \<Longrightarrow> high b"
  by (auto simp: second_byte_def intro: byte_in_high split: if_splits)

lemma rune_len_bytes:
  assumes "rune_len (c # s) > 1"
  shows "list_all high (take (rune_len (c # s)) (c # s))"
proof -
  have "\<not> byte_in 0 0x7F c" using assms by (auto simp: rune_len_def)
  then have c: "high c" by (simp add: byte_in_def high_def)
  show ?thesis
  proof (cases s)
    case (Cons b s2)
    with assms c show ?thesis
      by (cases s2; cases "tl s2") (auto simp: rune_len_def dest: second_byte_high byte_in_high split: if_splits)
  qed (use assms in \<open>auto simp: rune_len_def split: if_splits\<close>)
qed

lemma rune_len_one: "rune_len (c # s) = 1 \<longleftrightarrow> (of_char c :: nat) < 128"
  by (auto simp: rune_len_def byte_in_def split: list.split)

lemma valid_ascii: "list_all (\<lambda>c. (of_char c :: nat) < 128) s \<Longrightarrow> valid_utf8 s"
proof (induction s)
  case (Cons c s)
  then have "rune_len (c # s) = 1" by (simp only: rune_len_one) simp
  with Cons show ?case by simp
qed simp

lemma hex_digit_val: "d < 16 \<Longrightarrow> hex_val (hex_digit d) = Some d"
  by (auto simp: hex_val_def hex_digit_def Let_def)

lemma hex_group_00: "a < 16 \<Longrightarrow> b < 16 \<Longrightarrow> hex_group [CHR ''0'', CHR ''0'', hex_digit a, hex_digit b] = a * 16 + b"
  by (simp add: hex_group_def hex_digit_val) (simp add: hex_val_def Let_def)

lemma json_read_copy:
  "CHR 34 \<notin> set r \<Longrightarrow> CHR 92 \<notin> set r \<Longrightarrow> json_read (r @ t) = map_option (\<lambda>(x, q). (r @ x, q)) (json_read t)"
proof (induction r)
  case (Cons c r)
  then show ?case by (cases "json_read t") (auto simp: option.map_comp comp_def)
qed (simp add: option.map_ident split_def)

lemma json_read_ascii:
  assumes "(of_char c :: nat) < 128"
  shows "json_read (json_ascii c @ t) = map_option (\<lambda>(x, q). (c # x, q)) (json_read t)"
proof -
  have "hex_group [CHR ''0'', CHR ''0'', hex_digit (of_char c div 16), hex_digit (of_char c mod 16)] = of_char c"
    using assms by (subst hex_group_00) auto
  then have "utf8_encode (hex_group [CHR ''0'', CHR ''0'', hex_digit (of_char c div 16), hex_digit (of_char c mod 16)]) = [c]"
    using assms by (simp add: utf8_encode_def)
  then show ?thesis by (auto simp: json_ascii_def)
qed

lemma json_read_separators:
  "json_read (CHR 92 # ''u2028'' @ t) = map_option (\<lambda>(x, q). ([CHR 0xE2, CHR 0x80, CHR 0xA8] @ x, q)) (json_read t)"
  "json_read (CHR 92 # ''u2029'' @ t) = map_option (\<lambda>(x, q). ([CHR 0xE2, CHR 0x80, CHR 0xA9] @ x, q)) (json_read t)"
proof -
  have "char_of (226 :: nat) = CHR 0xE2" "char_of (128 :: nat) = CHR 0x80" "char_of (168 :: nat) = CHR 0xA8"
      "char_of (169 :: nat) = CHR 0xA9" by code_simp+
  then have "utf8_encode 0x2028 = [CHR 0xE2, CHR 0x80, CHR 0xA8]" "utf8_encode 0x2029 = [CHR 0xE2, CHR 0x80, CHR 0xA9]"
    by (simp_all add: utf8_encode_def)
  moreover have "hex_group ''2028'' = 0x2028" "hex_group ''2029'' = 0x2029"
    by (simp_all add: hex_group_def hex_val_def Let_def)
  ultimately show
    "json_read (CHR 92 # ''u2028'' @ t) = map_option (\<lambda>(x, q). ([CHR 0xE2, CHR 0x80, CHR 0xA8] @ x, q)) (json_read t)"
    "json_read (CHR 92 # ''u2029'' @ t) = map_option (\<lambda>(x, q). ([CHR 0xE2, CHR 0x80, CHR 0xA9] @ x, q)) (json_read t)"
    by simp_all
qed

lemma json_read_body: "valid_utf8 s \<Longrightarrow> json_read (json_body s @ CHR 34 # rest) = Some (s, rest)"
proof (induction s rule: length_induct)
  case (1 l)
  show ?case
  proof (cases l)
    case (Cons c s)
    let ?n = "rune_len (c # s)"
    let ?r = "take ?n (c # s)" and ?t = "drop ?n (c # s)"
    have n: "?n > 0" and valid: "valid_utf8 ?t" using 1 Cons by (auto simp: drop_Cons')
    show ?thesis
    proof (cases "?n = 1")
      case True
      then have "json_read (json_body s @ CHR 34 # rest) = Some (s, rest)" using 1 Cons valid by simp
      moreover have "(of_char c :: nat) < 128" using True rune_len_one by blast
      ultimately show ?thesis using True Cons json_read_ascii [of c] by (simp add: Let_def)
    next
      case False
      with n have n: "?n > 1" by simp
      have IH: "json_read (json_body ?t @ CHR 34 # rest) = Some (?t, rest)"
        using 1 Cons valid n by simp
      have "CHR 34 \<notin> set ?r" "CHR 92 \<notin> set ?r" using rune_len_bytes [OF n] by (auto simp: list_all_iff high_def)
      note copy = json_read_copy [OF this]
      have "json_body (c # s) = CHR 92 # ''u2028'' @ json_body ?t \<and> ?r = [CHR 0xE2, CHR 0x80, CHR 0xA8] \<or>
          json_body (c # s) = CHR 92 # ''u2029'' @ json_body ?t \<and> ?r = [CHR 0xE2, CHR 0x80, CHR 0xA9] \<or>
          json_body (c # s) = ?r @ json_body ?t"
        using n by (simp only: json_body.simps Let_def) auto
      then have "json_read (json_body (c # s) @ CHR 34 # rest) = Some (?r @ ?t, rest)"
      proof (elim disjE conjE)
        assume "json_body (c # s) = CHR 92 # ''u2028'' @ json_body ?t" and r: "?r = [CHR 0xE2, CHR 0x80, CHR 0xA8]"
        with json_read_separators(1) [of "json_body ?t @ CHR 34 # rest"] IH show ?thesis unfolding r by simp
      next
        assume "json_body (c # s) = CHR 92 # ''u2029'' @ json_body ?t" and r: "?r = [CHR 0xE2, CHR 0x80, CHR 0xA9]"
        with json_read_separators(2) [of "json_body ?t @ CHR 34 # rest"] IH show ?thesis unfolding r by simp
      next
        assume "json_body (c # s) = ?r @ json_body ?t"
        with copy [of "json_body ?t @ CHR 34 # rest"] IH show ?thesis by simp
      qed
      then show ?thesis by (simp only: append_take_drop_id Cons)
    qed
  qed simp
qed

lemma json_string_inject:
  assumes "valid_utf8 s" "valid_utf8 s'" "json_string s @ r = json_string s' @ r'"
  shows "s = s' \<and> r = r'"
proof -
  have "json_body s @ CHR 34 # r = json_body s' @ CHR 34 # r'" using assms(3) by (simp add: json_string_def)
  then have "json_read (json_body s @ CHR 34 # r) = json_read (json_body s' @ CHR 34 # r')" by (rule arg_cong)
  then show ?thesis by (simp add: json_read_body [OF assms(1)] json_read_body [OF assms(2)])
qed

text \<open>The items of a list end at the closing bracket, as every item starts with a quote.\<close>

lemma Join_json_Cons:
  "Join (map json_string (x # xs)) '','' @ '']'' = json_string x @ (if xs = [] then '']'' else '','' @ Join (map json_string xs) '','' @ '']'')"
  by (cases xs) simp_all

lemma Join_json_inject:
  assumes "list_all valid_utf8 xs" "list_all valid_utf8 ys"
    and "Join (map json_string xs) '','' @ '']'' = Join (map json_string ys) '','' @ '']''"
  shows "xs = ys"
  using assms
proof (induction xs arbitrary: ys)
  case Nil
  then show ?case by (cases ys) (simp_all only: Join_json_Cons, simp_all add: json_string_def)
next
  case (Cons x xs)
  show ?case
  proof (cases ys)
    case Nil
    with Cons.prems(3) show ?thesis by (simp only: Join_json_Cons) (simp add: json_string_def)
  next
    case ys: (Cons y zs)
    let ?rest = "\<lambda>l. if l = [] then '']'' else '','' @ Join (map json_string l) '','' @ '']''"
    have "json_string x @ ?rest xs = json_string y @ ?rest zs" using Cons.prems(3) unfolding ys Join_json_Cons .
    then have eq: "x = y" "?rest xs = ?rest zs"
      using json_string_inject [of x y "?rest xs" "?rest zs"] Cons.prems(1,2) ys by simp_all
    then consider "xs = []" "zs = []" | "Join (map json_string xs) '','' @ '']'' = Join (map json_string zs) '','' @ '']''"
      by (cases "xs = []"; cases "zs = []") simp_all
    then show ?thesis
    proof cases
      case 2
      with Cons.IH [of zs] Cons.prems(1,2) ys eq(1) show ?thesis by simp
    qed (simp add: ys eq(1))
  qed
qed

section \<open>The property\<close>

text \<open>(C25) No error is lost in the text of a rejection: for error texts in UTF-8 the text of a
  \<open>MultiError\<close> determines the list of them, their number and order included, whatever quotes,
  backslashes or line breaks they contain.\<close>

theorem MultiError_text_determines_errors:
  assumes "list_all (\<lambda>e. valid_utf8 (err_text e)) es" "list_all (\<lambda>e. valid_utf8 (err_text e)) es'"
    and "MultiError_Error err_text es = MultiError_Error err_text es'"
  shows "map err_text es = map err_text es'"
proof -
  have "Join (map json_string (map err_text es)) '','' @ '']'' = Join (map json_string (map err_text es')) '','' @ '']''"
    using assms(3) by (simp add: MultiError_Error_def ErrorList_MarshalJSON_def)
  moreover have "list_all valid_utf8 (map err_text es)" "list_all valid_utf8 (map err_text es')"
    using assms(1,2) by (auto simp: list_all_iff)
  ultimately show ?thesis by (intro Join_json_inject)
qed

definition plain_text :: "goerror \<Rightarrow> string" where
  "plain_text e = (case e of PlainError s \<Rightarrow> s | _ \<Rightarrow> [])"

theorem MultiError_text_determines_errors_witness:
  "MultiError_Error plain_text [PlainError (''a'' @ [CHR 34, CHR 44, CHR 34] @ ''b'')] \<noteq>
   MultiError_Error plain_text [PlainError ''a'', PlainError ''b'']"
proof
  assume eq: "MultiError_Error plain_text [PlainError (''a'' @ [CHR 34, CHR 44, CHR 34] @ ''b'')] =
    MultiError_Error plain_text [PlainError ''a'', PlainError ''b'']"
  have "list_all (\<lambda>e. valid_utf8 (plain_text e)) [PlainError (''a'' @ [CHR 34, CHR 44, CHR 34] @ ''b'')]"
      "list_all (\<lambda>e. valid_utf8 (plain_text e)) [PlainError ''a'', PlainError ''b'']"
    by (simp_all add: plain_text_def valid_ascii del: valid_utf8.simps)
  from MultiError_text_determines_errors [OF this eq] show False by (simp add: plain_text_def)
qed

end
