(* ===== verification/BuildTools.thy ===== *)
theory BuildTools
  imports Commands Pki "HOL-Library.Char_ord" "HOL-Library.List_Lexorder"
begin

text \<open>
  The programs a developer runs: the generator of the list of protobuf packages
  (\<open>generators/pkg-envoy-proto\<close>), the generators of the version and image constants
  (\<open>generators/pkg-version\<close>, \<open>generators/pkg-image\<close>) and the certificate tool
  (\<open>hack/gen_cert.go\<close>). Reading the module file, cloning the repository and rendering Go code
  are done by libraries, whose results are arguments. Strings are ordered byte by byte.
\<close>

section \<open>The list of protobuf packages\<close>

definition sourceModuleName :: string where "sourceModuleName = ''github.com/envoyproxy/go-control-plane''"

definition lower_hex :: "char \<Rightarrow> bool" where "lower_hex c = (c \<in> set ''0123456789abcdef'')"

text \<open>The regular expression \<open>.*-([0-9a-f]{12})$\<close>: the text ends with a dash and twelve digits.\<close>

definition pseudo_hash :: "string \<Rightarrow> string option" where
  "pseudo_hash ref =
     (let h = drop (length ref - 12) ref in
      if length ref \<ge> 13 \<and> ref ! (length ref - 13) = CHR ''-'' \<and> list_all lower_hex h then Some h else None)"

text \<open>The requirements of the module file, module and version; the last one for the module counts.\<close>

definition inspectVersion :: "goerror + (string \<times> string) list \<Rightarrow> goerror + string \<times> bool" where
  "inspectVersion gomod =
     (case gomod of
        Inl err \<Rightarrow> Inl err
      | Inr require \<Rightarrow>
          (case map_of (rev require) sourceModuleName of
             None \<Rightarrow> Inl (PlainError (sourceModuleName @ '' module not found in modules file''))
           | Some ref \<Rightarrow> (case pseudo_hash ref of Some h \<Rightarrow> Inr (h, True) | None \<Rightarrow> Inr (ref, False))))"

text \<open>The tag or the commit that is resolved.\<close>

definition git_revision :: "string \<times> bool \<Rightarrow> string" where
  "git_revision v = (if snd v then fst v else ''refs/tags/'' @ fst v)"

text \<open>\<open>filepath.Split\<close> and \<open>Clean\<close> of the directory, for the paths of a git tree, which have no
  empty or dotted parts.\<close>

definition split_path :: "string \<Rightarrow> string \<times> string" where
  "split_path name =
     (let file = rev (takeWhile (\<lambda>c. c \<noteq> CHR ''/'') (rev name));
          dir = butlast (take (length name - length file) name)
      in (if dir = [] then ''.'' else dir, file))"

definition HasSuffix :: "string \<Rightarrow> string \<Rightarrow> bool" where
  "HasSuffix s suffix = HasPrefix (rev s) (rev suffix)"

definition is_proto_file :: "string \<Rightarrow> string \<Rightarrow> bool" where
  "is_proto_file apiVersion name =
     (let (dir, file) = split_path name in
      (HasPrefix dir ''envoy/'' \<or> HasPrefix dir ''contrib/envoy/'')
      \<and> HasSuffix file ''.pb.go'' \<and> HasSuffix dir (''/'' @ apiVersion))"

fun index_files :: "string \<Rightarrow> string list \<Rightarrow> string list \<Rightarrow> string list" where
  "index_files apiVersion [] index = index"
| "index_files apiVersion (name # names) index =
     index_files apiVersion names
       (if is_proto_file apiVersion name then List.insert (fst (split_path name)) index else index)"

definition listProtoPackages :: "string \<Rightarrow> string list \<Rightarrow> string list" where
  "listProtoPackages apiVersion names =
     sort (map (\<lambda>proto. sourceModuleName @ ''/'' @ proto) (index_files apiVersion names []))"

section \<open>Writing files\<close>

text \<open>A \<open>bufio.Writer\<close> of the default size: what reached the file and what is in the buffer. A
  write that does not fit goes to the file directly when the buffer is empty.\<close>

definition bufio_size :: nat where "bufio_size = 4096"

definition bufio_write :: "string \<times> string \<Rightarrow> string \<Rightarrow> string \<times> string" where
  "bufio_write st p =
     (case st of (file, buf) \<Rightarrow>
        let n = bufio_size - length buf; rest = drop n p in
        if length p \<le> n then (file, buf @ p)
        else if buf = [] then (file @ p, [])
        else if length rest \<le> bufio_size then (file @ buf @ take n p, rest)
        else (file @ buf @ p, []))"

definition bufio_writes :: "string list \<Rightarrow> string \<times> string" where
  "bufio_writes chunks = foldl bufio_write ([], []) chunks"

text \<open>The content of the file after the chunks the renderer writes. The generator of the package
  list does not flush the writer, the other two do.\<close>

definition writePackageFile :: "string list \<Rightarrow> string" where
  "writePackageFile chunks = fst (bufio_writes chunks)"

definition write_constant_file :: "string list \<Rightarrow> string" where
  "write_constant_file chunks = (case bufio_writes chunks of (file, buf) \<Rightarrow> file @ buf)"

definition version_literal :: "string \<Rightarrow> string" where "version_literal version = ''v'' @ version"

section \<open>The certificate tool\<close>

record GenCertFlags =
  gcSignerCertPath :: string
  gcSignerKeyPath :: string
  gcCommonName :: string
  gcNotBefore :: string
  gcNotAfter :: string
  gcIsServer :: bool
  gcIsCA :: bool
  gcKeySize :: int
  gcOutFileName :: string

text \<open>The signer, when both paths are given. A panic ends the program with the error.\<close>

definition gen_cert_issuer :: "'k crypto_ops \<Rightarrow> (string \<Rightarrow> goerror + string) \<Rightarrow> GenCertFlags \<Rightarrow> goerror + (Certificate \<times> 'k) option" where
  "gen_cert_issuer x read fl =
     (if gcSignerCertPath fl = [] \<or> gcSignerKeyPath fl = [] then Inr None
      else case read (gcSignerCertPath fl) of
        Inl err \<Rightarrow> Inl err
      | Inr scb \<Rightarrow>
          (case LoadX509Certificate x scb of
             Inl err \<Rightarrow> Inl err
           | Inr issuerCert \<Rightarrow>
               (case read (gcSignerKeyPath fl) of
                  Inl err \<Rightarrow> Inl err
                | Inr skb \<Rightarrow>
                    (case DecodePrivateKeyBytes x skb of Inl err \<Rightarrow> Inl err | Inr key \<Rightarrow> Inr (Some (issuerCert, key))))))"

definition gen_cert_run ::
  "'k crypto_ops \<Rightarrow> 'k entropy \<Rightarrow> (string \<Rightarrow> goerror + GoTime) \<Rightarrow> (string \<Rightarrow> goerror + string) \<Rightarrow> GenCertFlags
   \<Rightarrow> goerror + string \<times> string" where
  "gen_cert_run x g ParseTime read fl =
     (case ParseTime (gcNotBefore fl) of
        Inl err \<Rightarrow> Inl err
      | Inr before \<Rightarrow>
          (case ParseTime (gcNotAfter fl) of
             Inl err \<Rightarrow> Inl err
           | Inr after \<Rightarrow>
               (case gen_cert_issuer x read fl of
                  Inl err \<Rightarrow> Inl err
                | Inr issuer \<Rightarrow>
                    GenerateCertificate x g issuer (gcCommonName fl) (Sub after before) (gcIsServer fl) (gcIsCA fl)
                      (if gcIsServer fl then [gcCommonName fl] else []))))"

text \<open>Where the result goes: two files, or the standard output (\<open>None\<close>).\<close>

definition gen_cert_output :: "fs_ops \<Rightarrow> GenCertFlags \<Rightarrow> string \<times> string \<Rightarrow> files \<Rightarrow> (goerror option \<times> files) option" where
  "gen_cert_output disk fl ck fs =
     (if gcOutFileName fl = [] then None
      else Some (case write_file disk (gcOutFileName fl @ ''.crt'') (fst ck) fs of
                   (Some err, fs') \<Rightarrow> (Some err, fs')
                 | (None, fs') \<Rightarrow> write_file disk (gcOutFileName fl @ ''.key'') (snd ck) fs'))"

section \<open>What the package list contains\<close>

lemma index_files_set:
  "set (index_files api names index) = set index \<union> {fst (split_path n) | n. n \<in> set names \<and> is_proto_file api n}"
  by (induction api names index rule: index_files.induct) auto

lemma index_files_distinct: "distinct index \<Longrightarrow> distinct (index_files api names index)"
  by (induction api names index rule: index_files.induct) auto

section \<open>What reaches the file\<close>

lemma bufio_write_all: "fst (bufio_write st p) @ snd (bufio_write st p) = fst st @ snd st @ p"
  by (cases st) (simp add: bufio_write_def Let_def)

lemma bufio_write_bound: "length (snd st) \<le> bufio_size \<Longrightarrow> length (snd (bufio_write st p)) \<le> bufio_size"
  by (cases st) (auto simp: bufio_write_def Let_def)

lemma bufio_foldl:
  "length (snd st) \<le> bufio_size \<Longrightarrow>
   fst (foldl bufio_write st chunks) @ snd (foldl bufio_write st chunks) = fst st @ snd st @ concat chunks \<and>
   length (snd (foldl bufio_write st chunks)) \<le> bufio_size"
  by (induction chunks arbitrary: st) (simp_all add: bufio_write_all bufio_write_bound)

lemma bufio_writes_all:
  "fst (bufio_writes chunks) @ snd (bufio_writes chunks) = concat chunks \<and> length (snd (bufio_writes chunks)) \<le> bufio_size"
  using bufio_foldl [of "([], [])" chunks] by (simp add: bufio_writes_def)

text \<open>Flushing writes everything; without it the end of the text is missing, up to a buffer of it, and
  a single chunk that fits the buffer is lost altogether.\<close>

lemma write_constant_file_all: "write_constant_file chunks = concat chunks"
  using bufio_writes_all [of chunks] by (simp add: write_constant_file_def case_prod_beta)

lemma writePackageFile_loses:
  "\<exists>lost. concat chunks = writePackageFile chunks @ lost \<and> length lost \<le> bufio_size"
  using bufio_writes_all [of chunks] by (metis writePackageFile_def)

lemma writePackageFile_single: "writePackageFile [p] = (if length p \<le> bufio_size then [] else p)"
  by (simp add: writePackageFile_def bufio_writes_def bufio_write_def)

text \<open>The certificate starts now whatever \<open>--not-before\<close> says, and \<open>--key-size\<close> has no effect.\<close>

lemma gen_cert_ignores:
  assumes "ParseTime nb = Inr b" "ParseTime na = Inr a" "ParseTime nb' = Inr b'" "ParseTime na' = Inr a'" "Sub a b = Sub a' b'"
  shows "gen_cert_run x g ParseTime read (fl\<lparr> gcNotBefore := nb, gcNotAfter := na \<rparr>) =
    gen_cert_run x g ParseTime read (fl\<lparr> gcNotBefore := nb', gcNotAfter := na', gcKeySize := n \<rparr>)"
  using assms by (simp add: gen_cert_run_def gen_cert_issuer_def cong: sum.case_cong)

section \<open>The import list\<close>

text \<open>The generated import list is exactly the packages that hold protobuf code of the API version:
  it is sorted, has no repetitions, and contains the directory of every \<open>.pb.go\<close> file below
  \<open>envoy/\<close> or \<open>contrib/envoy/\<close> whose last part is the version, and nothing else.\<close>

theorem listProtoPackages_complete:
  "sorted (listProtoPackages api names) \<and> distinct (listProtoPackages api names) \<and>
   set (listProtoPackages api names) =
     {sourceModuleName @ ''/'' @ dir | dir file. \<exists>n \<in> set names. split_path n = (dir, file) \<and>
        (HasPrefix dir ''envoy/'' \<or> HasPrefix dir ''contrib/envoy/'') \<and> HasSuffix file ''.pb.go'' \<and> HasSuffix dir (''/'' @ api)}"
proof -
  have "inj_on (\<lambda>proto. sourceModuleName @ ''/'' @ proto) A" for A by (simp add: inj_on_def)
  moreover have "distinct (index_files api names [])" by (simp add: index_files_distinct)
  ultimately have "distinct (listProtoPackages api names)" by (simp add: listProtoPackages_def distinct_map)
  moreover have "set (listProtoPackages api names) = (\<lambda>proto. sourceModuleName @ ''/'' @ proto) ` set (index_files api names [])"
    by (simp add: listProtoPackages_def)
  moreover have "set (index_files api names []) = {dir. \<exists>file. \<exists>n \<in> set names. split_path n = (dir, file) \<and>
      (HasPrefix dir ''envoy/'' \<or> HasPrefix dir ''contrib/envoy/'') \<and> HasSuffix file ''.pb.go'' \<and> HasSuffix dir (''/'' @ api)}"
    unfolding index_files_set is_proto_file_def case_prod_beta Let_def by (auto simp: prod_eq_iff)
  moreover have "sorted (listProtoPackages api names)" by (simp add: listProtoPackages_def)
  ultimately show ?thesis by auto
qed

end
