(* ===== verification/Watches.thy ===== *)
theory Watches
  imports RevisionStatusProperties OperatorControllers "HOL-Library.Char_ord" "HOL-Library.List_Lexorder"
begin

text \<open>
  What makes the controllers run (\<open>SetupWithManager\<close> of the controllers, with the filter by API
  version and the filters of the event handlers). A controller runs for an object when it, an
  object it owns or an object that a handler maps to it changes. The question is whether that is
  enough: does every change that a run would react to lead to a run?

  The locale \<open>kube_objects\<close> relates the reads of the cache reconciler to the stored objects, so that
  two states of the API server can be compared object by object. Controller runtime and the
  base reconciler are outside: an update calls a handler for the old and for the new object, and
  a filtered handler asks for a run of every object its filter accepts.
\<close>

section \<open>Events\<close>

datatype 'o event = CreateEvent 'o | UpdateEvent 'o 'o | DeleteEvent 'o | GenericEvent 'o

text \<open>The objects a handler is called for.\<close>

fun event_objects :: "'o event \<Rightarrow> 'o list" where
  "event_objects (CreateEvent x) = [x]"
| "event_objects (UpdateEvent x y) = [x, y]"
| "event_objects (DeleteEvent x) = [x]"
| "event_objects (GenericEvent x) = [x]"

text \<open>The predicate has no function for generic events, which therefore pass.\<close>

fun filterByAPIVersionPredicate ::
    "APIVersion \<Rightarrow> (watched_object \<Rightarrow> APIVersion \<Rightarrow> bool) \<Rightarrow> watched_object event \<Rightarrow> bool" where
  "filterByAPIVersionPredicate version flt (CreateEvent x) = flt x version"
| "filterByAPIVersionPredicate version flt (UpdateEvent x y) = flt y version"
| "filterByAPIVersionPredicate version flt (DeleteEvent x) = flt x version"
| "filterByAPIVersionPredicate version flt (GenericEvent x) = True"

datatype ecr_event =
    OnRevision "EnvoyConfigRevision event"
  | OnSecret "K8sSecret event"
  | OnEndpointSlice "EndpointSlice event"

definition watched_event :: "ecr_event \<Rightarrow> watched_object event" where
  "watched_event ev =
     (case ev of OnRevision e \<Rightarrow> map_event RevisionObject e
      | OnSecret e \<Rightarrow> map_event (\<lambda>_. AnyObject) e
      | OnEndpointSlice e \<Rightarrow> map_event (\<lambda>_. AnyObject) e)"

text \<open>Whether an event asks the revision controller for a run of the given revision.\<close>

definition ECR_SetupWithManager ::
    "meta_ops \<Rightarrow> 'w kube_reads \<Rightarrow> APIVersion \<Rightarrow> ecr_event \<Rightarrow> EnvoyConfigRevision \<Rightarrow> bool" where
  "ECR_SetupWithManager m k version ev ecr =
     (filterByAPIVersionPredicate version filterByAPIVersion (watched_event ev) \<and>
      (case ev of
         OnRevision e \<Rightarrow> list_ex (\<lambda>x. key_of x = key_of ecr) (event_objects e)
       | OnSecret e \<Rightarrow> list_ex (\<lambda>secret. SecretsEventHandler m secret ecr) (event_objects e)
       | OnEndpointSlice e \<Rightarrow> list_ex (\<lambda>sl. EndpointSlicesEventHandler m k sl ecr) (event_objects e)))"

section \<open>Two states of the API server\<close>

definition change :: "'o option \<Rightarrow> 'o option \<Rightarrow> 'o event option" where
  "change old new =
     (case (old, new) of
        (None, None) \<Rightarrow> None
      | (None, Some y) \<Rightarrow> Some (CreateEvent y)
      | (Some x, None) \<Rightarrow> Some (DeleteEvent x)
      | (Some x, Some y) \<Rightarrow> if x = y then None else Some (UpdateEvent x y))"

lemma change_None_iff [simp]: "change old new = None \<longleftrightarrow> old = new"
  by (auto simp: change_def split: option.splits)

lemma change_objects:
  "change old new = Some e \<Longrightarrow> set (event_objects e) = set_option old \<union> set_option new"
  by (auto simp: change_def split: option.splits if_splits)

text \<open>The filter by API version lets the events on other objects than revisions pass.\<close>

lemma other_objects_pass [simp]:
  "filterByAPIVersionPredicate version filterByAPIVersion (map_event (\<lambda>_. AnyObject) e)"
  by (cases e) (simp_all add: filterByAPIVersion_def)

definition changes_between ::
    "('w \<Rightarrow> NamespacedName \<Rightarrow> K8sSecret option) \<Rightarrow> ('w \<Rightarrow> NamespacedName \<Rightarrow> EndpointSlice option) \<Rightarrow> string \<Rightarrow> 'w \<Rightarrow> 'w
     \<Rightarrow> ecr_event set" where
  "changes_between secretAt sliceAt ns w w' =
     {OnSecret e |e name. change (secretAt w (ns, name)) (secretAt w' (ns, name)) = Some e} \<union>
     {OnEndpointSlice e |e name. change (sliceAt w (ns, name)) (sliceAt w' (ns, name)) = Some e}"

text \<open>Two results of loading that lead to the same cache, the same report and the same decision
  about tainting: they are equal, or both are plain errors, which only cause a retry.\<close>

definition same_outcome :: "(goerror + 'v) \<times> 'c \<Rightarrow> (goerror + 'v) \<times> 'c \<Rightarrow> bool" where
  "same_outcome p q \<longleftrightarrow> p = q \<or> (snd p = snd q \<and> (\<exists>a b. fst p = Inl (PlainError a) \<and> fst q = Inl (PlainError b)))"

definition same_load :: "goerror + 'a \<Rightarrow> goerror + 'a \<Rightarrow> bool" where
  "same_load a b \<longleftrightarrow> a = b \<or> (\<exists>s t. a = Inl (PlainError s) \<and> b = Inl (PlainError t))"

lemma same_load_refl [simp]: "same_load a a" by (simp add: same_load_def)

lemma same_loadE:
  assumes "same_load a b"
  obtains "a = b" | s t where "a = Inl (PlainError s)" "b = Inl (PlainError t)"
  using assms by (auto simp: same_load_def)

definition matching :: "Selector \<Rightarrow> EndpointSlice option \<Rightarrow> EndpointSlice option" where
  "matching sel x = (case x of None \<Rightarrow> None | Some sl \<Rightarrow> if selMatches sel (esLabels sl) then Some sl else None)"

section \<open>The reads and the objects\<close>

locale kube_objects =
  fixes k :: "'w kube_reads"
    and secretAt :: "'w \<Rightarrow> NamespacedName \<Rightarrow> K8sSecret option"
    and sliceAt :: "'w \<Rightarrow> NamespacedName \<Rightarrow> EndpointSlice option"
  assumes get_found: "secretAt w key = Some s \<Longrightarrow> get_secret k w key = Inr s"
    and get_missing: "secretAt w key = None \<Longrightarrow> \<exists>t. get_secret k w key = Inl (StatusError StatusReasonNotFound t)"
    and secret_name: "secretAt w key = Some s \<Longrightarrow> secName s = snd key"
    and list_matching:
      "(\<And>name. matching sel (sliceAt w (ns, name)) = matching sel (sliceAt w' (ns, name))) \<Longrightarrow>
       list_slices k w ns sel = list_slices k w' ns sel"
begin

text \<open>No secret and no slice that a handler accepts for the revision changes.\<close>

definition unwatched :: "meta_ops \<Rightarrow> EnvoyConfigRevision \<Rightarrow> string \<Rightarrow> 'w \<Rightarrow> 'w \<Rightarrow> bool" where
  "unwatched m ecr ns w w' \<longleftrightarrow>
     (\<forall>ev \<in> changes_between secretAt sliceAt ns w w'. \<forall>version. \<not> ECR_SetupWithManager m k version ev ecr)"

lemma unwatched_secret:
  assumes "unwatched m ecr ns w w'" "secretAt w (ns, name) \<noteq> secretAt w' (ns, name)"
    and "secretAt w (ns, name) = Some s \<or> secretAt w' (ns, name) = Some s"
  shows "\<not> SecretsEventHandler m s ecr"
proof -
  obtain e where e: "change (secretAt w (ns, name)) (secretAt w' (ns, name)) = Some e"
    using assms(2) change_None_iff by (metis not_None_eq)
  then have "OnSecret e \<in> changes_between secretAt sliceAt ns w w'" by (auto simp: changes_between_def)
  with assms(1) have "\<not> list_ex (\<lambda>s. SecretsEventHandler m s ecr) (event_objects e)"
    by (auto simp: unwatched_def ECR_SetupWithManager_def watched_event_def)
  with change_objects [OF e] assms(3) show ?thesis by (auto simp: list_ex_iff)
qed

lemma unwatched_slice:
  assumes "unwatched m ecr ns w w'" "sliceAt w (ns, name) \<noteq> sliceAt w' (ns, name)"
    and "sliceAt w (ns, name) = Some s \<or> sliceAt w' (ns, name) = Some s"
  shows "\<not> EndpointSlicesEventHandler m k s ecr"
proof -
  obtain e where e: "change (sliceAt w (ns, name)) (sliceAt w' (ns, name)) = Some e"
    using assms(2) change_None_iff by (metis not_None_eq)
  then have "OnEndpointSlice e \<in> changes_between secretAt sliceAt ns w w'" by (auto simp: changes_between_def)
  with assms(1) have "\<not> list_ex (\<lambda>s. EndpointSlicesEventHandler m k s ecr) (event_objects e)"
    by (auto simp: unwatched_def ECR_SetupWithManager_def watched_event_def)
  with change_objects [OF e] assms(3) show ?thesis by (auto simp: list_ex_iff)
qed

text \<open>A secret that the revision refers to has then either not changed, or no version of it has a
  type that is ever loaded.\<close>

definition usable :: "K8sSecret option \<Rightarrow> bool" where
  "usable x = (case x of None \<Rightarrow> False | Some s \<Rightarrow> secType s = SecretTypeTLS \<or> secType s = SecretTypeOpaque)"

definition refers_to :: "Resource \<Rightarrow> string \<Rightarrow> bool" where
  "refers_to res name \<longleftrightarrow> resType res = Secret \<and>
     (resGenerateFromTlsSecret res = Some name \<or>
      (\<exists>sel. resGenerateFromOpaqueSecret res = Some sel \<and> sksName sel = name))"

lemma referred_secret:
  assumes "unwatched m ecr ns w w'" "published_true m ecr"
    and "res \<in> set (resource_list (ecrResources (ecrSpec ecr)))" "refers_to res name"
  shows "secretAt w (ns, name) = secretAt w' (ns, name) \<or>
         (\<not> usable (secretAt w (ns, name)) \<and> \<not> usable (secretAt w' (ns, name)))"
proof (rule disjCI)
  assume "\<not> (\<not> usable (secretAt w (ns, name)) \<and> \<not> usable (secretAt w' (ns, name)))"
  then obtain s where s: "secretAt w (ns, name) = Some s \<or> secretAt w' (ns, name) = Some s"
    and ty: "secType s = SecretTypeTLS \<or> secType s = SecretTypeOpaque"
    by (auto simp: usable_def split: option.splits)
  have "secName s = name" using s secret_name by fastforce
  with assms(2-4) ty have "SecretsEventHandler m s ecr"
    by (auto simp: SecretsEventHandler_def list_ex_iff refers_to_def split: option.splits)
  with unwatched_secret [OF assms(1) _ s] show "secretAt w (ns, name) = secretAt w' (ns, name)" by blast
qed

lemma get_secret_eq:
  assumes "secretAt w key = secretAt w' key"
  shows "get_secret k w key = get_secret k w' key \<or>
         (\<exists>s t. get_secret k w key = Inl s \<and> get_secret k w' key = Inl t)"
  using assms get_found [of w key] get_found [of w' key] get_missing [of w key] get_missing [of w' key]
  by (cases "secretAt w' key") auto

lemma get_secret_unusable:
  assumes "\<not> usable (secretAt w key)"
  shows "(\<exists>e. get_secret k w key = Inl e) \<or>
         (\<exists>s. get_secret k w key = Inr s \<and> secType s \<noteq> SecretTypeTLS \<and> secType s \<noteq> SecretTypeOpaque)"
  using assms get_found [of w key] get_missing [of w key] by (cases "secretAt w key") (auto simp: usable_def)

lemma load_secret_same:
  assumes "unwatched m ecr (fst req) w w'" "published_true m ecr" "resType res = Secret"
    and "res \<in> set (resource_list (ecrResources (ecrSpec ecr)))"
  shows "same_load (load_secret k w req idx res) (load_secret k w' req idx res)"
proof -
  have cases: "get_secret k w (fst req, name) = get_secret k w' (fst req, name) \<or>
      (((\<exists>e. get_secret k w (fst req, name) = Inl e) \<or> (\<exists>s. get_secret k w (fst req, name) = Inr s \<and>
           secType s \<noteq> SecretTypeTLS \<and> secType s \<noteq> SecretTypeOpaque)) \<and>
       ((\<exists>e. get_secret k w' (fst req, name) = Inl e) \<or> (\<exists>s. get_secret k w' (fst req, name) = Inr s \<and>
           secType s \<noteq> SecretTypeTLS \<and> secType s \<noteq> SecretTypeOpaque)))"
    if "refers_to res name" for name
    using referred_secret [OF assms(1,2,4) that] get_secret_eq [of w "(fst req, name)" w']
      get_secret_unusable [of w "(fst req, name)"] get_secret_unusable [of w' "(fst req, name)"] by blast
  show ?thesis
  proof (cases "resGenerateFromTlsSecret res")
    case (Some name)
    with assms(3) cases [of name] show ?thesis
      by (auto simp: load_secret_def same_load_def refers_to_def)
  next
    case None
    show ?thesis
    proof (cases "resGenerateFromOpaqueSecret res")
      case (Some sel)
      with None assms(3) cases [of "sksName sel"] show ?thesis
        by (auto simp: load_secret_def same_load_def refers_to_def)
    qed (simp add: load_secret_def None)
  qed
qed

lemma discover_same:
  assumes "unwatched m ecr ns w w'" "published_true m ecr" "resType res = Endpoint"
    and "res \<in> set (resource_list (ecrResources (ecrSpec ecr)))" "resGenerateFromEndpointSlices res = Some ges"
  shows "discover_Endpoints k w ns c p (gesSelector ges) = discover_Endpoints k w' ns c p (gesSelector ges)"
proof (cases "LabelSelectorAsSelector k (gesSelector ges)")
  case (Inr sel)
  have handler: "EndpointSlicesEventHandler m k s ecr" if "selMatches sel (esLabels s)" for s
    using assms(2-5) Inr that by (auto simp: EndpointSlicesEventHandler_def list_ex_iff intro!: bexI [of _ res])
  have "matching sel (sliceAt w (ns, name)) = matching sel (sliceAt w' (ns, name))" for name
  proof (cases "sliceAt w (ns, name) = sliceAt w' (ns, name)")
    case False
    have "\<not> selMatches sel (esLabels s)" if "sliceAt w (ns, name) = Some s \<or> sliceAt w' (ns, name) = Some s" for s
      using unwatched_slice [OF assms(1) False that] handler by blast
    then show ?thesis by (auto simp: matching_def split: option.splits)
  qed simp
  then have "list_slices k w ns sel = list_slices k w' ns sel" by (rule list_matching)
  then show ?thesis by (simp add: discover_Endpoints_def Inr)
qed (simp add: discover_Endpoints_def)

lemma load_resource_same:
  assumes "unwatched m ecr (fst req) w w'" "published_true m ecr"
    and "res \<in> set (resource_list (ecrResources (ecrSpec ecr)))"
  shows "same_load (load_resource k w decoder req idx res) (load_resource k w' decoder req idx res)"
proof -
  consider (secret) "resType res = Secret" | (endpoint) "resType res = Endpoint"
    | (other) "resType res \<noteq> Secret" "resType res \<noteq> Endpoint" by blast
  then show ?thesis
  proof cases
    case secret
    with load_secret_same [OF assms(1,2) secret assms(3), of idx] show ?thesis
      by (auto simp: load_resource_def same_load_def)
  next
    case endpoint
    with discover_same [OF assms(1,2) endpoint assms(3)] show ?thesis
      by (auto simp: load_resource_def load_endpoint_def split: option.splits)
  next
    case other
    then show ?thesis by (cases "resType res") (simp_all add: load_resource_def)
  qed
qed

lemma load_resources_same:
  assumes "unwatched m ecr (fst req) w w'" "published_true m ecr"
    and "set rs \<subseteq> set (resource_list (ecrResources (ecrSpec ecr)))"
  shows "same_load (load_resources k w decoder req idx rs loaded) (load_resources k w' decoder req idx rs loaded)"
  using assms(3)
proof (induction rs arbitrary: idx loaded)
  case (Cons res rs)
  then have res: "res \<in> set (resource_list (ecrResources (ecrSpec ecr)))"
    and rs: "set rs \<subseteq> set (resource_list (ecrResources (ecrSpec ecr)))" by simp_all
  show ?case
    using load_resource_same [OF assms(1,2) res, of decoder idx]
    by (auto elim!: same_loadE simp: same_load_def [of "Inl _"] Cons.IH [OF rs] split: sum.splits)
qed simp

lemma reconcile_same:
  assumes "unwatched m ecr (fst req) w w'" "published_true m ecr"
  defines "resources \<equiv> resource_list (ecrResources (ecrSpec ecr))"
  shows "same_outcome (CacheReconciler_Reconcile S C k w decoder req resources node c)
           (CacheReconciler_Reconcile S C k w' decoder req resources node c)"
proof -
  have "same_load (load_resources k w decoder req 0 resources []) (load_resources k w' decoder req 0 resources [])"
    using load_resources_same [OF assms(1,2)] by (simp add: resources_def)
  then show ?thesis
    by (elim same_loadE) (simp_all add: same_outcome_def CacheReconciler_Reconcile_def GenerateSnapshot_def)
qed

end

section \<open>A reference API server\<close>

text \<open>Objects by name; a list is ordered by name.\<close>

record kube_store =
  ksSecrets :: "(NamespacedName \<times> K8sSecret) list"
  ksSlices :: "(NamespacedName \<times> EndpointSlice) list"

definition store_secret :: "kube_store \<Rightarrow> NamespacedName \<Rightarrow> K8sSecret option" where
  "store_secret w key = (case map_of (ksSecrets w) key of None \<Rightarrow> None | Some s \<Rightarrow> Some (s\<lparr> secName := snd key \<rparr>))"

definition store_slice :: "kube_store \<Rightarrow> NamespacedName \<Rightarrow> EndpointSlice option" where
  "store_slice w key = map_of (ksSlices w) key"

definition slice_names :: "kube_store \<Rightarrow> string \<Rightarrow> Selector \<Rightarrow> string list" where
  "slice_names w ns sel =
     sort (filter (\<lambda>n. matching sel (store_slice w (ns, n)) \<noteq> None) (remdups (map (snd \<circ> fst) (ksSlices w))))"

definition store_kube :: "(LabelSelector option \<Rightarrow> goerror + Selector) \<Rightarrow> kube_store kube_reads" where
  "store_kube selector = \<lparr>
     get_secret = (\<lambda>w key. case store_secret w key of None \<Rightarrow> Inl (StatusError StatusReasonNotFound (snd key)) | Some s \<Rightarrow> Inr s),
     list_slices = (\<lambda>w ns sel. Inr (map (\<lambda>n. the (matching sel (store_slice w (ns, n)))) (slice_names w ns sel))),
     LabelSelectorAsSelector = selector, err_text = (\<lambda>e. ''error'') \<rparr>"

lemma set_slice_names: "set (slice_names w ns sel) = {n. matching sel (store_slice w (ns, n)) \<noteq> None}"
proof -
  have "n \<in> (snd \<circ> fst) ` set (ksSlices w)" if "matching sel (store_slice w (ns, n)) \<noteq> None" for n
    using that by (force simp: matching_def store_slice_def split: option.splits dest: map_of_SomeD)
  then show ?thesis by (auto simp: slice_names_def)
qed

lemma slice_names_eq:
  assumes "\<And>n. matching sel (store_slice w (ns, n)) = matching sel (store_slice w' (ns, n))"
  shows "slice_names w ns sel = slice_names w' ns sel"
proof (rule sorted_distinct_set_unique)
  show "set (slice_names w ns sel) = set (slice_names w' ns sel)" by (simp add: set_slice_names assms)
qed (simp_all add: slice_names_def)

interpretation storeKube: kube_objects "store_kube selector" store_secret store_slice for selector
proof unfold_locales
  fix sel w ns w'
  assume "\<And>name. matching sel (store_slice w (ns, name)) = matching sel (store_slice w' (ns, name))"
  with slice_names_eq [of sel w ns w'] show "list_slices (store_kube selector) w ns sel = list_slices (store_kube selector) w' ns sel"
    by (simp add: store_kube_def)
qed (auto simp: store_kube_def store_secret_def split: option.splits)

section \<open>The property\<close>

text \<open>(C12) No relevant change goes unnoticed: when loading a published revision would come to another
  outcome after secrets and endpoint slices of its namespace have changed (another cache, other
  versions, another decision about tainting), then one of the changes is an event that asks the
  revision controller for a run of this revision.\<close>

theorem relevant_changes_are_watched:
  assumes "kube_objects k secretAt sliceAt" "published_true m ecr"
    and "\<not> same_outcome
           (CacheReconciler_Reconcile S C k w decoder req (resource_list (ecrResources (ecrSpec ecr))) node c)
           (CacheReconciler_Reconcile S C k w' decoder req (resource_list (ecrResources (ecrSpec ecr))) node c)"
  shows "\<exists>ev \<in> changes_between secretAt sliceAt (fst req) w w'. ECR_SetupWithManager m k version ev ecr"
proof (rule ccontr)
  assume none: "\<not> ?thesis"
  have "ECR_SetupWithManager m k version ev ecr"
    if "ev \<in> changes_between secretAt sliceAt (fst req) w w'" "ECR_SetupWithManager m k version' ev ecr" for ev version'
    using that by (auto simp: changes_between_def ECR_SetupWithManager_def watched_event_def)
  with none have "kube_objects.unwatched k secretAt sliceAt m ecr (fst req) w w'"
    unfolding kube_objects.unwatched_def [OF assms(1)] by blast
  from assms(3) kube_objects.reconcile_same [OF assms(1) this assms(2)] show False by (rule notE)
qed

definition any_selector :: "LabelSelector option \<Rightarrow> goerror + Selector" where
  "any_selector ls = Inr \<lparr> selMatches = (\<lambda>l. True), selString = [] \<rparr>"

definition secret_revision :: EnvoyConfigRevision where
  "secret_revision = sample_ecr\<lparr> ecrSpec := (ecrSpec sample_ecr)\<lparr> ecrResources := Some sample_resources \<rparr> \<rparr>"

definition store_without :: kube_store where
  "store_without = \<lparr> ksSecrets = [], ksSlices = [] \<rparr>"

definition store_with :: kube_store where
  "store_with = \<lparr> ksSecrets = [((''ns'', ''cert''), \<lparr> secName = ''cert'', secType = SecretTypeTLS, secData = [] \<rparr>)], ksSlices = [] \<rparr>"

theorem relevant_changes_are_watched_witness:
  "\<exists>ev \<in> changes_between store_secret store_slice ''ns'' store_without store_with.
     ECR_SetupWithManager meta_list (store_kube any_selector) APIv3 ev secret_revision"
proof -
  let ?run = "\<lambda>w. CacheReconciler_Reconcile (v3_Snapshot sample_xds) (v3_Cache sample_xds sample_gcp) (store_kube any_selector) w
     sample_decoder (''ns'', ''r'') (resource_list (ecrResources (ecrSpec secret_revision))) ''node'' []"
  have "is_error (fst (?run store_without))" "\<not> is_error (fst (?run store_with))" by code_simp+
  then have "\<not> same_outcome (?run store_without) (?run store_with)" by (auto simp: same_outcome_def)
  moreover have "published_true meta_list secret_revision" by code_simp
  ultimately show ?thesis
    using relevant_changes_are_watched [OF storeKube.kube_objects_axioms, of meta_list secret_revision] by fastforce
qed

section \<open>The other controllers\<close>

datatype kind =
    DeploymentKind | ServiceKind | ServiceAccountKind | RoleKind | RoleBindingKind | PDBKind | HPAKind | SecretKind
  | CertificateKind | DiscoveryServiceKind | EnvoyDeploymentKind | EnvoyConfigKind | EnvoyConfigRevisionKind

record controller_setup =
  csFor :: kind
  csOwns :: "kind list"
  csWatches :: "kind list"

definition EC_SetupWithManager :: controller_setup where
  "EC_SetupWithManager = \<lparr> csFor = EnvoyConfigKind, csOwns = [EnvoyConfigRevisionKind], csWatches = [] \<rparr>"

definition DSC_SetupWithManager :: controller_setup where
  "DSC_SetupWithManager = \<lparr> csFor = CertificateKind, csOwns = [SecretKind], csWatches = [CertificateKind] \<rparr>"

definition DS_SetupWithManager :: controller_setup where
  "DS_SetupWithManager = \<lparr> csFor = DiscoveryServiceKind,
     csOwns = [DeploymentKind, ServiceKind, RoleKind, RoleBindingKind, ServiceAccountKind, CertificateKind], csWatches = [] \<rparr>"

definition ED_SetupWithManager :: controller_setup where
  "ED_SetupWithManager = \<lparr> csFor = EnvoyDeploymentKind,
     csOwns = [DeploymentKind, CertificateKind, PDBKind, HPAKind], csWatches = [EnvoyConfigKind, DiscoveryServiceKind] \<rparr>"

definition owned_kind :: "OwnedObject \<Rightarrow> kind" where
  "owned_kind ob =
     (case ob of OwnedCertificate _ \<Rightarrow> CertificateKind | OwnedServiceAccount _ \<Rightarrow> ServiceAccountKind
      | OwnedRole _ \<Rightarrow> RoleKind | OwnedRoleBinding _ \<Rightarrow> RoleBindingKind | OwnedService _ \<Rightarrow> ServiceKind
      | OwnedDeployment _ \<Rightarrow> DeploymentKind | OwnedHPA _ \<Rightarrow> HPAKind | OwnedPDB _ \<Rightarrow> PDBKind)"

text \<open>The operator owns and watches what it creates: every kind of object that the two controllers
  generate is one whose changes lead to another run, and no kind is watched that is not generated.\<close>

theorem generated_kinds_are_owned:
  "set (map (owned_kind \<circ> tplObject) (DS_templates gen h)) = set (csOwns DS_SetupWithManager)"
  "set (map (owned_kind \<circ> tplObject) (ED_templates q i ed gen')) = set (csOwns ED_SetupWithManager)"
  by (auto simp: DS_templates_def ED_templates_def template_def owned_kind_def DS_SetupWithManager_def ED_SetupWithManager_def)

text \<open>A renewed root certificate reaches the certificates it has signed: the change of its status is
  an event for the server and client certificates of the discovery service, always, and for the
  client certificate of an \<open>EnvoyDeployment\<close> exactly when the name of the root secret is not
  configured to another one than is generated.\<close>

theorem root_renewal_is_noticed:
  fixes i ds
  defines "issuer \<equiv> dscDefaulter (RootCertificationAuthority (DS_options i ds))"
  shows "issuer_changed issuer (dscDefaulter (DS_ServerCertificate (DS_options i ds)))"
    and "issuer_changed issuer (dscDefaulter (DS_ClientCertificate (DS_options i ds)))"
    and "issuer_changed issuer (dscDefaulter (ED_ClientCertificate (ED_options ed ds ec))) \<longleftrightarrow>
         coSecretName (GetRootCertificateAuthorityOptions ds) = RootCertName (DS_options i ds)"
  by (auto simp: issuer_def issuer_changed_def dscDefaulter_def DSC_Default_def DSC_IsCA_def Let_def
      RootCertificationAuthority_def DS_ServerCertificate_def DS_ClientCertificate_def ED_ClientCertificate_def
      certificate_resource_def ca_signed_def ED_options_def)

end
