(* ===== verification/OverlappingRuns.thy ===== *)
theory OverlappingRuns
  imports ControlLoop
begin

text \<open>
  Runs that overlap. In \<open>ControlLoop\<close> a run of the revision controller is one step; here it is
  two: it gets its object, and later, after other runs and changes, it finishes with the object it
  got. The status may then be out of date. Its writes are weaker than those of \<open>control_system\<close>: the
  taint is a merge patch, which is not refused when the object has changed since
  (\<open>taintSelf\<close>, without an optimistic lock).

  Shown is what goes wrong (two revisions of a node can be published at the same time) and what
  does not: names and versions stay in order, and the next finished run of the revision
  reconciler publishes exactly one version again.
\<close>

section \<open>The rest of a run\<close>

definition finish_revision ::
    "('w, 'st, 'c, 's) controller_env \<Rightarrow> Time \<Rightarrow> NamespacedName \<Rightarrow> EnvoyConfigRevision \<Rightarrow> 'w \<times> 'st \<times> 'c
     \<Rightarrow> (CtrlResult \<times> goerror option) \<times> ('w \<times> 'st \<times> 'c)" where
  "finish_revision E now req ecr0 s =
     ECR_Reconcile (e_urls E) (e_snapshot E) (e_cache E) (e_meta E) (e_codec E) (e_reads E) (e_writes E) (e_kv E)
       (\<lambda>state _ _ _ _. (Inr ecr0, state)) now req s"

definition start_revision ::
    "('w, 'st, 'c, 's) controller_env \<Rightarrow> NamespacedName \<Rightarrow> 'w \<times> 'st \<times> 'c
     \<Rightarrow> ((CtrlResult \<times> goerror option) + EnvoyConfigRevision) \<times> ('w \<times> 'st \<times> 'c)" where
  "start_revision E req s =
     e_manageRevision E s req ECR_Default (ECR_convert_resources (e_codec E)) (CleanupLogic (e_meta E) (e_kv E) (e_cache E))"

text \<open>Without anything in between the two halves are a run.\<close>

lemma run_revision_halves:
  "run_revision E now req s =
     (case start_revision E req s of (Inl values, s') \<Rightarrow> (values, s') | (Inr ecr, s') \<Rightarrow> finish_revision E now req ecr s')"
  by (simp add: run_revision_def ECR_Reconcile_def start_revision_def finish_revision_def split: prod.split sum.split)

text \<open>The state of a system with overlapping runs has the runs that have started, each with its
  object.\<close>

inductive overlap_step ::
    "('w, 'st, 'c, 's) controller_env \<Rightarrow> ('w \<Rightarrow> EnvoyConfigRevision list)
     \<Rightarrow> ('w \<times> 'st \<times> 'c) \<times> (NamespacedName \<times> EnvoyConfigRevision) list
     \<Rightarrow> ('w \<times> 'st \<times> 'c) \<times> (NamespacedName \<times> EnvoyConfigRevision) list \<Rightarrow> bool"
  for E stored where
  config_run: "run_config E req w = (res, w') \<Longrightarrow> overlap_step E stored ((w, st, c), runs) ((w', st, c), runs)"
| starts: "start_revision E req s = (Inr ecr, s') \<Longrightarrow> overlap_step E stored (s, runs) (s', (req, ecr) # runs)"
| returns: "start_revision E req s = (Inl values, s') \<Longrightarrow> overlap_step E stored (s, runs) (s', runs)"
| finishes: "(req, ecr) \<in> set runs \<Longrightarrow> finish_revision E now req ecr s = (res, s') \<Longrightarrow>
    overlap_step E stored (s, runs) (s', remove1 (req, ecr) runs)"
| environment: "stored w' = stored w \<Longrightarrow> overlap_step E stored ((w, st, c), runs) ((w', st', c'), runs)"

inductive overlap_reachable ::
    "('w, 'st, 'c, 's) controller_env \<Rightarrow> ('w \<Rightarrow> EnvoyConfigRevision list)
     \<Rightarrow> ('w \<times> 'st \<times> 'c) \<times> (NamespacedName \<times> EnvoyConfigRevision) list \<Rightarrow> bool"
  for E stored where
  initial: "stored w = [] \<Longrightarrow> overlap_reachable E stored ((w, st, c), [])"
| step: "overlap_reachable E stored s \<Longrightarrow> overlap_step E stored s s' \<Longrightarrow> overlap_reachable E stored s'"

inductive_cases overlap_stepE: "overlap_step E stored ((w, st, c), runs) s'"

section \<open>What is kept\<close>

lemma names_from:
  assumes "revision_names ec l" "distinct (map key_of l')"
    and "\<And>x. x \<in> set l' \<Longrightarrow> \<exists>y \<in> set l. key_of y = key_of x \<and> Labels (ecrMeta y) = Labels (ecrMeta x) \<and> version_of y = version_of x"
  shows "revision_names ec l'"
proof -
  have "Name (ecrMeta x) = revision_name ec (version_of x)"
    if x: "x \<in> set l'" "matches (node_selector ec) (Namespace (ecMeta ec)) x" for x
  proof -
    obtain y where y: "y \<in> set l" "key_of y = key_of x" "Labels (ecrMeta y) = Labels (ecrMeta x)" "version_of y = version_of x"
      using assms(3) [OF x(1)] by blast
    have "matches (node_selector ec) (Namespace (ecMeta ec)) y" using x(2) matches_key_labels [OF y(2,3)] by blast
    then have "Name (ecrMeta y) = revision_name ec (version_of y)"
      using assms(1) y(1) unfolding revision_names_def list_all_iff by blast
    with y(2,4) show ?thesis by (simp add: object_key_def)
  qed
  with assms(2) show ?thesis by (simp add: revision_names_def list_all_iff)
qed

lemma names_from_objects:
  assumes "revision_names ec l" "distinct (map key_of l')"
    and "\<And>x. x \<in> set l' \<Longrightarrow> \<exists>y \<in> set l. ecrMeta y = ecrMeta x \<and> ecrSpec y = ecrSpec x"
  shows "revision_names ec l'"
  by (rule names_from [OF assms(1,2)]) (metis assms(3))

lemma names_of_shape:
  assumes "shape l' = shape l" "revision_names ec l"
  shows "revision_names ec l'"
proof (rule names_from_objects [OF assms(2)])
  have "map key_of l' = map key_of l" by (simp only: keys_of_shape assms(1))
  then show "distinct (map key_of l')" using assms(2) by (simp add: revision_names_def)
  show "\<exists>y \<in> set l. ecrMeta y = ecrMeta x \<and> ecrSpec y = ecrSpec x" if "x \<in> set l'" for x
    using that by (rule shape_eq_obtain [OF assms(1)]) blast
qed

lemma revision_name_cong:
  "ecNodeID (ecSpec ec) = ecNodeID (ecSpec ec') \<Longrightarrow> revision_name ec v = revision_name ec' v"
  by (simp add: revision_name_def APIVersion_String_def)

context revision_api
begin

lemma Reconcile_keeps_names:
  assumes names: "\<And>ec'. revision_names ec' (stored w)"
  shows "revision_names ec' (stored (snd (snd (Reconcile hash m setOwner c (NewRevisionReconciler ec) w))))"
proof (cases rule: Reconcile_cases [of hash m setOwner c ec w])
  case (error err)
  with names show ?thesis by simp
next
  case create
  show ?thesis
  proof (cases rule: create_cases [of "GetEnvoyResourcesVersion hash ec" "started hash ec" w])
    case none
    with names create show ?thesis by simp
  next
    case (added e')
    note new = new_revision_sel [OF added(2)]
    have "key_of e' \<notin> key_of ` set (stored w)" using added(2,3) by (simp add: created_from_def)
    moreover have "Name (ecrMeta e') = revision_name ec' (version_of e')"
      if "matches (node_selector ec') (Namespace (ecMeta ec')) e'"
      using matches_node [OF new(3) that] revision_name_cong [of ec ec'] added(2)
      by (simp add: created_from_def newRevisionForCurrentResources_def object_key_def revision_name_def)
    ultimately show ?thesis using names [of ec'] create(1) added(1) by (auto simp: revision_names_def)
  qed
next
  case (applied e list)
  note old = apply_from [OF listed_of_names [OF names applied(3)]]
  show ?thesis
    unfolding applied(1) by (rule names_from_objects [OF names [of ec']]) (use old in blast)+
qed

end

text \<open>What the environment promises when runs overlap: a status write changes no more than statuses.\<close>

locale overlapping_system = revision_api "e_meta E" "e_revisions E" stored "e_setOwner E"
  for E :: "('w, 'st, 'c, 's) controller_env" and stored :: "'w \<Rightarrow> EnvoyConfigRevision list" +
  assumes config_lifecycle: "stored (snd (e_manageConfig E w req f0 g0)) = stored w"
    and config_status: "stored (snd (e_updateConfig E w ec)) = stored w"
    and revision_lifecycle:
      "e_manageRevision E (w, st, c) req f g h = (res, (w', st', c')) \<Longrightarrow> distinct (map key_of (stored w)) \<Longrightarrow>
         distinct (map key_of (stored w')) \<and> (\<forall>x \<in> set (stored w'). \<exists>y \<in> set (stored w). initialised f y x)"
    and patch_shape: "shape (stored (snd (patch_status (e_writes E) w e e'))) = shape (stored w)"
    and status_shape: "shape (stored (snd (update_status (e_writes E) w e))) = shape (stored w)"
begin

lemma config_keeps_names:
  assumes "\<And>ec. revision_names ec (stored w)" "run_config E req w = (res, w')"
  shows "revision_names ec (stored w')"
proof -
  obtain r w1 where man: "e_manageConfig E w req EC_Default (convert_resources (e_codec E)) = (r, w1)" by fastforce
  have st1: "stored w1 = stored w" using config_lifecycle [of w req EC_Default "convert_resources (e_codec E)"] man by simp
  show ?thesis
  proof (cases r)
    case (Inl a)
    with assms man st1 show ?thesis by (auto simp: run_config_def EnvoyConfigReconciler_Reconcile_def)
  next
    case (Inr ec')
    obtain rr ctrl err w2 where rec: "Reconcile (e_hash E) (e_meta E) (e_setOwner E) (e_revisions E) (NewRevisionReconciler ec') w1 =
        (rr, (ctrl, err), w2)" by (metis prod.collapse)
    have "revision_names ec (stored w2)" using Reconcile_keeps_names [of w1 ec "e_hash E" ec'] assms(1) by (simp add: rec st1)
    moreover have "stored (snd (run_config E req w)) = stored w2"
      using config_status
      by (auto simp: run_config_def EnvoyConfigReconciler_Reconcile_def man Inr rec Let_def split: sum.split option.split prod.split)
         (metis snd_conv)+
    ultimately show ?thesis using assms(2) by simp
  qed
qed

lemma start_keeps_names:
  assumes "revision_names ec (stored w)" "start_revision E req (w, st, c) = (res, (w', st', c'))"
  shows "revision_names ec (stored w')"
proof -
  have dist: "distinct (map key_of (stored w))" using assms(1) by (simp add: revision_names_def)
  note life = revision_lifecycle [OF assms(2) [unfolded start_revision_def] dist]
  show ?thesis
    by (rule names_from [OF assms(1)]) (use life in \<open>fastforce simp: initialised_def ECR_Default_def\<close>)+
qed

lemma taint_shape: "shape (stored (snd (snd (taintSelf (e_meta E) (e_writes E) ecr reason msg w)))) = shape (stored w)"
  using patch_shape [of w ecr "tainted_revision (e_meta E) reason msg ecr"]
  by (auto simp: taintSelf_def Let_def split: prod.splits)

lemma load_shape:
  "load_published S C (e_meta E) d k (e_writes E) req ecr w c = (r, ecr', w', c') \<Longrightarrow> shape (stored w') = shape (stored w)"
  using taint_shape [of ecr _ _ w]
  by (auto simp: load_published_def split: if_splits prod.splits sum.splits goerror.splits option.splits) (metis snd_conv)+

lemma finish_shape:
  assumes "finish_revision E now req ecr (w, st, c) = (res, (w', st', c'))"
  shows "shape (stored w') = shape (stored w)"
proof -
  obtain lr ecr1 w1 c1 where load: "load_published (e_snapshot E) (e_cache E) (e_meta E) (e_codec E) (e_reads E) (e_writes E) req
      ecr w c = (lr, ecr1, w1, c1)" by (metis prod.collapse)
  have "stored w' = stored w1 \<or> (\<exists>e. w' = snd (update_status (e_writes E) w1 e))"
    using assms by (auto simp: finish_revision_def ECR_Reconcile_def load Let_def split: sum.splits prod.splits if_splits)
  with load_shape [OF load] status_shape show ?thesis by metis
qed

lemma reachable_names: "overlap_reachable E stored s \<Longrightarrow> revision_names ec (stored (fst (fst s)))"
proof (induction arbitrary: ec rule: overlap_reachable.induct)
  case (initial w st c)
  then show ?case by (simp add: revision_names_def)
next
  case (step s s')
  obtain w st c runs where s: "s = ((w, st, c), runs)" by (metis prod.collapse)
  obtain w' st' c' runs' where s': "s' = ((w', st', c'), runs')" by (metis prod.collapse)
  note names = step.IH [unfolded s fst_conv]
  from step.hyps(2) [unfolded s] show ?case
    by (rule overlap_stepE)
      (use names s' config_keeps_names [OF names] start_keeps_names [OF names] names_of_shape [OF finish_shape names] in auto)
qed

end

sublocale control_system \<subseteq> overlapping: overlapping_system E stored
proof unfold_locales
  show "shape (stored (snd (patch_status (e_writes E) w e e'))) = shape (stored w)" for w e e'
    using patch_effect [of w e e'] by (elim insertE emptyE) simp_all
  show "shape (stored (snd (update_status (e_writes E) w e))) = shape (stored w)" for w e
    using status_effect [of w e] by (elim insertE emptyE) simp_all
qed (fact config_lifecycle config_status revision_lifecycle)+

section \<open>An executable system with merge patches\<close>

text \<open>A JSON merge patch holds what differs between the two objects, lists as a whole.\<close>

definition merged :: "'a \<Rightarrow> 'a \<Rightarrow> 'a \<Rightarrow> 'a" where
  "merged old new cur = (if new = old then cur else new)"

definition merge_status ::
    "EnvoyConfigRevisionStatus \<Rightarrow> EnvoyConfigRevisionStatus \<Rightarrow> EnvoyConfigRevisionStatus \<Rightarrow> EnvoyConfigRevisionStatus" where
  "merge_status old new cur = \<lparr>
     ecrPublished = merged (ecrPublished old) (ecrPublished new) (ecrPublished cur),
     ecrProvidesVersions = merged (ecrProvidesVersions old) (ecrProvidesVersions new) (ecrProvidesVersions cur),
     ecrLastPublishedAt = merged (ecrLastPublishedAt old) (ecrLastPublishedAt new) (ecrLastPublishedAt cur),
     ecrTainted = merged (ecrTainted old) (ecrTainted new) (ecrTainted cur),
     ecrConditions = merged (ecrConditions old) (ecrConditions new) (ecrConditions cur) \<rparr>"

definition merge_patch ::
    "EnvoyConfigRevision \<Rightarrow> EnvoyConfigRevision \<Rightarrow> EnvoyConfigRevision list \<Rightarrow> EnvoyConfigRevision list" where
  "merge_patch old new l =
     map (\<lambda>e. if key_of e = key_of new then e\<lparr> ecrStatus := merge_status (ecrStatus old) (ecrStatus new) (ecrStatus e) \<rparr> else e) l"

text \<open>The world is a configuration and the revisions.\<close>

type_synonym config_world = "EnvoyConfig \<times> EnvoyConfigRevision list"

definition on_revisions :: "('r \<Rightarrow> EnvoyConfigRevision list \<Rightarrow> 'x \<times> EnvoyConfigRevision list) \<Rightarrow> config_world \<Rightarrow> 'r \<Rightarrow> 'x \<times> config_world" where
  "on_revisions f w arg = (case f arg (snd w) of (x, l) \<Rightarrow> (x, (fst w, l)))"

lemma on_revisions_sel [simp]: "fst (on_revisions f w arg) = fst (f arg (snd w))" "snd (snd (on_revisions f w arg)) = snd (f arg (snd w))"
  by (simp_all add: on_revisions_def split: prod.split)

definition world_api :: "config_world ecr_client" where
  "world_api = \<lparr> list_ecr = (\<lambda>w. list_ecr list_api (snd w)),
     create_ecr = on_revisions (\<lambda>e l. create_ecr list_api l e),
     update_status_ecr = on_revisions (\<lambda>e l. update_status_ecr list_api l e),
     delete_ecr = on_revisions (\<lambda>e l. delete_ecr list_api l e) \<rparr>"

definition world_lifecycle :: "(config_world, 'st, 'c) ecr_lifecycle" where
  "world_lifecycle = (\<lambda>(w, st, c) req f g h.
     case revision_lifecycle_list (snd w, st, c) req f g h of (r, (l, st', c')) \<Rightarrow> (r, ((fst w, l), st', c')))"

definition merge_env :: "resources_hash \<Rightarrow> (config_world, kv_state, (string \<times> v3snapshot) list, v3snapshot) controller_env" where
  "merge_env hash = \<lparr> e_hash = hash, e_codec = failing_codec, e_meta = meta_list, e_setOwner = keep_owner,
     e_manageConfig = (\<lambda>w req f g. case config_lifecycle_of (fst w) (snd w) req f g of (r, l) \<Rightarrow> (r, (fst w, l))),
     e_revisions = world_api, e_updateConfig = (\<lambda>w ec. (None, w)),
     e_urls = sample_urls, e_snapshot = v3_Snapshot sample_xds, e_cache = v3_Cache sample_xds sample_gcp,
     e_reads = \<lparr> get_secret = (\<lambda>w. get_secret sample_kube ()), list_slices = (\<lambda>w. list_slices sample_kube ()),
       LabelSelectorAsSelector = LabelSelectorAsSelector sample_kube, err_text = err_text sample_kube \<rparr>,
     e_writes = \<lparr> patch_status = (\<lambda>w a b. (None, (fst w, merge_patch a b (snd w)))),
                  update_status = (\<lambda>w a. (None, (fst w, put_status a (snd w)))) \<rparr>,
     e_kv = kv_list, e_manageRevision = world_lifecycle \<rparr>"

lemma merge_env_sel [simp]:
  "e_meta (merge_env hash) = meta_list" "e_revisions (merge_env hash) = world_api" "e_setOwner (merge_env hash) = keep_owner"
  "e_updateConfig (merge_env hash) w ec = (None, w)" "e_manageRevision (merge_env hash) = world_lifecycle"
  "snd (snd (e_manageConfig (merge_env hash) w req f g)) = snd (config_lifecycle_of (fst w) (snd w) req f g)"
  "snd (patch_status (e_writes (merge_env hash)) w a b) = (fst w, merge_patch a b (snd w))"
  "snd (update_status (e_writes (merge_env hash)) w a) = (fst w, put_status a (snd w))"
  by (simp_all add: merge_env_def split: prod.split)

interpretation worldApi: revision_api meta_list world_api snd keep_owner
proof unfold_locales
  fix w e
  show "(\<exists>e'. created_from e e' \<and> key_of e \<notin> key_of ` set (snd w) \<and> snd (snd (create_ecr world_api w e)) = snd w @ [e']) \<or>
      fst (create_ecr world_api w e) \<noteq> None \<and> snd (snd (create_ecr world_api w e)) = snd w"
    using listApi.create_effect [of e "snd w"] by (simp add: world_api_def)
qed (use listApi.update_effect listApi.delete_effect listApi.list_current in \<open>auto simp: world_api_def keep_owner_def\<close>)

interpretation mergeSystem: overlapping_system "merge_env hash" snd for hash
proof (rule overlapping_system.intro, simp add: worldApi.revision_api_axioms, rule overlapping_system_axioms.intro)
  fix w w' :: config_world and st st' :: kv_state and c c' :: "(string \<times> v3snapshot) list" and req f g h res
  assume man: "e_manageRevision (merge_env hash) (w, st, c) req f g h = (res, w', st', c')" and dist: "distinct (map key_of (snd w))"
  obtain l where "revision_lifecycle_list (snd w, st, c) req f g h = (res, (l, st', c'))" "w' = (fst w, l)"
    using man by (auto simp: world_lifecycle_def split: prod.splits)
  with listSystem.revision_lifecycle [of sample_config hash "snd w" st c req f g h res l st' c'] dist
  show "distinct (map key_of (snd w')) \<and> (\<forall>x \<in> set (snd w'). \<exists>y \<in> set (snd w). initialised f y x)" by simp
next
  fix w e e'
  show "shape (snd (snd (patch_status (e_writes (merge_env hash)) w e e'))) = shape (snd w)"
    by (simp add: shape_def merge_patch_def)
qed (simp_all add: config_lifecycle_of_def split: sum.split)

section \<open>Two published revisions\<close>

definition two_hash :: resources_hash where "two_hash rs = (if rs = Some [] then ''a'' else ''b'')"

definition bad_config :: EnvoyConfig where
  "bad_config = sample_config\<lparr> ecSpec := (ecSpec sample_config)\<lparr> ecResources := Some [bad_cluster] \<rparr> \<rparr>"

definition config_runs :: "EnvoyConfig \<Rightarrow> nat \<Rightarrow> EnvoyConfigRevision list \<Rightarrow> EnvoyConfigRevision list" where
  "config_runs ec n l = snd (((\<lambda>w. snd (run_config (merge_env two_hash) (''ns'', ''ec'') w)) ^^ n) (ec, l))"

text \<open>The good configuration is published, then the bad one; the controller of the bad revision
  has its object when the user goes back to the good configuration.\<close>

definition before_race :: "EnvoyConfigRevision list" where
  "before_race = config_runs bad_config 2 (config_runs sample_config 2 [])"

definition race :: "goerror + EnvoyConfigRevision list" where
  "race =
     (case start_revision (merge_env two_hash) (''ns'', ''n-v3-b'') ((bad_config, before_race), kv_empty, []) of
        (Inr ecr, (w, st, c)) \<Rightarrow>
          Inr (snd (fst (snd (finish_revision (merge_env two_hash) 9 (''ns'', ''n-v3-b'') ecr
                 ((sample_config, config_runs sample_config 1 (snd w)), st, c)))))
      | _ \<Rightarrow> Inl (PlainError ''no object''))"

lemma case_InrD: "(case x of Inl _ \<Rightarrow> False | Inr l \<Rightarrow> P l) \<Longrightarrow> \<exists>l. x = Inr l \<and> P l"
  by (cases x) auto

text \<open>The outcome of the race, and that the revision reconciler finishes its next run.\<close>

abbreviation repair_run :: "EnvoyConfigRevision list \<Rightarrow> RevisionReconciler \<times> (CtrlResult \<times> goerror option) \<times> config_world" where
  "repair_run l \<equiv> Reconcile two_hash meta_list keep_owner world_api (NewRevisionReconciler sample_config) (sample_config, l)"

lemma race_result:
  obtains l where "race = Inr l"
    "map version_of (filter (\<lambda>e. matches (node_selector sample_config) ''ns'' e \<and> published_true meta_list e) l) = [''a'', ''b'']"
    "map (published_true meta_list) l = [True, True]"
    "snd (fst (snd (repair_run l))) = None" "\<not> crRequeue (fst (fst (snd (repair_run l))))"
proof -
  have "case race of Inl _ \<Rightarrow> False | Inr l \<Rightarrow>
      map version_of (filter (\<lambda>e. matches (node_selector sample_config) ''ns'' e \<and> published_true meta_list e) l) = [''a'', ''b''] \<and>
      map (published_true meta_list) l = [True, True] \<and>
      snd (fst (snd (repair_run l))) = None \<and> \<not> crRequeue (fst (fst (snd (repair_run l))))"
    by code_simp
  from case_InrD [OF this] show thesis by (elim exE conjE) (rule that)
qed

lemma config_runs_reachable:
  assumes "overlap_reachable (merge_env two_hash) snd ((w, st, c), runs)"
  shows "overlap_reachable (merge_env two_hash) snd (((ec', config_runs ec n (snd w)), st, c), runs)"
proof -
  let ?run = "\<lambda>w. snd (run_config (merge_env two_hash) (''ns'', ''ec'') w)"
  have "overlap_reachable (merge_env two_hash) snd (((ec, snd w), st, c), runs)"
    by (rule overlap_reachable.step [OF assms overlap_step.environment]) simp
  then have "overlap_reachable (merge_env two_hash) snd (((?run ^^ n) (ec, snd w), st, c), runs)"
  proof (induction n)
    case (Suc n)
    from overlap_reachable.step [OF Suc.IH [OF Suc.prems] overlap_step.config_run]
    show ?case by (simp add: prod_eq_iff)
  qed simp
  from overlap_reachable.step [OF this overlap_step.environment] show ?thesis by (simp add: config_runs_def)
qed

lemma race_reachable:
  assumes "race = Inr l"
  shows "\<exists>st c. overlap_reachable (merge_env two_hash) snd (((sample_config, l), st, c), [])"
proof -
  let ?E = "merge_env two_hash" and ?req = "(''ns'', ''n-v3-b'')"
  have "overlap_reachable ?E snd (((sample_config, []), kv_empty, []), [])" by (rule overlap_reachable.initial) simp
  from config_runs_reachable [OF config_runs_reachable [OF this, of sample_config sample_config 2], of bad_config bad_config 2]
  have 1: "overlap_reachable ?E snd (((bad_config, before_race), kv_empty, []), [])" by (simp add: before_race_def)
  obtain ecr w st c where start: "start_revision ?E ?req ((bad_config, before_race), kv_empty, []) = (Inr ecr, (w, st, c))"
    using assms by (auto simp: race_def split: prod.splits sum.splits)
  let ?s = "((sample_config, config_runs sample_config 1 (snd w)), st, c)"
  have 2: "overlap_reachable ?E snd (?s, [(?req, ecr)])"
    by (rule config_runs_reachable [OF overlap_reachable.step [OF 1 overlap_step.starts [OF start]]])
  obtain res w' st' c' where fin: "finish_revision ?E 9 ?req ecr ?s = (res, (w', st', c'))" by (metis prod.collapse)
  have 3: "overlap_reachable ?E snd ((w', st', c'), remove1 (?req, ecr) [(?req, ecr)])"
    by (rule overlap_reachable.step [OF 2 overlap_step.finishes [OF _ fin]]) simp
  have same: "snd w' = l" using assms by (simp add: race_def start fin del: One_nat_def)
  have "overlap_step ?E snd ((w', st', c'), remove1 (?req, ecr) [(?req, ecr)]) (((sample_config, l), st, c), remove1 (?req, ecr) [(?req, ecr)])"
    by (rule overlap_step.environment) (simp add: same)
  from overlap_reachable.step [OF 3 this] show ?thesis by auto
qed


section \<open>Recovery\<close>

text \<open>(C3) Whatever overlapping runs and stale writes have done, one finished run of the revision reconciler
  puts it right: in every reachable state of the system in which runs of the revision controller
  work with an outdated object, a run of the revision reconciler that neither fails nor requeues
  leaves at most one revision of its node published, of the version it reports.\<close>

theorem finished_run_repairs_publication:
  assumes "overlapping_system E stored" "overlap_reachable E stored ((w, st, c), runs)"
    and "Reconcile (e_hash E) (e_meta E) (e_setOwner E) (e_revisions E) (NewRevisionReconciler ec) w = (r', (ctrl, None), w')"
    and "\<not> crRequeue ctrl"
  shows "\<exists>v. rrPublishedVersion r' = Some v \<and>
    length (filter (\<lambda>e. matches (node_selector ec) (Namespace (ecMeta ec)) e \<and> published_true (e_meta E) e) (stored w')) \<le> 1 \<and>
    (\<forall>x \<in> set (stored w'). matches (node_selector ec) (Namespace (ecMeta ec)) x \<longrightarrow>
       (published_true (e_meta E) x \<longleftrightarrow> version_of x = v))"
proof -
  let ?sel = "matches (node_selector ec) (Namespace (ecMeta ec))"
  note api = overlapping_system.axioms(1) [OF assms(1)]
  have names: "revision_names ec' (stored w)" for ec'
    using overlapping_system.reachable_names [OF assms(1,2)] by simp
  have "snd (fst (snd (Reconcile (e_hash E) (e_meta E) (e_setOwner E) (e_revisions E) (NewRevisionReconciler ec) w))) = None"
       "\<not> crRequeue (fst (fst (snd (Reconcile (e_hash E) (e_meta E) (e_setOwner E) (e_revisions E) (NewRevisionReconciler ec) w))))"
    using assms(3,4) by simp_all
  then obtain v where v: "rrPublishedVersion r' = Some v"
      "\<And>x. x \<in> set (stored w') \<Longrightarrow> ?sel x \<Longrightarrow> published_true (e_meta E) x \<longleftrightarrow> version_of x = v"
    using revision_api.Reconcile_success [OF api names [of ec], of "e_hash E"] assms(3)
    by (simp add: revision_api.published_exact_def [OF api]) metis
  have "revision_names ec (stored w')"
    using revision_api.Reconcile_keeps_names [OF api names, of ec "e_hash E" ec] assms(3) by simp
  then have "distinct (map version_of (filter ?sel (stored w')))"
    by (intro distinct_versions [of _ _ _ ec]) (auto simp: revision_names_def list_all_iff)
  then have "length (filter (\<lambda>e. version_of e = v) (filter ?sel (stored w'))) \<le> 1" by (rule filter_distinct_image_le_1)
  moreover have "filter (\<lambda>e. version_of e = v) (filter ?sel (stored w')) = filter (\<lambda>e. ?sel e \<and> published_true (e_meta E) e) (stored w')"
    unfolding filter_filter by (rule filter_cong) (use v(2) in auto)
  ultimately show ?thesis using v by auto
qed

theorem finished_run_repairs_publication_witness:
  "\<exists>l r' ctrl w'. map (published_true meta_list) l = [True, True] \<and>
     repair_run l = (r', (ctrl, None), w') \<and>
     length (filter (\<lambda>e. matches (node_selector sample_config) ''ns'' e \<and> published_true meta_list e) (snd w')) \<le> 1"
proof -
  obtain l where l: "race = Inr l" "map (published_true meta_list) l = [True, True]" "snd (fst (snd (repair_run l))) = None"
      "\<not> crRequeue (fst (fst (snd (repair_run l))))"
    by (rule race_result)
  obtain st c where reach: "overlap_reachable (merge_env two_hash) snd (((sample_config, l), st, c), [])"
    using race_reachable [OF l(1)] by blast
  obtain r' ctrl err w' where res: "repair_run l = (r', (ctrl, err), w')" by (metis prod.collapse)
  have ok: "err = None" "\<not> crRequeue ctrl" using l(3,4) res by simp_all
  have "e_hash (merge_env two_hash) = two_hash" by (simp add: merge_env_def)
  moreover have "Namespace (ecMeta sample_config) = ''ns''" by code_simp
  ultimately have "length (filter (\<lambda>e. matches (node_selector sample_config) ''ns'' e \<and> published_true meta_list e) (snd w')) \<le> 1"
    using finished_run_repairs_publication [OF mergeSystem.overlapping_system_axioms reach _ ok(2), of sample_config r' w'] res ok(1) by auto
  with l(2) res [unfolded ok(1)] show ?thesis by (intro exI conjI)
qed

end
