(* ===== verification/GoHeap.thy ===== *)
theory GoHeap
  imports Prelude
begin

text \<open>
  Pointers, for the one place where sharing matters: the generated deep copies. Everywhere else
  values are immutable and a pointer is an option; here Go values may refer to cells of a heap,
  so that two values can share what is behind a pointer or a slice. A type says how a value is
  read: the tree it stands for and the cells it reaches. The locale \<open>deep_copier\<close> is the contract of
  a deep copy: the same tree, in new cells only. The statements that the generator writes are
  combinators, each of which keeps the contract.
\<close>

section \<open>Values, types and the heap\<close>

datatype goval = Scalar string | NilRef | Ref nat | Struct "(string \<times> goval) list"

datatype gotype = ScalarT | PtrT gotype | SliceT gotype | StructT "(string \<times> gotype) list"

text \<open>A cell holds one value for a pointer and the elements for a slice.\<close>

record goheap =
  hNext :: nat
  hCell :: "nat \<Rightarrow> goval list"

datatype tree = Leaf string | Absent | Block "tree list" | Node "(string \<times> tree) list"

type_synonym reading = "(tree \<times> nat list) option"

definition collect :: "reading list \<Rightarrow> (tree list \<times> nat list) option" where
  "collect rs = (case those rs of None \<Rightarrow> None | Some ps \<Rightarrow> Some (map fst ps, concat (map snd ps)))"

text \<open>The tree of a value and the cells behind it; \<open>None\<close> when the value does not have the type.\<close>

fun read :: "goheap \<Rightarrow> gotype \<Rightarrow> goval \<Rightarrow> reading"
  and read_fields :: "goheap \<Rightarrow> (string \<times> gotype) list \<Rightarrow> (string \<times> goval) list \<Rightarrow> reading list" where
  "read h ScalarT (Scalar s) = Some (Leaf s, [])"
| "read h (PtrT T) NilRef = Some (Absent, [])"
| "read h (PtrT T) (Ref a) =
     (case hCell h a of
        [v] \<Rightarrow> map_option (\<lambda>(t, A). (Block [t], a # A)) (read h T v)
      | _ \<Rightarrow> None)"
| "read h (SliceT T) NilRef = Some (Absent, [])"
| "read h (SliceT T) (Ref a) = map_option (\<lambda>(ts, A). (Block ts, a # A)) (collect (map (read h T) (hCell h a)))"
| "read h (StructT fs) (Struct vs) =
     (if map fst vs = map fst fs then map_option (\<lambda>(ts, A). (Node (zip (map fst fs) ts), A)) (collect (read_fields h fs vs))
      else None)"
| "read h _ _ = None"
| "read_fields h ((n, T) # fs) ((m, v) # vs) = read h T v # read_fields h fs vs"
| "read_fields h _ _ = []"

text \<open>Types whose values reach no cell.\<close>

fun plain :: "gotype \<Rightarrow> bool" where
  "plain ScalarT = True"
| "plain (PtrT T) = False"
| "plain (SliceT T) = False"
| "plain (StructT fs) = list_all (\<lambda>f. plain (snd f)) fs"

section \<open>Statements of the generated code\<close>

type_synonym copier = "goval \<Rightarrow> goheap \<Rightarrow> goval \<times> goheap"

definition alloc :: "goval list \<Rightarrow> goheap \<Rightarrow> nat \<times> goheap" where
  "alloc vs h = (hNext h, h\<lparr> hNext := Suc (hNext h), hCell := (hCell h)(hNext h := vs) \<rparr>)"

definition store :: "nat \<Rightarrow> goval list \<Rightarrow> goheap \<Rightarrow> goheap" where
  "store a vs h = h\<lparr> hCell := (hCell h)(a := vs) \<rparr>"

text \<open>\<open>*out = *in\<close>: what is behind pointers stays shared.\<close>

definition copy_assign :: copier where
  "copy_assign v h = (v, h)"

text \<open>\<open>if in.X != nil\<close>, then \<open>*out = new(T)\<close> and the copy of what \<open>in.X\<close> points to.\<close>

definition copy_ptr :: "copier \<Rightarrow> copier" where
  "copy_ptr c v h =
     (case v of
        Ref a \<Rightarrow>
          (let (b, h1) = alloc [NilRef] h;
               (w, h2) = c (hd (hCell h a)) h1
           in (Ref b, store b [w] h2))
      | _ \<Rightarrow> (v, h))"

fun copy_elems :: "copier \<Rightarrow> goval list \<Rightarrow> goheap \<Rightarrow> goval list \<times> goheap" where
  "copy_elems c [] h = ([], h)"
| "copy_elems c (v # vs) h =
     (let (w, h1) = c v h; (ws, h2) = copy_elems c vs h1 in (w # ws, h2))"

text \<open>\<open>if in.X != nil\<close>, then \<open>*out = make([]T, len(*in))\<close> and the copy of every element.\<close>

definition copy_slice :: "copier \<Rightarrow> copier" where
  "copy_slice c v h =
     (case v of
        Ref a \<Rightarrow>
          (let (b, h1) = alloc (replicate (length (hCell h a)) NilRef) h;
               (ws, h2) = copy_elems c (hCell h a) h1
           in (Ref b, store b ws h2))
      | _ \<Rightarrow> (v, h))"

definition set_field :: "string \<Rightarrow> goval \<Rightarrow> (string \<times> goval) list \<Rightarrow> (string \<times> goval) list" where
  "set_field f w out = map (\<lambda>(n, v). if n = f then (n, w) else (n, v)) out"

text \<open>The statements after \<open>*out = *in\<close>, each for one field.\<close>

fun copy_fields ::
    "(string \<times> copier) list \<Rightarrow> (string \<times> goval) list \<Rightarrow> (string \<times> goval) list \<Rightarrow> goheap
     \<Rightarrow> (string \<times> goval) list \<times> goheap" where
  "copy_fields [] inp out h = (out, h)"
| "copy_fields ((f, c) # stmts) inp out h =
     (case map_of inp f of
        None \<Rightarrow> copy_fields stmts inp out h
      | Some v \<Rightarrow> (let (w, h1) = c v h in copy_fields stmts inp (set_field f w out) h1))"

definition copy_struct :: "(string \<times> copier) list \<Rightarrow> copier" where
  "copy_struct stmts v h =
     (case v of
        Struct vs \<Rightarrow> (let (out, h') = copy_fields stmts vs vs h in (Struct out, h'))
      | _ \<Rightarrow> (v, h))"

text \<open>The methods around \<open>DeepCopyInto\<close>: \<open>DeepCopy\<close> allocates, \<open>DeepCopyObject\<close> keeps a nil result a nil
  interface.\<close>

definition DeepCopy :: "copier \<Rightarrow> copier" where
  "DeepCopy deepCopyInto v h = (if v = NilRef then (NilRef, h) else copy_ptr deepCopyInto v h)"

definition DeepCopyObject :: "copier \<Rightarrow> copier" where
  "DeepCopyObject deepCopy v h = (let (c, h') = deepCopy v h in if c \<noteq> NilRef then (c, h') else (NilRef, h'))"

text \<open>The deep copy that follows the type, for comparison and as a model of library types.\<close>

fun copy_of :: "gotype \<Rightarrow> copier" where
  "copy_of ScalarT = copy_assign"
| "copy_of (PtrT T) = copy_ptr (copy_of T)"
| "copy_of (SliceT T) = copy_slice (copy_of T)"
| "copy_of (StructT fs) = copy_struct (map (\<lambda>(n, T). (n, copy_of T)) fs)"

fun wf_type :: "gotype \<Rightarrow> bool" where
  "wf_type ScalarT = True"
| "wf_type (PtrT T) = wf_type T"
| "wf_type (SliceT T) = wf_type T"
| "wf_type (StructT fs) \<longleftrightarrow> distinct (map fst fs) \<and> list_all (\<lambda>f. wf_type (snd f)) fs"

section \<open>Reading\<close>

lemma those_eq_Some: "those rs = Some ps \<longleftrightarrow> rs = map Some ps"
  by (induction rs arbitrary: ps) (auto split: option.splits simp: Cons_eq_map_conv map_eq_Cons_conv)

lemma collect_eq_Some:
  "collect rs = Some (ts, A) \<longleftrightarrow> (\<exists>ps. rs = map Some ps \<and> ts = map fst ps \<and> A = concat (map snd ps))"
  by (auto simp: collect_def those_eq_Some split: option.splits) (metis option.distinct(1) those_eq_Some)+

lemma map_Some_transfer:
  assumes "map f vs = map Some ps" "\<And>v p. v \<in> set vs \<Longrightarrow> p \<in> set ps \<Longrightarrow> f v = Some p \<Longrightarrow> g v = Some p"
  shows "map g vs = map Some ps"
  using assms by (induction vs arbitrary: ps) (auto simp: Cons_eq_map_conv)

lemma read_fields_zip: "read_fields h fs vs = map (\<lambda>((n, T), (m, v)). read h T v) (zip fs vs)"
proof (induction fs arbitrary: vs)
  case (Cons f fs)
  then show ?case by (cases vs; cases f; cases "hd vs") auto
qed simp

text \<open>Reading depends only on the cells that are reached.\<close>

lemma read_frame:
  "read h T v = Some (t, A) \<Longrightarrow> (\<And>a. a \<in> set A \<Longrightarrow> hCell h' a = hCell h a) \<Longrightarrow> read h' T v = Some (t, A)"
  "read_fields h fs vs = map Some ps \<Longrightarrow> (\<And>a. a \<in> set (concat (map snd ps)) \<Longrightarrow> hCell h' a = hCell h a) \<Longrightarrow>
   read_fields h' fs vs = map Some ps"
proof (induction h T v and h fs vs arbitrary: t A and ps rule: read_read_fields.induct)
  case (3 h T a)
  then obtain v t' A' where cell: "hCell h a = [v]" "read h T v = Some (t', A')" "t = Block [t']" "A = a # A'"
    by (auto split: list.splits)
  with 3 have "read h' T v = Some (t', A')" by auto
  with cell 3(3) [of a] show ?case by simp
next
  case (5 h T a)
  then obtain ps where ps: "map (read h T) (hCell h a) = map Some ps" "t = Block (map fst ps)" "A = a # concat (map snd ps)"
    by (auto simp: collect_eq_Some)
  have "map (read h' T) (hCell h a) = map Some ps"
    using ps(1)
  proof (rule map_Some_transfer)
    fix v p assume "v \<in> set (hCell h a)" "p \<in> set ps" "read h T v = Some p"
    then show "read h' T v = Some p" using 5(1) [of v "fst p" "snd p"] 5(3) ps(3) by fastforce
  qed
  moreover have "hCell h' a = hCell h a" using 5(3) ps(3) by simp
  ultimately show ?case using ps by (auto simp: collect_eq_Some)
next
  case (6 h fs vs)
  then show ?case by (auto simp: collect_eq_Some split: if_splits)
qed auto

lemma plain_read:
  "plain T \<Longrightarrow> read h T v = Some (t, A) \<Longrightarrow> A = []"
  "list_all (\<lambda>f. plain (snd f)) fs \<Longrightarrow> read_fields h fs vs = map Some ps \<Longrightarrow> concat (map snd ps) = []"
proof (induction h T v and h fs vs arbitrary: t A and ps rule: read_read_fields.induct)
  case (6 h fs vs)
  then show ?case by (auto simp: collect_eq_Some split: if_splits)
qed (fastforce simp: Cons_eq_map_conv)+

section \<open>The contract\<close>

definition grows :: "goheap \<Rightarrow> goheap \<Rightarrow> bool" where
  "grows h h' \<longleftrightarrow> hNext h \<le> hNext h' \<and> (\<forall>a < hNext h. hCell h' a = hCell h a)"

lemma grows_refl [simp]: "grows h h" by (simp add: grows_def)

lemma grows_trans [trans]: "grows h h' \<Longrightarrow> grows h' h'' \<Longrightarrow> grows h h''"
  by (auto simp: grows_def)

lemma read_grows: "read h T v = Some (t, A) \<Longrightarrow> set A \<subseteq> {..<hNext h} \<Longrightarrow> grows h h' \<Longrightarrow> read h' T v = Some (t, A)"
  by (erule read_frame) (auto simp: grows_def)

lemma map_read_grows:
  assumes "map (read h T) vs = map Some ps" "set (concat (map snd ps)) \<subseteq> {..<hNext h}" "grows h h'"
  shows "map (read h' T) vs = map Some ps"
  using assms(1)
proof (rule map_Some_transfer)
  fix v p assume "p \<in> set ps" "read h T v = Some p"
  then show "read h' T v = Some p" using read_grows [of h T v "fst p" "snd p" h'] assms(2,3) by fastforce
qed

definition copies_to :: "gotype \<Rightarrow> tree \<Rightarrow> goheap \<Rightarrow> goval \<times> goheap \<Rightarrow> bool" where
  "copies_to T t h p \<longleftrightarrow> grows h (snd p) \<and>
     (\<exists>B. read (snd p) T (fst p) = Some (t, B) \<and> set B \<subseteq> {hNext h..<hNext (snd p)})"

locale deep_copier =
  fixes T :: gotype and c :: copier
  assumes copies: "read h T v = Some (t, A) \<Longrightarrow> set A \<subseteq> {..<hNext h} \<Longrightarrow> copies_to T t h (c v h)"
begin

text \<open>The copy shares no cell with the original, which is unchanged, and it keeps its tree whatever
  is later written to any other cell.\<close>

lemma isolated:
  assumes "read h T v = Some (t, A)" "set A \<subseteq> {..<hNext h}" "c v h = (w, h')"
  shows "\<exists>B. read h' T w = Some (t, B) \<and> set A \<inter> set B = {} \<and> read h' T v = Some (t, A) \<and>
    (\<forall>h''. (\<forall>b \<in> set B. hCell h'' b = hCell h' b) \<longrightarrow> read h'' T w = Some (t, B))"
proof -
  obtain B where B: "grows h h'" "read h' T w = Some (t, B)" "set B \<subseteq> {hNext h..<hNext h'}"
    using copies [OF assms(1,2)] assms(3) by (auto simp: copies_to_def)
  moreover have "set A \<inter> set B = {}" using assms(2) B(3) by fastforce
  moreover have "read h' T v = Some (t, A)" using assms(1,2) B(1) by (rule read_grows)
  ultimately show ?thesis using read_frame(1) [OF B(2)] by blast
qed

end

section \<open>The statements keep the contract\<close>

lemma grows_alloc: "grows h (snd (alloc vs h))" "fst (alloc vs h) = hNext h" "hNext (snd (alloc vs h)) = Suc (hNext h)"
  by (simp_all add: alloc_def grows_def)

lemma store_sel [simp]: "hNext (store a vs h) = hNext h" "hCell (store a vs h) = (hCell h)(a := vs)"
  by (simp_all add: store_def)

lemma grows_store: "grows (snd (alloc xs h)) h' \<Longrightarrow> grows h (store (hNext h) vs h')"
  by (auto simp: grows_def alloc_def)

lemma read_store: "read h T v = Some (t, B) \<Longrightarrow> a \<notin> set B \<Longrightarrow> read (store a vs h) T v = Some (t, B)"
  by (erule read_frame) auto

lemma copy_assign_deep: "plain T \<Longrightarrow> deep_copier T copy_assign"
  by unfold_locales (auto simp: copies_to_def copy_assign_def dest: plain_read)

lemma copy_ptr_deep:
  assumes "deep_copier T c"
  shows "deep_copier (PtrT T) (copy_ptr c)"
proof
  fix h v t A
  assume read: "read h (PtrT T) v = Some (t, A)" and A: "set A \<subseteq> {..<hNext h}"
  show "copies_to (PtrT T) t h (copy_ptr c v h)"
  proof (cases v)
    case (Ref a)
    with read obtain x t' A' where x: "hCell h a = [x]" "read h T x = Some (t', A')" "t = Block [t']" "A = a # A'"
      by (auto split: list.splits)
    let ?h1 = "snd (alloc [NilRef] h)"
    obtain w h2 where w: "c x ?h1 = (w, h2)" by fastforce
    have "read ?h1 T x = Some (t', A')" "set A' \<subseteq> {..<hNext ?h1}"
      using read_grows [OF x(2) _ grows_alloc(1)] A x(4) by (auto simp: grows_alloc less_Suc_eq)
    from deep_copier.copies [OF assms this] obtain B
      where B: "grows ?h1 h2" "read h2 T w = Some (t', B)" "set B \<subseteq> {Suc (hNext h)..<hNext h2}"
      by (auto simp: copies_to_def w grows_alloc)
    have "read (store (hNext h) [w] h2) T w = Some (t', B)" using B(2,3) by (intro read_store) auto
    moreover have "hNext h < hNext h2" using B(1) by (simp add: grows_def grows_alloc)
    ultimately show ?thesis
      using B(3) x(3) grows_store [OF B(1)]
      by (auto simp: copies_to_def copy_ptr_def Ref x(1) w case_prod_unfold grows_alloc)
  qed (use read in \<open>auto simp: copies_to_def copy_ptr_def\<close>)
qed

lemma copy_elems_deep:
  assumes "deep_copier T c" "map (read h T) vs = map Some ps" "set (concat (map snd ps)) \<subseteq> {..<hNext h}"
    and "copy_elems c vs h = (ws, h')"
  shows "grows h h' \<and> (\<exists>qs. map (read h' T) ws = map Some qs \<and> map fst qs = map fst ps \<and>
           set (concat (map snd qs)) \<subseteq> {hNext h..<hNext h'})"
  using assms(2-)
proof (induction vs arbitrary: h ps ws)
  case (Cons v vs)
  obtain p ps' where ps: "ps = p # ps'" "read h T v = Some p" "map (read h T) vs = map Some ps'"
    using Cons.prems(1) by (auto simp: Cons_eq_map_conv)
  obtain w h1 where w: "c v h = (w, h1)" by fastforce
  obtain ws' where ws: "copy_elems c vs h1 = (ws', h')" "ws = w # ws'"
    using Cons.prems(3) w by (auto split: prod.splits)
  have "copies_to T (fst p) h (w, h1)"
    using deep_copier.copies [OF assms(1), of h v "fst p" "snd p"] ps Cons.prems(2) w by auto
  then obtain B where B: "grows h h1" "read h1 T w = Some (fst p, B)" "set B \<subseteq> {hNext h..<hNext h1}"
    by (auto simp: copies_to_def)
  have "map (read h1 T) vs = map Some ps'"
    using ps(3) by (rule map_read_grows [OF _ _ B(1)]) (use Cons.prems(2) ps(1) in auto)
  moreover have "set (concat (map snd ps')) \<subseteq> {..<hNext h1}"
    using Cons.prems(2) ps(1) B(1) by (fastforce simp: grows_def)
  ultimately obtain qs where qs: "grows h1 h'" "map (read h' T) ws' = map Some qs" "map fst qs = map fst ps'"
      "set (concat (map snd qs)) \<subseteq> {hNext h1..<hNext h'}"
    using Cons.IH [OF _ _ ws(1)] by blast
  have "read h' T w = Some (fst p, B)" by (rule read_grows [OF B(2) _ qs(1)]) (use B(3) in auto)
  moreover have "set (concat (map snd ((fst p, B) # qs))) \<subseteq> {hNext h..<hNext h'}"
    using B(1,3) qs(1,4) by (fastforce simp: grows_def)
  ultimately show ?case
    using qs(2,3) ws(2) ps(1) grows_trans [OF B(1) qs(1)] by (intro conjI exI [of _ "(fst p, B) # qs"]) simp_all
qed auto

lemma copy_slice_deep:
  assumes "deep_copier T c"
  shows "deep_copier (SliceT T) (copy_slice c)"
proof
  fix h v t A
  assume read: "read h (SliceT T) v = Some (t, A)" and A: "set A \<subseteq> {..<hNext h}"
  show "copies_to (SliceT T) t h (copy_slice c v h)"
  proof (cases v)
    case (Ref a)
    with read obtain ps where ps: "map (read h T) (hCell h a) = map Some ps" "t = Block (map fst ps)"
        "A = a # concat (map snd ps)"
      by (auto simp: collect_eq_Some)
    let ?h1 = "snd (alloc (replicate (length (hCell h a)) NilRef) h)"
    obtain ws h2 where ws: "copy_elems c (hCell h a) ?h1 = (ws, h2)" by fastforce
    have A': "set (concat (map snd ps)) \<subseteq> {..<hNext ?h1}" using A ps(3) by (auto simp: grows_alloc less_Suc_eq)
    have "map (read ?h1 T) (hCell h a) = map Some ps"
      using ps(1) by (rule map_read_grows [OF _ _ grows_alloc(1)]) (use A ps(3) in auto)
    then obtain qs where qs: "grows ?h1 h2" "map (read h2 T) ws = map Some qs" "map fst qs = map fst ps"
        "set (concat (map snd qs)) \<subseteq> {Suc (hNext h)..<hNext h2}"
      using copy_elems_deep [OF assms _ A' ws] by (auto simp: grows_alloc)
    have "map (read (store (hNext h) ws h2) T) ws = map Some qs"
      using qs(2)
    proof (rule map_Some_transfer)
      fix w q assume "q \<in> set qs" "read h2 T w = Some q"
      then show "read (store (hNext h) ws h2) T w = Some q"
        using read_store [of h2 T w "fst q" "snd q" "hNext h" ws] qs(4) by fastforce
    qed
    moreover have "hNext h < hNext h2" using qs(1) by (simp add: grows_def grows_alloc)
    ultimately show ?thesis
      using qs(3,4) ps(2) grows_store [OF qs(1)]
      by (auto simp: copies_to_def copy_slice_def Ref ws case_prod_unfold grows_alloc collect_eq_Some intro!: exI [of _ qs])
  qed (use read in \<open>auto simp: copies_to_def copy_slice_def\<close>)
qed

text \<open>What is left of a field after the statements: a copy in new cells when there was a statement
  for it, what \<open>*out = *in\<close> put there otherwise.\<close>

lemma map_of_nth_field:
  assumes "map fst vs = map fst fs" "distinct (map fst fs)" "i < length fs"
  shows "map_of vs (fst (fs ! i)) = Some (snd (vs ! i))"
proof -
  have len: "length vs = length fs" using arg_cong [OF assms(1), of length] by simp
  have "fst (vs ! i) = fst (fs ! i)" using arg_cong [OF assms(1), of "\<lambda>l. l ! i"] assms(3) len by simp
  then have "(fst (fs ! i), snd (vs ! i)) \<in> set vs" using nth_mem [of i vs] assms(3) len by (metis prod.collapse)
  then show ?thesis using assms(1,2) by (intro map_of_is_SomeI) simp_all
qed

lemma set_field_nth:
  "map fst (set_field f w out) = map fst out"
  "i < length out \<Longrightarrow> set_field f w out ! i = (if fst (out ! i) = f then (f, w) else out ! i)"
  by (auto simp: set_field_def split: prod.splits)

definition fresh_copy :: "gotype \<Rightarrow> tree \<Rightarrow> nat \<Rightarrow> goheap \<Rightarrow> goval \<Rightarrow> bool" where
  "fresh_copy T t n h v \<longleftrightarrow> (\<exists>B. read h T v = Some (t, B) \<and> set B \<subseteq> {n..<hNext h})"

lemma fresh_copy_mono: "fresh_copy T t n h v \<Longrightarrow> m \<le> n \<Longrightarrow> grows h h' \<Longrightarrow> fresh_copy T t m h' v"
  using read_grows [of h T v t _ h'] by (fastforce simp: fresh_copy_def grows_def)

lemma copy_fields_deep:
  assumes "distinct (map fst fs)" "map fst vs = map fst fs"
    and "\<And>i. i < length fs \<Longrightarrow> \<exists>A. read h (snd (fs ! i)) (snd (vs ! i)) = Some (ts ! i, A) \<and> set A \<subseteq> {..<hNext h}"
    and "\<And>f c. (f, c) \<in> set stmts \<Longrightarrow> \<exists>i < length fs. fst (fs ! i) = f \<and> deep_copier (snd (fs ! i)) c"
    and "map fst out = map fst fs" "copy_fields stmts vs out h = (out', h')"
  shows "grows h h' \<and> map fst out' = map fst fs \<and>
    (\<forall>i < length fs. if fst (fs ! i) \<in> fst ` set stmts then fresh_copy (snd (fs ! i)) (ts ! i) (hNext h) h' (snd (out' ! i))
                     else out' ! i = out ! i)"
  using assms(3-)
proof (induction stmts arbitrary: h out)
  case (Cons s stmts)
  obtain f c where s: "s = (f, c)" by fastforce
  obtain j where j: "j < length fs" "fst (fs ! j) = f" "deep_copier (snd (fs ! j)) c" using Cons.prems(2) s by auto
  have vj: "map_of vs f = Some (snd (vs ! j))" using map_of_nth_field [OF assms(2,1) j(1)] j(2) by simp
  obtain w h1 where w: "c (snd (vs ! j)) h = (w, h1)" by fastforce
  obtain A where "read h (snd (fs ! j)) (snd (vs ! j)) = Some (ts ! j, A)" "set A \<subseteq> {..<hNext h}"
    using Cons.prems(1) [OF j(1)] by blast
  from deep_copier.copies [OF j(3) this] have g: "grows h h1" and copy: "fresh_copy (snd (fs ! j)) (ts ! j) (hNext h) h1 w"
    by (auto simp: w copies_to_def fresh_copy_def)
  have rest: "copy_fields stmts vs (set_field f w out) h1 = (out', h')" using Cons.prems(4) s vj w by simp
  have reads: "\<exists>A. read h1 (snd (fs ! i)) (snd (vs ! i)) = Some (ts ! i, A) \<and> set A \<subseteq> {..<hNext h1}" if "i < length fs" for i
    using Cons.prems(1) [OF that] read_grows [OF _ _ g] g by (fastforce simp: grows_def)
  have IH: "grows h1 h'" "map fst out' = map fst fs"
    "\<And>i. i < length fs \<Longrightarrow> if fst (fs ! i) \<in> fst ` set stmts then fresh_copy (snd (fs ! i)) (ts ! i) (hNext h1) h' (snd (out' ! i))
       else out' ! i = set_field f w out ! i"
    using Cons.IH [OF reads _ _ rest] Cons.prems(2,3) by (auto simp: set_field_nth)
  have len: "length out = length fs" "\<And>i. i < length fs \<Longrightarrow> fst (out ! i) = fst (fs ! i)"
    using Cons.prems(3) by (metis length_map, metis length_map nth_map)
  have "if fst (fs ! i) \<in> fst ` set (s # stmts) then fresh_copy (snd (fs ! i)) (ts ! i) (hNext h) h' (snd (out' ! i))
        else out' ! i = out ! i" if i: "i < length fs" for i
  proof (cases "fst (fs ! i) \<in> fst ` set stmts")
    case True
    with IH(3) [OF i] g show ?thesis by (auto simp: s grows_def intro: fresh_copy_mono)
  next
    case False
    show ?thesis
    proof (cases "i = j")
      case True
      with False IH(3) [OF i] j(2) i len have "out' ! i = (f, w)" by (simp add: set_field_nth)
      with fresh_copy_mono [OF copy order_refl IH(1)] True j(2) show ?thesis by (simp add: s)
    next
      case neq: False
      then have "fst (fs ! i) \<noteq> f" using assms(1) i j(1,2) nth_eq_iff_index_eq [OF assms(1), of i j] by auto
      with False IH(3) [OF i] i len show ?thesis by (auto simp: s set_field_nth)
    qed
  qed
  with IH(2) grows_trans [OF g IH(1)] show ?case by blast
qed auto

lemma read_fields_nth:
  assumes "length vs = length fs"
  shows "read_fields h fs vs = map Some ps \<longleftrightarrow>
    length ps = length fs \<and> (\<forall>i < length fs. read h (snd (fs ! i)) (snd (vs ! i)) = Some (ps ! i))"
  by (auto simp: read_fields_zip case_prod_unfold list_eq_iff_nth_eq assms)

lemma read_struct_iff:
  "read h (StructT fs) (Struct vs) = Some (t, A) \<longleftrightarrow> map fst vs = map fst fs \<and>
     (\<exists>ps. length ps = length fs \<and> t = Node (zip (map fst fs) (map fst ps)) \<and> A = concat (map snd ps) \<and>
        (\<forall>i < length fs. read h (snd (fs ! i)) (snd (vs ! i)) = Some (ps ! i)))"
proof (cases "map fst vs = map fst fs")
  case True
  have "length vs = length fs" using arg_cong [OF True, of length] by simp
  with True show ?thesis by (auto simp: collect_eq_Some read_fields_nth)
qed auto

text \<open>A struct is copied deeply when every statement copies its field deeply and every field
  without a statement is plain.\<close>

lemma plain_fresh:
  assumes "plain T" "read h T v = Some (t, A)"
  shows "fresh_copy T t n h' v"
  using plain_read(1) [OF assms] read_frame(1) [OF assms(2), of h'] by (simp add: fresh_copy_def)

lemma fresh_struct:
  assumes "map fst out = map fst fs" "length ts = length fs"
    and "\<And>i. i < length fs \<Longrightarrow> fresh_copy (snd (fs ! i)) (ts ! i) n h (snd (out ! i))"
  shows "fresh_copy (StructT fs) (Node (zip (map fst fs) ts)) n h (Struct out)"
proof -
  obtain B where B: "\<And>i. i < length fs \<Longrightarrow>
      read h (snd (fs ! i)) (snd (out ! i)) = Some (ts ! i, B i) \<and> set (B i) \<subseteq> {n..<hNext h}"
    using assms(3) unfolding fresh_copy_def by metis
  let ?qs = "map (\<lambda>i. (ts ! i, B i)) [0..<length fs]"
  have "map fst ?qs = ts" by (rule nth_equalityI) (use assms(2) in auto)
  moreover have "set (concat (map snd ?qs)) \<subseteq> {n..<hNext h}" using B by fastforce
  ultimately show ?thesis
    unfolding fresh_copy_def read_struct_iff using assms(1) B
    by (intro exI [of _ "concat (map snd ?qs)"] conjI exI [of _ ?qs]) auto
qed

lemma copy_struct_deep:
  assumes "distinct (map fst fs)"
    and "list_all (\<lambda>(f, c). case map_of fs f of None \<Rightarrow> False | Some T \<Rightarrow> deep_copier T c) stmts"
    and "list_all (\<lambda>(n, T). n \<in> set (map fst stmts) \<or> plain T) fs"
  shows "deep_copier (StructT fs) (copy_struct stmts)"
proof
  fix h v t A
  assume read: "read h (StructT fs) v = Some (t, A)" and A: "set A \<subseteq> {..<hNext h}"
  then obtain vs where v: "v = Struct vs" by (cases v) auto
  from read obtain ps where names: "map fst vs = map fst fs" and len: "length ps = length fs"
      and t: "t = Node (zip (map fst fs) (map fst ps))" and ps: "A = concat (map snd ps)"
      and field: "\<And>i. i < length fs \<Longrightarrow> read h (snd (fs ! i)) (snd (vs ! i)) = Some (ps ! i)"
    unfolding v read_struct_iff by blast
  have reads: "\<exists>A. read h (snd (fs ! i)) (snd (vs ! i)) = Some (map fst ps ! i, A) \<and> set A \<subseteq> {..<hNext h}"
    if i: "i < length fs" for i
    using field [OF i] nth_mem [of i ps] A ps len i by (intro exI [of _ "snd (ps ! i)"]) fastforce
  have stmts: "\<exists>i < length fs. fst (fs ! i) = f \<and> deep_copier (snd (fs ! i)) c" if fc: "(f, c) \<in> set stmts" for f c
  proof -
    have "case map_of fs f of None \<Rightarrow> False | Some T \<Rightarrow> deep_copier T c" using assms(2) fc by (auto simp: list_all_iff)
    then obtain T where "map_of fs f = Some T" "deep_copier T c" by (auto split: option.splits)
    then show ?thesis by (metis fst_conv in_set_conv_nth map_of_SomeD snd_conv)
  qed
  obtain out h' where out: "copy_fields stmts vs vs h = (out, h')" by fastforce
  note post = copy_fields_deep [OF assms(1) names reads stmts names out]
  have "fresh_copy (snd (fs ! i)) (map fst ps ! i) (hNext h) h' (snd (out ! i))" if i: "i < length fs" for i
  proof (cases "fst (fs ! i) \<in> fst ` set stmts")
    case True
    with post i show ?thesis by simp
  next
    case False
    then have "plain (snd (fs ! i))" using assms(3) nth_mem [OF i] by (auto simp: list_all_iff case_prod_unfold)
    moreover have "out ! i = vs ! i" using post i False by simp
    ultimately show ?thesis
      using plain_fresh [of "snd (fs ! i)" h "snd (vs ! i)" "fst (ps ! i)" "snd (ps ! i)"] field [OF i] i len by simp
  qed
  then have "fresh_copy (StructT fs) t (hNext h) h' (Struct out)"
    unfolding t using post len by (intro fresh_struct) auto
  with post show "copies_to (StructT fs) t h (copy_struct stmts v h)"
    by (simp add: copies_to_def copy_struct_def v out fresh_copy_def)
qed

lemma DeepCopy_eq [simp]: "DeepCopy c = copy_ptr c"
  by (auto simp: DeepCopy_def copy_ptr_def fun_eq_iff)

lemma DeepCopyObject_eq [simp]: "DeepCopyObject d = d"
  by (auto simp: DeepCopyObject_def fun_eq_iff split: prod.splits)

lemma copy_of_deep: "wf_type T \<Longrightarrow> deep_copier T (copy_of T)"
proof (induction T rule: copy_of.induct)
  case (4 fs)
  have "deep_copier T (copy_of T)" if "(n, T) \<in> set fs" for n T
    using 4 that by (fastforce simp: list_all_iff)
  moreover have "map_of fs n = Some T" if "(n, T) \<in> set fs" for n T
    using 4 that by simp
  ultimately have "deep_copier (StructT fs) (copy_struct (map (\<lambda>(n, T). (n, copy_of T)) fs))"
    using 4 by (intro copy_struct_deep) (auto simp: list_all_iff image_iff split: prod.splits)
  then show ?case by simp
qed (simp_all add: copy_assign_deep copy_ptr_deep copy_slice_deep)

named_theorems deep_copies "copiers that keep the contract"

lemmas [deep_copies] = copy_assign_deep copy_ptr_deep copy_slice_deep

end
