(* ===== verification/DeepCopyMarin3r.thy ===== *)
theory DeepCopyMarin3r
  imports GoHeap
begin

text \<open>
  The generated deep copies of the API group \<open>marin3r\<close>
  (\<open>apis/marin3r/v1alpha1/zz_generated.deepcopy.go\<close>): for every struct its type, as declared in
  \<open>envoyconfig_types.go\<close>, \<open>envoyconfigrevision_types.go\<close> and \<open>resources.go\<close>, and its methods. Types of
  the Kubernetes libraries and their deep copies are the parameter \<open>library\<close>; the locale
  \<open>library_copies\<close> says that those copies keep the contract and which of the types are plain.
\<close>

section \<open>Library types\<close>

record library =
  tyTypeMeta :: gotype
  tySecretReference :: gotype
  tyObjectReference :: gotype
  tyDuration :: gotype
  tyIntOrString :: gotype
  tyProtocol :: gotype
  tyUnimplementedStatefulSetStatus :: gotype
  tyObjectMeta :: gotype
  copyObjectMeta :: copier
  tyListMeta :: gotype
  copyListMeta :: copier
  tyCondition :: gotype
  copyCondition :: copier
  tyRawExtension :: gotype
  copyRawExtension :: copier
  tyLabelSelector :: gotype
  copyLabelSelector :: copier
  tyResourceRequirements :: gotype
  copyResourceRequirements :: copier
  tyMetricSpec :: gotype
  copyMetricSpec :: copier
  tyHorizontalPodAutoscalerBehavior :: gotype
  copyHorizontalPodAutoscalerBehavior :: copier
  tyAffinity :: gotype
  copyAffinity :: copier
  tyDeploymentStatus :: gotype
  copyDeploymentStatus :: copier
  tyTime :: gotype
  copyTimePointer :: copier

locale library_copies =
  fixes L :: library
  assumes plain_types [deep_copies]:
    "plain (tyTypeMeta L)" "plain (tySecretReference L)" "plain (tyObjectReference L)" "plain (tyDuration L)"
    "plain (tyIntOrString L)" "plain (tyProtocol L)" "plain (tyUnimplementedStatefulSetStatus L)"
    and library_deep [deep_copies]:
    "deep_copier (tyObjectMeta L) (copyObjectMeta L)"
    "deep_copier (tyListMeta L) (copyListMeta L)"
    "deep_copier (tyCondition L) (copyCondition L)"
    "deep_copier (tyRawExtension L) (copyRawExtension L)"
    "deep_copier (tyLabelSelector L) (copyLabelSelector L)"
    "deep_copier (tyResourceRequirements L) (copyResourceRequirements L)"
    "deep_copier (tyMetricSpec L) (copyMetricSpec L)"
    "deep_copier (tyHorizontalPodAutoscalerBehavior L) (copyHorizontalPodAutoscalerBehavior L)"
    "deep_copier (tyAffinity L) (copyAffinity L)"
    "deep_copier (tyDeploymentStatus L) (copyDeploymentStatus L)"
    "deep_copier (PtrT (tyTime L)) (copyTimePointer L)"

section \<open>The structs and their methods\<close>

definition EnvoyResource_type :: gotype where
  "EnvoyResource_type = StructT
     [(''Name'', PtrT ScalarT), (''Value'', ScalarT)]"

definition EnvoyResource_DeepCopyInto :: copier where
  "EnvoyResource_DeepCopyInto = copy_struct
     [(''Name'', copy_ptr copy_assign)]"

definition EnvoyResource_DeepCopy :: copier where
  "EnvoyResource_DeepCopy = DeepCopy EnvoyResource_DeepCopyInto"

definition EnvoySecretResource_type :: "library \<Rightarrow> gotype" where
  "EnvoySecretResource_type L = StructT
     [(''Name'', ScalarT), (''Ref'', PtrT (tySecretReference L))]"

definition EnvoySecretResource_DeepCopyInto :: copier where
  "EnvoySecretResource_DeepCopyInto = copy_struct
     [(''Ref'', copy_ptr copy_assign)]"

definition EnvoySecretResource_DeepCopy :: copier where
  "EnvoySecretResource_DeepCopy = DeepCopy EnvoySecretResource_DeepCopyInto"

definition EnvoyResources_type :: "library \<Rightarrow> gotype" where
  "EnvoyResources_type L = StructT
     [(''Endpoints'', SliceT EnvoyResource_type), (''Clusters'', SliceT EnvoyResource_type),
     (''Routes'', SliceT EnvoyResource_type), (''ScopedRoutes'', SliceT EnvoyResource_type),
     (''Listeners'', SliceT EnvoyResource_type), (''Runtimes'', SliceT EnvoyResource_type),
     (''Secrets'', SliceT (EnvoySecretResource_type L)), (''ExtensionConfigs'', SliceT EnvoyResource_type)]"

definition EnvoyResources_DeepCopyInto :: copier where
  "EnvoyResources_DeepCopyInto = copy_struct
     [(''Endpoints'', copy_slice EnvoyResource_DeepCopyInto),
     (''Clusters'', copy_slice EnvoyResource_DeepCopyInto),
     (''Routes'', copy_slice EnvoyResource_DeepCopyInto),
     (''ScopedRoutes'', copy_slice EnvoyResource_DeepCopyInto),
     (''Listeners'', copy_slice EnvoyResource_DeepCopyInto),
     (''Runtimes'', copy_slice EnvoyResource_DeepCopyInto),
     (''Secrets'', copy_slice EnvoySecretResource_DeepCopyInto),
     (''ExtensionConfigs'', copy_slice EnvoyResource_DeepCopyInto)]"

definition EnvoyResources_DeepCopy :: copier where
  "EnvoyResources_DeepCopy = DeepCopy EnvoyResources_DeepCopyInto"

definition SecretKeySelector_type :: gotype where
  "SecretKeySelector_type = StructT
     [(''Name'', ScalarT), (''Key'', ScalarT), (''Alias'', ScalarT)]"

definition SecretKeySelector_DeepCopyInto :: copier where
  "SecretKeySelector_DeepCopyInto = copy_struct []"

definition SecretKeySelector_DeepCopy :: copier where
  "SecretKeySelector_DeepCopy = DeepCopy SecretKeySelector_DeepCopyInto"

definition GenerateFromEndpointSlices_type :: "library \<Rightarrow> gotype" where
  "GenerateFromEndpointSlices_type L = StructT
     [(''Selector'', PtrT (tyLabelSelector L)), (''ClusterName'', ScalarT), (''TargetPort'', ScalarT)]"

definition GenerateFromEndpointSlices_DeepCopyInto :: "library \<Rightarrow> copier" where
  "GenerateFromEndpointSlices_DeepCopyInto L = copy_struct
     [(''Selector'', copy_ptr (copyLabelSelector L))]"

definition GenerateFromEndpointSlices_DeepCopy :: "library \<Rightarrow> copier" where
  "GenerateFromEndpointSlices_DeepCopy L = DeepCopy (GenerateFromEndpointSlices_DeepCopyInto L)"

definition Resource_type :: "library \<Rightarrow> gotype" where
  "Resource_type L = StructT
     [(''Type'', ScalarT), (''Value'', PtrT (tyRawExtension L)), (''GenerateFromTlsSecret'', PtrT ScalarT),
     (''GenerateFromOpaqueSecret'', PtrT SecretKeySelector_type),
     (''GenerateFromEndpointSlices'', PtrT (GenerateFromEndpointSlices_type L)), (''Blueprint'', PtrT ScalarT)]"

definition Resource_DeepCopyInto :: "library \<Rightarrow> copier" where
  "Resource_DeepCopyInto L = copy_struct
     [(''Value'', copy_ptr (copyRawExtension L)), (''GenerateFromTlsSecret'', copy_ptr copy_assign),
     (''GenerateFromOpaqueSecret'', copy_ptr copy_assign),
     (''GenerateFromEndpointSlices'', copy_ptr (GenerateFromEndpointSlices_DeepCopyInto L)),
     (''Blueprint'', copy_ptr copy_assign)]"

definition Resource_DeepCopy :: "library \<Rightarrow> copier" where
  "Resource_DeepCopy L = DeepCopy (Resource_DeepCopyInto L)"

definition EnvoyConfigSpec_type :: "library \<Rightarrow> gotype" where
  "EnvoyConfigSpec_type L = StructT
     [(''NodeID'', ScalarT), (''Serialization'', PtrT ScalarT), (''EnvoyAPI'', PtrT ScalarT),
     (''EnvoyResources'', PtrT (EnvoyResources_type L)), (''Resources'', SliceT (Resource_type L))]"

definition EnvoyConfigSpec_DeepCopyInto :: "library \<Rightarrow> copier" where
  "EnvoyConfigSpec_DeepCopyInto L = copy_struct
     [(''Serialization'', copy_ptr copy_assign), (''EnvoyAPI'', copy_ptr copy_assign),
     (''EnvoyResources'', copy_ptr EnvoyResources_DeepCopyInto),
     (''Resources'', copy_slice (Resource_DeepCopyInto L))]"

definition EnvoyConfigSpec_DeepCopy :: "library \<Rightarrow> copier" where
  "EnvoyConfigSpec_DeepCopy L = DeepCopy (EnvoyConfigSpec_DeepCopyInto L)"

definition ConfigRevisionRef_type :: "library \<Rightarrow> gotype" where
  "ConfigRevisionRef_type L = StructT
     [(''Version'', ScalarT), (''Ref'', tyObjectReference L)]"

definition ConfigRevisionRef_DeepCopyInto :: copier where
  "ConfigRevisionRef_DeepCopyInto = copy_struct
     [(''Ref'', copy_assign)]"

definition ConfigRevisionRef_DeepCopy :: copier where
  "ConfigRevisionRef_DeepCopy = DeepCopy ConfigRevisionRef_DeepCopyInto"

definition EnvoyConfigStatus_type :: "library \<Rightarrow> gotype" where
  "EnvoyConfigStatus_type L = StructT
     [(''CacheState'', PtrT ScalarT), (''PublishedVersion'', PtrT ScalarT), (''DesiredVersion'', PtrT ScalarT),
     (''Conditions'', SliceT (tyCondition L)), (''ConfigRevisions'', SliceT (ConfigRevisionRef_type L))]"

definition EnvoyConfigStatus_DeepCopyInto :: "library \<Rightarrow> copier" where
  "EnvoyConfigStatus_DeepCopyInto L = copy_struct
     [(''CacheState'', copy_ptr copy_assign), (''PublishedVersion'', copy_ptr copy_assign),
     (''DesiredVersion'', copy_ptr copy_assign), (''Conditions'', copy_slice (copyCondition L)),
     (''ConfigRevisions'', copy_slice copy_assign)]"

definition EnvoyConfigStatus_DeepCopy :: "library \<Rightarrow> copier" where
  "EnvoyConfigStatus_DeepCopy L = DeepCopy (EnvoyConfigStatus_DeepCopyInto L)"

definition EnvoyConfig_type :: "library \<Rightarrow> gotype" where
  "EnvoyConfig_type L = StructT
     [(''TypeMeta'', tyTypeMeta L), (''ObjectMeta'', tyObjectMeta L), (''Spec'', EnvoyConfigSpec_type L),
     (''Status'', EnvoyConfigStatus_type L)]"

definition EnvoyConfig_DeepCopyInto :: "library \<Rightarrow> copier" where
  "EnvoyConfig_DeepCopyInto L = copy_struct
     [(''TypeMeta'', copy_assign), (''ObjectMeta'', copyObjectMeta L),
     (''Spec'', EnvoyConfigSpec_DeepCopyInto L), (''Status'', EnvoyConfigStatus_DeepCopyInto L)]"

definition EnvoyConfig_DeepCopy :: "library \<Rightarrow> copier" where
  "EnvoyConfig_DeepCopy L = DeepCopy (EnvoyConfig_DeepCopyInto L)"

definition EnvoyConfig_DeepCopyObject :: "library \<Rightarrow> copier" where
  "EnvoyConfig_DeepCopyObject L = DeepCopyObject (EnvoyConfig_DeepCopy L)"

definition EnvoyConfigList_type :: "library \<Rightarrow> gotype" where
  "EnvoyConfigList_type L = StructT
     [(''TypeMeta'', tyTypeMeta L), (''ListMeta'', tyListMeta L), (''Items'', SliceT (EnvoyConfig_type L))]"

definition EnvoyConfigList_DeepCopyInto :: "library \<Rightarrow> copier" where
  "EnvoyConfigList_DeepCopyInto L = copy_struct
     [(''TypeMeta'', copy_assign), (''ListMeta'', copyListMeta L),
     (''Items'', copy_slice (EnvoyConfig_DeepCopyInto L))]"

definition EnvoyConfigList_DeepCopy :: "library \<Rightarrow> copier" where
  "EnvoyConfigList_DeepCopy L = DeepCopy (EnvoyConfigList_DeepCopyInto L)"

definition EnvoyConfigList_DeepCopyObject :: "library \<Rightarrow> copier" where
  "EnvoyConfigList_DeepCopyObject L = DeepCopyObject (EnvoyConfigList_DeepCopy L)"

definition EnvoyConfigRevisionSpec_type :: "library \<Rightarrow> gotype" where
  "EnvoyConfigRevisionSpec_type L = StructT
     [(''NodeID'', ScalarT), (''Version'', ScalarT), (''EnvoyAPI'', PtrT ScalarT),
     (''Serialization'', PtrT ScalarT), (''EnvoyResources'', PtrT (EnvoyResources_type L)),
     (''Resources'', SliceT (Resource_type L))]"

definition EnvoyConfigRevisionSpec_DeepCopyInto :: "library \<Rightarrow> copier" where
  "EnvoyConfigRevisionSpec_DeepCopyInto L = copy_struct
     [(''EnvoyAPI'', copy_ptr copy_assign), (''Serialization'', copy_ptr copy_assign),
     (''EnvoyResources'', copy_ptr EnvoyResources_DeepCopyInto),
     (''Resources'', copy_slice (Resource_DeepCopyInto L))]"

definition EnvoyConfigRevisionSpec_DeepCopy :: "library \<Rightarrow> copier" where
  "EnvoyConfigRevisionSpec_DeepCopy L = DeepCopy (EnvoyConfigRevisionSpec_DeepCopyInto L)"

definition VersionTracker_type :: gotype where
  "VersionTracker_type = StructT
     [(''Endpoints'', ScalarT), (''Clusters'', ScalarT), (''Routes'', ScalarT), (''ScopedRoutes'', ScalarT),
     (''Listeners'', ScalarT), (''Secrets'', ScalarT), (''Runtimes'', ScalarT), (''ExtensionConfigs'', ScalarT)]"

definition VersionTracker_DeepCopyInto :: copier where
  "VersionTracker_DeepCopyInto = copy_struct []"

definition VersionTracker_DeepCopy :: copier where
  "VersionTracker_DeepCopy = DeepCopy VersionTracker_DeepCopyInto"

definition EnvoyConfigRevisionStatus_type :: "library \<Rightarrow> gotype" where
  "EnvoyConfigRevisionStatus_type L = StructT
     [(''Published'', PtrT ScalarT), (''ProvidesVersions'', PtrT VersionTracker_type),
     (''LastPublishedAt'', PtrT (tyTime L)), (''Tainted'', PtrT ScalarT),
     (''Conditions'', SliceT (tyCondition L))]"

definition EnvoyConfigRevisionStatus_DeepCopyInto :: "library \<Rightarrow> copier" where
  "EnvoyConfigRevisionStatus_DeepCopyInto L = copy_struct
     [(''Published'', copy_ptr copy_assign), (''ProvidesVersions'', copy_ptr copy_assign),
     (''LastPublishedAt'', copyTimePointer L), (''Tainted'', copy_ptr copy_assign),
     (''Conditions'', copy_slice (copyCondition L))]"

definition EnvoyConfigRevisionStatus_DeepCopy :: "library \<Rightarrow> copier" where
  "EnvoyConfigRevisionStatus_DeepCopy L = DeepCopy (EnvoyConfigRevisionStatus_DeepCopyInto L)"

definition EnvoyConfigRevision_type :: "library \<Rightarrow> gotype" where
  "EnvoyConfigRevision_type L = StructT
     [(''TypeMeta'', tyTypeMeta L), (''ObjectMeta'', tyObjectMeta L),
     (''Spec'', EnvoyConfigRevisionSpec_type L), (''Status'', EnvoyConfigRevisionStatus_type L)]"

definition EnvoyConfigRevision_DeepCopyInto :: "library \<Rightarrow> copier" where
  "EnvoyConfigRevision_DeepCopyInto L = copy_struct
     [(''TypeMeta'', copy_assign), (''ObjectMeta'', copyObjectMeta L),
     (''Spec'', EnvoyConfigRevisionSpec_DeepCopyInto L), (''Status'', EnvoyConfigRevisionStatus_DeepCopyInto L)]"

definition EnvoyConfigRevision_DeepCopy :: "library \<Rightarrow> copier" where
  "EnvoyConfigRevision_DeepCopy L = DeepCopy (EnvoyConfigRevision_DeepCopyInto L)"

definition EnvoyConfigRevision_DeepCopyObject :: "library \<Rightarrow> copier" where
  "EnvoyConfigRevision_DeepCopyObject L = DeepCopyObject (EnvoyConfigRevision_DeepCopy L)"

definition EnvoyConfigRevisionList_type :: "library \<Rightarrow> gotype" where
  "EnvoyConfigRevisionList_type L = StructT
     [(''TypeMeta'', tyTypeMeta L), (''ListMeta'', tyListMeta L),
     (''Items'', SliceT (EnvoyConfigRevision_type L))]"

definition EnvoyConfigRevisionList_DeepCopyInto :: "library \<Rightarrow> copier" where
  "EnvoyConfigRevisionList_DeepCopyInto L = copy_struct
     [(''TypeMeta'', copy_assign), (''ListMeta'', copyListMeta L),
     (''Items'', copy_slice (EnvoyConfigRevision_DeepCopyInto L))]"

definition EnvoyConfigRevisionList_DeepCopy :: "library \<Rightarrow> copier" where
  "EnvoyConfigRevisionList_DeepCopy L = DeepCopy (EnvoyConfigRevisionList_DeepCopyInto L)"

definition EnvoyConfigRevisionList_DeepCopyObject :: "library \<Rightarrow> copier" where
  "EnvoyConfigRevisionList_DeepCopyObject L = DeepCopyObject (EnvoyConfigRevisionList_DeepCopy L)"

section \<open>They are deep copies\<close>

context library_copies
begin

lemma marin3r_plain [deep_copies]:
  "plain SecretKeySelector_type" "plain (ConfigRevisionRef_type L)" "plain VersionTracker_type"
  by (simp_all add: deep_copies SecretKeySelector_type_def ConfigRevisionRef_type_def VersionTracker_type_def)

lemma EnvoyResource_deep [deep_copies]: "deep_copier EnvoyResource_type EnvoyResource_DeepCopyInto"
  unfolding EnvoyResource_type_def EnvoyResource_DeepCopyInto_def by (rule copy_struct_deep) (simp_all add: deep_copies)

lemma EnvoySecretResource_deep [deep_copies]: "deep_copier (EnvoySecretResource_type L) EnvoySecretResource_DeepCopyInto"
  unfolding EnvoySecretResource_type_def EnvoySecretResource_DeepCopyInto_def by (rule copy_struct_deep) (simp_all add: deep_copies)

lemma EnvoyResources_deep [deep_copies]: "deep_copier (EnvoyResources_type L) EnvoyResources_DeepCopyInto"
  unfolding EnvoyResources_type_def EnvoyResources_DeepCopyInto_def by (rule copy_struct_deep) (simp_all add: deep_copies)

lemma SecretKeySelector_deep [deep_copies]: "deep_copier SecretKeySelector_type SecretKeySelector_DeepCopyInto"
  unfolding SecretKeySelector_type_def SecretKeySelector_DeepCopyInto_def by (rule copy_struct_deep) (simp_all add: deep_copies)

lemma GenerateFromEndpointSlices_deep [deep_copies]: "deep_copier (GenerateFromEndpointSlices_type L) (GenerateFromEndpointSlices_DeepCopyInto L)"
  unfolding GenerateFromEndpointSlices_type_def GenerateFromEndpointSlices_DeepCopyInto_def by (rule copy_struct_deep) (simp_all add: deep_copies)

lemma Resource_deep [deep_copies]: "deep_copier (Resource_type L) (Resource_DeepCopyInto L)"
  unfolding Resource_type_def Resource_DeepCopyInto_def by (rule copy_struct_deep) (simp_all add: deep_copies)

lemma EnvoyConfigSpec_deep [deep_copies]: "deep_copier (EnvoyConfigSpec_type L) (EnvoyConfigSpec_DeepCopyInto L)"
  unfolding EnvoyConfigSpec_type_def EnvoyConfigSpec_DeepCopyInto_def by (rule copy_struct_deep) (simp_all add: deep_copies)

lemma ConfigRevisionRef_deep [deep_copies]: "deep_copier (ConfigRevisionRef_type L) ConfigRevisionRef_DeepCopyInto"
  unfolding ConfigRevisionRef_type_def ConfigRevisionRef_DeepCopyInto_def by (rule copy_struct_deep) (simp_all add: deep_copies)

lemma EnvoyConfigStatus_deep [deep_copies]: "deep_copier (EnvoyConfigStatus_type L) (EnvoyConfigStatus_DeepCopyInto L)"
  unfolding EnvoyConfigStatus_type_def EnvoyConfigStatus_DeepCopyInto_def by (rule copy_struct_deep) (simp_all add: deep_copies)

lemma EnvoyConfig_deep [deep_copies]: "deep_copier (EnvoyConfig_type L) (EnvoyConfig_DeepCopyInto L)"
  unfolding EnvoyConfig_type_def EnvoyConfig_DeepCopyInto_def by (rule copy_struct_deep) (simp_all add: deep_copies)

lemma EnvoyConfigList_deep [deep_copies]: "deep_copier (EnvoyConfigList_type L) (EnvoyConfigList_DeepCopyInto L)"
  unfolding EnvoyConfigList_type_def EnvoyConfigList_DeepCopyInto_def by (rule copy_struct_deep) (simp_all add: deep_copies)

lemma EnvoyConfigRevisionSpec_deep [deep_copies]: "deep_copier (EnvoyConfigRevisionSpec_type L) (EnvoyConfigRevisionSpec_DeepCopyInto L)"
  unfolding EnvoyConfigRevisionSpec_type_def EnvoyConfigRevisionSpec_DeepCopyInto_def by (rule copy_struct_deep) (simp_all add: deep_copies)

lemma VersionTracker_deep [deep_copies]: "deep_copier VersionTracker_type VersionTracker_DeepCopyInto"
  unfolding VersionTracker_type_def VersionTracker_DeepCopyInto_def by (rule copy_struct_deep) (simp_all add: deep_copies)

lemma EnvoyConfigRevisionStatus_deep [deep_copies]: "deep_copier (EnvoyConfigRevisionStatus_type L) (EnvoyConfigRevisionStatus_DeepCopyInto L)"
  unfolding EnvoyConfigRevisionStatus_type_def EnvoyConfigRevisionStatus_DeepCopyInto_def by (rule copy_struct_deep) (simp_all add: deep_copies)

lemma EnvoyConfigRevision_deep [deep_copies]: "deep_copier (EnvoyConfigRevision_type L) (EnvoyConfigRevision_DeepCopyInto L)"
  unfolding EnvoyConfigRevision_type_def EnvoyConfigRevision_DeepCopyInto_def by (rule copy_struct_deep) (simp_all add: deep_copies)

lemma EnvoyConfigRevisionList_deep [deep_copies]: "deep_copier (EnvoyConfigRevisionList_type L) (EnvoyConfigRevisionList_DeepCopyInto L)"
  unfolding EnvoyConfigRevisionList_type_def EnvoyConfigRevisionList_DeepCopyInto_def by (rule copy_struct_deep) (simp_all add: deep_copies)

lemmas marin3r_deep =
  EnvoyResource_deep EnvoySecretResource_deep EnvoyResources_deep SecretKeySelector_deep
  GenerateFromEndpointSlices_deep Resource_deep EnvoyConfigSpec_deep ConfigRevisionRef_deep
  EnvoyConfigStatus_deep EnvoyConfig_deep EnvoyConfigList_deep EnvoyConfigRevisionSpec_deep VersionTracker_deep
  EnvoyConfigRevisionStatus_deep EnvoyConfigRevision_deep EnvoyConfigRevisionList_deep

end

text \<open>The methods with the types of their receivers.\<close>

definition marin3r_copies :: "library \<Rightarrow> (gotype \<times> copier) list" where
  "marin3r_copies L =
    [(PtrT EnvoyResource_type, EnvoyResource_DeepCopy),
     (PtrT (EnvoySecretResource_type L), EnvoySecretResource_DeepCopy),
     (PtrT (EnvoyResources_type L), EnvoyResources_DeepCopy),
     (PtrT SecretKeySelector_type, SecretKeySelector_DeepCopy),
     (PtrT (GenerateFromEndpointSlices_type L), GenerateFromEndpointSlices_DeepCopy L),
     (PtrT (Resource_type L), Resource_DeepCopy L),
     (PtrT (EnvoyConfigSpec_type L), EnvoyConfigSpec_DeepCopy L),
     (PtrT (ConfigRevisionRef_type L), ConfigRevisionRef_DeepCopy),
     (PtrT (EnvoyConfigStatus_type L), EnvoyConfigStatus_DeepCopy L),
     (PtrT (EnvoyConfig_type L), EnvoyConfig_DeepCopy L),
     (PtrT (EnvoyConfig_type L), EnvoyConfig_DeepCopyObject L),
     (PtrT (EnvoyConfigList_type L), EnvoyConfigList_DeepCopy L),
     (PtrT (EnvoyConfigList_type L), EnvoyConfigList_DeepCopyObject L),
     (PtrT (EnvoyConfigRevisionSpec_type L), EnvoyConfigRevisionSpec_DeepCopy L),
     (PtrT VersionTracker_type, VersionTracker_DeepCopy),
     (PtrT (EnvoyConfigRevisionStatus_type L), EnvoyConfigRevisionStatus_DeepCopy L),
     (PtrT (EnvoyConfigRevision_type L), EnvoyConfigRevision_DeepCopy L),
     (PtrT (EnvoyConfigRevision_type L), EnvoyConfigRevision_DeepCopyObject L),
     (PtrT (EnvoyConfigRevisionList_type L), EnvoyConfigRevisionList_DeepCopy L),
     (PtrT (EnvoyConfigRevisionList_type L), EnvoyConfigRevisionList_DeepCopyObject L)]"

lemmas marin3r_method_defs =
  EnvoyResource_DeepCopy_def EnvoySecretResource_DeepCopy_def EnvoyResources_DeepCopy_def
  SecretKeySelector_DeepCopy_def GenerateFromEndpointSlices_DeepCopy_def Resource_DeepCopy_def
  EnvoyConfigSpec_DeepCopy_def ConfigRevisionRef_DeepCopy_def EnvoyConfigStatus_DeepCopy_def
  EnvoyConfig_DeepCopy_def EnvoyConfigList_DeepCopy_def EnvoyConfigRevisionSpec_DeepCopy_def
  VersionTracker_DeepCopy_def EnvoyConfigRevisionStatus_DeepCopy_def EnvoyConfigRevision_DeepCopy_def
  EnvoyConfigRevisionList_DeepCopy_def EnvoyConfig_DeepCopyObject_def EnvoyConfigList_DeepCopyObject_def
  EnvoyConfigRevision_DeepCopyObject_def EnvoyConfigRevisionList_DeepCopyObject_def

lemma marin3r_copies_deep:
  assumes "library_copies L" "(T, c) \<in> set (marin3r_copies L)"
  shows "deep_copier T c"
proof -
  note deep = library_copies.marin3r_deep [OF assms(1)]
  show ?thesis using assms(2) by (auto simp: marin3r_copies_def marin3r_method_defs intro!: copy_ptr_deep deep)
qed

end
