(* ===== verification/DeepCopyOperator.thy ===== *)
theory DeepCopyOperator
  imports DeepCopyMarin3r
begin

text \<open>
  The generated deep copies of the API group \<open>operator.marin3r\<close>
  (\<open>apis/operator.marin3r/v1alpha1/zz_generated.deepcopy.go\<close>), in the way of \<open>DeepCopyMarin3r\<close>. The
  structs are declared in \<open>discoveryservice_types.go\<close>, \<open>discoveryservicecertificate_types.go\<close> and
  \<open>envoydeployment_types.go\<close>.
\<close>

section \<open>The structs and their methods\<close>

definition CertificateOptions_type :: "library \<Rightarrow> gotype" where
  "CertificateOptions_type L = StructT
     [(''SecretName'', ScalarT), (''Duration'', tyDuration L)]"

definition CertificateOptions_DeepCopyInto :: copier where
  "CertificateOptions_DeepCopyInto = copy_struct
     [(''Duration'', copy_assign)]"

definition CertificateOptions_DeepCopy :: copier where
  "CertificateOptions_DeepCopy = DeepCopy CertificateOptions_DeepCopyInto"

definition PKIConfig_type :: "library \<Rightarrow> gotype" where
  "PKIConfig_type L = StructT
     [(''RootCertificateAuthority'', PtrT (CertificateOptions_type L)),
     (''ServerCertificate'', PtrT (CertificateOptions_type L))]"

definition PKIConfig_DeepCopyInto :: copier where
  "PKIConfig_DeepCopyInto = copy_struct
     [(''RootCertificateAuthority'', copy_ptr copy_assign), (''ServerCertificate'', copy_ptr copy_assign)]"

definition PKIConfig_DeepCopy :: copier where
  "PKIConfig_DeepCopy = DeepCopy PKIConfig_DeepCopyInto"

definition ServiceConfig_type :: gotype where
  "ServiceConfig_type = StructT
     [(''Name'', ScalarT), (''Type'', ScalarT)]"

definition ServiceConfig_DeepCopyInto :: copier where
  "ServiceConfig_DeepCopyInto = copy_struct []"

definition ServiceConfig_DeepCopy :: copier where
  "ServiceConfig_DeepCopy = DeepCopy ServiceConfig_DeepCopyInto"

definition DiscoveryServiceSpec_type :: "library \<Rightarrow> gotype" where
  "DiscoveryServiceSpec_type L = StructT
     [(''Image'', PtrT ScalarT), (''Debug'', PtrT ScalarT), (''Resources'', PtrT (tyResourceRequirements L)),
     (''PKIConfig'', PtrT (PKIConfig_type L)), (''XdsServerPort'', PtrT ScalarT),
     (''MetricsPort'', PtrT ScalarT), (''ProbePort'', PtrT ScalarT),
     (''ServiceConfig'', PtrT ServiceConfig_type), (''PodPriorityClass'', PtrT ScalarT)]"

definition DiscoveryServiceSpec_DeepCopyInto :: "library \<Rightarrow> copier" where
  "DiscoveryServiceSpec_DeepCopyInto L = copy_struct
     [(''Image'', copy_ptr copy_assign), (''Debug'', copy_ptr copy_assign),
     (''Resources'', copy_ptr (copyResourceRequirements L)), (''PKIConfig'', copy_ptr PKIConfig_DeepCopyInto),
     (''XdsServerPort'', copy_ptr copy_assign), (''MetricsPort'', copy_ptr copy_assign),
     (''ProbePort'', copy_ptr copy_assign), (''ServiceConfig'', copy_ptr copy_assign),
     (''PodPriorityClass'', copy_ptr copy_assign)]"

definition DiscoveryServiceSpec_DeepCopy :: "library \<Rightarrow> copier" where
  "DiscoveryServiceSpec_DeepCopy L = DeepCopy (DiscoveryServiceSpec_DeepCopyInto L)"

definition DiscoveryServiceStatus_type :: "library \<Rightarrow> gotype" where
  "DiscoveryServiceStatus_type L = StructT
     [(''DeploymentName'', PtrT ScalarT), (''DeploymentStatus'', PtrT (tyDeploymentStatus L)),
     (''UnimplementedStatefulSetStatus'', tyUnimplementedStatefulSetStatus L)]"

definition DiscoveryServiceStatus_DeepCopyInto :: "library \<Rightarrow> copier" where
  "DiscoveryServiceStatus_DeepCopyInto L = copy_struct
     [(''DeploymentName'', copy_ptr copy_assign), (''DeploymentStatus'', copy_ptr (copyDeploymentStatus L)),
     (''UnimplementedStatefulSetStatus'', copy_assign)]"

definition DiscoveryServiceStatus_DeepCopy :: "library \<Rightarrow> copier" where
  "DiscoveryServiceStatus_DeepCopy L = DeepCopy (DiscoveryServiceStatus_DeepCopyInto L)"

definition DiscoveryService_type :: "library \<Rightarrow> gotype" where
  "DiscoveryService_type L = StructT
     [(''TypeMeta'', tyTypeMeta L), (''ObjectMeta'', tyObjectMeta L), (''Spec'', DiscoveryServiceSpec_type L),
     (''Status'', DiscoveryServiceStatus_type L)]"

definition DiscoveryService_DeepCopyInto :: "library \<Rightarrow> copier" where
  "DiscoveryService_DeepCopyInto L = copy_struct
     [(''TypeMeta'', copy_assign), (''ObjectMeta'', copyObjectMeta L),
     (''Spec'', DiscoveryServiceSpec_DeepCopyInto L), (''Status'', DiscoveryServiceStatus_DeepCopyInto L)]"

definition DiscoveryService_DeepCopy :: "library \<Rightarrow> copier" where
  "DiscoveryService_DeepCopy L = DeepCopy (DiscoveryService_DeepCopyInto L)"

definition DiscoveryService_DeepCopyObject :: "library \<Rightarrow> copier" where
  "DiscoveryService_DeepCopyObject L = DeepCopyObject (DiscoveryService_DeepCopy L)"

definition DiscoveryServiceList_type :: "library \<Rightarrow> gotype" where
  "DiscoveryServiceList_type L = StructT
     [(''TypeMeta'', tyTypeMeta L), (''ListMeta'', tyListMeta L), (''Items'', SliceT (DiscoveryService_type L))]"

definition DiscoveryServiceList_DeepCopyInto :: "library \<Rightarrow> copier" where
  "DiscoveryServiceList_DeepCopyInto L = copy_struct
     [(''TypeMeta'', copy_assign), (''ListMeta'', copyListMeta L),
     (''Items'', copy_slice (DiscoveryService_DeepCopyInto L))]"

definition DiscoveryServiceList_DeepCopy :: "library \<Rightarrow> copier" where
  "DiscoveryServiceList_DeepCopy L = DeepCopy (DiscoveryServiceList_DeepCopyInto L)"

definition DiscoveryServiceList_DeepCopyObject :: "library \<Rightarrow> copier" where
  "DiscoveryServiceList_DeepCopyObject L = DeepCopyObject (DiscoveryServiceList_DeepCopy L)"

definition SelfSignedConfig_type :: gotype where
  "SelfSignedConfig_type = StructT []"

definition SelfSignedConfig_DeepCopyInto :: copier where
  "SelfSignedConfig_DeepCopyInto = copy_struct []"

definition SelfSignedConfig_DeepCopy :: copier where
  "SelfSignedConfig_DeepCopy = DeepCopy SelfSignedConfig_DeepCopyInto"

definition CASignedConfig_type :: "library \<Rightarrow> gotype" where
  "CASignedConfig_type L = StructT
     [(''SecretRef'', tySecretReference L)]"

definition CASignedConfig_DeepCopyInto :: copier where
  "CASignedConfig_DeepCopyInto = copy_struct
     [(''SecretRef'', copy_assign)]"

definition CASignedConfig_DeepCopy :: copier where
  "CASignedConfig_DeepCopy = DeepCopy CASignedConfig_DeepCopyInto"

definition DiscoveryServiceCertificateSigner_type :: "library \<Rightarrow> gotype" where
  "DiscoveryServiceCertificateSigner_type L = StructT
     [(''SelfSigned'', PtrT SelfSignedConfig_type), (''CASigned'', PtrT (CASignedConfig_type L))]"

definition DiscoveryServiceCertificateSigner_DeepCopyInto :: copier where
  "DiscoveryServiceCertificateSigner_DeepCopyInto = copy_struct
     [(''SelfSigned'', copy_ptr copy_assign), (''CASigned'', copy_ptr copy_assign)]"

definition DiscoveryServiceCertificateSigner_DeepCopy :: copier where
  "DiscoveryServiceCertificateSigner_DeepCopy = DeepCopy DiscoveryServiceCertificateSigner_DeepCopyInto"

definition CertificateRenewalConfig_type :: gotype where
  "CertificateRenewalConfig_type = StructT
     [(''Enabled'', ScalarT)]"

definition CertificateRenewalConfig_DeepCopyInto :: copier where
  "CertificateRenewalConfig_DeepCopyInto = copy_struct []"

definition CertificateRenewalConfig_DeepCopy :: copier where
  "CertificateRenewalConfig_DeepCopy = DeepCopy CertificateRenewalConfig_DeepCopyInto"

definition DiscoveryServiceCertificateSpec_type :: "library \<Rightarrow> gotype" where
  "DiscoveryServiceCertificateSpec_type L = StructT
     [(''CommonName'', ScalarT), (''IsServerCertificate'', PtrT ScalarT), (''IsCA'', PtrT ScalarT),
     (''ValidFor'', ScalarT), (''Hosts'', SliceT ScalarT),
     (''Signer'', DiscoveryServiceCertificateSigner_type L), (''SecretRef'', tySecretReference L),
     (''CertificateRenewalConfig'', PtrT CertificateRenewalConfig_type)]"

definition DiscoveryServiceCertificateSpec_DeepCopyInto :: copier where
  "DiscoveryServiceCertificateSpec_DeepCopyInto = copy_struct
     [(''IsServerCertificate'', copy_ptr copy_assign), (''IsCA'', copy_ptr copy_assign),
     (''Hosts'', copy_slice copy_assign), (''Signer'', DiscoveryServiceCertificateSigner_DeepCopyInto),
     (''SecretRef'', copy_assign), (''CertificateRenewalConfig'', copy_ptr copy_assign)]"

definition DiscoveryServiceCertificateSpec_DeepCopy :: copier where
  "DiscoveryServiceCertificateSpec_DeepCopy = DeepCopy DiscoveryServiceCertificateSpec_DeepCopyInto"

definition DiscoveryServiceCertificateStatus_type :: "library \<Rightarrow> gotype" where
  "DiscoveryServiceCertificateStatus_type L = StructT
     [(''Ready'', PtrT ScalarT), (''NotBefore'', PtrT (tyTime L)), (''NotAfter'', PtrT (tyTime L)),
     (''CertificateHash'', PtrT ScalarT), (''Conditions'', SliceT (tyCondition L))]"

definition DiscoveryServiceCertificateStatus_DeepCopyInto :: "library \<Rightarrow> copier" where
  "DiscoveryServiceCertificateStatus_DeepCopyInto L = copy_struct
     [(''Ready'', copy_ptr copy_assign), (''NotBefore'', copyTimePointer L), (''NotAfter'', copyTimePointer L),
     (''CertificateHash'', copy_ptr copy_assign), (''Conditions'', copy_slice (copyCondition L))]"

definition DiscoveryServiceCertificateStatus_DeepCopy :: "library \<Rightarrow> copier" where
  "DiscoveryServiceCertificateStatus_DeepCopy L = DeepCopy (DiscoveryServiceCertificateStatus_DeepCopyInto L)"

definition DiscoveryServiceCertificate_type :: "library \<Rightarrow> gotype" where
  "DiscoveryServiceCertificate_type L = StructT
     [(''TypeMeta'', tyTypeMeta L), (''ObjectMeta'', tyObjectMeta L),
     (''Spec'', DiscoveryServiceCertificateSpec_type L), (''Status'', DiscoveryServiceCertificateStatus_type L)]"

definition DiscoveryServiceCertificate_DeepCopyInto :: "library \<Rightarrow> copier" where
  "DiscoveryServiceCertificate_DeepCopyInto L = copy_struct
     [(''TypeMeta'', copy_assign), (''ObjectMeta'', copyObjectMeta L),
     (''Spec'', DiscoveryServiceCertificateSpec_DeepCopyInto),
     (''Status'', DiscoveryServiceCertificateStatus_DeepCopyInto L)]"

definition DiscoveryServiceCertificate_DeepCopy :: "library \<Rightarrow> copier" where
  "DiscoveryServiceCertificate_DeepCopy L = DeepCopy (DiscoveryServiceCertificate_DeepCopyInto L)"

definition DiscoveryServiceCertificate_DeepCopyObject :: "library \<Rightarrow> copier" where
  "DiscoveryServiceCertificate_DeepCopyObject L = DeepCopyObject (DiscoveryServiceCertificate_DeepCopy L)"

definition DiscoveryServiceCertificateList_type :: "library \<Rightarrow> gotype" where
  "DiscoveryServiceCertificateList_type L = StructT
     [(''TypeMeta'', tyTypeMeta L), (''ListMeta'', tyListMeta L),
     (''Items'', SliceT (DiscoveryServiceCertificate_type L))]"

definition DiscoveryServiceCertificateList_DeepCopyInto :: "library \<Rightarrow> copier" where
  "DiscoveryServiceCertificateList_DeepCopyInto L = copy_struct
     [(''TypeMeta'', copy_assign), (''ListMeta'', copyListMeta L),
     (''Items'', copy_slice (DiscoveryServiceCertificate_DeepCopyInto L))]"

definition DiscoveryServiceCertificateList_DeepCopy :: "library \<Rightarrow> copier" where
  "DiscoveryServiceCertificateList_DeepCopy L = DeepCopy (DiscoveryServiceCertificateList_DeepCopyInto L)"

definition DiscoveryServiceCertificateList_DeepCopyObject :: "library \<Rightarrow> copier" where
  "DiscoveryServiceCertificateList_DeepCopyObject L = DeepCopyObject (DiscoveryServiceCertificateList_DeepCopy L)"

definition ContainerPort_type :: "library \<Rightarrow> gotype" where
  "ContainerPort_type L = StructT
     [(''Name'', ScalarT), (''Port'', ScalarT), (''Protocol'', PtrT (tyProtocol L))]"

definition ContainerPort_DeepCopyInto :: copier where
  "ContainerPort_DeepCopyInto = copy_struct
     [(''Protocol'', copy_ptr copy_assign)]"

definition ContainerPort_DeepCopy :: copier where
  "ContainerPort_DeepCopy = DeepCopy ContainerPort_DeepCopyInto"

definition DynamicReplicasSpec_type :: "library \<Rightarrow> gotype" where
  "DynamicReplicasSpec_type L = StructT
     [(''MinReplicas'', PtrT ScalarT), (''MaxReplicas'', ScalarT), (''Metrics'', SliceT (tyMetricSpec L)),
     (''Behavior'', PtrT (tyHorizontalPodAutoscalerBehavior L))]"

definition DynamicReplicasSpec_DeepCopyInto :: "library \<Rightarrow> copier" where
  "DynamicReplicasSpec_DeepCopyInto L = copy_struct
     [(''MinReplicas'', copy_ptr copy_assign), (''Metrics'', copy_slice (copyMetricSpec L)),
     (''Behavior'', copy_ptr (copyHorizontalPodAutoscalerBehavior L))]"

definition DynamicReplicasSpec_DeepCopy :: "library \<Rightarrow> copier" where
  "DynamicReplicasSpec_DeepCopy L = DeepCopy (DynamicReplicasSpec_DeepCopyInto L)"

definition ReplicasSpec_type :: "library \<Rightarrow> gotype" where
  "ReplicasSpec_type L = StructT
     [(''Static'', PtrT ScalarT), (''Dynamic'', PtrT (DynamicReplicasSpec_type L))]"

definition ReplicasSpec_DeepCopyInto :: "library \<Rightarrow> copier" where
  "ReplicasSpec_DeepCopyInto L = copy_struct
     [(''Static'', copy_ptr copy_assign), (''Dynamic'', copy_ptr (DynamicReplicasSpec_DeepCopyInto L))]"

definition ReplicasSpec_DeepCopy :: "library \<Rightarrow> copier" where
  "ReplicasSpec_DeepCopy L = DeepCopy (ReplicasSpec_DeepCopyInto L)"

definition ProbeSpec_type :: gotype where
  "ProbeSpec_type = StructT
     [(''InitialDelaySeconds'', ScalarT), (''TimeoutSeconds'', ScalarT), (''PeriodSeconds'', ScalarT),
     (''SuccessThreshold'', ScalarT), (''FailureThreshold'', ScalarT)]"

definition ProbeSpec_DeepCopyInto :: copier where
  "ProbeSpec_DeepCopyInto = copy_struct []"

definition ProbeSpec_DeepCopy :: copier where
  "ProbeSpec_DeepCopy = DeepCopy ProbeSpec_DeepCopyInto"

definition PodDisruptionBudgetSpec_type :: "library \<Rightarrow> gotype" where
  "PodDisruptionBudgetSpec_type L = StructT
     [(''MinAvailable'', PtrT (tyIntOrString L)), (''MaxUnavailable'', PtrT (tyIntOrString L))]"

definition PodDisruptionBudgetSpec_DeepCopyInto :: copier where
  "PodDisruptionBudgetSpec_DeepCopyInto = copy_struct
     [(''MinAvailable'', copy_ptr copy_assign), (''MaxUnavailable'', copy_ptr copy_assign)]"

definition PodDisruptionBudgetSpec_DeepCopy :: copier where
  "PodDisruptionBudgetSpec_DeepCopy = DeepCopy PodDisruptionBudgetSpec_DeepCopyInto"

definition ShutdownManager_type :: gotype where
  "ShutdownManager_type = StructT
     [(''Image'', PtrT ScalarT), (''ServerPort'', PtrT ScalarT), (''DrainTime'', PtrT ScalarT),
     (''DrainStrategy'', PtrT ScalarT)]"

definition ShutdownManager_DeepCopyInto :: copier where
  "ShutdownManager_DeepCopyInto = copy_struct
     [(''Image'', copy_ptr copy_assign), (''ServerPort'', copy_ptr copy_assign),
     (''DrainTime'', copy_ptr copy_assign), (''DrainStrategy'', copy_ptr copy_assign)]"

definition ShutdownManager_DeepCopy :: copier where
  "ShutdownManager_DeepCopy = DeepCopy ShutdownManager_DeepCopyInto"

definition InitManager_type :: gotype where
  "InitManager_type = StructT
     [(''Image'', PtrT ScalarT)]"

definition InitManager_DeepCopyInto :: copier where
  "InitManager_DeepCopyInto = copy_struct
     [(''Image'', copy_ptr copy_assign)]"

definition InitManager_DeepCopy :: copier where
  "InitManager_DeepCopy = DeepCopy InitManager_DeepCopyInto"

definition EnvoyDeploymentSpec_type :: "library \<Rightarrow> gotype" where
  "EnvoyDeploymentSpec_type L = StructT
     [(''EnvoyConfigRef'', ScalarT), (''DiscoveryServiceRef'', ScalarT), (''ClusterID'', PtrT ScalarT),
     (''Ports'', SliceT (ContainerPort_type L)), (''Image'', PtrT ScalarT),
     (''Resources'', PtrT (tyResourceRequirements L)), (''ClientCertificateDuration'', PtrT (tyDuration L)),
     (''ExtraArgs'', SliceT ScalarT), (''AdminPort'', PtrT ScalarT), (''AdminAccessLogPath'', PtrT ScalarT),
     (''Replicas'', PtrT (ReplicasSpec_type L)), (''LivenessProbe'', PtrT ProbeSpec_type),
     (''ReadinessProbe'', PtrT ProbeSpec_type), (''Affinity'', PtrT (tyAffinity L)),
     (''PodDisruptionBudget'', PtrT (PodDisruptionBudgetSpec_type L)),
     (''ShutdownManager'', PtrT ShutdownManager_type), (''InitManager'', PtrT InitManager_type)]"

definition EnvoyDeploymentSpec_DeepCopyInto :: "library \<Rightarrow> copier" where
  "EnvoyDeploymentSpec_DeepCopyInto L = copy_struct
     [(''ClusterID'', copy_ptr copy_assign), (''Ports'', copy_slice ContainerPort_DeepCopyInto),
     (''Image'', copy_ptr copy_assign), (''Resources'', copy_ptr (copyResourceRequirements L)),
     (''ClientCertificateDuration'', copy_ptr copy_assign), (''ExtraArgs'', copy_slice copy_assign),
     (''AdminPort'', copy_ptr copy_assign), (''AdminAccessLogPath'', copy_ptr copy_assign),
     (''Replicas'', copy_ptr (ReplicasSpec_DeepCopyInto L)), (''LivenessProbe'', copy_ptr copy_assign),
     (''ReadinessProbe'', copy_ptr copy_assign), (''Affinity'', copy_ptr (copyAffinity L)),
     (''PodDisruptionBudget'', copy_ptr PodDisruptionBudgetSpec_DeepCopyInto),
     (''ShutdownManager'', copy_ptr ShutdownManager_DeepCopyInto),
     (''InitManager'', copy_ptr InitManager_DeepCopyInto)]"

definition EnvoyDeploymentSpec_DeepCopy :: "library \<Rightarrow> copier" where
  "EnvoyDeploymentSpec_DeepCopy L = DeepCopy (EnvoyDeploymentSpec_DeepCopyInto L)"

definition EnvoyDeploymentStatus_type :: "library \<Rightarrow> gotype" where
  "EnvoyDeploymentStatus_type L = StructT
     [(''DeploymentName'', PtrT ScalarT), (''DeploymentStatus'', PtrT (tyDeploymentStatus L)),
     (''UnimplementedStatefulSetStatus'', tyUnimplementedStatefulSetStatus L)]"

definition EnvoyDeploymentStatus_DeepCopyInto :: "library \<Rightarrow> copier" where
  "EnvoyDeploymentStatus_DeepCopyInto L = copy_struct
     [(''DeploymentName'', copy_ptr copy_assign), (''DeploymentStatus'', copy_ptr (copyDeploymentStatus L)),
     (''UnimplementedStatefulSetStatus'', copy_assign)]"

definition EnvoyDeploymentStatus_DeepCopy :: "library \<Rightarrow> copier" where
  "EnvoyDeploymentStatus_DeepCopy L = DeepCopy (EnvoyDeploymentStatus_DeepCopyInto L)"

definition EnvoyDeployment_type :: "library \<Rightarrow> gotype" where
  "EnvoyDeployment_type L = StructT
     [(''TypeMeta'', tyTypeMeta L), (''ObjectMeta'', tyObjectMeta L), (''Spec'', EnvoyDeploymentSpec_type L),
     (''Status'', EnvoyDeploymentStatus_type L)]"

definition EnvoyDeployment_DeepCopyInto :: "library \<Rightarrow> copier" where
  "EnvoyDeployment_DeepCopyInto L = copy_struct
     [(''TypeMeta'', copy_assign), (''ObjectMeta'', copyObjectMeta L),
     (''Spec'', EnvoyDeploymentSpec_DeepCopyInto L), (''Status'', EnvoyDeploymentStatus_DeepCopyInto L)]"

definition EnvoyDeployment_DeepCopy :: "library \<Rightarrow> copier" where
  "EnvoyDeployment_DeepCopy L = DeepCopy (EnvoyDeployment_DeepCopyInto L)"

definition EnvoyDeployment_DeepCopyObject :: "library \<Rightarrow> copier" where
  "EnvoyDeployment_DeepCopyObject L = DeepCopyObject (EnvoyDeployment_DeepCopy L)"

definition EnvoyDeploymentList_type :: "library \<Rightarrow> gotype" where
  "EnvoyDeploymentList_type L = StructT
     [(''TypeMeta'', tyTypeMeta L), (''ListMeta'', tyListMeta L), (''Items'', SliceT (EnvoyDeployment_type L))]"

definition EnvoyDeploymentList_DeepCopyInto :: "library \<Rightarrow> copier" where
  "EnvoyDeploymentList_DeepCopyInto L = copy_struct
     [(''TypeMeta'', copy_assign), (''ListMeta'', copyListMeta L),
     (''Items'', copy_slice (EnvoyDeployment_DeepCopyInto L))]"

definition EnvoyDeploymentList_DeepCopy :: "library \<Rightarrow> copier" where
  "EnvoyDeploymentList_DeepCopy L = DeepCopy (EnvoyDeploymentList_DeepCopyInto L)"

definition EnvoyDeploymentList_DeepCopyObject :: "library \<Rightarrow> copier" where
  "EnvoyDeploymentList_DeepCopyObject L = DeepCopyObject (EnvoyDeploymentList_DeepCopy L)"

section \<open>They are deep copies\<close>

context library_copies
begin

lemma operator_plain [deep_copies]:
  "plain (CertificateOptions_type L)" "plain ServiceConfig_type" "plain SelfSignedConfig_type"
  "plain (CASignedConfig_type L)" "plain CertificateRenewalConfig_type" "plain ProbeSpec_type"
  by (simp_all add: deep_copies CertificateOptions_type_def ServiceConfig_type_def SelfSignedConfig_type_def CASignedConfig_type_def
      CertificateRenewalConfig_type_def ProbeSpec_type_def)

lemma CertificateOptions_deep [deep_copies]: "deep_copier (CertificateOptions_type L) CertificateOptions_DeepCopyInto"
  unfolding CertificateOptions_type_def CertificateOptions_DeepCopyInto_def by (rule copy_struct_deep) (simp_all add: deep_copies)

lemma PKIConfig_deep [deep_copies]: "deep_copier (PKIConfig_type L) PKIConfig_DeepCopyInto"
  unfolding PKIConfig_type_def PKIConfig_DeepCopyInto_def by (rule copy_struct_deep) (simp_all add: deep_copies)

lemma ServiceConfig_deep [deep_copies]: "deep_copier ServiceConfig_type ServiceConfig_DeepCopyInto"
  unfolding ServiceConfig_type_def ServiceConfig_DeepCopyInto_def by (rule copy_struct_deep) (simp_all add: deep_copies)

lemma DiscoveryServiceSpec_deep [deep_copies]: "deep_copier (DiscoveryServiceSpec_type L) (DiscoveryServiceSpec_DeepCopyInto L)"
  unfolding DiscoveryServiceSpec_type_def DiscoveryServiceSpec_DeepCopyInto_def by (rule copy_struct_deep) (simp_all add: deep_copies)

lemma DiscoveryServiceStatus_deep [deep_copies]: "deep_copier (DiscoveryServiceStatus_type L) (DiscoveryServiceStatus_DeepCopyInto L)"
  unfolding DiscoveryServiceStatus_type_def DiscoveryServiceStatus_DeepCopyInto_def by (rule copy_struct_deep) (simp_all add: deep_copies)

lemma DiscoveryService_deep [deep_copies]: "deep_copier (DiscoveryService_type L) (DiscoveryService_DeepCopyInto L)"
  unfolding DiscoveryService_type_def DiscoveryService_DeepCopyInto_def by (rule copy_struct_deep) (simp_all add: deep_copies)

lemma DiscoveryServiceList_deep [deep_copies]: "deep_copier (DiscoveryServiceList_type L) (DiscoveryServiceList_DeepCopyInto L)"
  unfolding DiscoveryServiceList_type_def DiscoveryServiceList_DeepCopyInto_def by (rule copy_struct_deep) (simp_all add: deep_copies)

lemma SelfSignedConfig_deep [deep_copies]: "deep_copier SelfSignedConfig_type SelfSignedConfig_DeepCopyInto"
  unfolding SelfSignedConfig_type_def SelfSignedConfig_DeepCopyInto_def by (rule copy_struct_deep) (simp_all add: deep_copies)

lemma CASignedConfig_deep [deep_copies]: "deep_copier (CASignedConfig_type L) CASignedConfig_DeepCopyInto"
  unfolding CASignedConfig_type_def CASignedConfig_DeepCopyInto_def by (rule copy_struct_deep) (simp_all add: deep_copies)

lemma DiscoveryServiceCertificateSigner_deep [deep_copies]: "deep_copier (DiscoveryServiceCertificateSigner_type L) DiscoveryServiceCertificateSigner_DeepCopyInto"
  unfolding DiscoveryServiceCertificateSigner_type_def DiscoveryServiceCertificateSigner_DeepCopyInto_def by (rule copy_struct_deep) (simp_all add: deep_copies)

lemma CertificateRenewalConfig_deep [deep_copies]: "deep_copier CertificateRenewalConfig_type CertificateRenewalConfig_DeepCopyInto"
  unfolding CertificateRenewalConfig_type_def CertificateRenewalConfig_DeepCopyInto_def by (rule copy_struct_deep) (simp_all add: deep_copies)

lemma DiscoveryServiceCertificateSpec_deep [deep_copies]: "deep_copier (DiscoveryServiceCertificateSpec_type L) DiscoveryServiceCertificateSpec_DeepCopyInto"
  unfolding DiscoveryServiceCertificateSpec_type_def DiscoveryServiceCertificateSpec_DeepCopyInto_def by (rule copy_struct_deep) (simp_all add: deep_copies)

lemma DiscoveryServiceCertificateStatus_deep [deep_copies]: "deep_copier (DiscoveryServiceCertificateStatus_type L) (DiscoveryServiceCertificateStatus_DeepCopyInto L)"
  unfolding DiscoveryServiceCertificateStatus_type_def DiscoveryServiceCertificateStatus_DeepCopyInto_def by (rule copy_struct_deep) (simp_all add: deep_copies)

lemma DiscoveryServiceCertificate_deep [deep_copies]: "deep_copier (DiscoveryServiceCertificate_type L) (DiscoveryServiceCertificate_DeepCopyInto L)"
  unfolding DiscoveryServiceCertificate_type_def DiscoveryServiceCertificate_DeepCopyInto_def by (rule copy_struct_deep) (simp_all add: deep_copies)

lemma DiscoveryServiceCertificateList_deep [deep_copies]: "deep_copier (DiscoveryServiceCertificateList_type L) (DiscoveryServiceCertificateList_DeepCopyInto L)"
  unfolding DiscoveryServiceCertificateList_type_def DiscoveryServiceCertificateList_DeepCopyInto_def by (rule copy_struct_deep) (simp_all add: deep_copies)

lemma ContainerPort_deep [deep_copies]: "deep_copier (ContainerPort_type L) ContainerPort_DeepCopyInto"
  unfolding ContainerPort_type_def ContainerPort_DeepCopyInto_def by (rule copy_struct_deep) (simp_all add: deep_copies)

lemma DynamicReplicasSpec_deep [deep_copies]: "deep_copier (DynamicReplicasSpec_type L) (DynamicReplicasSpec_DeepCopyInto L)"
  unfolding DynamicReplicasSpec_type_def DynamicReplicasSpec_DeepCopyInto_def by (rule copy_struct_deep) (simp_all add: deep_copies)

lemma ReplicasSpec_deep [deep_copies]: "deep_copier (ReplicasSpec_type L) (ReplicasSpec_DeepCopyInto L)"
  unfolding ReplicasSpec_type_def ReplicasSpec_DeepCopyInto_def by (rule copy_struct_deep) (simp_all add: deep_copies)

lemma ProbeSpec_deep [deep_copies]: "deep_copier ProbeSpec_type ProbeSpec_DeepCopyInto"
  unfolding ProbeSpec_type_def ProbeSpec_DeepCopyInto_def by (rule copy_struct_deep) (simp_all add: deep_copies)

lemma PodDisruptionBudgetSpec_deep [deep_copies]: "deep_copier (PodDisruptionBudgetSpec_type L) PodDisruptionBudgetSpec_DeepCopyInto"
  unfolding PodDisruptionBudgetSpec_type_def PodDisruptionBudgetSpec_DeepCopyInto_def by (rule copy_struct_deep) (simp_all add: deep_copies)

lemma ShutdownManager_deep [deep_copies]: "deep_copier ShutdownManager_type ShutdownManager_DeepCopyInto"
  unfolding ShutdownManager_type_def ShutdownManager_DeepCopyInto_def by (rule copy_struct_deep) (simp_all add: deep_copies)

lemma InitManager_deep [deep_copies]: "deep_copier InitManager_type InitManager_DeepCopyInto"
  unfolding InitManager_type_def InitManager_DeepCopyInto_def by (rule copy_struct_deep) (simp_all add: deep_copies)

lemma EnvoyDeploymentSpec_deep [deep_copies]: "deep_copier (EnvoyDeploymentSpec_type L) (EnvoyDeploymentSpec_DeepCopyInto L)"
  unfolding EnvoyDeploymentSpec_type_def EnvoyDeploymentSpec_DeepCopyInto_def by (rule copy_struct_deep) (simp_all add: deep_copies)

lemma EnvoyDeploymentStatus_deep [deep_copies]: "deep_copier (EnvoyDeploymentStatus_type L) (EnvoyDeploymentStatus_DeepCopyInto L)"
  unfolding EnvoyDeploymentStatus_type_def EnvoyDeploymentStatus_DeepCopyInto_def by (rule copy_struct_deep) (simp_all add: deep_copies)

lemma EnvoyDeployment_deep [deep_copies]: "deep_copier (EnvoyDeployment_type L) (EnvoyDeployment_DeepCopyInto L)"
  unfolding EnvoyDeployment_type_def EnvoyDeployment_DeepCopyInto_def by (rule copy_struct_deep) (simp_all add: deep_copies)

lemma EnvoyDeploymentList_deep [deep_copies]: "deep_copier (EnvoyDeploymentList_type L) (EnvoyDeploymentList_DeepCopyInto L)"
  unfolding EnvoyDeploymentList_type_def EnvoyDeploymentList_DeepCopyInto_def by (rule copy_struct_deep) (simp_all add: deep_copies)

lemmas operator_deep =
  CertificateOptions_deep PKIConfig_deep ServiceConfig_deep DiscoveryServiceSpec_deep
  DiscoveryServiceStatus_deep DiscoveryService_deep DiscoveryServiceList_deep SelfSignedConfig_deep
  CASignedConfig_deep DiscoveryServiceCertificateSigner_deep CertificateRenewalConfig_deep
  DiscoveryServiceCertificateSpec_deep DiscoveryServiceCertificateStatus_deep DiscoveryServiceCertificate_deep
  DiscoveryServiceCertificateList_deep ContainerPort_deep DynamicReplicasSpec_deep ReplicasSpec_deep
  ProbeSpec_deep PodDisruptionBudgetSpec_deep ShutdownManager_deep InitManager_deep EnvoyDeploymentSpec_deep
  EnvoyDeploymentStatus_deep EnvoyDeployment_deep EnvoyDeploymentList_deep

end

text \<open>The methods with the types of their receivers.\<close>

definition operator_copies :: "library \<Rightarrow> (gotype \<times> copier) list" where
  "operator_copies L =
    [(PtrT (CertificateOptions_type L), CertificateOptions_DeepCopy),
     (PtrT (PKIConfig_type L), PKIConfig_DeepCopy), (PtrT ServiceConfig_type, ServiceConfig_DeepCopy),
     (PtrT (DiscoveryServiceSpec_type L), DiscoveryServiceSpec_DeepCopy L),
     (PtrT (DiscoveryServiceStatus_type L), DiscoveryServiceStatus_DeepCopy L),
     (PtrT (DiscoveryService_type L), DiscoveryService_DeepCopy L),
     (PtrT (DiscoveryService_type L), DiscoveryService_DeepCopyObject L),
     (PtrT (DiscoveryServiceList_type L), DiscoveryServiceList_DeepCopy L),
     (PtrT (DiscoveryServiceList_type L), DiscoveryServiceList_DeepCopyObject L),
     (PtrT SelfSignedConfig_type, SelfSignedConfig_DeepCopy),
     (PtrT (CASignedConfig_type L), CASignedConfig_DeepCopy),
     (PtrT (DiscoveryServiceCertificateSigner_type L), DiscoveryServiceCertificateSigner_DeepCopy),
     (PtrT CertificateRenewalConfig_type, CertificateRenewalConfig_DeepCopy),
     (PtrT (DiscoveryServiceCertificateSpec_type L), DiscoveryServiceCertificateSpec_DeepCopy),
     (PtrT (DiscoveryServiceCertificateStatus_type L), DiscoveryServiceCertificateStatus_DeepCopy L),
     (PtrT (DiscoveryServiceCertificate_type L), DiscoveryServiceCertificate_DeepCopy L),
     (PtrT (DiscoveryServiceCertificate_type L), DiscoveryServiceCertificate_DeepCopyObject L),
     (PtrT (DiscoveryServiceCertificateList_type L), DiscoveryServiceCertificateList_DeepCopy L),
     (PtrT (DiscoveryServiceCertificateList_type L), DiscoveryServiceCertificateList_DeepCopyObject L),
     (PtrT (ContainerPort_type L), ContainerPort_DeepCopy),
     (PtrT (DynamicReplicasSpec_type L), DynamicReplicasSpec_DeepCopy L),
     (PtrT (ReplicasSpec_type L), ReplicasSpec_DeepCopy L), (PtrT ProbeSpec_type, ProbeSpec_DeepCopy),
     (PtrT (PodDisruptionBudgetSpec_type L), PodDisruptionBudgetSpec_DeepCopy),
     (PtrT ShutdownManager_type, ShutdownManager_DeepCopy), (PtrT InitManager_type, InitManager_DeepCopy),
     (PtrT (EnvoyDeploymentSpec_type L), EnvoyDeploymentSpec_DeepCopy L),
     (PtrT (EnvoyDeploymentStatus_type L), EnvoyDeploymentStatus_DeepCopy L),
     (PtrT (EnvoyDeployment_type L), EnvoyDeployment_DeepCopy L),
     (PtrT (EnvoyDeployment_type L), EnvoyDeployment_DeepCopyObject L),
     (PtrT (EnvoyDeploymentList_type L), EnvoyDeploymentList_DeepCopy L),
     (PtrT (EnvoyDeploymentList_type L), EnvoyDeploymentList_DeepCopyObject L)]"

lemmas operator_method_defs =
  CertificateOptions_DeepCopy_def PKIConfig_DeepCopy_def ServiceConfig_DeepCopy_def
  DiscoveryServiceSpec_DeepCopy_def DiscoveryServiceStatus_DeepCopy_def DiscoveryService_DeepCopy_def
  DiscoveryServiceList_DeepCopy_def SelfSignedConfig_DeepCopy_def CASignedConfig_DeepCopy_def
  DiscoveryServiceCertificateSigner_DeepCopy_def CertificateRenewalConfig_DeepCopy_def
  DiscoveryServiceCertificateSpec_DeepCopy_def DiscoveryServiceCertificateStatus_DeepCopy_def
  DiscoveryServiceCertificate_DeepCopy_def DiscoveryServiceCertificateList_DeepCopy_def
  ContainerPort_DeepCopy_def DynamicReplicasSpec_DeepCopy_def ReplicasSpec_DeepCopy_def ProbeSpec_DeepCopy_def
  PodDisruptionBudgetSpec_DeepCopy_def ShutdownManager_DeepCopy_def InitManager_DeepCopy_def
  EnvoyDeploymentSpec_DeepCopy_def EnvoyDeploymentStatus_DeepCopy_def EnvoyDeployment_DeepCopy_def
  EnvoyDeploymentList_DeepCopy_def DiscoveryService_DeepCopyObject_def DiscoveryServiceList_DeepCopyObject_def
  DiscoveryServiceCertificate_DeepCopyObject_def DiscoveryServiceCertificateList_DeepCopyObject_def
  EnvoyDeployment_DeepCopyObject_def EnvoyDeploymentList_DeepCopyObject_def

lemma operator_copies_deep:
  assumes "library_copies L" "(T, c) \<in> set (operator_copies L)"
  shows "deep_copier T c"
proof -
  note deep = library_copies.operator_deep [OF assms(1)]
  show ?thesis using assms(2) by (auto simp: operator_copies_def operator_method_defs intro!: copy_ptr_deep deep)
qed

end
