(* ===== verification/DeepCopyProperties.thy ===== *)
theory DeepCopyProperties
  imports DeepCopyOperator
begin

text \<open>
  What the controllers get from a deep copy. They copy an object, change the original in place
  (\<open>meta.SetStatusCondition\<close> writes into the elements of the conditions slice) and send the
  difference: \<open>client.MergeFrom(ecr.DeepCopy())\<close> in \<open>taintSelf\<close> and in the revision reconciler. If the
  copy shared a cell with the original the difference would be lost. That it never does is what
  allows the other theories to treat objects as immutable values.
\<close>

section \<open>The objects of the controllers\<close>

sublocale library_copies \<subseteq> configCopy: deep_copier "EnvoyConfig_type L" "EnvoyConfig_DeepCopyInto L"
  by (rule EnvoyConfig_deep)

sublocale library_copies \<subseteq> revisionCopy: deep_copier "EnvoyConfigRevision_type L" "EnvoyConfigRevision_DeepCopyInto L"
  by (rule EnvoyConfigRevision_deep)

sublocale library_copies \<subseteq> certificateCopy:
    deep_copier "DiscoveryServiceCertificate_type L" "DiscoveryServiceCertificate_DeepCopyInto L"
  by (rule DiscoveryServiceCertificate_deep)

interpretation trackerCopy: deep_copier VersionTracker_type VersionTracker_DeepCopyInto
  unfolding VersionTracker_type_def VersionTracker_DeepCopyInto_def by (rule copy_struct_deep) simp_all

section \<open>A model of the library\<close>

text \<open>Small stand-ins for the Kubernetes types, with the deep copy that follows the type.\<close>

definition plain_struct :: gotype where
  "plain_struct = StructT [(''Name'', ScalarT), (''Value'', ScalarT)]"

definition nested_struct :: gotype where
  "nested_struct = StructT [(''Name'', ScalarT), (''Labels'', SliceT plain_struct), (''Ref'', PtrT plain_struct)]"

definition sample_library :: library where
  "sample_library = \<lparr>
     tyTypeMeta = plain_struct, tySecretReference = plain_struct, tyObjectReference = plain_struct, tyDuration = ScalarT,
     tyIntOrString = plain_struct, tyProtocol = ScalarT, tyUnimplementedStatefulSetStatus = StructT [],
     tyObjectMeta = nested_struct, copyObjectMeta = copy_of nested_struct,
     tyListMeta = nested_struct, copyListMeta = copy_of nested_struct,
     tyCondition = plain_struct, copyCondition = copy_of plain_struct,
     tyRawExtension = nested_struct, copyRawExtension = copy_of nested_struct,
     tyLabelSelector = nested_struct, copyLabelSelector = copy_of nested_struct,
     tyResourceRequirements = nested_struct, copyResourceRequirements = copy_of nested_struct,
     tyMetricSpec = nested_struct, copyMetricSpec = copy_of nested_struct,
     tyHorizontalPodAutoscalerBehavior = nested_struct, copyHorizontalPodAutoscalerBehavior = copy_of nested_struct,
     tyAffinity = nested_struct, copyAffinity = copy_of nested_struct,
     tyDeploymentStatus = nested_struct, copyDeploymentStatus = copy_of nested_struct,
     tyTime = plain_struct, copyTimePointer = copy_of (PtrT plain_struct) \<rparr>"

lemma stand_ins [simp]: "plain plain_struct" "wf_type plain_struct" "wf_type nested_struct"
  by (simp_all add: plain_struct_def nested_struct_def)

interpretation sampleLibrary: library_copies sample_library
  by (rule library_copies.intro) (simp_all add: sample_library_def copy_of_deep copy_ptr_deep)

section \<open>The property\<close>

text \<open>(C13) Deep copies are isolated: whatever struct of the two API groups \<open>DeepCopy\<close> or
  \<open>DeepCopyObject\<close> is called on, the copy stands for the same tree as the original, shares no cell
  with it, leaves it as it was, and keeps its tree whatever is written later to cells that are
  not its own, so in particular when the original is changed in place.\<close>

theorem deep_copies_are_isolated:
  assumes "library_copies L" "(T, deepCopy) \<in> set (marin3r_copies L @ operator_copies L)"
    and "read h T v = Some (t, A)" "set A \<subseteq> {..<hNext h}" "deepCopy v h = (w, h')"
  shows "\<exists>B. read h' T w = Some (t, B) \<and> set A \<inter> set B = {} \<and> read h' T v = Some (t, A) \<and>
    (\<forall>h''. (\<forall>b \<in> set B. hCell h'' b = hCell h' b) \<longrightarrow> read h'' T w = Some (t, B))"
proof -
  have "deep_copier T deepCopy"
    using assms(1,2) marin3r_copies_deep [of L T deepCopy] operator_copies_deep [of L T deepCopy] by auto
  from deep_copier.isolated [OF this assms(3-5)] show ?thesis .
qed

definition sample_heap :: goheap where
  "sample_heap = \<lparr> hNext = 2, hCell = (\<lambda>_. [])
     (0 := [Struct [(''Published'', NilRef), (''ProvidesVersions'', NilRef), (''LastPublishedAt'', NilRef),
                    (''Tainted'', NilRef), (''Conditions'', Ref 1)]],
      1 := [Struct [(''Name'', Scalar ''ResourcesInSync''), (''Value'', Scalar ''True'')]]) \<rparr>"

abbreviation sample_status_type :: gotype where
  "sample_status_type \<equiv> PtrT (EnvoyConfigRevisionStatus_type sample_library)"

abbreviation sample_copied :: "goval \<times> goheap" where
  "sample_copied \<equiv> EnvoyConfigRevisionStatus_DeepCopy sample_library (Ref 0) sample_heap"

text \<open>The status of a revision is copied, then its only condition is overwritten in place.\<close>

theorem deep_copies_are_isolated_witness:
  "\<exists>t B. read (store 1 [Struct [(''Name'', Scalar ''ResourcesInSync''), (''Value'', Scalar ''False'')]] (snd sample_copied))
       sample_status_type (fst sample_copied) = Some (t, B) \<and> read sample_heap sample_status_type (Ref 0) = Some (t, [0, 1])"
proof -
  let ?r = "read sample_heap sample_status_type (Ref 0)"
  have "map_option snd ?r = Some [0, 1]"
    by (simp add: sample_heap_def EnvoyConfigRevisionStatus_type_def sample_library_def plain_struct_def collect_def)
  then obtain t where t: "?r = Some (t, [0, 1])" by auto
  obtain w h' where copied: "sample_copied = (w, h')" by fastforce
  have listed: "(sample_status_type, EnvoyConfigRevisionStatus_DeepCopy sample_library)
      \<in> set (marin3r_copies sample_library @ operator_copies sample_library)"
    by (simp only: marin3r_copies_def set_append list.set insert_iff Un_iff simp_thms)
  have "set [0, 1] \<subseteq> {..<hNext sample_heap}" by (simp add: sample_heap_def)
  then obtain B where B: "set [0, 1] \<inter> set B = {}"
      "\<And>h''. (\<forall>b \<in> set B. hCell h'' b = hCell h' b) \<Longrightarrow> read h'' sample_status_type w = Some (t, B)"
    using deep_copies_are_isolated [OF sampleLibrary.library_copies_axioms listed t _ copied] by blast
  have "read (store 1 vs h') sample_status_type w = Some (t, B)" for vs using B(1) by (intro B(2)) auto
  with t copied show ?thesis by auto
qed

end
