(* ===== verification/Spec2Isabelle.thy ===== *)
theory Spec2Isabelle
  imports Prelude GoStdlib StableSort Meta EnvoyTypes NetIP ApiMarin3r EnvoyConfigWebhook
    Stats Callbacks Revisions RevisionReconciler RevisionSafety RevisionProperties EnvoyConfigController
    XdsCache CacheReconciler CacheProperties RevisionController RevisionStatusProperties
    StatsCollector Float64 Pki Certificates CertificateProperties
    K8sPods Containers OperatorTypes OperatorGenerators OperatorControllers OperatorProperties
    ShutdownManager Sidecar SidecarProperties Bootstrap Commands CommandProperties
    RevisionConvergence ControlLoop AdmittedResources Servers ServiceCommands
    ServiceCommandProperties ReconcilerConfig MultiErrorText BuildTools Watches
    OverlappingRuns GoHeap DeepCopyMarin3r DeepCopyOperator DeepCopyProperties
begin

text \<open>
  \<^bold>\<open>MARIN3R, a control plane for Envoy proxies on Kubernetes.\<close>

  \<^bold>\<open>The program.\<close> Users describe Envoy configurations as \<open>EnvoyConfig\<close> objects. The
  discovery service watches them: for every change of the resources the \<open>EnvoyConfig\<close>
  controller creates an immutable \<open>EnvoyConfigRevision\<close> and marks one revision per node as
  published; the \<open>EnvoyConfigRevision\<close> controller loads the published revision into the xDS
  cache, from which a gRPC server serves it to the Envoy proxies. The callbacks of that server
  record in a statistics store which pod accepted or rejected which version. A revision that all
  pods reject becomes tainted, and the first controller then publishes an older one: this is the
  self-healing feedback the first property below is about. The operator creates the rest: the
  deployments of the discovery service and of Envoy proxies, the certificates both sides
  authenticate with, and, by a webhook, Envoy sidecars in annotated pods. In an Envoy pod an init
  container writes the bootstrap configuration and a shutdown manager delays termination until
  connections are drained.

  \<^bold>\<open>How code becomes definitions.\<close> A Go function that returns a value and an error is a function
  into \<open>goerror + 'a\<close>; a panic (index out of range, nil dereference) is the error \<open>Panic\<close>, so
  that absence of panics is provable. A struct is a record, an enumeration over strings a
  datatype with a constructor for other strings or a string, a pointer an \<open>option\<close>, an integer of
  32 or 64 bits a word where it can wrap, a map an association list with distinct keys. Code
  outside the repository is a parameter: a record of the calls that are made, with the
  documented behaviour as the laws of a locale. State (the API server, the store, the cache, the
  file system) is passed in and returned. Names are those of the source; a prefix tells methods
  of different types apart (\<open>ECR_\<close>, \<open>EC_\<close>, \<open>DSC_\<close>, \<open>DS_\<close>, \<open>ED_\<close>, \<open>cc_\<close>).
  No definition uses fuel: all loops range over finite lists, except those
  that wait (the shutdown manager, the pod informer), which are functions of the observations made
  so far, with \<open>None\<close> for still waiting. Where goroutines or controllers interleave there is a step
  relation: \<open>stats_reachable\<close>, \<open>control_step\<close>, \<open>overlap_step\<close>, \<open>shtdn_step\<close>,
  \<open>xds_step\<close>, \<open>mgr_step\<close>. Objects are immutable values, a pointer is an option; that the deep copies
  of the code allow this is shown in the theories of the heap.

  \<^bold>\<open>Theories, in the order of the imports.\<close>

  \<^item> \<open>Prelude\<close>, \<open>GoStdlib\<close>, \<open>StableSort\<close>, \<open>NetIP\<close>, \<open>Float64\<close>: results and lists; Go's strings
    and number formatting; \<open>sort.SliceStable\<close> as the insertion sort it is on short slices, with the
    uniqueness of stable sorts under the locale \<open>strict_weak_order\<close> for longer ones; \<open>net.ParseIP\<close>
    and its inverse; rounding of \<open>float64\<close>.
  \<^item> \<open>Meta\<close>: object metadata and status conditions, with the locale \<open>status_conditions\<close>.
  \<^item> \<open>EnvoyTypes\<close> (\<open>pkg/envoy\<close>, its \<open>resources\<close> and \<open>serializer\<close>), \<open>ApiMarin3r\<close>
    (\<open>apis/marin3r/v1alpha1\<close>), \<open>EnvoyConfigWebhook\<close> (\<open>envoyconfig_webhook.go\<close>),
    \<open>MultiErrorText\<close> (\<open>error.go\<close>): the resource types, what the validating webhook admits, and the
    JSON text of a refusal, from which the errors can be read back.
  \<^item> \<open>Stats\<close>, \<open>StatsCollector\<close>, \<open>Callbacks\<close> (\<open>pkg/discoveryservice/xdss/stats\<close>,
    \<open>xdss/v3/callbacks.go\<close>, \<open>pkg/util/backoff\<close>): the store is the locale \<open>kv_cache\<close>; reachable
    stores are the inductive predicate \<open>stats_reachable\<close>. Shown: keys round trip, rejections are
    charged to the version served, the failure percentage is right, scraping does not panic.
  \<^item> \<open>Revisions\<close>, \<open>RevisionReconciler\<close>, \<open>RevisionSafety\<close>, \<open>RevisionProperties\<close>
    (\<open>pkg/reconcilers/marin3r/envoyconfig\<close>), \<open>EnvoyConfigController\<close>: sorting, choosing and
    publishing revisions. The API server is the locale \<open>revision_api\<close>, whose calls may fail with
    or without effect. Shown: at most one revision is published at every exit, a finished run
    publishes exactly the newest untainted revision and keeps at most ten.
  \<^item> \<open>RevisionConvergence\<close>: which ten revisions survive, and that against an API server whose calls
    succeed (locale \<open>working_api\<close>, an extension of \<open>revision_api\<close>) two runs publish the current
    resources and a third changes nothing.
  \<^item> \<open>XdsCache\<close>, \<open>CacheReconciler\<close>, \<open>CacheProperties\<close> (\<open>xdss/v3\<close>,
    \<open>envoyconfigrevision/cache.go\<close>, \<open>discover/endpoints.go\<close>): the interfaces \<open>Snapshot\<close> and
    \<open>Cache\<close> are the locales \<open>snapshot_interface\<close> and \<open>cache_interface\<close>; go-control-plane is
    \<open>control_plane\<close>, and the implementation on it is a \<open>sublocale\<close> of them. Shown: the cache
    serves what is reported, a second run writes nothing, why a revision can be invalid.
  \<^item> \<open>RevisionController\<close>, \<open>RevisionStatusProperties\<close>
    (\<open>envoyconfigrevision_controller.go\<close>, \<open>status.go\<close>, \<open>finalize.go\<close>): loading, tainting
    and the status, which settles.
  \<^item> \<open>ControlLoop\<close>: the runs of both controllers, for any objects and in any order, on one API server
    that others change as well, are the step relation \<open>control_step\<close>; the locale \<open>control_system\<close>
    says what their environment promises. Shown: one published revision per node in every
    reachable state.
  \<^item> \<open>OverlappingRuns\<close>: the same with runs of the revision controller that finish after others have
    written (\<open>overlap_step\<close>, locale \<open>overlapping_system\<close>, of which \<open>control_system\<close> is a sublocale).
    Shown: an execution that publishes two revisions, and that the next finished run of the revision
    reconciler repairs it.
  \<^item> \<open>AdmittedResources\<close>: from the webhook to the cache. What was admitted fails to load only for
    the secrets and endpoint slices it refers to.
  \<^item> \<open>Watches\<close> (\<open>SetupWithManager\<close> of the controllers): which events lead to a run. The locale
    \<open>kube_objects\<close> relates reads to stored objects. Shown: every change of a secret or an endpoint
    slice that a published revision would load differently leads to a run for it; the operator
    watches every kind of object it generates, and signed certificates follow their issuer.
  \<^item> \<open>Pki\<close>, \<open>Certificates\<close>, \<open>CertificateProperties\<close> (\<open>pkg/util/pki\<close>,
    \<open>pkg/reconcilers/operator/discoveryservicecertificate\<close>): issuing and renewing. The provider is
    the locale \<open>certificate_store\<close>, which the internal provider over a \<open>secret_store\<close> satisfies;
    certificates are encoded as \<open>x509_encoding\<close> says. Shown: when a certificate is renewed, that an
    issued one is stable, that the renewal window is a fifth of the validity in spite of rounding.
  \<^item> \<open>K8sPods\<close>, \<open>Containers\<close> (\<open>pkg/envoy/container\<close>), \<open>OperatorTypes\<close>, \<open>OperatorGenerators\<close>,
    \<open>OperatorControllers\<close>, \<open>OperatorProperties\<close> (\<open>apis/operator.marin3r\<close>, the generators and
    the controllers of \<open>DiscoveryService\<close> and \<open>EnvoyDeployment\<close>): shown is that the generated
    objects fit together, and under which settings those of the two controllers do.
    \<open>ReconcilerConfig\<close> (\<open>reconciler_config.go\<close>): which differences from the generated objects are
    corrected, and which are not.
  \<^item> \<open>ShutdownManager\<close>, \<open>Bootstrap\<close>, \<open>Commands\<close>, \<open>CommandProperties\<close>
    (\<open>shutdownmanager/manager.go\<close>, \<open>pkg/envoy/bootstrap\<close>, \<open>cmd/initmanager.go\<close>,
    \<open>cmd/shutdownmanager.go\<close>): the interleavings of the two preStop handlers are the step relation
    \<open>shtdn_step\<close>; the flag library is the locale \<open>command_line\<close>. Shown: Envoy is stopped only
    after draining, and the arguments of the generated containers lead to the files and ports the
    other container expects.
  \<^item> \<open>Servers\<close> (\<open>pkg/discoveryservice/xds_server.go\<close>, \<open>RunGC\<close> of \<open>garbage_collector.go\<close>,
    \<open>Manager.Start\<close>): the goroutines of the two servers and how they end.
  \<^item> \<open>ServiceCommands\<close>, \<open>ServiceCommandProperties\<close> (\<open>cmd/discoveryservice.go\<close>, \<open>operator.go\<close>,
    \<open>webhook.go\<close>, \<open>root.go\<close>): from the flags to the managers, servers and registrations. The locale
    \<open>flag_library\<close> extends \<open>command_line\<close>. Shown: the generated deployment starts a discovery
    service with the certificates, the port and the namespace it is generated for.
  \<^item> \<open>Sidecar\<close>, \<open>SidecarProperties\<close> (\<open>pkg/webhooks/podv1mutator\<close>): reading annotations and
    injecting the sidecar without changing the rest of the pod.
  \<^item> \<open>BuildTools\<close> (\<open>generators\<close>, \<open>hack/gen_cert.go\<close>): what the developer tools write.
  \<^item> \<open>GoHeap\<close>, \<open>DeepCopyMarin3r\<close>, \<open>DeepCopyOperator\<close>, \<open>DeepCopyProperties\<close>
    (\<open>zz_generated.deepcopy.go\<close> of both API groups): values with pointers and slices into a heap; the
    contract of a deep copy is the locale \<open>deep_copier\<close>, that of the copies of Kubernetes types
    \<open>library_copies\<close>. Shown: every generated copy is equal to its original and shares nothing with it.
  \<^item> This theory: the property that spans the two controllers, the callbacks and the statistics.

  \<^bold>\<open>Interpretations.\<close> Every locale is interpreted: \<open>strict_weak_order\<close> on the comparison of
  \<open>SortByPublication\<close>, \<open>cache_interface\<close> and \<open>snapshot_interface\<close> on the model of \<open>xdss/v3\<close>,
  \<open>certificate_store\<close> on the internal provider; the locales of libraries (\<open>status_conditions\<close>,
  \<open>kv_cache\<close>, \<open>revision_api\<close>, \<open>control_plane\<close>, \<open>secret_store\<close>, \<open>x509_encoding\<close>,
  \<open>command_line\<close> with \<open>flag_library\<close>, \<open>working_api\<close>, \<open>kube_objects\<close>) on executable
  reference implementations, on which the witnesses evaluate;
  \<open>control_system\<close> on the two controllers over the reference API server, \<open>overlapping_system\<close> also over
  one with merge patches, \<open>deep_copier\<close> on the generated code, \<open>library_copies\<close> on stand-ins for the
  Kubernetes types.

  \<^bold>\<open>Limits.\<close> A run of a controller is one function of the state it starts from, with calls that
  may fail; runs interleave with each other and with other writers. Other writers between two calls
  of one run are modelled for the revision controller, between getting its object and the rest.
  The list calls of \<open>revision_api\<close> read what was written last,
  while the real client reads from a watch cache that may lag behind; \<open>kube_objects\<close> assumes that
  the order of a list depends only on what is in it. Times are integers in
  nanoseconds; \<open>GoTime\<close> keeps the location where the code compares it. The cryptographic
  operations, hashes and protobuf encodings are parameters. The step relations of the servers
  follow the order of the statements and the blocking of channels; that a goroutine which can go
  on eventually does is not assumed.

  \<^bold>\<open>Not modelled.\<close> The list of protobuf packages has only blank imports. Scheme registration
  and one-line helpers have no logic, and   the utilities of the tests are not part of the program. Log output is not modelled, nor is what
  the libraries do with what is registered at them: gRPC, controller runtime, the base reconciler,
  Prometheus and cobra are parameters.
\<close>

section \<open>Self-healing across components\<close>

text \<open>(C1) A configuration that all clients reject is rolled back: when the newest revision of
  a node is rejected by every subscribed pod, its status calculation taints it, and the
  revision reconciler then picks the version of an older revision that is not tainted and
  reports a rollback.\<close>

theorem rejected_configuration_is_rolled_back:
  assumes "status_conditions m" "kv_cache kv" "stats_reachable kv st"
    and "FindStatusCondition m (ecrConditions (ecrStatus ecr)) RevisionTaintedCondition = None"
    and "(url, v) \<in> set (tracked_versions u (ECR_GetEnvoyAPIVersion ecr) vt)"
    and "GetSubscribedPods kv st (ecrNodeID (ecrSpec ecr)) url = Inr pods" "pods \<noteq> []"
    and "list_all (pod_failing kv st (ecrNodeID (ecrSpec ecr)) url v) pods"
    and "distinct (map version_of (older @ [ecr]))" "list_all (\<lambda>e. version_of e \<noteq> []) (older @ [ecr])"
    and "list_ex (\<lambda>e. \<not> tainted_true m e) older"
  shows "\<exists>ok ecr' e. ECR_IsStatusReconciled u m kv C now ecr (Some vt) c st = Inr (ok, ecr') \<and>
           e \<in> set older \<and> \<not> tainted_true m e \<and>
           getVersionToPublish m (older @ [ecr']) = (version_of e, RollbackState)"
proof -
  obtain ok ecr' where res: "ECR_IsStatusReconciled u m kv C now ecr (Some vt) c st = Inr (ok, ecr')"
    and taint: "tainted_true m ecr'"
    using rejected_taint [OF assms(1-8), of C now c] by blast
  have spec: "ecrSpec ecr' = ecrSpec ecr"
    by (rule status_conditions.ECR_status_cases [OF assms(1) res])
  have "find (\<lambda>e. \<not> tainted_true m e) (rev older) \<noteq> None"
    using assms(11) by (auto simp: find_None_iff list_ex_iff)
  then obtain e where e: "find (\<lambda>e. \<not> tainted_true m e) (rev older) = Some e" by blast
  then have "e \<in> set older" "\<not> tainted_true m e" using find_SomeD [OF e] by auto
  moreover have "getVersionToPublish m (older @ [ecr']) = (version_of e, RollbackState)"
  proof -
    have "version_of e \<noteq> []" using assms(10) \<open>e \<in> set older\<close> by (simp add: list_all_iff)
    moreover have "version_of e \<in> version_of ` set older" using \<open>e \<in> set older\<close> by (rule imageI)
    then have "version_of e \<noteq> version_of ecr'" using assms(9) spec by auto
    ultimately have "version_of e \<noteq> []" "version_of e \<noteq> version_of ecr'" by simp_all
    then show ?thesis using e taint by (simp add: getVersionToPublish_def)
  qed
  ultimately show ?thesis using res by blast
qed

theorem rejected_configuration_is_rolled_back_witness:
  "\<exists>ok ecr' e. ECR_IsStatusReconciled sample_urls meta_list kv_list (v3_Cache sample_xds sample_gcp) 7 sample_ecr
       (Some sample_vt) [] rejecting_store = Inr (ok, ecr') \<and>
     e \<in> set [config_revision ''a''] \<and> \<not> tainted_true meta_list e \<and>
     getVersionToPublish meta_list ([config_revision ''a''] @ [ecr']) = (version_of e, RollbackState)"
proof (rule rejected_configuration_is_rolled_back
    [OF metaList.status_conditions_axioms kvList.kv_cache_axioms rejecting_store_reachable])
  show "FindStatusCondition meta_list (ecrConditions (ecrStatus sample_ecr)) RevisionTaintedCondition = None" by code_simp
  show "(''type/cluster'', ''v'') \<in> set (tracked_versions sample_urls (ECR_GetEnvoyAPIVersion sample_ecr) sample_vt)"
    by (simp add: tracked_versions_def TypeURL_def Mappings_def sample_urls_def sample_vt_def content_tracker_def)
  show "GetSubscribedPods kv_list rejecting_store (ecrNodeID (ecrSpec sample_ecr)) ''type/cluster'' = Inr [''p'']" by code_simp
  show "list_all (pod_failing kv_list rejecting_store (ecrNodeID (ecrSpec sample_ecr)) ''type/cluster'' ''v'') [''p'']" by code_simp
  show "distinct (map version_of ([config_revision ''a''] @ [sample_ecr]))" by code_simp
  show "list_all (\<lambda>e. version_of e \<noteq> []) ([config_revision ''a''] @ [sample_ecr])" by code_simp
  show "list_ex (\<lambda>e. \<not> tainted_true meta_list e) [config_revision ''a'']" by code_simp
qed simp

end
